(* ===== verification/Prelude.thy ===== *)
theory Prelude
  imports Complex_Main "HOL-Library.AList" "HOL-Library.Word" "HOL-Library.Sublist"
    "HOL-Library.Char_ord" "HOL-Library.List_Lexorder" "HOL-Library.Product_Lexorder"
    "HOL-Library.Multiset"
begin

text \<open>
  Shared vocabulary of the development: the parts of Go and of its standard library that several
  components use (byte strings, \<^verbatim>\<open>map\<close>, \<^verbatim>\<open>time.Time\<close>, \<^verbatim>\<open>time.Duration\<close>, \<^verbatim>\<open>url.Values\<close>,
  \<^verbatim>\<open>http.Header\<close>, decoded JSON values), the collections the component proofs draw on, and the
  generic lemmas about them.

  Conventions. A Go string is a list of bytes, \<^typ>\<open>string\<close>; case folding and white space are the
  ASCII ones. A Go map that is only looked up and written is a partial function; a Go map that the
  code ranges over is an association list with distinct keys, whose order stands for the order in
  which the runtime happens to range over it, so a theorem for every list holds for every order.
  An instant is a number of nanoseconds after Go's zero \<^verbatim>\<open>time.Time\<close>; a \<^verbatim>\<open>time.Duration\<close> keeps
  its 64 bits, so that arithmetic on durations wraps as it does in Go.
\<close>

named_theorems go_str \<open>definitions of the string functions\<close>
named_theorems store_defs \<open>definitions of the operations of the in-memory stores\<close>
named_theorems handler_defs \<open>definitions of the HTTP handlers and their helpers\<close>

section \<open>Byte strings\<close>

definition is_space :: "char \<Rightarrow> bool" where
  "is_space c \<longleftrightarrow> c \<in> {CHR 0x09, CHR 0x0A, CHR 0x0B, CHR 0x0C, CHR 0x0D, CHR 0x20}"

definition trim_left :: "string \<Rightarrow> string" where
  "trim_left s = dropWhile is_space s"

definition trim_space :: "string \<Rightarrow> string" where
  "trim_space s = rev (dropWhile is_space (rev (dropWhile is_space s)))"

definition to_lower_char :: "char \<Rightarrow> char" where
  "to_lower_char c = (let n = (of_char c :: nat) in if 65 \<le> n \<and> n \<le> 90 then char_of (n + 32) else c)"

definition to_upper_char :: "char \<Rightarrow> char" where
  "to_upper_char c = (let n = (of_char c :: nat) in if 97 \<le> n \<and> n \<le> 122 then char_of (n - 32) else c)"

definition to_lower :: "string \<Rightarrow> string" where
  "to_lower s = map to_lower_char s"

definition to_upper :: "string \<Rightarrow> string" where
  "to_upper s = map to_upper_char s"

definition equal_fold :: "string \<Rightarrow> string \<Rightarrow> bool" where
  "equal_fold s t \<longleftrightarrow> to_lower s = to_lower t"

definition has_prefix :: "string \<Rightarrow> string \<Rightarrow> bool" where
  "has_prefix s p \<longleftrightarrow> take (length p) s = p"

definition contains_char :: "string \<Rightarrow> char \<Rightarrow> bool" where
  "contains_char s c \<longleftrightarrow> c \<in> set s"

text \<open>\<^verbatim>\<open>strings.Cut\<close> with a one-byte separator: what precedes it, what follows it, whether it occurs.\<close>

fun str_cut :: "char \<Rightarrow> string \<Rightarrow> string \<times> string \<times> bool" where
  "str_cut sep [] = ([], [], False)"
| "str_cut sep (c # cs) =
     (if c = sep then ([], cs, True)
      else (case str_cut sep cs of (before, after, found) \<Rightarrow> (c # before, after, found)))"

text \<open>\<^verbatim>\<open>strings.Fields\<close>: the maximal runs of non-space bytes.\<close>

fun fields_from :: "string \<Rightarrow> string \<Rightarrow> string list" where
  "fields_from w [] = (if w = [] then [] else [rev w])"
| "fields_from w (c # cs) =
     (if is_space c then (if w = [] then [] else [rev w]) @ fields_from [] cs
      else fields_from (c # w) cs)"

definition str_fields :: "string \<Rightarrow> string list" where
  "str_fields s = fields_from [] s"

fun str_index :: "char \<Rightarrow> string \<Rightarrow> nat option" where
  "str_index c [] = None"
| "str_index c (x # xs) = (if x = c then Some 0 else map_option Suc (str_index c xs))"

definition str_last_index :: "char \<Rightarrow> string \<Rightarrow> nat option" where
  "str_last_index c s = map_option (\<lambda>i. length s - 1 - i) (str_index c (rev s))"

fun str_join :: "string \<Rightarrow> string list \<Rightarrow> string" where
  "str_join sep [] = []"
| "str_join sep [x] = x"
| "str_join sep (x # y # ys) = x @ sep @ str_join sep (y # ys)"

fun nat_str :: "nat \<Rightarrow> string" where
  "nat_str n = (if n < 10 then [char_of (48 + n)] else nat_str (n div 10) @ [char_of (48 + n mod 10)])"

declare nat_str.simps [simp del]

definition itoa :: "int \<Rightarrow> string" where
  "itoa i = (if i < 0 then ''-'' @ nat_str (nat (- i)) else nat_str (nat i))"

lemmas str_defs [go_str] = trim_left_def trim_space_def to_lower_def to_upper_def
  to_lower_char_def to_upper_char_def equal_fold_def has_prefix_def contains_char_def
  str_fields_def str_last_index_def is_space_def

lemma trim_space_Nil [simp]: "trim_space [] = []"
  by (simp add: trim_space_def)

lemma equal_fold_refl [simp]: "equal_fold s s"
  by (simp add: equal_fold_def)

lemma equal_fold_sym: "equal_fold s t \<Longrightarrow> equal_fold t s"
  by (simp add: equal_fold_def)

lemma has_prefix_append [simp]: "has_prefix (p @ s) p"
  by (simp add: has_prefix_def)

lemma nat_str_not_Nil [simp]: "nat_str n \<noteq> []"
  by (subst nat_str.simps) simp

lemma str_cut_found: "str_cut c s = (b, a, True) \<Longrightarrow> s = b @ c # a \<and> c \<notin> set b"
  by (induction s arbitrary: b a) (auto split: if_splits prod.splits)

lemma str_cut_not_found: "str_cut c s = (b, a, False) \<Longrightarrow> b = s \<and> a = [] \<and> c \<notin> set s"
  by (induction s arbitrary: b a) (auto split: if_splits prod.splits)

section \<open>Maps that the code ranges over\<close>

type_synonym ('k, 'v) gomap = "('k \<times> 'v) list"

abbreviation wf_map :: "('k, 'v) gomap \<Rightarrow> bool" where
  "wf_map m \<equiv> distinct (map fst m)"

lemma set_delete_subset: "set (AList.delete k m) \<subseteq> set m"
  by (auto simp: AList.delete_eq)

text \<open>\<^verbatim>\<open>maps.Copy(dst, src)\<close>.\<close>

definition maps_copy :: "('k, 'v) gomap \<Rightarrow> ('k, 'v) gomap \<Rightarrow> ('k, 'v) gomap" where
  "maps_copy dst src = fold (\<lambda>(k, v) m. AList.update k v m) src dst"

lemma maps_copy_lookup: "wf_map src \<Longrightarrow> map_of (maps_copy dst src) = map_of dst ++ map_of src"
proof (induction src arbitrary: dst)
  case Nil
  then show ?case by (simp add: maps_copy_def)
next
  case (Cons p src)
  obtain k v where p: "p = (k, v)" by (cases p)
  from Cons.prems p have k: "map_of src k = None" by (auto simp: map_of_eq_None_iff)
  have "map_of (maps_copy dst (p # src)) = map_of (maps_copy (AList.update k v dst) src)"
    by (simp add: maps_copy_def p)
  also have "\<dots> = (map_of dst)(k \<mapsto> v) ++ map_of src"
    using Cons by (simp add: update_conv')
  also have "\<dots> = map_of dst ++ map_of (p # src)"
    using k by (auto simp: p map_add_def fun_eq_iff split: option.splits)
  finally show ?case .
qed

text \<open>\<^verbatim>\<open>reflect.DeepEqual\<close> on two non-nil maps whose values are compared by \<^verbatim>\<open>==\<close>.\<close>

definition map_deep_equal :: "('k, 'v) gomap \<Rightarrow> ('k, 'v) gomap \<Rightarrow> bool" where
  "map_deep_equal a b \<longleftrightarrow> length a = length b \<and> list_all (\<lambda>(k, v). map_of b k = Some v) a"

lemma map_deep_equal_refl [simp]: "wf_map a \<Longrightarrow> map_deep_equal a a"
  by (auto simp: map_deep_equal_def list_all_iff)

lemma map_deep_equal_iff:
  assumes "wf_map a" "wf_map b"
  shows "map_deep_equal a b \<longleftrightarrow> map_of a = map_of b"
proof
  assume eq: "map_deep_equal a b"
  have sub: "set a \<subseteq> set b"
    using eq by (auto simp: map_deep_equal_def list_all_iff dest: map_of_SomeD)
  have "card (set a) = card (set b)"
    using eq assms by (simp add: map_deep_equal_def distinct_card distinct_map)
  with sub have "set a = set b" by (simp add: card_subset_eq)
  with assms show "map_of a = map_of b" by (simp add: map_of_inject_set)
next
  assume eq: "map_of a = map_of b"
  with assms have s: "set a = set b" by (simp add: map_of_inject_set)
  have "length a = length b"
    using assms s distinct_card[of a] distinct_card[of b] by (simp add: distinct_map)
  then show "map_deep_equal a b"
    using assms s by (auto simp: map_deep_equal_def list_all_iff)
qed

section \<open>Instants and durations\<close>

type_synonym time = int
type_synonym duration = "64 word"

abbreviation zero_time :: time where
  "zero_time \<equiv> 0"

definition dur_ns :: "duration \<Rightarrow> int" where
  "dur_ns d = sint d"

definition time_add :: "time \<Rightarrow> duration \<Rightarrow> time" where
  "time_add t d = t + dur_ns d"

text \<open>\<^verbatim>\<open>t.Unix()\<close>: whole seconds since 1970, 62135596800 seconds after the zero instant.\<close>

definition unix_secs :: "time \<Rightarrow> int" where
  "unix_secs t = t div 1000000000 - 62135596800"

text \<open>\<^verbatim>\<open>int64(d.Seconds())\<close> on a duration: whole seconds, truncated towards zero.\<close>

definition dur_secs :: "duration \<Rightarrow> int" where
  "dur_secs d = (if dur_ns d < 0 then - ((- dur_ns d) div 1000000000) else dur_ns d div 1000000000)"

abbreviation minutes :: "int \<Rightarrow> duration" where
  "minutes n \<equiv> word_of_int (n * 60 * 1000000000)"

lemma dur_ns_0 [simp]: "dur_ns 0 = 0"
  by (simp add: dur_ns_def)

lemma time_add_0 [simp]: "time_add t 0 = t"
  by (simp add: time_add_def)

lemma dur_ns_of_int: "- (2 ^ 63) \<le> n \<Longrightarrow> n < 2 ^ 63 \<Longrightarrow> dur_ns (word_of_int n) = n"
  by (simp add: dur_ns_def sint_sbintrunc' signed_take_bit_int_eq_self)

lemma dur_ns_add:
  assumes "- (2 ^ 63) \<le> dur_ns a + dur_ns b" "dur_ns a + dur_ns b < 2 ^ 63"
  shows "dur_ns (a + b) = dur_ns a + dur_ns b"
proof -
  have "a + b = word_of_int (dur_ns a + dur_ns b)"
    by (simp add: dur_ns_def)
  then show ?thesis using assms by (simp only: dur_ns_of_int)
qed

section \<open>Decoded JSON values\<close>

text \<open>
  What \<^verbatim>\<open>json.Unmarshal\<close> into an \<^verbatim>\<open>any\<close> produces. A number is a \<^verbatim>\<open>float64\<close>, whose value is
  rational; an object is a \<^verbatim>\<open>map[string]any\<close>.
\<close>

datatype json =
    JNull
  | JBool bool
  | JNum rat
  | JStr string
  | JArr "json list"
  | JObj "(string \<times> json) list"

lemma json_obj_size [termination_simp]: "(k, w) \<in> set m \<Longrightarrow> size w < Suc (size_list (size_prod (\<lambda>_. 0) size) m)"
  by (induction m) auto

lemma json_arr_size [termination_simp]: "w \<in> set m \<Longrightarrow> size w < Suc (size_list size m)"
  by (induction m) auto

lemma json_zip_size [termination_simp]: "(v, w) \<in> set (zip a b) \<Longrightarrow> size v < Suc (size_list size a)"
  by (auto dest: set_zip_leftD json_arr_size)

text \<open>\<^verbatim>\<open>reflect.DeepEqual\<close> on two decoded values.\<close>

fun json_eq :: "json \<Rightarrow> json \<Rightarrow> bool" where
  "json_eq JNull JNull = True"
| "json_eq (JBool a) (JBool b) = (a = b)"
| "json_eq (JNum a) (JNum b) = (a = b)"
| "json_eq (JStr a) (JStr b) = (a = b)"
| "json_eq (JArr a) (JArr b) = (length a = length b \<and> list_all (\<lambda>(x, y). json_eq x y) (zip a b))"
| "json_eq (JObj a) (JObj b) =
     (length a = length b \<and>
      list_all (\<lambda>(k, v). case map_of b k of None \<Rightarrow> False | Some w \<Rightarrow> json_eq v w) a)"
| "json_eq _ _ = False"

text \<open>Objects of a decoded value have distinct keys, at every depth.\<close>

fun json_wf :: "json \<Rightarrow> bool" where
  "json_wf (JArr xs) = list_all json_wf xs"
| "json_wf (JObj m) = (wf_map m \<and> list_all (\<lambda>(k, v). json_wf v) m)"
| "json_wf _ = True"

lemma json_eq_refl: "json_wf v \<Longrightarrow> json_eq v v"
proof (induction v rule: json_wf.induct)
  case (1 xs)
  then show ?case by (simp add: list_all_iff zip_same_conv_map)
next
  case (2 m)
  then have "wf_map m" by simp
  moreover have "json_eq v v" if "(k, v) \<in> set m" for k v
    using 2 that by (force simp: list_all_iff)
  ultimately show ?case by (auto simp: list_all_iff)
qed simp_all

text \<open>
  The encoder and decoder of \<^verbatim>\<open>encoding/json\<close>; the model takes them as an argument, and
  \<^verbatim>\<open>None\<close> stands for an error. \<open>marshal_raw\<close> is \<^verbatim>\<open>json.Marshal\<close> on a \<^verbatim>\<open>json.RawMessage\<close>,
  which validates and compacts the bytes.
\<close>

record json_codec =
  marshal :: "json \<Rightarrow> string"
  marshal_raw :: "string \<Rightarrow> string option"
  unmarshal :: "string \<Rightarrow> json option"

section \<open>Query parameters and headers\<close>

type_synonym url_values = "(string, string list) gomap"
type_synonym http_header = "(string, string list) gomap"

text \<open>\<^verbatim>\<open>url.Values.Get\<close>: the first value, or the empty string.\<close>

definition values_get :: "url_values \<Rightarrow> string \<Rightarrow> string" where
  "values_get q k = (case map_of q k of Some (v # _) \<Rightarrow> v | _ \<Rightarrow> [])"

definition values_all :: "url_values \<Rightarrow> string \<Rightarrow> string list" where
  "values_all q k = (case map_of q k of Some vs \<Rightarrow> vs | None \<Rightarrow> [])"

definition is_token_char :: "char \<Rightarrow> bool" where
  "is_token_char c \<longleftrightarrow>
     (let n = (of_char c :: nat) in (48 \<le> n \<and> n \<le> 57) \<or> (65 \<le> n \<and> n \<le> 90) \<or> (97 \<le> n \<and> n \<le> 122))
     \<or> c \<in> set ''!#$%&*+-.^_|~'' \<or> c = CHR 0x27 \<or> c = CHR 0x60"

fun canon_key :: "bool \<Rightarrow> string \<Rightarrow> string" where
  "canon_key up [] = []"
| "canon_key up (c # cs) =
     (let d = (if up then to_upper_char c else to_lower_char c)
      in d # canon_key (d = CHR ''-'') cs)"

text \<open>\<^verbatim>\<open>http.CanonicalHeaderKey\<close>.\<close>

definition CanonicalHeaderKey :: "string \<Rightarrow> string" where
  "CanonicalHeaderKey s = (if list_all is_token_char s then canon_key True s else s)"

definition header_get :: "http_header \<Rightarrow> string \<Rightarrow> string" where
  "header_get h k = values_get h (CanonicalHeaderKey k)"

definition header_values :: "http_header \<Rightarrow> string \<Rightarrow> string list" where
  "header_values h k = values_all h (CanonicalHeaderKey k)"

section \<open>Generic facts about lists and maps\<close>

lemma drop_Suc_append_mem: "x \<in> set (drop (Suc n) xs) \<Longrightarrow> x \<in> set (drop n xs)"
  by (metis drop_Suc drop_tl in_set_dropD tl_drop in_set_takeD list.set_sel(2) tl_Nil)

lemma distinct_hd_notin_tl: "distinct xs \<Longrightarrow> xs \<noteq> [] \<Longrightarrow> hd xs \<notin> set (tl xs)"
  by (cases xs) auto

lemma find_rev_append: "find P (rev (xs @ [x])) = (if P x then Some x else find P (rev xs))"
  by simp

lemma find_SomeD: "find P xs = Some x \<Longrightarrow> x \<in> set xs \<and> P x"
  by (induction xs) (auto split: if_splits)

lemma find_split: "find P xs = Some x \<Longrightarrow> \<exists>ys zs. xs = ys @ x # zs \<and> P x \<and> (\<forall>y \<in> set ys. \<not> P y)"
proof (induction xs)
  case Nil
  then show ?case by simp
next
  case (Cons a xs)
  show ?case
  proof (cases "P a")
    case True
    with Cons.prems show ?thesis by - (rule exI[of _ "[]"], simp)
  next
    case False
    with Cons obtain ys zs where "xs = ys @ x # zs" "P x" "\<forall>y \<in> set ys. \<not> P y" by auto
    with False show ?thesis by - (rule exI[of _ "a # ys"], simp)
  qed
qed

text \<open>The newest \<open>c\<close> of a list.\<close>

definition newest :: "nat \<Rightarrow> 'a list \<Rightarrow> 'a list" where
  "newest c xs = drop (length xs - c) xs"

lemma length_newest [simp]: "length (newest c xs) = min c (length xs)"
  by (simp add: newest_def min_def)

lemma suffix_newest: "suffix (newest c xs) xs"
  unfolding newest_def by (rule suffix_drop)

section \<open>Runs of a state machine and simulation\<close>

text \<open>A run feeds operations to a machine one by one and collects their results.\<close>

fun run_ops :: "('op \<Rightarrow> 's \<Rightarrow> 'r \<times> 's) \<Rightarrow> 'op list \<Rightarrow> 's \<Rightarrow> 'r list \<times> 's" where
  "run_ops f [] s = ([], s)"
| "run_ops f (x # xs) s =
     (case f x s of (r, s') \<Rightarrow> (case run_ops f xs s' of (rs, s'') \<Rightarrow> (r # rs, s'')))"

lemma run_ops_Cons [simp]:
  "fst (run_ops f (x # xs) s) = fst (f x s) # fst (run_ops f xs (snd (f x s)))"
  "snd (run_ops f (x # xs) s) = snd (run_ops f xs (snd (f x s)))"
  by (simp_all split: prod.splits)

declare run_ops.simps(2) [simp del]

lemma run_ops_append [simp]:
  "fst (run_ops f (xs @ ys) s) = fst (run_ops f xs s) @ fst (run_ops f ys (snd (run_ops f xs s)))"
  "snd (run_ops f (xs @ ys) s) = snd (run_ops f ys (snd (run_ops f xs s)))"
  by (induction xs arbitrary: s) simp_all

lemma run_ops_invariant:
  assumes "\<And>x s. I s \<Longrightarrow> I (snd (f x s))" and "I s"
  shows "I (snd (run_ops f xs s))"
  using assms(2) by (induction xs arbitrary: s) (simp_all add: assms(1))

text \<open>The files the program reads and writes, by path.\<close>

type_synonym file_system = "string \<rightharpoonup> string"

text \<open>
  Two state machines over the same operations, one of which implements the other: the results
  agree and the abstraction commutes, operation by operation.
\<close>

locale simulation =
  fixes cstep :: "'op \<Rightarrow> 'c \<Rightarrow> 'r \<times> 'c"
    and astep :: "'op \<Rightarrow> 'a \<Rightarrow> 'r \<times> 'a"
    and abs :: "'c \<Rightarrow> 'a"
    and inv :: "'c \<Rightarrow> bool"
  assumes result_eq: "inv c \<Longrightarrow> fst (cstep x c) = fst (astep x (abs c))"
    and abs_eq: "inv c \<Longrightarrow> abs (snd (cstep x c)) = snd (astep x (abs c))"
    and inv_step: "inv c \<Longrightarrow> inv (snd (cstep x c))"
begin

lemma run_inv: "inv c \<Longrightarrow> inv (snd (run_ops cstep xs c))"
  by (induction xs arbitrary: c) (simp_all add: inv_step)

lemma run_refines:
  "inv c \<Longrightarrow> fst (run_ops cstep xs c) = fst (run_ops astep xs (abs c))
     \<and> abs (snd (run_ops cstep xs c)) = snd (run_ops astep xs (abs c))"
  by (induction xs arbitrary: c) (simp_all add: inv_step result_eq abs_eq)

end


end
