(* ===== verification/Httperr.thy ===== *)
theory Httperr
  imports Prelude
begin

text \<open>
  HTTP responses and the two JSON error envelopes of \<^verbatim>\<open>internal/httperr\<close>: the Management API
  shape written by \<^verbatim>\<open>WriteMgmt\<close> and the Authentication API shape written by \<^verbatim>\<open>WriteAuth\<close>.
  A handler is a function that returns the response it writes beside its new state.
\<close>

record MgmtError =
  me_statusCode :: int
  me_error :: string
  me_message :: string
  me_errorCode :: string

record AuthError =
  ae_error :: string
  ae_errorDescription :: string

datatype resp_body =
    NoBody
  | MgmtBody MgmtError
  | AuthBody AuthError
  | JsonBody json
  | TextBody string

record response =
  rs_status :: int
  rs_headers :: http_header
  rs_body :: resp_body

text \<open>
  What the handlers read of an \<^verbatim>\<open>*http.Request\<close>. A body that is present is the bytes that can be
  read, with the error that ends the reading when it is not the end of the stream.
\<close>

record request =
  rq_Method :: string
  rq_Path :: string
  rq_Query :: url_values
  rq_Header :: http_header
  rq_Host :: string
  rq_TLS :: bool
  rq_Body :: "(string \<times> string option) option"

text \<open>What a handler does with an \<^verbatim>\<open>http.ResponseWriter\<close>.\<close>

datatype writer_call = WriteHeader int | WriteBytes string | Flush

definition WriteMgmt :: "int \<Rightarrow> string \<Rightarrow> string \<Rightarrow> string \<Rightarrow> response" where
  "WriteMgmt status err message code =
     \<lparr>rs_status = status,
      rs_headers = [(''Content-Type'', [''application/json''])],
      rs_body = MgmtBody \<lparr>me_statusCode = status, me_error = err, me_message = message, me_errorCode = code\<rparr>\<rparr>"

definition WriteAuth :: "int \<Rightarrow> string \<Rightarrow> string \<Rightarrow> response" where
  "WriteAuth status err description =
     \<lparr>rs_status = status,
      rs_headers = [(''Content-Type'', [''application/json''])],
      rs_body = AuthBody \<lparr>ae_error = err, ae_errorDescription = description\<rparr>\<rparr>"

text \<open>\<^verbatim>\<open>render.JSON\<close> with the given status, and \<^verbatim>\<open>w.WriteHeader(status)\<close> with no body.\<close>

definition render_json :: "int \<Rightarrow> json \<Rightarrow> response" where
  "render_json status v =
     \<lparr>rs_status = status,
      rs_headers = [(''Content-Type'', [''application/json; charset=utf-8''])],
      rs_body = JsonBody v\<rparr>"

definition no_content :: "int \<Rightarrow> response" where
  "no_content status = \<lparr>rs_status = status, rs_headers = [], rs_body = NoBody\<rparr>"

lemma status_simps [simp]:
  "rs_status (WriteMgmt s e m c) = s"
  "rs_status (WriteAuth s e d) = s"
  "rs_status (render_json s v) = s"
  "rs_status (no_content s) = s"
  by (simp_all add: WriteMgmt_def WriteAuth_def render_json_def no_content_def)

lemma body_simps [simp]:
  "rs_body (WriteMgmt s e m c) =
     MgmtBody \<lparr>me_statusCode = s, me_error = e, me_message = m, me_errorCode = c\<rparr>"
  "rs_body (WriteAuth s e d) = AuthBody \<lparr>ae_error = e, ae_errorDescription = d\<rparr>"
  "rs_body (render_json s v) = JsonBody v"
  "rs_body (no_content s) = NoBody"
  by (simp_all add: WriteMgmt_def WriteAuth_def render_json_def no_content_def)

end
