(* ===== verification/Session.thy ===== *)
theory Session
  imports Httperr
begin

text \<open>
  The session registry, \<^verbatim>\<open>internal/session/session.go\<close>: four maps (user profiles, refresh
  grants, opaque access tokens, login sessions), each bounded by \<open>MaxEntries\<close> and evicting its
  oldest inserted key. \<open>fifo_put\<close> is the reference behaviour of one bounded map; the locales
  \<open>fifo_fresh\<close> and \<open>fifo_registry\<close> state it as an interface, and the four maps of the store
  are interpretations. The random login id is an argument of \<open>StartLogin\<close>.
\<close>

section \<open>The store\<close>

type_synonym claims = "string \<rightharpoonup> json"

record Login =
  lg_Subject :: string
  lg_AuthTime :: time

record Access =
  ac_Subject :: string
  ac_ClientID :: string
  ac_Scope :: string
  ac_Issuer :: string
  ac_ExpiresAt :: time

text \<open>\<^verbatim>\<open>Profile\<close> is a Go map that may be nil, hence an option.\<close>

record Grant =
  gr_Subject :: string
  gr_ClientID :: string
  gr_Audience :: string
  gr_Scope :: string
  gr_Realm :: string
  gr_AuthTime :: time
  gr_Profile :: "claims option"

record Store =
  ss_profiles :: "string \<rightharpoonup> claims"
  ss_order :: "string list"
  ss_refresh :: "string \<rightharpoonup> Grant"
  ss_refreshOrder :: "string list"
  ss_access :: "string \<rightharpoonup> Access"
  ss_accessOrder :: "string list"
  ss_logins :: "string \<rightharpoonup> Login"
  ss_loginOrder :: "string list"

definition MaxEntries :: nat where
  "MaxEntries = 10000"

definition NewStore :: Store where
  "NewStore = \<lparr>ss_profiles = Map.empty, ss_order = [], ss_refresh = Map.empty, ss_refreshOrder = [],
     ss_access = Map.empty, ss_accessOrder = [], ss_logins = Map.empty, ss_loginOrder = []\<rparr>"

definition RememberProfile :: "string \<Rightarrow> claims \<Rightarrow> Store \<Rightarrow> Store" where
  "RememberProfile subject profile s =
     (let s1 = (if ss_profiles s subject = None then
                  (let s2 = (if MaxEntries \<le> length (ss_order s) then
                               s\<lparr>ss_profiles := (ss_profiles s)(hd (ss_order s) := None),
                                 ss_order := tl (ss_order s)\<rparr>
                             else s)
                   in s2\<lparr>ss_order := ss_order s2 @ [subject]\<rparr>)
                else s)
      in s1\<lparr>ss_profiles := (ss_profiles s1)(subject \<mapsto> profile)\<rparr>)"

definition Profile :: "string \<Rightarrow> Store \<Rightarrow> claims option" where
  "Profile subject s = ss_profiles s subject"

definition Clear :: "Store \<Rightarrow> Store" where
  "Clear s = s\<lparr>ss_profiles := Map.empty, ss_order := [], ss_refresh := Map.empty, ss_refreshOrder := [],
     ss_access := Map.empty, ss_accessOrder := [], ss_logins := Map.empty, ss_loginOrder := []\<rparr>"

definition RememberRefresh :: "string \<Rightarrow> Grant \<Rightarrow> Store \<Rightarrow> Store" where
  "RememberRefresh token g s =
     (let s1 = (if ss_refresh s token = None then
                  (let s2 = (if MaxEntries \<le> length (ss_refreshOrder s) then
                               s\<lparr>ss_refresh := (ss_refresh s)(hd (ss_refreshOrder s) := None),
                                 ss_refreshOrder := tl (ss_refreshOrder s)\<rparr>
                             else s)
                   in s2\<lparr>ss_refreshOrder := ss_refreshOrder s2 @ [token]\<rparr>)
                else s)
      in s1\<lparr>ss_refresh := (ss_refresh s1)(token \<mapsto> g)\<rparr>)"

definition Refresh :: "string \<Rightarrow> Store \<Rightarrow> Grant option" where
  "Refresh token s = ss_refresh s token"

definition RememberAccess :: "string \<Rightarrow> Access \<Rightarrow> Store \<Rightarrow> Store" where
  "RememberAccess token a s =
     (let s1 = (if ss_access s token = None then
                  (let s2 = (if MaxEntries \<le> length (ss_accessOrder s) then
                               s\<lparr>ss_access := (ss_access s)(hd (ss_accessOrder s) := None),
                                 ss_accessOrder := tl (ss_accessOrder s)\<rparr>
                             else s)
                   in s2\<lparr>ss_accessOrder := ss_accessOrder s2 @ [token]\<rparr>)
                else s)
      in s1\<lparr>ss_access := (ss_access s1)(token \<mapsto> a)\<rparr>)"

definition Access_of :: "string \<Rightarrow> Store \<Rightarrow> Access option" where
  "Access_of token s = ss_access s token"

text \<open>The first argument is the id drawn from the system random source.\<close>

definition StartLogin :: "string \<Rightarrow> string \<Rightarrow> time \<Rightarrow> Store \<Rightarrow> Store" where
  "StartLogin lid subject authTime s =
     (let s1 = (if MaxEntries \<le> length (ss_loginOrder s) then
                  s\<lparr>ss_logins := (ss_logins s)(hd (ss_loginOrder s) := None),
                    ss_loginOrder := tl (ss_loginOrder s)\<rparr>
                else s)
      in s1\<lparr>ss_loginOrder := ss_loginOrder s1 @ [lid],
            ss_logins := (ss_logins s1)(lid \<mapsto> \<lparr>lg_Subject = subject, lg_AuthTime = authTime\<rparr>)\<rparr>)"

definition Login_of :: "string \<Rightarrow> Store \<Rightarrow> Login option" where
  "Login_of lid s = ss_logins s lid"

definition EndLogin :: "string \<Rightarrow> Store \<Rightarrow> Store" where
  "EndLogin lid s =
     (if ss_logins s lid = None then s
      else s\<lparr>ss_logins := (ss_logins s)(lid := None), ss_loginOrder := remove1 lid (ss_loginOrder s)\<rparr>)"

lemmas session_defs [store_defs] = NewStore_def RememberProfile_def Profile_def Clear_def
  RememberRefresh_def Refresh_def RememberAccess_def Access_of_def StartLogin_def Login_of_def EndLogin_def

lemma MaxEntries_pos [simp]: "0 < MaxEntries"
  by (simp add: MaxEntries_def)

section \<open>One bounded map\<close>

text \<open>The reference: a map with the insertion order of its keys, at most \<^term>\<open>n\<close> of them.\<close>

definition fifo_put :: "nat \<Rightarrow> 'k \<Rightarrow> 'v \<Rightarrow> ('k \<rightharpoonup> 'v) \<times> 'k list \<Rightarrow> ('k \<rightharpoonup> 'v) \<times> 'k list" where
  "fifo_put n k v = (\<lambda>(m, ord).
     if m k \<noteq> None then (m(k \<mapsto> v), ord)
     else if length ord < n then (m(k \<mapsto> v), ord @ [k])
     else (m(hd ord := None, k \<mapsto> v), tl ord @ [k]))"

definition fifo_inv :: "nat \<Rightarrow> ('k \<rightharpoonup> 'v) \<times> 'k list \<Rightarrow> bool" where
  "fifo_inv n = (\<lambda>(m, ord). distinct ord \<and> set ord = dom m \<and> length ord \<le> n)"

lemma fifo_inv_empty [simp]: "fifo_inv n (Map.empty, [])"
  by (simp add: fifo_inv_def)

lemma fifo_put_inv: "0 < n \<Longrightarrow> fifo_inv n p \<Longrightarrow> fifo_inv n (fifo_put n k v p)"
proof -
  assume n: "0 < n" and inv: "fifo_inv n p"
  obtain m ord where p: "p = (m, ord)" by (cases p)
  from inv p have ord: "distinct ord" "length ord \<le> n" and dom: "dom m = set ord"
    by (auto simp: fifo_inv_def)
  have iff: "m x = None \<longleftrightarrow> x \<notin> set ord" for x
    using dom by (auto simp: domIff)
  show "fifo_inv n (fifo_put n k v p)"
    using n ord dom iff[of k] by (cases ord) (auto simp: p fifo_inv_def fifo_put_def)
qed

text \<open>A key that is followed by at most \<^term>\<open>j\<close> younger keys, with the value it maps to.\<close>

definition younger_at_most :: "nat \<Rightarrow> 'k \<Rightarrow> 'v \<Rightarrow> ('k \<rightharpoonup> 'v) \<times> 'k list \<Rightarrow> bool" where
  "younger_at_most j k v = (\<lambda>(m, ord). m k = Some v \<and> (\<exists>xs ys. ord = xs @ k # ys \<and> length ys \<le> j))"

lemma fifo_put_younger:
  assumes inv: "fifo_inv n p" and y: "younger_at_most j k v p" and j: "Suc j < n"
  shows "younger_at_most (Suc j) k (if k' = k then v' else v) (fifo_put n k' v' p)"
proof -
  obtain m ord where p: "p = (m, ord)" by (cases p)
  from y p obtain xs ys where ord: "ord = xs @ k # ys" and len: "length ys \<le> j" and mk: "m k = Some v"
    by (auto simp: younger_at_most_def)
  show ?thesis
  proof (cases "m k' = None \<and> n \<le> length ord")
    case False
    have "\<exists>as bs. ord @ [k'] = as @ k # bs \<and> length bs \<le> Suc j"
      using ord len by (intro exI[of _ xs] exI[of _ "ys @ [k']"]) simp
    moreover have "\<exists>as bs. ord = as @ k # bs \<and> length bs \<le> Suc j"
      using ord len by (intro exI[of _ xs] exI[of _ ys]) simp
    ultimately show ?thesis
      using False mk by (auto simp: p younger_at_most_def fifo_put_def)
  next
    case True
    with ord len j obtain h t where xs: "xs = h # t" by (cases xs) auto
    from inv p ord xs have "h \<noteq> k" by (auto simp: fifo_inv_def)
    moreover have "k' \<noteq> k" using True mk by auto
    moreover have "\<exists>as bs. tl ord @ [k'] = as @ k # bs \<and> length bs \<le> Suc j"
      using ord xs len by (intro exI[of _ t] exI[of _ "ys @ [k']"]) simp
    ultimately show ?thesis
      using True mk ord xs by (auto simp: p younger_at_most_def fifo_put_def)
  qed
qed

text \<open>
  The interface of one bounded map inside a larger state: inserting a key that the map does not
  hold behaves as the reference does.
\<close>

locale fifo_fresh =
  fixes cap :: nat
    and view :: "'s \<Rightarrow> ('k \<rightharpoonup> 'v) \<times> 'k list"
    and put :: "'k \<Rightarrow> 'v \<Rightarrow> 's \<Rightarrow> 's"
  assumes cap_pos: "0 < cap"
    and view_put_fresh: "fst (view s) k = None \<Longrightarrow> view (put k v s) = fifo_put cap k v (view s)"
begin

lemma inv_put_fresh:
  "fst (view s) k = None \<Longrightarrow> fifo_inv cap (view s) \<Longrightarrow> fifo_inv cap (view (put k v s))"
  by (simp add: view_put_fresh fifo_put_inv cap_pos)

lemma get_put_fresh: "fst (view s) k = None \<Longrightarrow> fst (view (put k v s)) k = Some v"
  by (simp add: view_put_fresh fifo_put_def split: prod.splits)

lemma put_fresh_youngest:
  assumes "fst (view s) k = None"
  shows "younger_at_most 0 k v (view (put k v s))"
  using assms by (auto simp: view_put_fresh younger_at_most_def fifo_put_def split: prod.splits)

lemma put_evicts_oldest:
  assumes "fst (view s) k = None" "cap \<le> length (snd (view s))"
  shows "fst (view (put k v s)) = (fst (view s))(hd (snd (view s)) := None, k \<mapsto> v)"
  using assms by (auto simp: view_put_fresh fifo_put_def split: prod.splits)

end

text \<open>A bounded map whose insertion also updates a key it already holds, in place.\<close>

locale fifo_registry = fifo_fresh +
  assumes view_put_old: "fst (view s) k \<noteq> None \<Longrightarrow> view (put k v s) = fifo_put cap k v (view s)"
begin

lemma view_put: "view (put k v s) = fifo_put cap k v (view s)"
  by (cases "fst (view s) k = None") (auto simp: view_put_fresh view_put_old)

lemma inv_put: "fifo_inv cap (view s) \<Longrightarrow> fifo_inv cap (view (put k v s))"
  by (simp add: view_put fifo_put_inv cap_pos)

lemma get_put: "fst (view (put k v s)) k = Some v"
  by (simp add: view_put fifo_put_def split: prod.splits)

lemma younger_fold:
  "fifo_inv cap (view s) \<Longrightarrow> younger_at_most j k v (view s) \<Longrightarrow> j + length kvs < cap \<Longrightarrow>
   younger_at_most (j + length kvs) k (case map_of (rev kvs) k of None \<Rightarrow> v | Some w \<Rightarrow> w)
     (view (fold (\<lambda>(k, v). put k v) kvs s))"
proof (induction kvs arbitrary: s j v)
  case Nil
  then show ?case by simp
next
  case (Cons p kvs)
  obtain k' v' where p: "p = (k', v')" by (cases p)
  let ?v = "if k' = k then v' else v"
  have "younger_at_most (Suc j) k ?v (view (put k' v' s))"
    using Cons.prems by (simp add: view_put fifo_put_younger)
  moreover have "fifo_inv cap (view (put k' v' s))"
    using Cons.prems by (simp add: inv_put)
  ultimately have "younger_at_most (Suc j + length kvs) k (case map_of (rev kvs) k of None \<Rightarrow> ?v | Some w \<Rightarrow> w)
      (view (fold (\<lambda>(k, v). put k v) kvs (put k' v' s)))"
    using Cons.prems(3) by (intro Cons.IH) auto
  then show ?case by (auto simp: p map_add_def split: option.splits if_splits)
qed

text \<open>A key inserted fresh survives fewer than \<open>cap\<close> later insertions, with its last value.\<close>

lemma retained:
  assumes "fifo_inv cap (view s)" "fst (view s) k = None" "length kvs < cap"
  shows "fst (view (fold (\<lambda>(k, v). put k v) kvs (put k v s))) k =
    Some (case map_of (rev kvs) k of None \<Rightarrow> v | Some w \<Rightarrow> w)"
  using younger_fold[of "put k v s" 0 k v kvs] assms inv_put_fresh put_fresh_youngest
  by (auto simp: younger_at_most_def split: prod.splits)

end

section \<open>The four maps of the store\<close>

abbreviation profile_view :: "Store \<Rightarrow> (string \<rightharpoonup> claims) \<times> string list" where
  "profile_view s \<equiv> (ss_profiles s, ss_order s)"

abbreviation refresh_view :: "Store \<Rightarrow> (string \<rightharpoonup> Grant) \<times> string list" where
  "refresh_view s \<equiv> (ss_refresh s, ss_refreshOrder s)"

abbreviation access_view :: "Store \<Rightarrow> (string \<rightharpoonup> Access) \<times> string list" where
  "access_view s \<equiv> (ss_access s, ss_accessOrder s)"

abbreviation login_view :: "Store \<Rightarrow> (string \<rightharpoonup> Login) \<times> string list" where
  "login_view s \<equiv> (ss_logins s, ss_loginOrder s)"

interpretation profiles: fifo_registry MaxEntries profile_view RememberProfile
  by unfold_locales (auto simp: RememberProfile_def fifo_put_def Let_def)

interpretation refreshes: fifo_registry MaxEntries refresh_view RememberRefresh
  by unfold_locales (auto simp: RememberRefresh_def fifo_put_def Let_def)

interpretation accesses: fifo_registry MaxEntries access_view RememberAccess
  by unfold_locales (auto simp: RememberAccess_def fifo_put_def Let_def)

interpretation login_map: fifo_fresh MaxEntries login_view
  "\<lambda>i l. StartLogin i (lg_Subject l) (lg_AuthTime l)"
  by unfold_locales (auto simp: StartLogin_def fifo_put_def Let_def)

definition session_inv :: "Store \<Rightarrow> bool" where
  "session_inv s \<longleftrightarrow> fifo_inv MaxEntries (profile_view s) \<and> fifo_inv MaxEntries (refresh_view s) \<and>
     fifo_inv MaxEntries (access_view s) \<and> fifo_inv MaxEntries (login_view s)"

lemma remember_frames [simp]:
  "refresh_view (RememberProfile k p s) = refresh_view s"
  "access_view (RememberProfile k p s) = access_view s"
  "login_view (RememberProfile k p s) = login_view s"
  "profile_view (RememberRefresh t g s) = profile_view s"
  "access_view (RememberRefresh t g s) = access_view s"
  "login_view (RememberRefresh t g s) = login_view s"
  "profile_view (RememberAccess t a s) = profile_view s"
  "refresh_view (RememberAccess t a s) = refresh_view s"
  "login_view (RememberAccess t a s) = login_view s"
  "profile_view (StartLogin i u tm s) = profile_view s"
  "refresh_view (StartLogin i u tm s) = refresh_view s"
  "access_view (StartLogin i u tm s) = access_view s"
  "profile_view (EndLogin i s) = profile_view s"
  "refresh_view (EndLogin i s) = refresh_view s"
  "access_view (EndLogin i s) = access_view s"
  by (simp_all add: session_defs Let_def)

lemma session_inv_new: "session_inv NewStore"
  by (simp add: session_inv_def NewStore_def)

lemma session_inv_clear: "session_inv (Clear s)"
  by (simp add: session_inv_def Clear_def)

lemma session_inv_profile: "session_inv s \<Longrightarrow> session_inv (RememberProfile k p s)"
  unfolding session_inv_def by (simp add: profiles.inv_put del: prod.inject)

lemma session_inv_refresh: "session_inv s \<Longrightarrow> session_inv (RememberRefresh k g s)"
  unfolding session_inv_def by (simp add: refreshes.inv_put del: prod.inject)

lemma session_inv_access: "session_inv s \<Longrightarrow> session_inv (RememberAccess k a s)"
  unfolding session_inv_def by (simp add: accesses.inv_put del: prod.inject)

lemma session_inv_start: "session_inv s \<Longrightarrow> ss_logins s i = None \<Longrightarrow> session_inv (StartLogin i u tm s)"
  unfolding session_inv_def
  using login_map.inv_put_fresh[of s i "\<lparr>lg_Subject = u, lg_AuthTime = tm\<rparr>"]
  by (simp del: prod.inject)

lemma session_inv_end: "session_inv s \<Longrightarrow> session_inv (EndLogin i s)"
proof -
  assume inv: "session_inv s"
  then have "fifo_inv MaxEntries (login_view (EndLogin i s))"
    by (auto simp: session_inv_def EndLogin_def fifo_inv_def length_remove1)
  with inv show ?thesis by (simp add: session_inv_def del: prod.inject)
qed

section \<open>Executions\<close>

inductive session_step :: "Store \<Rightarrow> Store \<Rightarrow> bool" where
  profile: "session_step s (RememberProfile k p s)"
| refresh: "session_step s (RememberRefresh k g s)"
| access: "session_step s (RememberAccess k a s)"
| start: "ss_logins s i = None \<Longrightarrow> session_step s (StartLogin i u tm s)"
| end_login: "session_step s (EndLogin i s)"
| clear: "session_step s (Clear s)"

inductive session_reachable :: "Store \<Rightarrow> bool" where
  init: "session_reachable NewStore"
| step: "session_reachable s \<Longrightarrow> session_step s s' \<Longrightarrow> session_reachable s'"

lemma session_step_inv: "session_step s s' \<Longrightarrow> session_inv s \<Longrightarrow> session_inv s'"
  by (induction rule: session_step.induct)
    (simp_all add: session_inv_profile session_inv_refresh session_inv_access session_inv_start
      session_inv_end session_inv_clear)

lemma session_reachable_inv: "session_reachable s \<Longrightarrow> session_inv s"
  by (induction rule: session_reachable.induct) (auto intro: session_inv_new session_step_inv)

section \<open>Properties\<close>

text \<open>
  In every state the session store can reach (login ids being fresh), each of the four maps
  holds at most \<open>MaxEntries\<close> entries and its order list names exactly its keys, each once.
\<close>
theorem session_bounded:
  assumes "session_reachable s"
  shows "session_inv s \<and> card (dom (ss_profiles s)) \<le> MaxEntries \<and> card (dom (ss_refresh s)) \<le> MaxEntries
    \<and> card (dom (ss_access s)) \<le> MaxEntries \<and> card (dom (ss_logins s)) \<le> MaxEntries"
proof -
  have inv: "session_inv s" using assms by (rule session_reachable_inv)
  have card: "card (dom m) \<le> MaxEntries" if "fifo_inv MaxEntries (m, ord)" for m :: "string \<rightharpoonup> 'v" and ord
    using that by (auto simp: fifo_inv_def simp flip: distinct_card)
  from inv show ?thesis by (auto simp: session_inv_def intro: card)
qed

theorem session_bounded_witness:
  "session_reachable (StartLogin ''id'' ''u'' 5 NewStore)
   \<and> card (dom (ss_logins (StartLogin ''id'' ''u'' 5 NewStore))) \<le> MaxEntries"
proof -
  have "session_reachable (StartLogin ''id'' ''u'' 5 NewStore)"
    by (intro session_reachable.step[OF session_reachable.init] session_step.start) (simp add: NewStore_def)
  with session_bounded[OF this] show ?thesis by simp
qed


definition demo_grant :: Grant where
  "demo_grant = \<lparr>gr_Subject = ''u'', gr_ClientID = ''c'', gr_Audience = ''a'', gr_Scope = ''s'',
     gr_Realm = [], gr_AuthTime = 5, gr_Profile = None\<rparr>"

definition demo_access :: Access where
  "demo_access = \<lparr>ac_Subject = ''u'', ac_ClientID = ''c'', ac_Scope = ''s'', ac_Issuer = ''i'', ac_ExpiresAt = 9\<rparr>"


end
