(* ===== verification/Expiring.thy ===== *)
theory Expiring
  imports Prelude
begin

text \<open>
  The interface shared by the two stores of one-time credentials (authorization codes and
  mfa tokens): an entry is stamped with an expiry when it is stored, storing sweeps the entries
  that have expired, and consuming removes the entry whether or not it is still valid. The clock is
  read once for the sweep and once for the stamp, so both readings are arguments. The client
  lemmas (at most one success per stored entry, the exact redemption window, sweeps are not
  observable) are proved once, for any store that obeys these laws.
\<close>

datatype ('k, 'i) su_op = SPut time time 'k 'i | SConsume time 'k | SReset

fun su_key :: "('k, 'i) su_op \<Rightarrow> 'k option" where
  "su_key (SPut _ _ k _) = Some k"
| "su_key (SConsume _ k) = Some k"
| "su_key SReset = None"

text \<open>\<open>swept_by t op\<close>: whatever \<open>op\<close> sweeps has expired by \<open>t\<close>.\<close>

fun swept_by :: "time \<Rightarrow> ('k, 'i) su_op \<Rightarrow> bool" where
  "swept_by t (SPut now0 _ _ _) = (now0 \<le> t)"
| "swept_by t _ = True"

definition puts_of :: "'k \<Rightarrow> ('k, 'i) su_op list \<Rightarrow> nat" where
  "puts_of k ops = length (filter (\<lambda>x. case x of SPut _ _ k' _ \<Rightarrow> k' = k | _ \<Rightarrow> False) ops)"

definition successes_of :: "'k \<Rightarrow> ('k, 'i) su_op list \<Rightarrow> 'e option list \<Rightarrow> nat" where
  "successes_of k ops rs =
     length (filter (\<lambda>(x, r). r \<noteq> None \<and> (case x of SConsume _ k' \<Rightarrow> k' = k | _ \<Rightarrow> False)) (zip ops rs))"

locale single_use =
  fixes view :: "'s \<Rightarrow> 'k \<rightharpoonup> 'e"
    and expiry :: "'e \<Rightarrow> time"
    and stamp :: "time \<Rightarrow> 'i \<Rightarrow> 'e"
    and put :: "time \<Rightarrow> time \<Rightarrow> 'k \<Rightarrow> 'i \<Rightarrow> 's \<Rightarrow> 's"
    and consume :: "time \<Rightarrow> 'k \<Rightarrow> 's \<Rightarrow> 'e option \<times> 's"
    and reset :: "'s \<Rightarrow> 's"
  assumes view_put: "view (put now0 now k i s) k' =
      (if k' = k then Some (stamp now i)
       else (case view s k' of None \<Rightarrow> None | Some e \<Rightarrow> if expiry e < now0 then None else Some e))"
    and view_consume: "view (snd (consume now k s)) = (view s)(k := None)"
    and consume_result: "fst (consume now k s) =
      (case view s k of None \<Rightarrow> None | Some e \<Rightarrow> if expiry e < now then None else Some e)"
    and view_reset: "view (reset s) = Map.empty"
begin

fun su_step :: "('k, 'i) su_op \<Rightarrow> 's \<Rightarrow> 'e option \<times> 's" where
  "su_step (SPut now0 now k i) s = (None, put now0 now k i s)"
| "su_step (SConsume now k) s = consume now k s"
| "su_step SReset s = (None, reset s)"

lemma consume_once: "fst (consume t' k (snd (consume t k s))) = None"
  by (simp add: consume_result view_consume)

lemma single_use_count:
  "successes_of k ops (fst (run_ops su_step ops s)) \<le> puts_of k ops + (if view s k = None then 0 else 1)"
proof (induction ops arbitrary: s)
  case Nil
  then show ?case by (simp add: successes_of_def)
next
  case (Cons x ops)
  let ?s' = "snd (su_step x s)"
  note IH = Cons.IH[of ?s']
  show ?case
  proof (cases x)
    case (SPut now0 now k' i)
    have "view ?s' k \<noteq> None \<longrightarrow> k' = k \<or> view s k \<noteq> None"
      using SPut by (simp add: view_put split: option.splits)
    with IH SPut show ?thesis
      by (auto simp: successes_of_def puts_of_def split: if_splits)
  next
    case (SConsume now k')
    have "view ?s' k = None \<and> (fst (su_step x s) \<noteq> None \<longrightarrow> view s k \<noteq> None) \<or> k' \<noteq> k \<and> view ?s' k = view s k"
      using SConsume by (auto simp: view_consume consume_result split: option.splits)
    with IH SConsume show ?thesis
      by (auto simp: successes_of_def puts_of_def split: if_splits)
  next
    case SReset
    with IH show ?thesis
      by (auto simp: successes_of_def puts_of_def view_reset split: if_splits)
  qed
qed

lemma view_untouched:
  assumes "view s k = Some e" "expiry e = t"
    and "list_all (\<lambda>x. x \<noteq> SReset \<and> su_key x \<noteq> Some k \<and> swept_by t x) ops"
  shows "view (snd (run_ops su_step ops s)) k = Some e"
  using assms
proof (induction ops arbitrary: s)
  case Nil
  then show ?case by simp
next
  case (Cons x ops)
  have "view (snd (su_step x s)) k = Some e"
    using Cons.prems by (cases x) (auto simp: view_put view_consume)
  with Cons show ?case by simp
qed

text \<open>
  The redemption window: with any operations on other keys in between, whose sweeps happen within
  the life of the entry, consuming succeeds exactly until the expiry, and only once.
\<close>

lemma redeem_window:
  fixes now0 now :: time and k :: 'k and i :: 'i and s :: 's and ops :: "('k, 'i) su_op list"
  assumes "list_all (\<lambda>x. x \<noteq> SReset \<and> su_key x \<noteq> Some k \<and> swept_by (expiry (stamp now i)) x) ops"
  defines "s' \<equiv> snd (run_ops su_step ops (put now0 now k i s))"
  shows "fst (consume t k s') = (if t \<le> expiry (stamp now i) then Some (stamp now i) else None)"
    and "fst (consume t' k (snd (consume t k s'))) = None"
proof -
  have "view (put now0 now k i s) k = Some (stamp now i)"
    by (simp add: view_put)
  from view_untouched[OF this refl assms(1)] have "view s' k = Some (stamp now i)"
    by (simp add: s'_def)
  then show "fst (consume t k s') = (if t \<le> expiry (stamp now i) then Some (stamp now i) else None)"
    by (simp add: consume_result)
  show "fst (consume t' k (snd (consume t k s'))) = None"
    by (rule consume_once)
qed

text \<open>A sweep at an instant that is not later than the consuming one cannot be observed.\<close>

lemma sweep_unobservable:
  "k' \<noteq> k \<Longrightarrow> now0 \<le> t \<Longrightarrow> fst (consume t k' (put now0 now k i s)) = fst (consume t k' s)"
  by (auto simp: consume_result view_put split: option.splits)

lemma consume_frame: "k' \<noteq> k \<Longrightarrow> fst (consume t k' (snd (consume t' k s))) = fst (consume t k' s)"
  by (simp add: consume_result view_consume)

lemma consume_after_reset: "fst (consume t k (reset s)) = None"
  by (simp add: consume_result view_reset)

end

end
