(* ===== verification/Mfa.thy ===== *)
theory Mfa
  imports Session Expiring
begin

text \<open>
  The mfa token store, \<^verbatim>\<open>internal/mfa/mfa.go\<close>: the enforcement flag, the one-time tokens that
  carry the context of a challenged login to the grant that completes it, and the fixed answers
  the mock accepts. The fresh token (a UUID) is an argument of \<open>Issue\<close>.
\<close>

definition DefaultTokenTTL :: duration where
  "DefaultTokenTTL = minutes 10"

definition AcceptedOTP :: string where
  "AcceptedOTP = ''123456''"

definition AcceptedBindingCode :: string where
  "AcceptedBindingCode = ''123456''"

definition AcceptedRecoveryCode :: string where
  "AcceptedRecoveryCode = ''ABCDEFGHIJKLMNOP''"

record Context =
  cx_ClientID :: string
  cx_Audience :: string
  cx_Scope :: string
  cx_Subject :: string
  cx_Realm :: string
  cx_Profile :: "claims option"
  cx_expiresAt :: time

record Mfa_Store =
  mf_tokens :: "string \<rightharpoonup> Context"
  mf_ttl :: duration
  mf_required :: bool

definition Mfa_NewStore :: Mfa_Store where
  "Mfa_NewStore = \<lparr>mf_tokens = Map.empty, mf_ttl = DefaultTokenTTL, mf_required = False\<rparr>"

definition SetRequired :: "bool \<Rightarrow> Mfa_Store \<Rightarrow> Mfa_Store" where
  "SetRequired b s = s\<lparr>mf_required := b\<rparr>"

definition IsRequired :: "Mfa_Store \<Rightarrow> bool" where
  "IsRequired s = mf_required s"

definition mfa_sweep :: "time \<Rightarrow> Mfa_Store \<Rightarrow> Mfa_Store" where
  "mfa_sweep now s = s\<lparr>mf_tokens := (\<lambda>tok.
     case mf_tokens s tok of None \<Rightarrow> None | Some c \<Rightarrow> if cx_expiresAt c < now then None else Some c)\<rparr>"

definition Issue :: "time \<Rightarrow> time \<Rightarrow> string \<Rightarrow> Context \<Rightarrow> Mfa_Store \<Rightarrow> Mfa_Store" where
  "Issue now0 now tok ctx s =
     (let s1 = mfa_sweep now0 s
      in s1\<lparr>mf_tokens := (mf_tokens s1)(tok \<mapsto> ctx\<lparr>cx_expiresAt := time_add now (mf_ttl s1)\<rparr>)\<rparr>)"

definition Mfa_Consume :: "time \<Rightarrow> string \<Rightarrow> Mfa_Store \<Rightarrow> Context option \<times> Mfa_Store" where
  "Mfa_Consume now token s =
     (case mf_tokens s token of
        None \<Rightarrow> (None, s)
      | Some ctx \<Rightarrow>
          (let s' = s\<lparr>mf_tokens := (mf_tokens s)(token := None)\<rparr>
           in if cx_expiresAt ctx < now then (None, s') else (Some ctx, s')))"

definition Mfa_Reset :: "Mfa_Store \<Rightarrow> Mfa_Store" where
  "Mfa_Reset s = s\<lparr>mf_tokens := Map.empty, mf_required := False\<rparr>"

lemmas mfa_defs [store_defs] = Mfa_NewStore_def SetRequired_def IsRequired_def mfa_sweep_def Issue_def
  Mfa_Consume_def Mfa_Reset_def

section \<open>The store is a store of one-time credentials\<close>

type_synonym mfa_tokens = "string \<rightharpoonup> Context"

abbreviation mfa_with :: "mfa_tokens \<Rightarrow> Mfa_Store" where
  "mfa_with m \<equiv> \<lparr>mf_tokens = m, mf_ttl = DefaultTokenTTL, mf_required = False\<rparr>"

definition mfa_stamp :: "time \<Rightarrow> Context \<Rightarrow> Context" where
  "mfa_stamp now ctx = ctx\<lparr>cx_expiresAt := time_add now DefaultTokenTTL\<rparr>"

definition mfa_put :: "time \<Rightarrow> time \<Rightarrow> string \<Rightarrow> Context \<Rightarrow> mfa_tokens \<Rightarrow> mfa_tokens" where
  "mfa_put now0 now k c m = mf_tokens (Issue now0 now k c (mfa_with m))"

definition mfa_consume :: "time \<Rightarrow> string \<Rightarrow> mfa_tokens \<Rightarrow> Context option \<times> mfa_tokens" where
  "mfa_consume now k m = (case Mfa_Consume now k (mfa_with m) of (r, s) \<Rightarrow> (r, mf_tokens s))"

definition mfa_clear :: "mfa_tokens \<Rightarrow> mfa_tokens" where
  "mfa_clear m = mf_tokens (Mfa_Reset (mfa_with m))"

interpretation tokens: single_use "\<lambda>m. m" cx_expiresAt mfa_stamp mfa_put mfa_consume mfa_clear
  by unfold_locales
    (auto simp: mfa_put_def mfa_consume_def mfa_stamp_def mfa_clear_def mfa_defs Let_def split: option.splits)

text \<open>Steps of the store; toggling the enforcement flag is a step that touches no token.\<close>

datatype mfa_op = MTok "(string, Context) su_op" | MRequire bool

fun mfa_step :: "mfa_op \<Rightarrow> Mfa_Store \<Rightarrow> Context option \<times> Mfa_Store" where
  "mfa_step (MTok (SPut now0 now k c)) s = (None, Issue now0 now k c s)"
| "mfa_step (MTok (SConsume now k)) s = Mfa_Consume now k s"
| "mfa_step (MTok SReset) s = (None, Mfa_Reset s)"
| "mfa_step (MRequire b) s = (None, SetRequired b s)"

definition token_ops :: "mfa_op list \<Rightarrow> (string, Context) su_op list" where
  "token_ops ops = concat (map (\<lambda>x. case x of MTok y \<Rightarrow> [y] | MRequire _ \<Rightarrow> []) ops)"

definition token_results :: "mfa_op list \<Rightarrow> 'r list \<Rightarrow> 'r list" where
  "token_results ops rs = concat (map (\<lambda>(x, r). case x of MTok y \<Rightarrow> [r] | MRequire _ \<Rightarrow> []) (zip ops rs))"

lemma mfa_step_tokens:
  "mf_ttl s = DefaultTokenTTL \<Longrightarrow>
   tokens.su_step x (mf_tokens s) = (fst (mfa_step (MTok x) s), mf_tokens (snd (mfa_step (MTok x) s)))"
  by (cases x) (auto simp: mfa_put_def mfa_consume_def mfa_clear_def mfa_defs Let_def split: option.splits)

lemma mfa_step_ttl: "mf_ttl (snd (mfa_step x s)) = mf_ttl s"
  by (induction x s rule: mfa_step.induct) (auto simp: mfa_defs Let_def split: option.splits)

lemma mfa_run_tokens:
  "mf_ttl s = DefaultTokenTTL \<Longrightarrow>
   token_results ops (fst (run_ops mfa_step ops s)) = fst (run_ops tokens.su_step (token_ops ops) (mf_tokens s)) \<and>
   mf_tokens (snd (run_ops mfa_step ops s)) = snd (run_ops tokens.su_step (token_ops ops) (mf_tokens s)) \<and>
   mf_ttl (snd (run_ops mfa_step ops s)) = DefaultTokenTTL"
proof (induction ops arbitrary: s)
  case Nil
  then show ?case by (simp add: token_ops_def token_results_def)
next
  case (Cons x ops)
  from Cons.IH[of "snd (mfa_step x s)"] Cons.prems show ?case
    by (cases x)
      (simp_all add: token_ops_def token_results_def mfa_step_tokens mfa_step_ttl SetRequired_def)
qed

section \<open>Properties\<close>

text \<open>
  An mfa token is single use and lives ten minutes. From a new store, over any sequence of
  calls (enforcement toggles included), a token is consumed successfully at most as often as it
  was issued; and a token issued at \<^term>\<open>now\<close> is accepted up to ten minutes later, returning the
  context it was issued with, and never after a reset.
\<close>
theorem mfa_token_single_use:
  "successes_of tok (token_ops ops) (token_results ops (fst (run_ops mfa_step ops Mfa_NewStore)))
     \<le> puts_of tok (token_ops ops)
   \<and> fst (Mfa_Consume t tok (Issue now0 now tok ctx Mfa_NewStore)) =
       (if t \<le> now + 600000000000 then Some (ctx\<lparr>cx_expiresAt := now + 600000000000\<rparr>) else None)
   \<and> fst (Mfa_Consume t tok (Mfa_Reset s)) = None \<and> \<not> IsRequired (Mfa_Reset s)"
proof -
  have "successes_of tok (token_ops ops) (token_results ops (fst (run_ops mfa_step ops Mfa_NewStore)))
     \<le> puts_of tok (token_ops ops)"
    using tokens.single_use_count[of tok "token_ops ops" Map.empty] mfa_run_tokens[of Mfa_NewStore ops]
    by (simp add: Mfa_NewStore_def)
  moreover have "time_add now DefaultTokenTTL = now + 600000000000"
    by (simp add: time_add_def DefaultTokenTTL_def dur_ns_def)
  ultimately show ?thesis by (simp add: mfa_defs Let_def)
qed

end
