(* ===== verification/Matches.thy ===== *)
theory Matches
  imports Prelude
begin

text \<open>
  Stub matching, \<^verbatim>\<open>internal/matches\<close>: expectations and their answer sequences
  (\<^verbatim>\<open>expectation.go\<close>), request matchers (\<^verbatim>\<open>matcher.go\<close>) and the explanation of a mismatch
  (\<^verbatim>\<open>nearmiss.go\<close>). A matcher's query and headers are Go maps that may be nil, hence options;
  bodies are raw bytes, decoded by the JSON codec that is an argument. A sort by field is modelled
  by the stable sort.
\<close>

section \<open>Expectations\<close>

datatype Kind = KindExact | KindTemplate

record ResponseDef =
  rd_Status :: int
  rd_Headers :: "(string, string) gomap"
  rd_Body :: string

record RequestMatcher =
  rm_Query :: "(string, string) gomap option"
  rm_Headers :: "(string, string) gomap option"
  rm_Body :: string

record Expectation =
  ex_ID :: string
  ex_Method :: string
  ex_Path :: string
  ex_Kind :: Kind
  ex_Request :: "RequestMatcher option"
  ex_Response :: ResponseDef
  ex_Then :: "ResponseDef list"
  ex_Hits :: int
  ex_seq :: nat

definition Served :: "Expectation \<Rightarrow> ResponseDef" where
  "Served e =
     (if ex_Hits e \<le> 1 \<or> ex_Then e = [] then ex_Response e
      else ex_Then e ! nat (min (ex_Hits e - 2) (int (length (ex_Then e)) - 1)))"

definition KindOf :: "string \<Rightarrow> Kind" where
  "KindOf path = (if CHR ''{'' \<in> set path \<or> CHR ''}'' \<in> set path then KindTemplate else KindExact)"

section \<open>Matchers\<close>

record MatchableRequest =
  mq_Query :: url_values
  mq_Headers :: http_header
  mq_Body :: string

text \<open>Ranging over a map that may be nil.\<close>

definition range_map :: "('k, 'v) gomap option \<Rightarrow> ('k, 'v) gomap" where
  "range_map m = (case m of None \<Rightarrow> [] | Some l \<Rightarrow> l)"

definition no_body :: "string \<Rightarrow> bool" where
  "no_body b \<longleftrightarrow> trim_space b = [] \<or> trim_space b = ''null''"

definition IsEmpty :: "RequestMatcher option \<Rightarrow> bool" where
  "IsEmpty rm = (case rm of
      None \<Rightarrow> True
    | Some m \<Rightarrow> range_map (rm_Query m) = [] \<and> range_map (rm_Headers m) = [] \<and> no_body (rm_Body m))"

definition jsonEqual :: "json_codec \<Rightarrow> string \<Rightarrow> string \<Rightarrow> bool" where
  "jsonEqual C a b =
     (case (unmarshal C (trim_space a), unmarshal C (trim_space b)) of
        (Some av, Some bv) \<Rightarrow> json_eq av bv
      | (None, None) \<Rightarrow> True
      | _ \<Rightarrow> False)"

text \<open>\<^verbatim>\<open>reflect.DeepEqual\<close> on two maps of strings, either of which may be nil: nil differs from empty.\<close>

definition map_DeepEqual :: "(string, string) gomap option \<Rightarrow> (string, string) gomap option \<Rightarrow> bool" where
  "map_DeepEqual a b = (case (a, b) of
      (None, None) \<Rightarrow> True
    | (Some x, Some y) \<Rightarrow> map_deep_equal x y
    | _ \<Rightarrow> False)"

definition requestMatcherEqual :: "json_codec \<Rightarrow> RequestMatcher option \<Rightarrow> RequestMatcher option \<Rightarrow> bool" where
  "requestMatcherEqual C a b = (case (a, b) of
      (Some x, Some y) \<Rightarrow> map_DeepEqual (rm_Query x) (rm_Query y) \<and> map_DeepEqual (rm_Headers x) (rm_Headers y)
        \<and> jsonEqual C (rm_Body x) (rm_Body y)
    | (None, None) \<Rightarrow> True
    | _ \<Rightarrow> False)"

section \<open>Explaining a mismatch\<close>

definition RedactedValue :: string where
  "RedactedValue = ''[REDACTED]''"

definition IsRedactedHeader :: "string \<Rightarrow> bool" where
  "IsRedactedHeader name \<longleftrightarrow> equal_fold name ''Authorization'' \<or> equal_fold name ''Cookie''"

record Difference =
  df_Field :: string
  df_Reason :: string
  df_Want :: "string option"
  df_Got :: "string option"

record NearMiss =
  nm_ExpectationID :: string
  nm_Method :: string
  nm_Path :: string
  nm_Differences :: "Difference list"

definition maxDiffValue :: nat where
  "maxDiffValue = 1024"

text \<open>The largest cut point, not above the given one, that is not inside a UTF-8 sequence.\<close>

fun rune_cut :: "string \<Rightarrow> nat \<Rightarrow> nat" where
  "rune_cut b 0 = 0"
| "rune_cut b (Suc n) =
     (if (of_char (b ! Suc n) :: nat) div 64 = 2 then rune_cut b n else Suc n)"

definition ellipsis :: string where
  "ellipsis = [CHR 0xE2, CHR 0x80, CHR 0xA6]"

definition cap_value :: "json_codec \<Rightarrow> string \<Rightarrow> string" where
  "cap_value C b =
     (if length b \<le> maxDiffValue then b
      else marshal C (JStr (take (rune_cut b maxDiffValue) b @ ellipsis)))"

definition rawJSON :: "json_codec \<Rightarrow> json \<Rightarrow> string" where
  "rawJSON C v = cap_value C (marshal C v)"

definition rawString :: "json_codec \<Rightarrow> string \<Rightarrow> string" where
  "rawString C s = rawJSON C (JStr s)"

definition mismatch :: "json_codec \<Rightarrow> string \<Rightarrow> json \<Rightarrow> json \<Rightarrow> Difference" where
  "mismatch C field want got =
     \<lparr>df_Field = field, df_Reason = ''mismatch'', df_Want = Some (rawJSON C want), df_Got = Some (rawJSON C got)\<rparr>"

definition missing :: "json_codec \<Rightarrow> string \<Rightarrow> json \<Rightarrow> Difference" where
  "missing C field want =
     \<lparr>df_Field = field, df_Reason = ''missing'', df_Want = Some (rawJSON C want), df_Got = None\<rparr>"

fun explainValue :: "json_codec \<Rightarrow> string \<Rightarrow> json \<Rightarrow> json \<Rightarrow> Difference list" where
  "explainValue C field (JObj wantObj) got =
     (case got of
        JObj gotObj \<Rightarrow>
          concat (map (\<lambda>(k, w). case map_of gotObj k of
              None \<Rightarrow> [missing C (field @ ''.'' @ k) w]
            | Some g \<Rightarrow> explainValue C (field @ ''.'' @ k) w g) wantObj)
      | _ \<Rightarrow> [mismatch C field (JObj wantObj) got])"
| "explainValue C field want got = (if json_eq want got then [] else [mismatch C field want got])"

definition explainBody :: "json_codec \<Rightarrow> string \<Rightarrow> string \<Rightarrow> Difference list" where
  "explainBody C rmBody gotBody =
     (let body = trim_space rmBody
      in if body = [] \<or> body = ''null'' then []
         else if gotBody = [] then
           [\<lparr>df_Field = ''body'', df_Reason = ''missing'',
             df_Want = map_option (cap_value C) (marshal_raw C body), df_Got = None\<rparr>]
         else (case unmarshal C body of
             None \<Rightarrow> [\<lparr>df_Field = ''body'', df_Reason = ''invalid_json'', df_Want = None, df_Got = None\<rparr>]
           | Some want \<Rightarrow> (case unmarshal C gotBody of
                 None \<Rightarrow> [\<lparr>df_Field = ''body'', df_Reason = ''invalid_json'', df_Want = None, df_Got = None\<rparr>]
               | Some got \<Rightarrow> explainValue C ''body'' want got)))"

definition explainQuery :: "json_codec \<Rightarrow> url_values \<Rightarrow> string \<times> string \<Rightarrow> Difference list" where
  "explainQuery C q = (\<lambda>(k, want).
     let got = values_get q k
     in if got = want then []
        else if map_of q k = None then [missing C (''query.'' @ k) (JStr want)]
        else [mismatch C (''query.'' @ k) (JStr want) (JStr got)])"

definition explainHeader :: "json_codec \<Rightarrow> http_header \<Rightarrow> string \<times> string \<Rightarrow> Difference list" where
  "explainHeader C h = (\<lambda>(k, want).
     let canonical = CanonicalHeaderKey k;
         got = header_get h k
     in if got = want then []
        else
          (let d = (if map_of h canonical = None then missing C (''headers.'' @ canonical) (JStr want)
                    else mismatch C (''headers.'' @ canonical) (JStr want) (JStr got));
               d' = (if IsRedactedHeader canonical then
                       d\<lparr>df_Want := Some (rawString C RedactedValue),
                         df_Got := (if df_Got d \<noteq> None then Some (rawString C RedactedValue) else None)\<rparr>
                     else d)
           in [d']))"

definition Explain :: "json_codec \<Rightarrow> RequestMatcher option \<Rightarrow> MatchableRequest \<Rightarrow> Difference list" where
  "Explain C rm req = (case rm of
      None \<Rightarrow> []
    | Some m \<Rightarrow> sort_key df_Field
        (concat (map (explainQuery C (mq_Query req)) (range_map (rm_Query m))) @
         concat (map (explainHeader C (mq_Headers req)) (range_map (rm_Headers m))) @
         explainBody C (rm_Body m) (mq_Body req)))"

definition Matches :: "json_codec \<Rightarrow> RequestMatcher option \<Rightarrow> MatchableRequest \<Rightarrow> bool" where
  "Matches C rm req \<longleftrightarrow> length (Explain C rm req) = 0"

section \<open>What matching means\<close>

text \<open>Subset matching of bodies: every key of a wanted object is present with a value that matches.\<close>

fun json_subset :: "json \<Rightarrow> json \<Rightarrow> bool" where
  "json_subset (JObj wantObj) got =
     (case got of
        JObj gotObj \<Rightarrow> list_all (\<lambda>(k, w). case map_of gotObj k of None \<Rightarrow> False | Some g \<Rightarrow> json_subset w g) wantObj
      | _ \<Rightarrow> False)"
| "json_subset want got = json_eq want got"

definition body_matches :: "json_codec \<Rightarrow> string \<Rightarrow> string \<Rightarrow> bool" where
  "body_matches C want got \<longleftrightarrow> no_body want \<or>
     (got \<noteq> [] \<and> (case (unmarshal C (trim_space want), unmarshal C got) of
        (Some w, Some g) \<Rightarrow> json_subset w g | _ \<Rightarrow> False))"

lemma explainValue_Nil_iff: "explainValue C field want got = [] \<longleftrightarrow> json_subset want got"
proof (induction C field want got rule: explainValue.induct)
  case (1 C field wantObj got)
  show ?case
  proof (cases got)
    case (JObj gotObj)
    have "(case map_of gotObj k of None \<Rightarrow> [missing C (field @ ''.'' @ k) w]
            | Some g \<Rightarrow> explainValue C (field @ ''.'' @ k) w g) = [] \<longleftrightarrow>
          (case map_of gotObj k of None \<Rightarrow> False | Some g \<Rightarrow> json_subset w g)"
      if "(k, w) \<in> set wantObj" for k w
      using 1[OF JObj that refl] by (simp split: option.splits)
    with JObj show ?thesis by (fastforce simp: list_all_iff)
  qed simp_all
qed simp_all

lemma explainValue_field: "e \<in> set (explainValue C field w g) \<Longrightarrow> \<exists>r. df_Field e = field @ r"
proof (induction C field w g rule: explainValue.induct)
  case (1 C field wantObj got)
  show ?case
  proof (cases got)
    case (JObj gotObj)
    with "1.prems" obtain k w where kw: "(k, w) \<in> set wantObj"
      and e: "e \<in> set (case map_of gotObj k of None \<Rightarrow> [missing C (field @ ''.'' @ k) w]
            | Some g \<Rightarrow> explainValue C (field @ ''.'' @ k) w g)"
      by auto
    then show ?thesis
      using "1.IH"[OF JObj kw refl] by (force simp: missing_def split: option.splits)
  qed (use "1.prems" in \<open>auto simp: mismatch_def\<close>)
qed (auto simp: mismatch_def split: if_splits)

lemma explainBody_field: "e \<in> set (explainBody C w g) \<Longrightarrow> \<exists>r. df_Field e = ''body'' @ r"
  by (auto simp: explainBody_def Let_def dest: explainValue_field split: if_splits option.splits)

lemma explainBody_Nil_iff: "explainBody C want got = [] \<longleftrightarrow> body_matches C want got"
  by (simp add: explainBody_def body_matches_def no_body_def Let_def explainValue_Nil_iff split: option.splits)

lemma Matches_Some_iff:
  "Matches C (Some m) req \<longleftrightarrow>
     (\<forall>(k, want) \<in> set (range_map (rm_Query m)). values_get (mq_Query req) k = want) \<and>
     (\<forall>(k, want) \<in> set (range_map (rm_Headers m)). header_get (mq_Headers req) k = want) \<and>
     body_matches C (rm_Body m) (mq_Body req)"
proof -
  have "sort_key df_Field xs = [] \<longleftrightarrow> xs = []" for xs
    by (metis set_empty set_sort)
  then show ?thesis
    by (auto simp: Matches_def Explain_def explainBody_Nil_iff explainQuery_def explainHeader_def Let_def
        split: if_splits)
qed

lemma Matches_None [simp]: "Matches C None req"
  by (simp add: Matches_def Explain_def)

text \<open>A request that carries everything another one does, and the same body.\<close>

definition request_extends :: "MatchableRequest \<Rightarrow> MatchableRequest \<Rightarrow> bool" where
  "request_extends req req' \<longleftrightarrow> map_of (mq_Query req) \<subseteq>\<^sub>m map_of (mq_Query req') \<and>
     map_of (mq_Headers req) \<subseteq>\<^sub>m map_of (mq_Headers req') \<and> mq_Body req' = mq_Body req"

definition values_present :: "RequestMatcher \<Rightarrow> bool" where
  "values_present m \<longleftrightarrow> list_all (\<lambda>(k, v). v \<noteq> []) (range_map (rm_Query m)) \<and>
     list_all (\<lambda>(k, v). v \<noteq> []) (range_map (rm_Headers m))"

lemma values_get_mono: "map_of q \<subseteq>\<^sub>m map_of q' \<Longrightarrow> values_get q k \<noteq> [] \<Longrightarrow> values_get q' k = values_get q k"
  by (auto simp: values_get_def map_le_def dom_def split: option.splits list.splits)

section \<open>Properties\<close>

text \<open>
  C24. A stub matches exactly the requests its matcher describes: a catch-all matches everything; a
  matcher requires each of its query parameters and headers to have its value (the empty value for
  an absent one) and its body, when it has one, to be a recursive subset of the request's JSON
  body.
\<close>
theorem matches_subset_semantics:
  "Matches C rm req \<longleftrightarrow> (case rm of None \<Rightarrow> True
     | Some m \<Rightarrow>
        list_all (\<lambda>(k, want). values_get (mq_Query req) k = want) (range_map (rm_Query m)) \<and>
        list_all (\<lambda>(k, want). header_get (mq_Headers req) k = want) (range_map (rm_Headers m)) \<and>
        (no_body (rm_Body m) \<or> mq_Body req \<noteq> [] \<and>
          (\<exists>w g. unmarshal C (trim_space (rm_Body m)) = Some w \<and> unmarshal C (mq_Body req) = Some g \<and> json_subset w g)))"
  by (auto simp: Matches_Some_iff body_matches_def list_all_iff split: option.splits)

text \<open>
  Extra query parameters and headers never disqualify a match, provided that the matcher asks
  for no empty value.
\<close>
theorem matches_monotone:
  assumes "Matches C (Some m) req" "values_present m" "request_extends req req'"
  shows "Matches C (Some m) req'"
  using assms
  by (fastforce simp: Matches_Some_iff values_present_def request_extends_def list_all_iff header_get_def
      dest: values_get_mono)

definition demo_codec :: json_codec where
  "demo_codec = \<lparr>marshal = (\<lambda>v. case v of JStr s \<Rightarrow> s | _ \<Rightarrow> ''?''), marshal_raw = Some,
     unmarshal = (\<lambda>b. if b = ''{}'' then Some (JObj []) else if b = ''{a}'' then Some (JObj [(''a'', JNull)]) else None)\<rparr>"

definition demo_matcher :: RequestMatcher where
  "demo_matcher = \<lparr>rm_Query = Some [(''q'', ''1'')], rm_Headers = None, rm_Body = ''{}''\<rparr>"

definition demo_request :: MatchableRequest where
  "demo_request = \<lparr>mq_Query = [(''q'', [''1''])], mq_Headers = [], mq_Body = ''{a}''\<rparr>"

theorem matches_monotone_witness:
  "Matches demo_codec (Some demo_matcher) demo_request
   \<and> Matches demo_codec (Some demo_matcher) (demo_request\<lparr>mq_Query := [(''z'', [''9'']), (''q'', [''1''])]\<rparr>)"
proof -
  have m: "Matches demo_codec (Some demo_matcher) demo_request"
    by (simp add: Matches_Some_iff body_matches_def demo_matcher_def demo_request_def demo_codec_def range_map_def
        values_get_def no_body_def trim_space_def is_space_def)
  have v: "values_present demo_matcher"
    by (simp add: values_present_def demo_matcher_def range_map_def)
  have e: "request_extends demo_request (demo_request\<lparr>mq_Query := [(''z'', [''9'']), (''q'', [''1''])]\<rparr>)"
    by (simp add: request_extends_def demo_request_def map_le_def)
  from m matches_monotone[OF m v e] show ?thesis by simp
qed

text \<open>
  The empty value is the exception: a matcher that asks for an empty query parameter also matches a
  request without that parameter, and stops matching when the parameter is added.
\<close>

lemma empty_value_matches_absent:
  "Matches C (Some \<lparr>rm_Query = Some [(k, [])], rm_Headers = None, rm_Body = []\<rparr>)
     \<lparr>mq_Query = [], mq_Headers = [], mq_Body = b\<rparr>
   \<and> \<not> Matches C (Some \<lparr>rm_Query = Some [(k, [])], rm_Headers = None, rm_Body = []\<rparr>)
     \<lparr>mq_Query = [(k, [''v''])], mq_Headers = [], mq_Body = b\<rparr>"
  by (simp add: Matches_Some_iff range_map_def values_get_def body_matches_def no_body_def)

text \<open>
  Two matchers with the same criteria can still count as different: a nil map is not deeply equal
  to an empty one, and an absent body is not equal to the body \<^verbatim>\<open>null\<close>.
\<close>

lemma equivalent_matchers_not_equal:
  "\<not> requestMatcherEqual C
     (Some \<lparr>rm_Query = None, rm_Headers = Some [(h, v)], rm_Body = []\<rparr>)
     (Some \<lparr>rm_Query = Some [], rm_Headers = Some [(h, v)], rm_Body = []\<rparr>)
   \<and> Matches C (Some \<lparr>rm_Query = None, rm_Headers = Some [(h, v)], rm_Body = []\<rparr>) req =
     Matches C (Some \<lparr>rm_Query = Some [], rm_Headers = Some [(h, v)], rm_Body = []\<rparr>) req"
  by (simp add: requestMatcherEqual_def map_DeepEqual_def Matches_Some_iff range_map_def)

text \<open>
  Credentials never reach a near miss: every difference on an \<^verbatim>\<open>Authorization\<close> or
  \<^verbatim>\<open>Cookie\<close> header shows the redaction marker as the wanted value, and as the received value
  when there was one.
\<close>
theorem explain_redacts_credentials:
  assumes "d \<in> set (Explain C (Some m) req)" "df_Field d = ''headers.'' @ h" "IsRedactedHeader h"
  shows "df_Want d = Some (rawString C RedactedValue) \<and> df_Got d \<in> {None, Some (rawString C RedactedValue)}"
proof -
  have body: "df_Field e \<noteq> ''headers.'' @ h" if "e \<in> set (explainBody C (rm_Body m) (mq_Body req))" for e
    using explainBody_field[OF that] by auto
  from assms(1,2) body obtain p where "p \<in> set (range_map (rm_Headers m))" "d \<in> set (explainHeader C (mq_Headers req) p)"
    by (auto simp: Explain_def explainQuery_def mismatch_def missing_def Let_def split: if_splits)
  with assms(2,3) show ?thesis
    by (auto simp: explainHeader_def mismatch_def missing_def Let_def split: if_splits)
qed

theorem explain_redacts_credentials_witness:
  "\<exists>d \<in> set (Explain demo_codec (Some \<lparr>rm_Query = None, rm_Headers = Some [(''authorization'', ''Bearer a'')], rm_Body = []\<rparr>)
      (demo_request\<lparr>mq_Headers := [(''Authorization'', [''Bearer secret''])]\<rparr>)).
    df_Field d = ''headers.Authorization'' \<and> df_Got d = Some (rawString demo_codec RedactedValue)"
proof -
  let ?m = "\<lparr>rm_Query = None, rm_Headers = Some [(''authorization'', ''Bearer a'')], rm_Body = []\<rparr>"
  let ?req = "demo_request\<lparr>mq_Headers := [(''Authorization'', [''Bearer secret''])]\<rparr>"
  let ?d = "hd (Explain demo_codec (Some ?m) ?req)"
  have canon: "CanonicalHeaderKey ''authorization'' = ''Authorization''"
    by code_simp
  have red: "IsRedactedHeader ''Authorization''"
    by (simp add: IsRedactedHeader_def)
  have ex: "Explain demo_codec (Some ?m) ?req = [?d]" and f: "df_Field ?d = ''headers.'' @ ''Authorization''"
    and g: "df_Got ?d \<noteq> None"
    by (simp_all add: Explain_def range_map_def demo_request_def explainHeader_def canon header_get_def values_get_def
        mismatch_def red explainBody_def)
  have "?d \<in> set (Explain demo_codec (Some ?m) ?req)"
    by (subst ex) simp
  from explain_redacts_credentials[OF this f red] this f g show ?thesis by fastforce
qed

end
