(* ===== verification/Journal.thy ===== *)
theory Journal
  imports Matches Httperr
begin

text \<open>
  The request journal: the bounded ring of recorded Management API calls,
  \<^verbatim>\<open>internal/journal/journal.go\<close>, the middleware that records a call once, when its response
  starts, \<^verbatim>\<open>internal/journal/middleware.go\<close>, and the \<^verbatim>\<open>/admin0/journal\<close> handlers,
  \<^verbatim>\<open>internal/admin0/journal.go\<close>. The ring is shown to implement the list of its newest entries;
  a call through the middleware is the sequence of what the wrapped handler does with its response
  writer and with the verdict slot.
\<close>

section \<open>The ring\<close>

datatype Outcome = OutcomeMatched | OutcomeNoMatch | OutcomeRejected

definition MaxStoredBody :: nat where
  "MaxStoredBody = 64 * 1024"

record JEntry =
  je_ID :: string
  je_ReceivedAt :: time
  je_Method :: string
  je_Path :: string
  je_Operation :: string
  je_Query :: url_values
  je_Headers :: http_header
  je_Body :: "string option"
  je_BodyTruncated :: bool
  je_Status :: int
  je_Outcome :: "Outcome option"
  je_ExpectationID :: string
  je_NearMisses :: "NearMiss list"

record Filter =
  ft_Method :: string
  ft_Path :: string

definition filter_matches :: "Filter \<Rightarrow> JEntry \<Rightarrow> bool" where
  "filter_matches f e =
     (if ft_Method f \<noteq> [] \<and> \<not> equal_fold (ft_Method f) (je_Method e) then False
      else if ft_Path f = [] then True
      else if KindOf (ft_Path f) = KindTemplate then ft_Path f = je_Operation e
      else ft_Path f = je_Path e)"

record Journal =
  jn_buf :: "JEntry list"
  jn_start :: nat
  jn_n :: nat

text \<open>Go's zero \<^verbatim>\<open>Entry\<close>, whose outcome is the empty string and none of the three constants.\<close>

definition zero_entry :: JEntry where
  "zero_entry = \<lparr>je_ID = [], je_ReceivedAt = zero_time, je_Method = [], je_Path = [], je_Operation = [],
     je_Query = [], je_Headers = [], je_Body = None, je_BodyTruncated = False, je_Status = 0,
     je_Outcome = None, je_ExpectationID = [], je_NearMisses = []\<rparr>"

definition Journal_New :: "int \<Rightarrow> Journal" where
  "Journal_New sz = \<lparr>jn_buf = replicate (nat (if sz < 0 then 0 else sz)) zero_entry, jn_start = 0, jn_n = 0\<rparr>"

definition journal_add :: "JEntry \<Rightarrow> Journal \<Rightarrow> Journal" where
  "journal_add e j =
     (if length (jn_buf j) = 0 then j
      else if jn_n j < length (jn_buf j) then
        j\<lparr>jn_buf := (jn_buf j)[(jn_start j + jn_n j) mod length (jn_buf j) := e], jn_n := jn_n j + 1\<rparr>
      else j\<lparr>jn_buf := (jn_buf j)[jn_start j := e],
             jn_start := (jn_start j + 1) mod length (jn_buf j)\<rparr>)"

definition journal_collect :: "Filter \<Rightarrow> (JEntry \<Rightarrow> bool) \<Rightarrow> Journal \<Rightarrow> JEntry list" where
  "journal_collect f keep j =
     fold (\<lambda>i out. let e = jn_buf j ! ((jn_start j + i) mod length (jn_buf j))
                   in if filter_matches f e \<and> keep e then out @ [e] else out) [0..<jn_n j] []"

definition Journal_List :: "Filter \<Rightarrow> Journal \<Rightarrow> JEntry list" where
  "Journal_List f j = journal_collect f (\<lambda>_. True) j"

definition Unmatched :: "Filter \<Rightarrow> Journal \<Rightarrow> JEntry list" where
  "Unmatched f j = journal_collect f (\<lambda>e. je_Outcome e = Some OutcomeNoMatch) j"

definition Journal_Clear :: "Journal \<Rightarrow> Journal" where
  "Journal_Clear j = j\<lparr>jn_buf := map (\<lambda>_. zero_entry) (jn_buf j), jn_start := 0, jn_n := 0\<rparr>"

lemmas journal_defs [store_defs] = Journal_New_def journal_add_def Journal_List_def Unmatched_def Journal_Clear_def

section \<open>The ring implements the list of its newest entries\<close>

definition journal_inv :: "Journal \<Rightarrow> bool" where
  "journal_inv j \<longleftrightarrow> jn_n j \<le> length (jn_buf j) \<and> (jn_buf j \<noteq> [] \<longrightarrow> jn_start j < length (jn_buf j))"

definition journal_entries :: "Journal \<Rightarrow> JEntry list" where
  "journal_entries j = map (\<lambda>i. jn_buf j ! ((jn_start j + i) mod length (jn_buf j))) [0..<jn_n j]"

definition journal_abs :: "Journal \<Rightarrow> nat \<times> JEntry list" where
  "journal_abs j = (length (jn_buf j), journal_entries j)"

datatype journal_op = JAdd JEntry | JClear | JList Filter | JUnmatched Filter

fun journal_step :: "journal_op \<Rightarrow> Journal \<Rightarrow> JEntry list \<times> Journal" where
  "journal_step (JAdd e) j = ([], journal_add e j)"
| "journal_step JClear j = ([], Journal_Clear j)"
| "journal_step (JList f) j = (Journal_List f j, j)"
| "journal_step (JUnmatched f) j = (Unmatched f j, j)"

fun journal_spec :: "journal_op \<Rightarrow> nat \<times> JEntry list \<Rightarrow> JEntry list \<times> nat \<times> JEntry list" where
  "journal_spec (JAdd e) (c, es) = ([], c, newest c (es @ [e]))"
| "journal_spec JClear (c, es) = ([], c, [])"
| "journal_spec (JList f) (c, es) = (filter (filter_matches f) es, c, es)"
| "journal_spec (JUnmatched f) (c, es) =
     (filter (\<lambda>e. filter_matches f e \<and> je_Outcome e = Some OutcomeNoMatch) es, c, es)"

lemma fold_append_filter: "fold (\<lambda>i out. if P (g i) then out @ [g i] else out) is acc = acc @ filter P (map g is)"
  by (induction "is" arbitrary: acc) auto

lemma journal_collect_filter:
  "journal_collect f keep j = filter (\<lambda>e. filter_matches f e \<and> keep e) (journal_entries j)"
  unfolding journal_collect_def journal_entries_def Let_def
  using fold_append_filter[of "\<lambda>e. filter_matches f e \<and> keep e"
      "\<lambda>i. jn_buf j ! ((jn_start j + i) mod length (jn_buf j))" "[0..<jn_n j]" "[]"]
  by simp

lemma ring_index_inj:
  fixes s i k m :: nat
  assumes "(s + i) mod m = (s + k) mod m" "i < m" "k < m"
  shows "i = k"
proof -
  have "int ((s + i) mod m) = int ((s + k) mod m)" using assms(1) by simp
  then have "(int s + int i) mod int m = (int s + int k) mod int m" by (simp add: zmod_int)
  then have "int i mod int m = int k mod int m" by (metis add_diff_cancel_left' mod_diff_left_eq)
  with assms(2,3) show ?thesis by simp
qed

lemma journal_entries_add:
  assumes "journal_inv j"
  shows "journal_entries (journal_add e j) = newest (length (jn_buf j)) (journal_entries j @ [e])"
proof -
  let ?b = "jn_buf j" and ?m = "length (jn_buf j)" and ?s = "jn_start j" and ?n = "jn_n j"
  consider (off) "?m = 0" | (room) "?m > 0" "?n < ?m" | (full) "?m > 0" "?n = ?m" "?s < ?m"
    using assms by (force simp: journal_inv_def)
  then show ?thesis
  proof cases
    case off
    then have "?n = 0" using assms by (simp add: journal_inv_def)
    with off show ?thesis by (simp add: journal_add_def journal_entries_def newest_def)
  next
    case room
    have ne: "(?s + ?n) mod ?m \<noteq> (?s + i) mod ?m" if "i < ?n" for i
      using ring_index_inj[of ?s i ?m ?n] that room by auto
    have "map (\<lambda>i. ?b[(?s + ?n) mod ?m := e] ! ((?s + i) mod ?m)) [0..<?n] = journal_entries j"
      unfolding journal_entries_def by (rule map_cong) (simp_all add: ne)
    then show ?thesis using room
      by (simp add: journal_add_def journal_entries_def newest_def)
  next
    case full
    have eq: "(Suc ?s mod ?m + i) mod ?m = Suc (?s + i) mod ?m" for i
      by (simp add: mod_add_left_eq)
    have other: "?s \<noteq> Suc (?s + i) mod ?m" if "i < ?m - Suc 0" for i
    proof -
      have "Suc i < ?m" using that by linarith
      then show ?thesis using ring_index_inj[of ?s "Suc i" ?m 0] full by auto
    qed
    have "journal_entries (journal_add e j) = map (\<lambda>i. (?b[?s := e]) ! ((?s + Suc i) mod ?m)) [0..<?m]"
      using full by (simp add: journal_add_def journal_entries_def eq)
    also have "\<dots> = map (\<lambda>i. (?b[?s := e]) ! ((?s + Suc i) mod ?m)) ([0..<?m - 1] @ [?m - 1])"
      using full(1) by (metis Suc_pred' upt_Suc_append zero_le)
    also have "\<dots> = map (\<lambda>i. ?b ! ((?s + Suc i) mod ?m)) [0..<?m - 1] @ [e]"
      using full by (simp add: other)
    also have "map (\<lambda>i. ?b ! ((?s + Suc i) mod ?m)) [0..<?m - 1] = tl (journal_entries j)"
      using full by (auto simp: journal_entries_def nth_tl intro!: nth_equalityI)
    finally show ?thesis using full
      by (simp add: newest_def journal_entries_def drop_Suc)
  qed
qed

lemma journal_inv_add: "journal_inv j \<Longrightarrow> journal_inv (journal_add e j)"
  by (auto simp: journal_inv_def journal_add_def)

interpretation ring: simulation journal_step journal_spec journal_abs journal_inv
proof unfold_locales
  fix j x
  assume inv: "journal_inv j"
  show "fst (journal_step x j) = fst (journal_spec x (journal_abs j))"
    by (cases x) (simp_all add: journal_abs_def Journal_List_def Unmatched_def journal_collect_filter)
  show "journal_abs (snd (journal_step x j)) = snd (journal_spec x (journal_abs j))"
    using journal_entries_add[OF inv]
    by (cases x) (auto simp: journal_abs_def journal_add_def Journal_Clear_def journal_entries_def)
  show "journal_inv (snd (journal_step x j))"
    using inv journal_inv_add[OF inv] by (cases x) (auto simp: journal_inv_def Journal_Clear_def)
qed

lemma journal_abs_New: "journal_abs (Journal_New sz) = (nat sz, [])"
  by (simp add: journal_abs_def Journal_New_def journal_entries_def)

lemma journal_inv_New: "journal_inv (Journal_New sz)"
  by (auto simp: journal_inv_def Journal_New_def)

text \<open>
  C15. The ring implements the journal's contract: after any sequence of recordings, listings and
  clears, every listing of a journal made with \<^verbatim>\<open>New(size)\<close> is the one the list of the newest
  \<open>size\<close> entries since the last clear gives, oldest first and filtered; a size of zero or less
  records nothing.
\<close>
theorem journal_refines_newest:
  "fst (run_ops journal_step ops (Journal_New sz)) = fst (run_ops journal_spec ops (nat sz, []))
   \<and> journal_entries (snd (run_ops journal_step ops (Journal_New sz))) =
      snd (snd (run_ops journal_spec ops (nat sz, [])))"
proof -
  have "journal_entries j = snd (journal_abs j)" for j by (simp add: journal_abs_def)
  then show ?thesis
    using ring.run_refines[OF journal_inv_New[of sz], of ops] by (simp add: journal_abs_New)
qed

section \<open>The recording middleware\<close>

definition apiPrefix :: string where
  "apiPrefix = ''/api/v2/''"

record slot =
  sl_outcome :: Outcome
  sl_expectationID :: string
  sl_nearMisses :: "NearMiss list"

text \<open>\<^verbatim>\<open>None\<close> is a context without a slot.\<close>

definition MarkMatched :: "string \<Rightarrow> slot option \<Rightarrow> slot option" where
  "MarkMatched eid = map_option (\<lambda>s. s\<lparr>sl_outcome := OutcomeMatched, sl_expectationID := eid\<rparr>)"

definition MarkNoMatch :: "NearMiss list \<Rightarrow> slot option \<Rightarrow> slot option" where
  "MarkNoMatch nms = map_option (\<lambda>s. s\<lparr>sl_outcome := OutcomeNoMatch, sl_nearMisses := nms\<rparr>)"

definition encodeBody :: "json_codec \<Rightarrow> string \<Rightarrow> string option \<times> bool" where
  "encodeBody C b =
     (if length b = 0 then (None, False)
      else if length b > MaxStoredBody then (Some (marshal C (JStr (take MaxStoredBody b))), True)
      else if marshal_raw C b \<noteq> None then (Some b, False)
      else (Some (marshal C (JStr b)), False))"

text \<open>
  \<open>uid\<close> is the generated identifier; \<open>pattern\<close> is what the router's context reports as the matched
  pattern when the entry is built, if there is such a context.
\<close>

definition buildEntry :: "json_codec \<Rightarrow> string \<Rightarrow> string option \<Rightarrow> request \<Rightarrow> time \<Rightarrow> string \<Rightarrow> int \<Rightarrow> slot \<Rightarrow> JEntry" where
  "buildEntry C uid pattern r received body status s =
     (let op = (case pattern of Some p \<Rightarrow> if has_prefix p apiPrefix then p else [] | None \<Rightarrow> []);
          headers = map (\<lambda>(name, vs). (name, if IsRedactedHeader name then [RedactedValue] else vs)) (rq_Header r)
      in case encodeBody C body of (enc, truncated) \<Rightarrow>
        \<lparr>je_ID = uid, je_ReceivedAt = received, je_Method = rq_Method r, je_Path = rq_Path r, je_Operation = op,
         je_Query = rq_Query r, je_Headers = headers, je_Body = enc, je_BodyTruncated = truncated,
         je_Status = status, je_Outcome = Some (sl_outcome s), je_ExpectationID = sl_expectationID s,
         je_NearMisses = sl_nearMisses s\<rparr>)"

text \<open>
  What a handler does with its response writer and with the slot of its context. The recorder
  commits before it passes the first write on; \<open>rc_done\<close> is its \<^verbatim>\<open>sync.Once\<close>, and \<open>rc_out\<close> is what
  reached the wrapped writer, in order.
\<close>

datatype handler_act = Respond writer_call | Matched string | NoMatch "NearMiss list"

record recorder =
  rc_done :: bool
  rc_slot :: "slot option"
  rc_out :: "writer_call list"
  rc_journal :: Journal

definition once_commit :: "(int \<Rightarrow> slot option \<Rightarrow> JEntry) \<Rightarrow> int \<Rightarrow> recorder \<Rightarrow> recorder" where
  "once_commit entry status rc =
     (if rc_done rc then rc
      else rc\<lparr>rc_done := True, rc_journal := journal_add (entry status (rc_slot rc)) (rc_journal rc)\<rparr>)"

fun recorder_call :: "(int \<Rightarrow> slot option \<Rightarrow> JEntry) \<Rightarrow> writer_call \<Rightarrow> recorder \<Rightarrow> recorder" where
  "recorder_call entry (WriteHeader status) rc =
     (let rc' = once_commit entry status rc in rc'\<lparr>rc_out := rc_out rc' @ [WriteHeader status]\<rparr>)"
| "recorder_call entry (WriteBytes b) rc =
     (let rc' = once_commit entry 200 rc in rc'\<lparr>rc_out := rc_out rc' @ [WriteBytes b]\<rparr>)"
| "recorder_call entry Flush rc =
     (let rc' = once_commit entry 200 rc in rc'\<lparr>rc_out := rc_out rc' @ [Flush]\<rparr>)"

fun handler_step :: "(int \<Rightarrow> slot option \<Rightarrow> JEntry) \<Rightarrow> handler_act \<Rightarrow> recorder \<Rightarrow> recorder" where
  "handler_step entry (Respond c) rc = recorder_call entry c rc"
| "handler_step entry (Matched eid) rc = rc\<lparr>rc_slot := MarkMatched eid (rc_slot rc)\<rparr>"
| "handler_step entry (NoMatch nms) rc = rc\<lparr>rc_slot := MarkNoMatch nms (rc_slot rc)\<rparr>"

text \<open>
  The middleware around a handler: \<open>next\<close> maps the request it is given to what it does. The body is
  read ahead and handed on with the same bytes and the same read error. The result is what reached
  the client's writer and the journal afterwards.
\<close>

definition Journal_Middleware :: "json_codec \<Rightarrow> string \<Rightarrow> string option \<Rightarrow> time \<Rightarrow> (request \<Rightarrow> handler_act list)
    \<Rightarrow> request \<Rightarrow> Journal \<Rightarrow> writer_call list \<times> Journal" where
  "Journal_Middleware C uid pattern received next r j =
     (if length (jn_buf j) = 0 \<or> \<not> has_prefix (rq_Path r) apiPrefix then
        (concat (map (\<lambda>a. case a of Respond c \<Rightarrow> [c] | _ \<Rightarrow> []) (next r)), j)
      else
        (let (body, rest) = (case rq_Body r of
               None \<Rightarrow> ([], None)
             | Some (b, None) \<Rightarrow> (b, Some (b, None))
             | Some (b, Some err) \<Rightarrow> (b, Some (b, Some err)));
             r' = r\<lparr>rq_Body := rest\<rparr>;
             s = \<lparr>sl_outcome = OutcomeRejected, sl_expectationID = [], sl_nearMisses = []\<rparr>;
             entry = (\<lambda>status sl. buildEntry C uid pattern r' received body status (the sl));
             rc = fold (handler_step entry) (next r')
                    \<lparr>rc_done = False, rc_slot = Some s, rc_out = [], rc_journal = j\<rparr>;
             rc' = once_commit entry 200 rc
         in (rc_out rc', rc_journal rc')))"

lemmas middleware_defs [handler_defs] = MarkMatched_def MarkNoMatch_def once_commit_def

section \<open>The handlers of the admin API\<close>

definition journalFilter :: "request \<Rightarrow> Filter" where
  "journalFilter r = \<lparr>ft_Method = values_get (rq_Query r) ''method'', ft_Path = values_get (rq_Query r) ''path''\<rparr>"

text \<open>The JSON form of an entry is the encoder's business; the handlers render the list they are given.\<close>

definition ListJournalHandler :: "(JEntry \<Rightarrow> json) \<Rightarrow> request \<Rightarrow> Journal \<Rightarrow> response" where
  "ListJournalHandler enc r j = render_json 200 (JObj [(''entries'', JArr (map enc (Journal_List (journalFilter r) j)))])"

definition ListUnmatchedJournalHandler :: "(JEntry \<Rightarrow> json) \<Rightarrow> request \<Rightarrow> Journal \<Rightarrow> response" where
  "ListUnmatchedJournalHandler enc r j = render_json 200 (JObj [(''entries'', JArr (map enc (Unmatched (journalFilter r) j)))])"

definition DeleteJournalHandler :: "Journal \<Rightarrow> response \<times> Journal" where
  "DeleteJournalHandler j = (no_content 204, Journal_Clear j)"

section \<open>One entry per call\<close>

text \<open>The response an action list amounts to, the verdicts given before the response starts, and its status.\<close>

definition responses :: "handler_act list \<Rightarrow> writer_call list" where
  "responses as = concat (map (\<lambda>a. case a of Respond c \<Rightarrow> [c] | _ \<Rightarrow> []) as)"

fun started_status :: "writer_call list \<Rightarrow> int" where
  "started_status (WriteHeader st # _) = st"
| "started_status _ = 200"

definition is_mark :: "handler_act \<Rightarrow> bool" where
  "is_mark a \<longleftrightarrow> (case a of Respond _ \<Rightarrow> False | _ \<Rightarrow> True)"

fun mark :: "handler_act \<Rightarrow> slot \<Rightarrow> slot" where
  "mark (Matched eid) s = s\<lparr>sl_outcome := OutcomeMatched, sl_expectationID := eid\<rparr>"
| "mark (NoMatch nms) s = s\<lparr>sl_outcome := OutcomeNoMatch, sl_nearMisses := nms\<rparr>"
| "mark (Respond _) s = s"

definition verdict :: "handler_act list \<Rightarrow> slot" where
  "verdict as = fold mark (takeWhile is_mark as)
     \<lparr>sl_outcome = OutcomeRejected, sl_expectationID = [], sl_nearMisses = []\<rparr>"

lemma recorder_call_done: "rc_done (recorder_call entry c rc)" "rc_slot (recorder_call entry c rc) = rc_slot rc"
  "rc_out (recorder_call entry c rc) = rc_out rc @ [c]"
  by (cases c, simp_all add: once_commit_def Let_def)+

lemma recorder_call_journal:
  "rc_journal (recorder_call entry c rc) =
     (if rc_done rc then rc_journal rc
      else journal_add (entry (started_status [c]) (rc_slot rc)) (rc_journal rc))"
  by (cases c) (simp_all add: once_commit_def Let_def)

lemma handler_run_done:
  "rc_done rc \<Longrightarrow> rc_done (fold (handler_step entry) as rc) \<and> rc_journal (fold (handler_step entry) as rc) = rc_journal rc"
proof (induction as arbitrary: rc)
  case (Cons a as)
  then show ?case
    by (cases a) (simp_all add: recorder_call_done recorder_call_journal)
qed simp

lemma handler_run_out: "rc_out (fold (handler_step entry) as rc) = rc_out rc @ responses as"
proof (induction as arbitrary: rc)
  case (Cons a as)
  then show ?case by (cases a) (simp_all add: recorder_call_done responses_def)
qed (simp add: responses_def)

lemma handler_run_journal:
  assumes "\<not> rc_done rc" "rc_slot rc = Some s"
  shows "rc_journal (once_commit entry 200 (fold (handler_step entry) as rc)) =
    journal_add (entry (started_status (responses as)) (Some (fold mark (takeWhile is_mark as) s))) (rc_journal rc)"
  using assms
proof (induction as arbitrary: rc s)
  case Nil
  then show ?case by (simp add: once_commit_def responses_def)
next
  case (Cons a as)
  show ?case
  proof (cases a)
    case (Respond c)
    let ?rc = "recorder_call entry c rc"
    have "rc_done ?rc" by (simp add: recorder_call_done)
    from handler_run_done[OF this, of entry as] have
      "once_commit entry 200 (fold (handler_step entry) as ?rc) = fold (handler_step entry) as ?rc"
      "rc_journal (fold (handler_step entry) as ?rc) = rc_journal ?rc"
      by (simp_all add: once_commit_def)
    moreover have "started_status (c # responses as) = started_status [c]" by (cases c) simp_all
    ultimately show ?thesis using Respond Cons.prems
      by (simp add: recorder_call_journal responses_def is_mark_def)
  next
    case (Matched eid)
    with Cons.prems Cons.IH[of "rc\<lparr>rc_slot := MarkMatched eid (rc_slot rc)\<rparr>" "mark a s"] show ?thesis
      by (simp add: MarkMatched_def responses_def is_mark_def)
  next
    case (NoMatch nms)
    with Cons.prems Cons.IH[of "rc\<lparr>rc_slot := MarkNoMatch nms (rc_slot rc)\<rparr>" "mark a s"] show ?thesis
      by (simp add: MarkNoMatch_def responses_def is_mark_def)
  qed
qed

lemma Journal_Middleware_eq:
  "Journal_Middleware C uid pattern received next r j =
     (responses (next r),
      if 0 < length (jn_buf j) \<and> has_prefix (rq_Path r) apiPrefix then
        journal_add (buildEntry C uid pattern r received (case rq_Body r of None \<Rightarrow> [] | Some (b, _) \<Rightarrow> b)
            (started_status (responses (next r))) (verdict (next r))) j
      else j)"
proof (cases "length (jn_buf j) = 0 \<or> \<not> has_prefix (rq_Path r) apiPrefix")
  case True
  then show ?thesis unfolding Journal_Middleware_def responses_def by auto
next
  case False
  have out: "rc_out (once_commit entry st rc) = rc_out rc" for entry st rc by (simp add: once_commit_def)
  have rest: "(case rq_Body r of None \<Rightarrow> ([], None) | Some (b, None) \<Rightarrow> (b, Some (b, None))
      | Some (b, Some err) \<Rightarrow> (b, Some (b, Some err))) = (case rq_Body r of None \<Rightarrow> [] | Some (b, _) \<Rightarrow> b, rq_Body r)"
    by (auto split: option.splits)
  have same: "r\<lparr>rq_Body := rq_Body r\<rparr> = r" by simp
  from False show ?thesis
    unfolding Journal_Middleware_def rest
    by (simp add: Let_def out handler_run_out handler_run_journal verdict_def)
qed

text \<open>
  The middleware is transparent and records each Management API call exactly once. Whatever the
  wrapped handler does, the client receives exactly what the handler wrote, the handler sees the
  request unchanged, and, when the journal is enabled and the path is an API path, one entry is
  added: its status is the one the response started with (200 when it never started), its verdict
  the last one given before the response started, \<^verbatim>\<open>rejected\<close> when there was none.
\<close>
theorem middleware_records_once:
  "Journal_Middleware C uid pattern received next r j =
     (responses (next r),
      if 0 < length (jn_buf j) \<and> has_prefix (rq_Path r) apiPrefix then
        journal_add (buildEntry C uid pattern r received (case rq_Body r of None \<Rightarrow> [] | Some (b, _) \<Rightarrow> b)
            (started_status (responses (next r))) (verdict (next r))) j
      else j)"
  by (rule Journal_Middleware_eq)

text \<open>
  Credentials and oversized bodies stay out of the journal: in an entry built for any request,
  every \<^verbatim>\<open>Authorization\<close> or \<^verbatim>\<open>Cookie\<close> header has the redaction marker as its only value and
  every other header its own values; and the stored body is the body itself only if that is valid
  JSON of at most 64 KiB, otherwise a JSON string of at most the first 64 KiB.
\<close>
theorem entry_redacts:
  fixes C :: json_codec and uid body :: string and pattern :: "string option" and r :: request
    and received :: time and status :: int and s :: slot
  defines "e \<equiv> buildEntry C uid pattern r received body status s"
  shows "map fst (je_Headers e) = map fst (rq_Header r) \<and>
    list_all (\<lambda>(name, vs). if IsRedactedHeader name then vs = [RedactedValue] else (name, vs) \<in> set (rq_Header r)) (je_Headers e)
    \<and> (case je_Body e of None \<Rightarrow> body = []
       | Some b \<Rightarrow> (b = body \<and> marshal_raw C b \<noteq> None \<and> length b \<le> MaxStoredBody \<and> \<not> je_BodyTruncated e)
            \<or> b = marshal C (JStr (take MaxStoredBody body)) \<and> (je_BodyTruncated e = (length body > MaxStoredBody)))"
  unfolding e_def buildEntry_def Let_def encodeBody_def
  by (auto simp: list_all_iff case_prod_beta comp_def)

end
