(* ===== verification/Events_Hub.thy ===== *)
theory Events_Hub
  imports Replay Httperr
begin

text \<open>
  The event stream around the replay buffer: the hub that publishes events, tracks subscribers and
  is reset or shut down, \<^verbatim>\<open>internal/events/hub.go\<close>, the handler of \<^verbatim>\<open>GET /api/v2/events\<close>,
  \<^verbatim>\<open>internal/events/handler.go\<close>, and the \<^verbatim>\<open>/admin0/events\<close> handlers,
  \<^verbatim>\<open>internal/admin0/events.go\<close>. The library that fans messages out (go-sse) is represented by what
  the hub asks of it: the list of messages it is given with their topics, and the error it
  answers. Locks make each operation one step; an HTTP request takes several.
\<close>

section \<open>Topics and messages\<close>

definition broadcastTopic :: string where "broadcastTopic = ''__broadcast__''"
definition keepAliveTopic :: string where "keepAliveTopic = ''__keep_alive__''"
definition errorEventType :: string where "errorEventType = ''error''"
definition offsetOnlyEventType :: string where "offsetOnlyEventType = ''offset-only''"
definition barrierTopic :: string where "barrierTopic = ''__barrier__''"

lemmas topic_defs = broadcastTopic_def keepAliveTopic_def errorEventType_def offsetOnlyEventType_def
  barrierTopic_def replayAllTopic_def

record Event =
  ev_Type :: string
  ev_ID :: string
  ev_Payload :: string

definition DefaultReconnectHint :: duration where
  "DefaultReconnectHint = word_of_int (3 * 1000000000)"

definition buildConnectFrame :: "duration \<Rightarrow> string" where
  "buildConnectFrame hint =
     (if dur_ns hint < 1000000 then '':connected'' @ [CHR 0x0A, CHR 0x0A]
      else '':connected'' @ [CHR 0x0A] @ ''retry: '' @ itoa (dur_ns hint div 1000000) @ [CHR 0x0A, CHR 0x0A])"

section \<open>The drainable writer\<close>

record drainableWriter =
  dw_out :: "writer_call list"
  dw_drained :: bool
  dw_headerWritten :: bool

definition dw_WriteHeader :: "int \<Rightarrow> drainableWriter \<Rightarrow> drainableWriter" where
  "dw_WriteHeader code d =
     (if dw_drained d \<or> dw_headerWritten d then d
      else d\<lparr>dw_headerWritten := True, dw_out := dw_out d @ [WriteHeader code]\<rparr>)"

definition dw_Write :: "string \<Rightarrow> drainableWriter \<Rightarrow> drainableWriter" where
  "dw_Write b d = (if dw_drained d then d else d\<lparr>dw_out := dw_out d @ [WriteBytes b]\<rparr>)"

definition dw_Flush :: "drainableWriter \<Rightarrow> drainableWriter" where
  "dw_Flush d = (if dw_drained d then d else d\<lparr>dw_out := dw_out d @ [Flush]\<rparr>)"

definition markDrained :: "drainableWriter \<Rightarrow> drainableWriter" where
  "markDrained d = d\<lparr>dw_drained := True\<rparr>"

fun dw_call :: "writer_call \<Rightarrow> drainableWriter \<Rightarrow> drainableWriter" where
  "dw_call (WriteHeader c) d = dw_WriteHeader c d"
| "dw_call (WriteBytes b) d = dw_Write b d"
| "dw_call Flush d = dw_Flush d"

section \<open>The hub\<close>

text \<open>
  A connection is a subscriber's writer and whether its context is cancelled; \<open>conns\<close> is the heap
  of connections by address. The \<^verbatim>\<open>active\<close> map holds cancel functions, each of which is the address
  of the connection it cancels. A server is named by the number of its allocation.
\<close>

record conn =
  cn_writer :: drainableWriter
  cn_cancelled :: bool

type_synonym conns = "nat \<Rightarrow> conn"

record Hub =
  hb_bufferSize :: int
  hb_connectFrame :: string
  hb_server :: "nat option"
  hb_replayer :: "recordingReplayer option"
  hb_closed :: bool
  hb_active :: "(nat, nat) gomap"
  hb_nextSub :: nat
  hb_totalSubs :: int
  hb_allocated :: nat

datatype hub_error = HubClosed | ServerError string | BuildError replay_error

text \<open>The errors of a server shutdown, by what \<^verbatim>\<open>errors.Is\<close> says of them.\<close>

datatype shutdown_error = ContextCanceled | ErrProviderClosed | OtherShutdownError string

definition hub_build :: "Hub \<Rightarrow> replay_error + Hub" where
  "hub_build h =
     (if hb_bufferSize h > 0 then
        (case newRecordingReplayer (hb_bufferSize h) of
           Inl err \<Rightarrow> Inl err
         | Inr rr \<Rightarrow> Inr (h\<lparr>hb_replayer := Some rr, hb_server := Some (hb_allocated h), hb_allocated := hb_allocated h + 1\<rparr>))
      else Inr (h\<lparr>hb_replayer := None, hb_server := Some (hb_allocated h), hb_allocated := hb_allocated h + 1\<rparr>))"

definition NewHub :: "int \<Rightarrow> duration option \<Rightarrow> replay_error + Hub" where
  "NewHub bufferSize hint =
     hub_build \<lparr>hb_bufferSize = bufferSize,
       hb_connectFrame = buildConnectFrame (case hint of None \<Rightarrow> DefaultReconnectHint | Some d \<Rightarrow> d),
       hb_server = None, hb_replayer = None, hb_closed = False, hb_active = [], hb_nextSub = 0,
       hb_totalSubs = 0, hb_allocated = 0\<rparr>"

definition cancelAndDrain :: "nat \<Rightarrow> conns \<Rightarrow> conns" where
  "cancelAndDrain a cs = cs(a := (cs a)\<lparr>cn_writer := markDrained (cn_writer (cs a)), cn_cancelled := True\<rparr>)"

definition closeActiveSubscribers :: "Hub \<Rightarrow> conns \<Rightarrow> conns" where
  "closeActiveSubscribers h cs = fold cancelAndDrain (map snd (hb_active h)) cs"

text \<open>
  What the server is asked to publish, with the error \<open>srv\<close> answers to each request. \<open>ptr\<close> and
  \<open>bptr\<close> are the addresses of the messages that are allocated.
\<close>

definition publishError :: "(message \<Rightarrow> string list \<Rightarrow> string option) \<Rightarrow> nat \<Rightarrow> message \<Rightarrow> Hub \<Rightarrow> conns
    \<Rightarrow> hub_error option \<times> (message \<times> string list) list \<times> conns" where
  "publishError srv bptr msg h cs =
     (case srv msg [keepAliveTopic] of
        Some err \<Rightarrow> (Some (ServerError err), [(msg, [keepAliveTopic])], cs)
      | None \<Rightarrow>
          (let barrier = \<lparr>ms_ptr = bptr, ms_ID = None, ms_Type = [], ms_data = [], ms_comments = [''barrier'']\<rparr>
           in (None, [(msg, [keepAliveTopic]), (barrier, [barrierTopic])], closeActiveSubscribers h cs)))"

definition event_message :: "nat \<Rightarrow> Event \<Rightarrow> message" where
  "event_message ptr evt =
     \<lparr>ms_ptr = ptr, ms_ID = (if ev_ID evt \<noteq> [] then Some (ev_ID evt) else None), ms_Type = ev_Type evt,
      ms_data = (if length (ev_Payload evt) > 0 then [ev_Payload evt] else []), ms_comments = []\<rparr>"

definition Publish :: "(message \<Rightarrow> string list \<Rightarrow> string option) \<Rightarrow> nat \<Rightarrow> nat \<Rightarrow> Event \<Rightarrow> Hub \<Rightarrow> conns
    \<Rightarrow> hub_error option \<times> (message \<times> string list) list \<times> conns" where
  "Publish srv ptr bptr evt h cs =
     (if hb_closed h \<or> hb_server h = None then (Some HubClosed, [], cs)
      else
        (let msg = event_message ptr evt;
             ask = (\<lambda>topics. (map_option ServerError (srv msg topics), [(msg, topics)], cs))
         in if ev_Type evt = errorEventType then publishError srv bptr msg h cs
            else if ev_Type evt = offsetOnlyEventType then ask [keepAliveTopic]
            else if ev_Type evt \<noteq> [] then ask [broadcastTopic, ev_Type evt]
            else ask [broadcastTopic]))"

text \<open>One tick of \<^verbatim>\<open>runKeepAlive\<close>.\<close>

definition runKeepAlive :: "nat \<Rightarrow> Hub \<Rightarrow> (message \<times> string list) list" where
  "runKeepAlive ptr h =
     (if hb_closed h \<or> hb_server h = None then []
      else [(\<lparr>ms_ptr = ptr, ms_ID = None, ms_Type = [], ms_data = [], ms_comments = [''keep-alive'']\<rparr>, [keepAliveTopic])])"

definition takeActiveLocked :: "Hub \<Rightarrow> nat list \<times> Hub" where
  "takeActiveLocked h = (map snd (hb_active h), h\<lparr>hb_active := [], hb_totalSubs := 0\<rparr>)"

definition flattenShutdownErr :: "shutdown_error option \<Rightarrow> shutdown_error option" where
  "flattenShutdownErr err = (case err of
      None \<Rightarrow> None
    | Some ContextCanceled \<Rightarrow> None
    | Some ErrProviderClosed \<Rightarrow> None
    | Some (OtherShutdownError e) \<Rightarrow> Some (OtherShutdownError e))"

text \<open>\<open>down\<close> is the error with which a server answers its shutdown.\<close>

definition Hub_Reset :: "(nat \<Rightarrow> shutdown_error option) \<Rightarrow> Hub \<Rightarrow> conns
    \<Rightarrow> (replay_error + shutdown_error option) \<times> Hub \<times> conns" where
  "Hub_Reset down h cs =
     (if hb_closed h then (Inr None, h, cs)
      else
        (case takeActiveLocked h of (oldActive, h1) \<Rightarrow>
          (case hub_build h1 of
             Inl err \<Rightarrow> (Inl err, h1, cs)
           | Inr h2 \<Rightarrow>
               (Inr (case hb_server h of Some old \<Rightarrow> flattenShutdownErr (down old) | None \<Rightarrow> None),
                h2, fold cancelAndDrain oldActive cs))))"

definition Shutdown :: "(nat \<Rightarrow> shutdown_error option) \<Rightarrow> Hub \<Rightarrow> conns \<Rightarrow> shutdown_error option \<times> Hub \<times> conns" where
  "Shutdown down h cs =
     (if hb_closed h then (None, h, cs)
      else
        (case takeActiveLocked h of (oldActive, h1) \<Rightarrow>
           (case hb_server h of Some old \<Rightarrow> flattenShutdownErr (down old) | None \<Rightarrow> None,
            h1\<lparr>hb_server := None, hb_replayer := None, hb_closed := True\<rparr>,
            fold cancelAndDrain oldActive cs)))"

definition Hub_ExpireAll :: "Hub \<Rightarrow> int \<times> Hub" where
  "Hub_ExpireAll h =
     (if hb_closed h then (0, h)
      else (case hb_replayer h of
          None \<Rightarrow> (0, h)
        | Some r \<Rightarrow> (case Replayer_ExpireAll r of (n, r') \<Rightarrow> (n, h\<lparr>hb_replayer := Some r'\<rparr>))))"

definition Hub_ExpireBefore :: "string \<Rightarrow> Hub \<Rightarrow> (int \<times> bool) \<times> Hub" where
  "Hub_ExpireBefore cursor h =
     (if hb_closed h then ((0, False), h)
      else (case hb_replayer h of
          None \<Rightarrow> ((0, False), h)
        | Some r \<Rightarrow> (case Replayer_ExpireBefore cursor r of (res, r') \<Rightarrow> (res, h\<lparr>hb_replayer := Some r'\<rparr>))))"

definition ActiveSubscribers :: "Hub \<Rightarrow> int" where
  "ActiveSubscribers h = int (length (hb_active h))"

definition TotalSubscribers :: "Hub \<Rightarrow> int" where
  "TotalSubscribers h = hb_totalSubs h"

text \<open>\<^verbatim>\<open>registerSub\<close>, which returns the key it allocated, and the cleanup function it returns.\<close>

definition registerSub :: "nat \<Rightarrow> Hub \<Rightarrow> nat \<times> Hub" where
  "registerSub a h =
     (hb_nextSub h, h\<lparr>hb_nextSub := hb_nextSub h + 1, hb_totalSubs := hb_totalSubs h + 1,
        hb_active := AList.update (hb_nextSub h) a (hb_active h)\<rparr>)"

definition cleanup :: "nat \<Rightarrow> nat \<Rightarrow> Hub \<Rightarrow> conns \<Rightarrow> Hub \<times> conns" where
  "cleanup sid a h cs = (h\<lparr>hb_active := AList.delete sid (hb_active h)\<rparr>, cancelAndDrain a cs)"

lemmas hub_defs [store_defs] = hub_build_def NewHub_def takeActiveLocked_def Hub_Reset_def Shutdown_def
  registerSub_def cleanup_def ActiveSubscribers_def TotalSubscribers_def

section \<open>The handler of the stream\<close>

definition subscriptionTopics :: "url_values \<Rightarrow> bool \<Rightarrow> string list" where
  "subscriptionTopics q replayAll =
     (let requested = values_all q ''event_type'';
          out = [keepAliveTopic] @ (if replayAll then [replayAllTopic] else [])
      in if length requested = 0 then out @ [broadcastTopic] else out @ requested)"

definition paddingReason :: "string \<Rightarrow> string \<Rightarrow> string" where
  "paddingReason key val =
     (if trim_space val = [] then
        key @ '' was supplied but empty; omit it entirely to mean \"no '' @ key @
          ''\", which is not the same request''
      else if val \<noteq> trim_space val then
        key @ '' is padded with whitespace, so it names a position nothing holds''
      else [])"

text \<open>The validators answer the response they write, or \<^const>\<open>None\<close> when the request is fine.\<close>

definition bad_request :: "string \<Rightarrow> string \<Rightarrow> response" where
  "bad_request message code = WriteMgmt 400 ''Bad Request'' message code"

definition validateLastEventID :: "http_header \<Rightarrow> response option" where
  "validateLastEventID hdr =
     (let vs = header_values hdr ''Last-Event-ID''
      in if length vs > 1 then
           Some (bad_request ''Last-Event-ID was sent more than once; a resume cursor can only name one position''
                   ''invalid_last_event_id'')
         else if length vs = 1 \<and> trim_space (vs ! 0) = [] then
           Some (bad_request ''Last-Event-ID was sent but empty; omit the header to join live'' ''invalid_last_event_id'')
         else None)"

definition validate_cursor_param :: "url_values \<Rightarrow> string \<times> string \<Rightarrow> response option" where
  "validate_cursor_param q = (\<lambda>(key, code).
     let vs = values_all q key
     in if length vs > 1 then
          Some (bad_request (key @ '' was supplied more than once; a resume cursor can only name one position'') ''invalid_query'')
        else if length vs = 1 \<and> paddingReason key (vs ! 0) \<noteq> [] then Some (bad_request (paddingReason key (vs ! 0)) code)
        else None)"

fun validate_types :: "string list \<Rightarrow> response option" where
  "validate_types [] = None"
| "validate_types (typ # ts) =
     (let reason = paddingReason ''event_type'' typ;
          reason' = (if reason = [] \<and> (typ = broadcastTopic \<or> typ = keepAliveTopic \<or> typ = barrierTopic \<or> typ = replayAllTopic)
                     then ''event_type names an internal topic; those carry the unfiltered fan-out and are not event types''
                     else reason)
      in if reason' = [] then validate_types ts else Some (bad_request reason' ''invalid_event_type''))"

definition validateEventTypes :: "url_values \<Rightarrow> response option" where
  "validateEventTypes q = validate_types (values_all q ''event_type'')"

fun replace_first :: "char \<Rightarrow> char \<Rightarrow> string \<Rightarrow> string" where
  "replace_first a b [] = []"
| "replace_first a b (c # cs) = (if c = a then b # cs else c # replace_first a b cs)"

text \<open>\<open>parse\<close> is \<^verbatim>\<open>time.Parse(time.RFC3339, _)\<close>, with the error text on the left.\<close>

definition parseFromTimestamp :: "(string \<Rightarrow> string + time) \<Rightarrow> string \<Rightarrow> string + time" where
  "parseFromTimestamp parse ts = (case parse ts of
      Inr t \<Rightarrow> Inr t
    | Inl err \<Rightarrow> if contains_char ts CHR 0x20 then parse (replace_first CHR 0x20 CHR ''+'' ts) else Inl err)"

definition validateFromTimestamp :: "(string \<Rightarrow> string + time) \<Rightarrow> url_values \<Rightarrow> response option" where
  "validateFromTimestamp parse q =
     (let ts = values_get q ''from_timestamp''
      in if ts = [] then None
         else (case parseFromTimestamp parse ts of
             Inl err \<Rightarrow> Some (bad_request (''from_timestamp must be RFC 3339: '' @ err) ''invalid_from_timestamp'')
           | Inr _ \<Rightarrow> None))"

definition first_some :: "'a option \<Rightarrow> 'a option \<Rightarrow> 'a option" where
  "first_some a b = (case a of Some x \<Rightarrow> Some x | None \<Rightarrow> b)"

definition validateResume :: "(string \<Rightarrow> string + time) \<Rightarrow> http_header \<Rightarrow> url_values \<Rightarrow> response option" where
  "validateResume parse hdr q =
     first_some (validateLastEventID hdr)
      (first_some (validate_cursor_param q (''from'', ''invalid_from''))
        (first_some (validate_cursor_param q (''from_timestamp'', ''invalid_from_timestamp''))
          (first_some (validateEventTypes q) (validateFromTimestamp parse q))))"

definition header_set :: "http_header \<Rightarrow> string \<Rightarrow> string \<Rightarrow> http_header" where
  "header_set hdr k v = AList.update (CanonicalHeaderKey k) [v] hdr"

definition promoteResumeHint :: "(string \<Rightarrow> string + time) \<Rightarrow> http_header \<Rightarrow> url_values \<Rightarrow> recordingReplayer option
    \<Rightarrow> http_header \<times> bool \<times> bool" where
  "promoteResumeHint parse hdr q replayer =
     (if header_get hdr ''Last-Event-ID'' \<noteq> [] then (hdr, False, False)
      else if values_get q ''from'' \<noteq> [] then (header_set hdr ''Last-Event-ID'' (values_get q ''from''), False, False)
      else if values_get q ''from_timestamp'' = [] then (hdr, False, False)
      else
        (let t = (case parseFromTimestamp parse (values_get q ''from_timestamp'') of Inr t \<Rightarrow> t | Inl _ \<Rightarrow> zero_time)
         in case replayer of
              None \<Rightarrow> (hdr, False, False)
            | Some rr \<Rightarrow> (case Replayer_IDBefore t rr of
                  Some i \<Rightarrow> (header_set hdr ''Last-Event-ID'' i, True, False)
                | None \<Rightarrow> (hdr, False, True))))"

text \<open>
  \<^verbatim>\<open>serveHTTP\<close> takes three steps, between which other requests may change the hub: it validates the
  request against the replayer of the moment, it registers the connection, and it reads the server
  to delegate to. The first answers the refusal or the header and topics the delegate will see.
  \<open>deadline\<close> is the error of lifting the write deadline, \<open>q\<close> the parsed query string or the error.
\<close>

definition serve_gate :: "(string \<Rightarrow> string + time) \<Rightarrow> string option \<Rightarrow> string + url_values \<Rightarrow> http_header
    \<Rightarrow> recordingReplayer option \<Rightarrow> response + http_header \<times> string list" where
  "serve_gate parse deadline query hdr replayer = (case deadline of
      Some err \<Rightarrow> Inl (WriteMgmt 500 ''Internal Server Error'' (''sse: set write deadline: '' @ err) ''sse_deadline_failed'')
    | None \<Rightarrow> (case query of
          Inl err \<Rightarrow> Inl (bad_request (''query string could not be parsed: '' @ err) ''invalid_query'')
        | Inr q \<Rightarrow> (case validateResume parse hdr q of
              Some resp \<Rightarrow> Inl resp
            | None \<Rightarrow>
                (case promoteResumeHint parse hdr q replayer of (hdr', synthesised, replayAll) \<Rightarrow>
                  (let i = header_get hdr' ''Last-Event-ID''
                   in if i \<noteq> [] \<and> \<not> synthesised \<and> (case replayer of None \<Rightarrow> True | Some rr \<Rightarrow> \<not> Replayer_Has i rr)
                      then Inl (WriteMgmt 410 ''Gone'' ''requested Last-Event-ID is no longer in the replay buffer'' ''event_aged_out'')
                      else Inr (hdr', subscriptionTopics q replayAll))))))"

definition serve_open :: "nat \<Rightarrow> Hub \<Rightarrow> conns \<Rightarrow> nat \<times> Hub \<times> conns" where
  "serve_open a h cs = (case registerSub a h of (sid, h') \<Rightarrow>
     (sid, h', cs(a := (cs a)\<lparr>cn_writer := dw_Flush (dw_WriteHeader 200 (cn_writer (cs a)))\<rparr>)))"

text \<open>The server that is delegated to, if there is one, after the connect frame is written.\<close>

definition serve_delegate :: "nat \<Rightarrow> Hub \<Rightarrow> conns \<Rightarrow> nat option \<times> conns" where
  "serve_delegate a h cs = (case hb_server h of
      None \<Rightarrow> (None, cs)
    | Some srv \<Rightarrow> (Some srv, cs(a := (cs a)\<lparr>cn_writer := dw_Flush (dw_Write (hb_connectFrame h) (cn_writer (cs a)))\<rparr>)))"

section \<open>The handlers of the admin API\<close>

definition GetEventSubscribersHandler :: "Hub \<Rightarrow> response" where
  "GetEventSubscribersHandler h =
     render_json 200 (JObj [(''active'', JNum (of_int (ActiveSubscribers h))), (''total'', JNum (of_int (TotalSubscribers h)))])"

definition expired_response :: "int \<Rightarrow> response" where
  "expired_response n = render_json 200 (JObj [(''expired'', JNum (of_int n))])"

text \<open>\<open>quote\<close> is \<^verbatim>\<open>strconv.Quote\<close>.\<close>

definition ExpireEventsHandler :: "(string \<Rightarrow> string) \<Rightarrow> string + url_values \<Rightarrow> Hub \<Rightarrow> response \<times> Hub" where
  "ExpireEventsHandler quote query h = (case query of
      Inl err \<Rightarrow> (bad_request (''query string could not be parsed: '' @ err) ''invalid_query'', h)
    | Inr q \<Rightarrow>
        (let unknown = filter (\<lambda>key. key \<noteq> ''before'') (sort (map fst q))
         in if length unknown > 0 then
              (bad_request (''unknown query parameter(s) '' @ str_join '', '' (map quote unknown)
                 @ ''; only \"before\" is accepted'') ''invalid_query'', h)
            else if length (values_all q ''before'') > 1 then
              (bad_request ''before must be given at most once'' ''invalid_query'', h)
            else if map_of q ''before'' = None then
              (case Hub_ExpireAll h of (n, h') \<Rightarrow> (expired_response n, h'))
            else
              (let before = values_get q ''before''
               in if trim_space before = [] then
                    (bad_request ''before must not be empty; omit the parameter to expire the whole buffer'' ''invalid_before'', h)
                  else if before \<noteq> trim_space before then
                    (bad_request ''before is padded with whitespace, so it names a cursor nothing holds'' ''invalid_before'', h)
                  else (case Hub_ExpireBefore before h of ((dropped, found), h') \<Rightarrow>
                    if \<not> found then
                      (WriteMgmt 404 ''Not Found'' (''before is not a cursor in the replay buffer: '' @ quote before) ''cursor_not_found'', h')
                    else (expired_response dropped, h')))))"

text \<open>
  The push endpoint. The JSON checker, the specification's resolver and payload validator and the
  decoder of the envelope (its type and offset) are arguments.
\<close>

record event_lib =
  el_valid :: "string \<Rightarrow> bool"
  el_resolve :: "string \<Rightarrow> string \<Rightarrow> string option"
  el_validate :: "string \<Rightarrow> string option"
  el_envelope :: "string \<Rightarrow> string + string \<times> string"
  el_error_text :: "hub_error \<Rightarrow> string"

definition PostEventsHandler :: "event_lib \<Rightarrow> (message \<Rightarrow> string list \<Rightarrow> string option) \<Rightarrow> nat \<Rightarrow> nat \<Rightarrow> string \<times> string option
    \<Rightarrow> Hub \<Rightarrow> conns \<Rightarrow> response \<times> (message \<times> string list) list \<times> conns" where
  "PostEventsHandler L srv ptr bptr input h cs = (case input of
      (_, Some err) \<Rightarrow> (bad_request (''read body: '' @ err) ''invalid_body'', [], cs)
    | (body, None) \<Rightarrow>
        if \<not> el_valid L body then (bad_request ''body is not valid JSON'' ''invalid_body'', [], cs)
        else (case el_resolve L ''GET'' ''/api/v2/events'' of
            Some err \<Rightarrow> (WriteMgmt 500 ''Internal Server Error'' (''resolve /events: '' @ err) ''spec_resolve_failed'', [], cs)
          | None \<Rightarrow> (case el_validate L body of
                Some err \<Rightarrow> (bad_request err ''invalid_event'', [], cs)
              | None \<Rightarrow> (case el_envelope L body of
                    Inl err \<Rightarrow> (bad_request (''decode envelope: '' @ err) ''invalid_event_envelope'', [], cs)
                  | Inr (typ, offset) \<Rightarrow>
                      (case Publish srv ptr bptr \<lparr>ev_Type = typ, ev_ID = offset, ev_Payload = body\<rparr> h cs of
                         (Some err, calls, cs') \<Rightarrow>
                           (WriteMgmt 500 ''Internal Server Error'' (''publish: '' @ el_error_text L err) ''publish_failed'', calls, cs')
                       | (None, calls, cs') \<Rightarrow>
                           (\<lparr>rs_status = 202, rs_headers = [(''Content-Type'', [''application/json''])],
                             rs_body = JsonBody (JObj [(''id'', JStr offset)])\<rparr>, calls, cs'))))))"

section \<open>Filtering\<close>

lemma validate_types_None:
  "validate_types ts = None \<Longrightarrow> t \<in> set ts \<Longrightarrow>
     t \<noteq> [] \<and> t \<notin> {broadcastTopic, keepAliveTopic, barrierTopic, replayAllTopic}"
proof (induction ts)
  case (Cons a ts)
  have "a \<noteq> [] \<and> a \<notin> {broadcastTopic, keepAliveTopic, barrierTopic, replayAllTopic}"
    using Cons.prems(1) by (auto simp: Let_def paddingReason_def split: if_splits)
  moreover have "validate_types ts = None" using Cons.prems(1) by (auto simp: Let_def split: if_splits)
  ultimately show ?case using Cons by auto
qed simp

lemma topic_names_differ:
  "distinct [broadcastTopic, keepAliveTopic, barrierTopic, replayAllTopic, errorEventType, offsetOnlyEventType, []]"
  by (simp add: topic_defs)

text \<open>
  C12. Filtering is exact. For a subscription whose \<^verbatim>\<open>event_type\<close> values the handler accepted, an
  event the hub publishes (of a type that is not an internal topic name) is delivered, that is, its
  topics meet the subscription's, exactly when it is a control event or the subscription names no
  type or names the event's type; and the internal barrier message is delivered to nobody.
\<close>
theorem fan_out_exact:
  assumes valid: "validateEventTypes q = None"
    and notint: "ev_Type evt \<notin> {broadcastTopic, keepAliveTopic, barrierTopic, replayAllTopic}"
    and pub: "Publish srv ptr bptr evt h cs = (err, calls, cs')" and up: "\<not> hb_closed h" "hb_server h \<noteq> None"
  shows "calls \<noteq> [] \<and> fst (hd calls) = event_message ptr evt \<and>
    (topicsIntersect (subscriptionTopics q replayAll) (snd (hd calls)) \<longleftrightarrow>
      ev_Type evt \<in> {errorEventType, offsetOnlyEventType} \<or> values_all q ''event_type'' = []
      \<or> ev_Type evt \<in> set (values_all q ''event_type''))
    \<and> list_all (\<lambda>(m, ts). \<not> topicsIntersect (subscriptionTopics q replayAll) ts) (tl calls)"
proof -
  let ?types = "values_all q ''event_type''"
  have types: "t \<noteq> [] \<and> t \<notin> {broadcastTopic, keepAliveTopic, barrierTopic, replayAllTopic}" if "t \<in> set ?types" for t
    using validate_types_None[of ?types] valid that by (simp add: validateEventTypes_def)
  note no = types[of broadcastTopic] types[of keepAliveTopic] types[of barrierTopic] types[of replayAllTopic] types[of "[]"]
  have subs: "set (subscriptionTopics q replayAll) = {keepAliveTopic} \<union> (if replayAll then {replayAllTopic} else {})
      \<union> (if ?types = [] then {broadcastTopic} else set ?types)"
    by (auto simp: subscriptionTopics_def Let_def)
  consider (err) "ev_Type evt = errorEventType" | (off) "ev_Type evt = offsetOnlyEventType"
    | (plain) "ev_Type evt \<notin> {errorEventType, offsetOnlyEventType}" by blast
  then show ?thesis
  proof cases
    case err
    with pub up have "calls = [(event_message ptr evt, [keepAliveTopic])] \<or>
        (\<exists>m. calls = [(event_message ptr evt, [keepAliveTopic]), (m, [barrierTopic])])"
      by (auto simp: Publish_def publishError_def Let_def split: option.splits)
    with err no topic_names_differ show ?thesis by (auto simp: topicsIntersect_iff subs)
  next
    case off
    with pub up topic_names_differ have "calls = [(event_message ptr evt, [keepAliveTopic])]"
      by (auto simp: Publish_def Let_def)
    with off show ?thesis by (simp add: topicsIntersect_iff subs)
  next
    case plain
    with pub up have "calls = [(event_message ptr evt, if ev_Type evt = [] then [broadcastTopic] else [broadcastTopic, ev_Type evt])]"
      by (auto simp: Publish_def Let_def)
    with plain no notint topic_names_differ show ?thesis by (auto simp: topicsIntersect_iff subs)
  qed
qed

definition demo_query :: url_values where
  "demo_query = [(''event_type'', [''user.created''])]"

definition demo_hub :: Hub where
  "demo_hub = projr (NewHub 2 None)"

lemma demo_hub_up: "\<not> hb_closed demo_hub" "hb_server demo_hub = Some 0" "hb_bufferSize demo_hub = 2"
  "hb_replayer demo_hub = Some \<lparr>rr_idx = newRingIndex 2\<rparr>" "hb_active demo_hub = []" "hb_nextSub demo_hub = 0"
  by (simp_all add: demo_hub_def NewHub_def hub_build_def newRecordingReplayer_def)

theorem fan_out_exact_witness:
  "topicsIntersect (subscriptionTopics demo_query False)
     (snd (hd (fst (snd (Publish (\<lambda>_ _. None) 0 1 \<lparr>ev_Type = ''user.created'', ev_ID = ''7'', ev_Payload = ''{}''\<rparr> demo_hub
        (\<lambda>_. undefined))))))"
proof -
  let ?p = "Publish (\<lambda>_ _. None) 0 1 \<lparr>ev_Type = ''user.created'', ev_ID = ''7'', ev_Payload = ''{}''\<rparr> demo_hub (\<lambda>_. undefined)"
  have valid: "validateEventTypes demo_query = None"
    by (simp add: validateEventTypes_def demo_query_def values_all_def paddingReason_def trim_space_def is_space_def topic_defs)
  obtain err calls cs' where p: "?p = (err, calls, cs')" by (cases ?p)
  from fan_out_exact[OF valid _ p, of False] demo_hub_up p show ?thesis
    by (simp add: topic_defs demo_query_def values_all_def)
qed

section \<open>Resuming through the handler\<close>

lemma header_get_set [simp]: "header_get (header_set hdr k v) k = v"
  by (simp add: header_get_def header_set_def values_get_def update_conv')

lemma validateResume_types: "validateResume parse hdr q = None \<Longrightarrow> validate_types (values_all q ''event_type'') = None"
  by (auto simp: validateResume_def first_some_def validateEventTypes_def split: option.splits)

lemma replay_all_topic:
  assumes "validate_types (values_all q ''event_type'') = None"
  shows "replayAllTopic \<in> set (subscriptionTopics q replayAll) \<longleftrightarrow> replayAll"
  using validate_types_None[OF assms, of replayAllTopic] topic_names_differ
  by (auto simp: subscriptionTopics_def Let_def)

lemma replay_quiet:
  "sn_written (Replay (\<lambda>_. rr_idx rr) \<lparr>sb_LastEventID = cursor, sb_Topics = topics, sb_send = \<lambda>_. None, sb_flush = None\<rparr> rr) =
    (case cursor of Some i \<Rightarrow> (case after i topics (rr_idx rr) of None \<Rightarrow> [] | Some ms \<Rightarrow> ms)
     | None \<Rightarrow> if replayAllTopic \<in> set topics then all topics (rr_idx rr) else [])"
proof -
  let ?sub = "\<lparr>sb_LastEventID = cursor, sb_Topics = topics, sb_send = \<lambda>_. None, sb_flush = None\<rparr>"
  have held: "hasMsg m (rr_idx rr)" if "after i topics (rr_idx rr) = Some ms" "m \<in> set ms" for i ms m
  proof (rule collect_held)
    show "set (drop (nat (firstIndex i (rr_idx rr)) + 1) (ri_entries (rr_idx rr))) \<subseteq> set (ri_entries (rr_idx rr))"
      by (rule set_drop_subset)
    show "m \<in> set (collect (drop (nat (firstIndex i (rr_idx rr)) + 1) (ri_entries (rr_idx rr))) topics)"
      using that by (auto simp: after_def Let_def split: if_splits)
  qed
  have "send_loop (\<lambda>_. rr_idx rr) ?sub 0 0 ms = (ms, None)" if "after i topics (rr_idx rr) = Some ms" for i ms
    using held[OF that] by (intro send_all_held) simp_all
  moreover have "send_loop (\<lambda>_. rr_idx rr) ?sub 0 0 (all topics (rr_idx rr)) = (all topics (rr_idx rr), None)"
    using collect_held[OF subset_refl] by (intro send_all_held) (auto simp: all_def)
  ultimately show ?thesis
    by (auto simp: Replay_def sn_written_send split: option.splits)
qed

text \<open>The position a request names itself: the header, or else \<^verbatim>\<open>?from\<close>.\<close>

definition named_cursor :: "http_header \<Rightarrow> url_values \<Rightarrow> string" where
  "named_cursor hdr q =
     (if header_get hdr ''Last-Event-ID'' \<noteq> [] then header_get hdr ''Last-Event-ID'' else values_get q ''from'')"

text \<open>
  The resume gate. A well-formed request is refused exactly when it names a cursor that is not
  buffered, and then with 410. Otherwise it is accepted, and the replay of the subscription the
  handler sets up sends, while the buffer is quiet, exactly the events after the cursor it named;
  or else, if it asked for a timestamp, the events \<open>from_timestamp\<close> selects; or else nothing.
\<close>
theorem resume_gate:
  fixes parse :: "string \<Rightarrow> string + time" and hdr :: http_header and q :: url_values and rr :: recordingReplayer
  defines "named \<equiv> named_cursor hdr q"
  assumes valid: "validateResume parse hdr q = None"
    and ids: "[] \<notin> ie_id ` set (ri_entries (rr_idx rr))"
  shows "case serve_gate parse None (Inr q) hdr (Some rr) of
      Inl resp \<Rightarrow> rs_status resp = 410 \<and> named \<noteq> [] \<and> \<not> has named (rr_idx rr)
    | Inr (hdr', topics) \<Rightarrow> (named = [] \<or> has named (rr_idx rr)) \<and>
        (let cursor = header_get hdr' ''Last-Event-ID'';
             sub = \<lparr>sb_LastEventID = if cursor = [] then None else Some cursor, sb_Topics = topics,
                    sb_send = \<lambda>_. None, sb_flush = None\<rparr>
         in sn_written (Replay (\<lambda>_. rr_idx rr) sub rr) =
            (if named \<noteq> [] then (case after named topics (rr_idx rr) of None \<Rightarrow> [] | Some ms \<Rightarrow> ms)
             else if values_get q ''from_timestamp'' \<noteq> []
             then from_timestamp (projr (parseFromTimestamp parse (values_get q ''from_timestamp''))) topics (rr_idx rr)
             else []))"
proof -
  note all_topic = replay_all_topic[OF validateResume_types[OF valid]]
  let ?ts = "values_get q ''from_timestamp''"
  consider (hdr) "header_get hdr ''Last-Event-ID'' \<noteq> []"
    | (from_) "header_get hdr ''Last-Event-ID'' = []" "values_get q ''from'' \<noteq> []"
    | (live) "header_get hdr ''Last-Event-ID'' = []" "values_get q ''from'' = []" "?ts = []"
    | (time) "header_get hdr ''Last-Event-ID'' = []" "values_get q ''from'' = []" "?ts \<noteq> []" by blast
  then show ?thesis
  proof cases
    case hdr
    then show ?thesis using valid
      by (simp add: serve_gate_def promoteResumeHint_def Let_def named_def named_cursor_def Replayer_Has_def replay_quiet)
  next
    case from_
    then show ?thesis using valid
      by (simp add: serve_gate_def promoteResumeHint_def Let_def named_def named_cursor_def Replayer_Has_def replay_quiet)
  next
    case live
    then show ?thesis using valid
      by (simp add: serve_gate_def promoteResumeHint_def Let_def named_def named_cursor_def replay_quiet all_topic)
  next
    case time
    then obtain t where t: "parseFromTimestamp parse ?ts = Inr t"
      using valid by (auto simp: validateResume_def first_some_def validateFromTimestamp_def Let_def split: option.splits sum.splits)
    show ?thesis
    proof (cases "idBefore t (rr_idx rr)")
      case None
      then show ?thesis using valid time t
        by (simp add: serve_gate_def promoteResumeHint_def Let_def named_def named_cursor_def replay_quiet all_topic
            Replayer_IDBefore_def from_timestamp_def)
    next
      case (Some i)
      with id_before_Some[of t "[]" None "ri_entries (rr_idx rr)" i] have "i \<in> ie_id ` set (ri_entries (rr_idx rr))"
        by (auto simp: idBefore_def)
      with ids have "i \<noteq> []" by metis
      with Some show ?thesis using valid time t
        by (simp add: serve_gate_def promoteResumeHint_def Let_def named_def named_cursor_def replay_quiet
            Replayer_IDBefore_def from_timestamp_def)
    qed
  qed
qed

theorem resume_gate_witness:
  "\<exists>resp. serve_gate (\<lambda>_. Inl []) None (Inr [(''from'', [''9''])]) [] (Some \<lparr>rr_idx = demo_ring\<rparr>) = Inl resp \<and> rs_status resp = 410"
proof -
  let ?q = "[(''from'', [''9''])] :: url_values"
  have "validateResume (\<lambda>_. Inl []) [] ?q = None"
    by (simp add: validateResume_def first_some_def validateLastEventID_def header_values_def values_all_def
        validate_cursor_param_def paddingReason_def trim_space_def is_space_def validateEventTypes_def
        validateFromTimestamp_def values_get_def)
  moreover have "[] \<notin> ie_id ` set (ri_entries (rr_idx \<lparr>rr_idx = demo_ring\<rparr>))"
    by (simp add: demo_ring_def demo_ops_def)
  moreover have "named_cursor [] ?q = ''9''" by (simp add: named_cursor_def header_get_def values_get_def)
  moreover have "\<not> has ''9'' demo_ring" by (simp add: has_iff demo_ring_def demo_ops_def)
  ultimately show ?thesis using resume_gate[of "\<lambda>_. Inl []" "[]" ?q "\<lparr>rr_idx = demo_ring\<rparr>"]
    by (auto split: sum.splits)
qed

text \<open>
  Expiring through the admin endpoint never removes more than was asked for: a request with any
  query parameter either changes nothing and is refused (400 or 404), or names a buffered cursor and
  drops exactly the events before it, reporting their number; only a request without parameters
  empties the buffer.
\<close>
theorem expire_handler_scope:
  fixes q :: url_values and h :: Hub
  assumes rep: "\<not> hb_closed h" "hb_replayer h = Some rr"
  shows "case ExpireEventsHandler quote (Inr q) h of (resp, h') \<Rightarrow>
    (let es = ri_entries (rr_idx rr); c = values_get q ''before'';
         h_with = (\<lambda>es'. h\<lparr>hb_replayer := Some (rr\<lparr>rr_idx := (rr_idx rr)\<lparr>ri_entries := es'\<rparr>\<rparr>)\<rparr>)
     in if q = [] then resp = expired_response (int (length es)) \<and> h' = h_with []
        else (h' = h \<and> rs_status resp \<in> {400, 404}) \<or>
             (c \<in> ie_id ` set es \<and> resp = expired_response (int (length (takeWhile (\<lambda>e. ie_id e \<noteq> c) es)))
              \<and> h' = h_with (dropWhile (\<lambda>e. ie_id e \<noteq> c) es)))"
proof (cases "q = []")
  case True
  then show ?thesis using rep
    by (simp add: ExpireEventsHandler_def values_all_def Hub_ExpireAll_def Replayer_ExpireAll_def expireAll_eq)
next
  case False
  show ?thesis
  proof (cases "filter (\<lambda>key. key \<noteq> ''before'') (sort (map fst q)) = []")
    case unk: True
    have "fst (hd q) = ''before''" using unk False by (cases q) (auto simp: filter_empty_conv set_insort_key)
    then have "map_of q ''before'' \<noteq> None" using False by (cases q) auto
    with unk False rep show ?thesis
      by (auto simp: ExpireEventsHandler_def Let_def bad_request_def Hub_ExpireBefore_def Replayer_ExpireBefore_def
          expireBefore_eq split: prod.splits)
  next
    case unk: False
    with False show ?thesis by (auto simp: ExpireEventsHandler_def Let_def bad_request_def)
  qed
qed

theorem expire_handler_scope_witness:
  "snd (ExpireEventsHandler (\<lambda>s. s) (Inr [(''befor'', [''1''])]) demo_hub) = demo_hub"
proof -
  obtain resp h' where r: "ExpireEventsHandler (\<lambda>s. s) (Inr [(''befor'', [''1''])]) demo_hub = (resp, h')"
    by (cases "ExpireEventsHandler (\<lambda>s. s) (Inr [(''befor'', [''1''])]) demo_hub")
  show ?thesis
    using expire_handler_scope[OF demo_hub_up(1,4), where quote = "\<lambda>s. s" and q = "[(''befor'', [''1''])]"] r
    by (simp add: newRingIndex_def values_get_def Let_def)
qed

section \<open>The drained writer\<close>

lemma dw_call_drained: "dw_drained d \<Longrightarrow> dw_call c d = d"
  by (cases c) (simp_all add: dw_WriteHeader_def dw_Write_def dw_Flush_def)

definition header_calls :: "drainableWriter \<Rightarrow> nat" where
  "header_calls d = length (filter (\<lambda>c. case c of WriteHeader _ \<Rightarrow> True | _ \<Rightarrow> False) (dw_out d))"

lemma dw_call_header:
  assumes "header_calls d = (if dw_headerWritten d then 1 else 0)"
  shows "header_calls (dw_call c d) = (if dw_headerWritten (dw_call c d) then 1 else 0)"
  using assms by (cases c) (auto simp: dw_WriteHeader_def dw_Write_def dw_Flush_def header_calls_def)

text \<open>
  The writer a subscriber's response goes through passes at most one status line on, whatever is
  called on it, and once drained passes nothing on: a cancelled stream never receives the library's
  late error text.
\<close>
theorem drained_writer_silent:
  "header_calls (fold dw_call calls \<lparr>dw_out = [], dw_drained = False, dw_headerWritten = False\<rparr>) \<le> 1
   \<and> fold dw_call calls (markDrained d) = markDrained d"
proof -
  have "header_calls (fold dw_call calls d) = (if dw_headerWritten (fold dw_call calls d) then 1 else 0)"
    if "header_calls d = (if dw_headerWritten d then 1 else 0)" for d
    using that dw_call_header by (induction calls arbitrary: d) auto
  from this[of "\<lparr>dw_out = [], dw_drained = False, dw_headerWritten = False\<rparr>"]
  have "header_calls (fold dw_call calls \<lparr>dw_out = [], dw_drained = False, dw_headerWritten = False\<rparr>) \<le> 1"
    by (simp add: header_calls_def)
  moreover have "fold dw_call calls (markDrained d) = markDrained d"
    by (induction calls) (simp_all add: dw_call_drained markDrained_def)
  ultimately show ?thesis by simp
qed

section \<open>The life of subscriptions\<close>

text \<open>
  The hub with its connections and the registrations whose cleanup has not run yet, each a key and
  the address of a connection. A step is a request that connects, one that returns and runs its
  cleanup, a published error, a reset or a shutdown.
\<close>

record world =
  wd_hub :: Hub
  wd_conns :: conns
  wd_open :: "(nat \<times> nat) list"

definition fresh_conn :: conn where
  "fresh_conn = \<lparr>cn_writer = \<lparr>dw_out = [], dw_drained = False, dw_headerWritten = False\<rparr>, cn_cancelled = False\<rparr>"

inductive world_step :: "world \<Rightarrow> world \<Rightarrow> bool" where
  connect: "a \<notin> snd ` set (wd_open w) \<Longrightarrow>
    serve_open a (wd_hub w) ((wd_conns w)(a := fresh_conn)) = (sid, h, cs) \<Longrightarrow>
    world_step w \<lparr>wd_hub = h, wd_conns = cs, wd_open = (sid, a) # wd_open w\<rparr>"
| delegate: "a \<in> snd ` set (wd_open w) \<Longrightarrow> serve_delegate a (wd_hub w) (wd_conns w) = (srv, cs) \<Longrightarrow>
    world_step w (w\<lparr>wd_conns := cs\<rparr>)"
| disconnect: "(sid, a) \<in> set (wd_open w) \<Longrightarrow> cleanup sid a (wd_hub w) (wd_conns w) = (h, cs) \<Longrightarrow>
    world_step w \<lparr>wd_hub = h, wd_conns = cs, wd_open = filter (\<lambda>p. p \<noteq> (sid, a)) (wd_open w)\<rparr>"
| publish: "Publish srv ptr bptr evt (wd_hub w) (wd_conns w) = (err, calls, cs) \<Longrightarrow> world_step w (w\<lparr>wd_conns := cs\<rparr>)"
| reset: "Hub_Reset down (wd_hub w) (wd_conns w) = (res, h, cs) \<Longrightarrow> world_step w (w\<lparr>wd_hub := h, wd_conns := cs\<rparr>)"
| shutdown: "Shutdown down (wd_hub w) (wd_conns w) = (res', h, cs) \<Longrightarrow> world_step w (w\<lparr>wd_hub := h, wd_conns := cs\<rparr>)"

inductive world_reachable :: "world \<Rightarrow> bool" where
  world_init: "NewHub n hint = Inr h \<Longrightarrow> world_reachable \<lparr>wd_hub = h, wd_conns = cs, wd_open = []\<rparr>"
| world_next: "world_reachable w \<Longrightarrow> world_step w w' \<Longrightarrow> world_reachable w'"

definition cancelled :: "conns \<Rightarrow> nat \<Rightarrow> bool" where
  "cancelled cs a \<longleftrightarrow> cn_cancelled (cs a) \<and> dw_drained (cn_writer (cs a))"

definition world_inv :: "world \<Rightarrow> bool" where
  "world_inv w \<longleftrightarrow> distinct (map fst (wd_open w)) \<and> distinct (map snd (wd_open w))
     \<and> (\<forall>(sid, a) \<in> set (wd_open w). sid < hb_nextSub (wd_hub w))
     \<and> wf_map (hb_active (wd_hub w)) \<and> set (hb_active (wd_hub w)) \<subseteq> set (wd_open w)
     \<and> (\<forall>(sid, a) \<in> set (wd_open w). (sid, a) \<in> set (hb_active (wd_hub w)) \<or> cancelled (wd_conns w) a)"

lemma dw_drained_kept: "dw_drained (dw_Flush d) = dw_drained d" "dw_drained (dw_Write b d) = dw_drained d"
  by (simp_all add: dw_Flush_def dw_Write_def)

lemma cancelled_cancelAndDrain: "cancelled (cancelAndDrain a cs) b \<longleftrightarrow> b = a \<or> cancelled cs b"
  by (auto simp: cancelled_def cancelAndDrain_def markDrained_def)

lemma cancelled_fold: "cancelled (fold cancelAndDrain as cs) b \<longleftrightarrow> b \<in> set as \<or> cancelled cs b"
  by (induction as arbitrary: cs) (auto simp: cancelled_cancelAndDrain)

lemma hub_build_ok: "\<exists>h'. hub_build h = Inr h' \<and> hb_active h' = hb_active h \<and> hb_nextSub h' = hb_nextSub h
    \<and> hb_closed h' = hb_closed h \<and> hb_server h' = Some (hb_allocated h) \<and> hb_totalSubs h' = hb_totalSubs h
    \<and> hb_bufferSize h' = hb_bufferSize h
    \<and> hb_replayer h' = (if hb_bufferSize h > 0 then Some \<lparr>rr_idx = newRingIndex (hb_bufferSize h)\<rparr> else None)"
  by (auto simp: hub_build_def newRecordingReplayer_def)

lemma Publish_conns:
  assumes "Publish srv ptr bptr evt h cs = (err, calls, cs')"
  shows "cancelled cs a \<Longrightarrow> cancelled cs' a"
  using assms by (auto simp: Publish_def publishError_def Let_def closeActiveSubscribers_def cancelled_fold
      split: if_splits option.splits)

lemma Hub_Reset_open:
  assumes "Hub_Reset down h cs = (res, h', cs')" "\<not> hb_closed h"
  shows "hb_active h' = [] \<and> hb_nextSub h' = hb_nextSub h \<and> hb_totalSubs h' = 0 \<and> hb_server h' = Some (hb_allocated h)
    \<and> \<not> hb_closed h' \<and> (\<exists>e. res = Inr e)
    \<and> hb_replayer h' = (if hb_bufferSize h > 0 then Some \<lparr>rr_idx = newRingIndex (hb_bufferSize h)\<rparr> else None)
    \<and> cs' = fold cancelAndDrain (map snd (hb_active h)) cs"
proof -
  let ?h1 = "h\<lparr>hb_active := [], hb_totalSubs := 0\<rparr>"
  obtain h2 where h2: "hub_build ?h1 = Inr h2" "hb_active h2 = []" "hb_nextSub h2 = hb_nextSub h" "hb_closed h2 = hb_closed h"
    "hb_server h2 = Some (hb_allocated h)" "hb_totalSubs h2 = 0"
    "hb_replayer h2 = (if hb_bufferSize h > 0 then Some \<lparr>rr_idx = newRingIndex (hb_bufferSize h)\<rparr> else None)"
    using hub_build_ok[of ?h1] by auto
  with assms show ?thesis by (auto simp: Hub_Reset_def takeActiveLocked_def)
qed

lemma Shutdown_open:
  assumes "Shutdown down h cs = (res, h', cs')" "\<not> hb_closed h"
  shows "hb_active h' = [] \<and> hb_nextSub h' = hb_nextSub h \<and> cs' = fold cancelAndDrain (map snd (hb_active h)) cs"
  using assms by (auto simp: Shutdown_def takeActiveLocked_def)

text \<open>Taking every active subscription and cancelling it keeps the invariant.\<close>

lemma world_inv_drain:
  assumes "world_inv w" "hb_active h = []" "hb_nextSub h = hb_nextSub (wd_hub w)"
  shows "world_inv (w\<lparr>wd_hub := h, wd_conns := fold cancelAndDrain (map snd (hb_active (wd_hub w))) (wd_conns w)\<rparr>)"
proof -
  have "cancelled (fold cancelAndDrain (map snd (hb_active (wd_hub w))) (wd_conns w)) a" if "(sid, a) \<in> set (wd_open w)" for sid a
  proof -
    have "(sid, a) \<in> set (hb_active (wd_hub w)) \<or> cancelled (wd_conns w) a"
      using assms(1) that unfolding world_inv_def by blast
    moreover have "(sid, a) \<in> set (hb_active (wd_hub w)) \<Longrightarrow> a \<in> set (map snd (hb_active (wd_hub w)))"
      by (simp add: image_iff bexI[of _ "(sid, a)"])
    ultimately show ?thesis unfolding cancelled_fold by blast
  qed
  with assms show ?thesis by (auto simp: world_inv_def)
qed

text \<open>What a registration adds to the active set and what its cleanup removes.\<close>

lemma alist_update_new: "k \<notin> fst ` set m \<Longrightarrow> AList.update k v m = m @ [(k, v)]"
  by (induction m) auto

lemma alist_delete_only: "(\<And>b. (k, b) \<in> set m \<Longrightarrow> b = a) \<Longrightarrow> set (AList.delete k m) = set m - {(k, a)}"
  by (auto simp: AList.delete_eq)

lemma world_inv_key:
  assumes "world_inv w" "(sid, a) \<in> set (wd_open w)" "(sid, b) \<in> set (hb_active (wd_hub w))"
  shows "b = a"
proof -
  have "(sid, b) \<in> set (wd_open w)" "distinct (map fst (wd_open w))" using assms unfolding world_inv_def by blast+
  with assms(2) show ?thesis by (metis map_of_eq_Some_iff option.inject)
qed

text \<open>Registration and cleanup are the steps that change one entry of the active set.\<close>

lemma world_inv_connect:
  assumes inv: "world_inv w" and free: "a \<notin> snd ` set (wd_open w)"
    and reg: "serve_open a (wd_hub w) ((wd_conns w)(a := fresh_conn)) = (sid, h, cs)"
  shows "world_inv \<lparr>wd_hub = h, wd_conns = cs, wd_open = (sid, a) # wd_open w\<rparr>"
proof -
  let ?hub = "wd_hub w"
  from reg have eq: "sid = hb_nextSub ?hub" "hb_nextSub h = hb_nextSub ?hub + 1"
    "hb_active h = AList.update (hb_nextSub ?hub) a (hb_active ?hub)"
    "\<And>b. b \<noteq> a \<Longrightarrow> cs b = wd_conns w b"
    by (auto simp: serve_open_def registerSub_def)
  have new: "hb_nextSub ?hub \<notin> fst ` set (wd_open w)" using inv by (auto simp: world_inv_def)
  then have "hb_nextSub ?hub \<notin> fst ` set (hb_active ?hub)" using inv by (auto simp: world_inv_def)
  then have act: "set (hb_active h) = insert (sid, a) (set (hb_active ?hub))" "wf_map (hb_active h)"
    using inv eq by (simp_all add: world_inv_def alist_update_new)
  have keep: "cancelled cs b = cancelled (wd_conns w) b" if "(s, b) \<in> set (wd_open w)" for s b
    using eq(4)[of b] free that by (force simp: cancelled_def)
  show ?thesis using free inv new act eq(1,2) keep by (auto simp: world_inv_def less_SucI)
qed

lemma world_inv_disconnect:
  assumes inv: "world_inv w" and reg: "(sid, a) \<in> set (wd_open w)"
    and clean: "cleanup sid a (wd_hub w) (wd_conns w) = (h, cs)"
  shows "world_inv \<lparr>wd_hub = h, wd_conns = cs, wd_open = filter (\<lambda>p. p \<noteq> (sid, a)) (wd_open w)\<rparr>"
proof -
  from clean have eq: "h = (wd_hub w)\<lparr>hb_active := AList.delete sid (hb_active (wd_hub w))\<rparr>" "cs = cancelAndDrain a (wd_conns w)"
    by (auto simp: cleanup_def)
  have active: "set (AList.delete sid (hb_active (wd_hub w))) = set (hb_active (wd_hub w)) - {(sid, a)}"
    using world_inv_key[OF inv reg] by (rule alist_delete_only)
  show ?thesis using inv active reg unfolding eq
    by (auto simp: world_inv_def cancelled_cancelAndDrain distinct_map_filter AList.distinct_delete)
qed

lemma world_inv_step: "world_step w w' \<Longrightarrow> world_inv w \<Longrightarrow> world_inv w'"
proof (induction rule: world_step.induct)
  case (connect a w sid h cs)
  from connect(3,1,2) show ?case by (rule world_inv_connect)
next
  case (delegate a w srv cs)
  have "cancelled cs b = cancelled (wd_conns w) b" for b
    using delegate(2) by (auto simp: serve_delegate_def cancelled_def dw_drained_kept split: option.splits if_splits)
  with delegate(3) show ?case by (auto simp: world_inv_def)
next
  case (disconnect sid a w h cs)
  from disconnect(3,1,2) show ?case by (rule world_inv_disconnect)
next
  case (publish srv ptr bptr evt w err calls cs)
  then show ?case using Publish_conns[OF publish(1)] by (fastforce simp: world_inv_def)
next
  case (reset down w res h cs)
  then show ?case
    using Hub_Reset_open[OF reset(1)] world_inv_drain[OF reset(2)]
    by (cases "hb_closed (wd_hub w)") (auto simp: Hub_Reset_def)
next
  case (shutdown down w res h cs)
  then show ?case
    using Shutdown_open[OF shutdown(1)] world_inv_drain[OF shutdown(2)]
    by (cases "hb_closed (wd_hub w)") (auto simp: Shutdown_def)
qed

lemma world_reachable_inv: "world_reachable w \<Longrightarrow> world_inv w"
proof (induction rule: world_reachable.induct)
  case (world_init n hint h cs)
  then show ?case by (auto simp: NewHub_def hub_build_def world_inv_def split: if_splits sum.splits)
qed (rule world_inv_step)

text \<open>
  C35. In every reachable state of the hub, whatever connects, returns, is published, reset or shut
  down: the active set holds live registrations only, each under its own key, and a registration
  that is no longer active has been cancelled and its writer drained. The cleanup of a registration
  removes that registration from the active set and no other, even when a reset came in between,
  and touches no other connection.
\<close>
theorem subscribers_isolated:
  assumes reach: "world_reachable w" and open_reg: "(sid, a) \<in> set (wd_open w)"
    and clean: "cleanup sid a (wd_hub w) (wd_conns w) = (h, cs)"
  shows "set (hb_active (wd_hub w)) \<subseteq> set (wd_open w) \<and>
    (\<forall>(sid', a') \<in> set (wd_open w). (sid', a') \<in> set (hb_active (wd_hub w)) \<or> cancelled (wd_conns w) a') \<and>
    set (hb_active h) = set (hb_active (wd_hub w)) - {(sid, a)} \<and> (\<forall>b. b \<noteq> a \<longrightarrow> cs b = wd_conns w b)"
proof -
  have inv: "world_inv w" using reach by (rule world_reachable_inv)
  have "set (AList.delete sid (hb_active (wd_hub w))) = set (hb_active (wd_hub w)) - {(sid, a)}"
    using world_inv_key[OF inv open_reg] by (rule alist_delete_only)
  with inv clean show ?thesis by (auto simp: world_inv_def cleanup_def cancelAndDrain_def)
qed

text \<open>
  A reset of an open hub always succeeds in rebuilding: it starts a new server with an empty
  replay buffer and zero counters, and every registration that was open is cancelled and drained,
  so that no stream outlives the reset.
\<close>
theorem reset_drains:
  assumes reach: "world_reachable w" and up: "\<not> hb_closed (wd_hub w)"
    and res: "Hub_Reset down (wd_hub w) (wd_conns w) = (res, h, cs)"
  shows "(\<exists>e. res = Inr e) \<and> \<not> hb_closed h \<and> hb_server h = Some (hb_allocated (wd_hub w)) \<and> ActiveSubscribers h = 0
    \<and> TotalSubscribers h = 0
    \<and> (\<forall>rr. hb_replayer h = Some rr \<longrightarrow> ri_entries (rr_idx rr) = [])
    \<and> (\<forall>(sid, a) \<in> set (wd_open w). cancelled cs a)"
proof -
  have inv: "world_inv w" using reach by (rule world_reachable_inv)
  note r = Hub_Reset_open[OF res up]
  have "cancelled cs a" if "(sid, a) \<in> set (wd_open w)" for sid a
    using world_inv_drain[OF inv, of h] r that by (auto simp: world_inv_def)
  with r show ?thesis by (auto simp: ActiveSubscribers_def TotalSubscribers_def newRingIndex_def split: if_splits)
qed

definition demo_world :: world where
  "demo_world = (case serve_open 0 demo_hub ((\<lambda>_. fresh_conn)(0 := fresh_conn)) of (sid, h, cs) \<Rightarrow>
     \<lparr>wd_hub = h, wd_conns = cs, wd_open = [(sid, 0)]\<rparr>)"

lemma demo_world_reachable: "world_reachable demo_world"
proof -
  have "NewHub 2 None = Inr demo_hub" by (simp add: demo_hub_def NewHub_def hub_build_def newRecordingReplayer_def)
  then have "world_reachable \<lparr>wd_hub = demo_hub, wd_conns = \<lambda>_. fresh_conn, wd_open = []\<rparr>" by (rule world_init)
  moreover obtain sid h cs where o: "serve_open 0 demo_hub ((\<lambda>_. fresh_conn)(0 := fresh_conn)) = (sid, h, cs)"
    by (cases "serve_open 0 demo_hub ((\<lambda>_. fresh_conn)(0 := fresh_conn))")
  then have "world_step \<lparr>wd_hub = demo_hub, wd_conns = \<lambda>_. fresh_conn, wd_open = []\<rparr> demo_world"
    using connect[of 0 "\<lparr>wd_hub = demo_hub, wd_conns = \<lambda>_. fresh_conn, wd_open = []\<rparr>" sid h cs]
    by (simp add: demo_world_def)
  ultimately show ?thesis by (rule world_next)
qed

lemma demo_world_open: "wd_open demo_world = [(0, 0)]" "hb_active (wd_hub demo_world) = [(0, 0)]" "\<not> hb_closed (wd_hub demo_world)"
  by (simp_all add: demo_world_def serve_open_def registerSub_def demo_hub_up)

theorem subscribers_isolated_witness:
  "hb_active (fst (cleanup 0 0 (wd_hub demo_world) (wd_conns demo_world))) = []"
proof -
  have "(0, 0) \<in> set (wd_open demo_world)" by (simp add: demo_world_open)
  moreover obtain h cs where c: "cleanup 0 0 (wd_hub demo_world) (wd_conns demo_world) = (h, cs)" by fastforce
  ultimately have "set (hb_active h) = set (hb_active (wd_hub demo_world)) - {(0, 0)}"
    using subscribers_isolated[OF demo_world_reachable _ c] by blast
  with c show ?thesis by (simp add: demo_world_open)
qed

theorem reset_drains_witness:
  "cancelled (snd (snd (Hub_Reset (\<lambda>_. None) (wd_hub demo_world) (wd_conns demo_world)))) 0"
proof -
  obtain res h cs where r: "Hub_Reset (\<lambda>_. None) (wd_hub demo_world) (wd_conns demo_world) = (res, h, cs)"
    by (cases "Hub_Reset (\<lambda>_. None) (wd_hub demo_world) (wd_conns demo_world)")
  with reset_drains[OF demo_world_reachable demo_world_open(3) r] show ?thesis by (simp add: demo_world_open)
qed

end
