(* ===== verification/Pkce.thy ===== *)
theory Pkce
  imports Expiring
begin

text \<open>
  The store of authorization codes, \<^verbatim>\<open>internal/pkce/pkce.go\<close>: \<^verbatim>\<open>Put\<close> stamps an entry and
  sweeps expired ones, \<^verbatim>\<open>Consume\<close> redeems a code at most once, \<^verbatim>\<open>Verify\<close> checks the code
  verifier. SHA-256 is an argument; base64url is defined here.
\<close>

section \<open>base64url without padding\<close>

definition b64_alphabet :: string where
  "b64_alphabet = ''ABCDEFGHIJKLMNOPQRSTUVWXYZabcdefghijklmnopqrstuvwxyz0123456789-_''"

definition b64_char :: "nat \<Rightarrow> char" where
  "b64_char n = b64_alphabet ! (n mod 64)"

fun b64_groups :: "nat list \<Rightarrow> string" where
  "b64_groups [] = []"
| "b64_groups [a] = [b64_char (a div 4), b64_char (a mod 4 * 16)]"
| "b64_groups [a, b] = [b64_char (a div 4), b64_char (a mod 4 * 16 + b div 16), b64_char (b mod 16 * 4)]"
| "b64_groups (a # b # c # rest) =
     [b64_char (a div 4), b64_char (a mod 4 * 16 + b div 16), b64_char (b mod 16 * 4 + c div 64), b64_char c]
     @ b64_groups rest"

definition RawURLEncode :: "string \<Rightarrow> string" where
  "RawURLEncode s = b64_groups (map of_char s)"

section \<open>Entries and store\<close>

definition MethodS256 :: string where
  "MethodS256 = ''S256''"

definition MethodPlain :: string where
  "MethodPlain = ''plain''"

definition DefaultTTL :: duration where
  "DefaultTTL = minutes 10"

record Entry =
  en_Challenge :: string
  en_Method :: string
  en_ClientID :: string
  en_Redirect :: string
  en_Nonce :: string
  en_LoginHint :: string
  en_Audience :: string
  en_Scope :: string
  en_AuthTime :: time
  en_expiresAt :: time

record Pkce_Store =
  pk_entries :: "string \<rightharpoonup> Entry"
  pk_ttl :: duration

definition Pkce_NewStore :: Pkce_Store where
  "Pkce_NewStore = \<lparr>pk_entries = Map.empty, pk_ttl = DefaultTTL\<rparr>"

text \<open>\<^verbatim>\<open>sweepLocked\<close> with its clock reading.\<close>

definition pkce_sweep :: "time \<Rightarrow> Pkce_Store \<Rightarrow> Pkce_Store" where
  "pkce_sweep now s = s\<lparr>pk_entries := (\<lambda>code.
     case pk_entries s code of None \<Rightarrow> None | Some e \<Rightarrow> if en_expiresAt e < now then None else Some e)\<rparr>"

text \<open>The two instants are the readings of the clock by the sweep and by \<^verbatim>\<open>Put\<close> itself.\<close>

definition Pkce_Put :: "time \<Rightarrow> time \<Rightarrow> string \<Rightarrow> Entry \<Rightarrow> Pkce_Store \<Rightarrow> Pkce_Store" where
  "Pkce_Put now0 now code e s =
     (let s1 = pkce_sweep now0 s;
          e1 = (if en_AuthTime e = zero_time then e\<lparr>en_AuthTime := now\<rparr> else e);
          e2 = e1\<lparr>en_expiresAt := time_add now (pk_ttl s1)\<rparr>
      in s1\<lparr>pk_entries := (pk_entries s1)(code \<mapsto> e2)\<rparr>)"

definition Pkce_Consume :: "time \<Rightarrow> string \<Rightarrow> Pkce_Store \<Rightarrow> Entry option \<times> Pkce_Store" where
  "Pkce_Consume now code s =
     (case pk_entries s code of
        None \<Rightarrow> (None, s)
      | Some e \<Rightarrow>
          (let s' = s\<lparr>pk_entries := (pk_entries s)(code := None)\<rparr>
           in if en_expiresAt e < now then (None, s') else (Some e, s')))"

text \<open>\<^verbatim>\<open>Verify\<close>: the error message, or \<^term>\<open>None\<close> when the verifier is accepted.\<close>

definition Verify :: "(string \<Rightarrow> string) \<Rightarrow> Entry \<Rightarrow> string \<Rightarrow> string option" where
  "Verify sha256 e verifier =
     (if verifier = [] then Some ''missing code_verifier''
      else if en_Method e = MethodS256 then
        (if RawURLEncode (sha256 verifier) \<noteq> en_Challenge e then Some ''S256 mismatch'' else None)
      else if en_Method e = MethodPlain then
        (if verifier \<noteq> en_Challenge e then Some ''plain mismatch'' else None)
      else Some (''unsupported code_challenge_method '' @ ''\"'' @ en_Method e @ ''\"''))"

definition Pkce_Reset :: "Pkce_Store \<Rightarrow> Pkce_Store" where
  "Pkce_Reset s = s\<lparr>pk_entries := Map.empty\<rparr>"

lemmas pkce_defs [store_defs] = Pkce_NewStore_def pkce_sweep_def Pkce_Put_def Pkce_Consume_def
  Verify_def Pkce_Reset_def

lemma pkce_ttl [simp]:
  "pk_ttl (Pkce_Put n0 n k e s) = pk_ttl s"
  "pk_ttl (snd (Pkce_Consume n k s)) = pk_ttl s"
  "pk_ttl (Pkce_Reset s) = pk_ttl s"
  by (simp_all add: pkce_defs Let_def split: option.splits)

section \<open>The store is a store of one-time credentials\<close>

text \<open>
  The time to live is set once, by the constructor; the interpretation is for stores that
  \<^verbatim>\<open>NewStore\<close> makes, which have \<open>DefaultTTL\<close>: \<open>pkce_put\<close> fixes it.
\<close>

definition pkce_stamp :: "time \<Rightarrow> Entry \<Rightarrow> Entry" where
  "pkce_stamp now e = e\<lparr>en_AuthTime := (if en_AuthTime e = zero_time then now else en_AuthTime e),
     en_expiresAt := time_add now DefaultTTL\<rparr>"

type_synonym pkce_codes = "string \<rightharpoonup> Entry"

abbreviation with_ttl :: "pkce_codes \<Rightarrow> Pkce_Store" where
  "with_ttl m \<equiv> \<lparr>pk_entries = m, pk_ttl = DefaultTTL\<rparr>"

definition pkce_put :: "time \<Rightarrow> time \<Rightarrow> string \<Rightarrow> Entry \<Rightarrow> pkce_codes \<Rightarrow> pkce_codes" where
  "pkce_put now0 now k e m = pk_entries (Pkce_Put now0 now k e (with_ttl m))"

definition pkce_consume :: "time \<Rightarrow> string \<Rightarrow> pkce_codes \<Rightarrow> Entry option \<times> pkce_codes" where
  "pkce_consume now k m = (case Pkce_Consume now k (with_ttl m) of (r, s) \<Rightarrow> (r, pk_entries s))"

interpretation codes: single_use "\<lambda>m. m" en_expiresAt pkce_stamp pkce_put pkce_consume
    "\<lambda>m. pk_entries (Pkce_Reset (with_ttl m))"
  by unfold_locales
    (auto simp: pkce_put_def pkce_consume_def pkce_stamp_def pkce_defs Let_def split: option.splits)

fun pkce_step :: "(string, Entry) su_op \<Rightarrow> Pkce_Store \<Rightarrow> Entry option \<times> Pkce_Store" where
  "pkce_step (SPut now0 now k e) s = (None, Pkce_Put now0 now k e s)"
| "pkce_step (SConsume now k) s = Pkce_Consume now k s"
| "pkce_step SReset s = (None, Pkce_Reset s)"

lemma with_ttl_eta: "pk_ttl s = DefaultTTL \<Longrightarrow> with_ttl (pk_entries s) = s"
  by (cases s) simp

lemma pkce_step_codes:
  "pk_ttl s = DefaultTTL \<Longrightarrow> codes.su_step x (pk_entries s) = (fst (pkce_step x s), pk_entries (snd (pkce_step x s)))"
  by (cases x) (simp_all add: pkce_put_def pkce_consume_def with_ttl_eta split: prod.splits)

lemma pkce_step_ttl: "pk_ttl (snd (pkce_step x s)) = pk_ttl s"
  by (cases x) simp_all

lemma pkce_run_codes:
  "pk_ttl s = DefaultTTL \<Longrightarrow>
   fst (run_ops pkce_step ops s) = fst (run_ops codes.su_step ops (pk_entries s)) \<and>
   pk_entries (snd (run_ops pkce_step ops s)) = snd (run_ops codes.su_step ops (pk_entries s)) \<and>
   pk_ttl (snd (run_ops pkce_step ops s)) = DefaultTTL"
  by (induction ops arbitrary: s) (simp_all add: pkce_step_codes pkce_step_ttl)

section \<open>Properties\<close>

text \<open>
  An authorization code is single use: from a new store, whatever the order and the times of
  the \<^verbatim>\<open>Put\<close>, \<^verbatim>\<open>Consume\<close> and \<^verbatim>\<open>Reset\<close> calls, the number of successful \<^verbatim>\<open>Consume\<close> calls
  for a code never exceeds the number of \<^verbatim>\<open>Put\<close> calls for it.
\<close>
theorem pkce_single_use:
  "successes_of code ops (fst (run_ops pkce_step ops Pkce_NewStore)) \<le> puts_of code ops"
  using codes.single_use_count[of code ops Map.empty] pkce_run_codes[of Pkce_NewStore ops]
  by (simp add: Pkce_NewStore_def)

text \<open>
  The redemption window of a code is exactly the ten minutes after it was stored: with any
  operations on other codes in between whose sweeps fall within that window, \<^verbatim>\<open>Consume\<close> returns
  the stamped entry (its \<^verbatim>\<open>AuthTime\<close> set to the storing instant when it was zero) up to and
  including the deadline and nothing afterwards, and a second \<^verbatim>\<open>Consume\<close> returns nothing.
\<close>
theorem pkce_redeem_window:
  fixes now0 now t t' :: time and code :: string and e :: Entry and s :: Pkce_Store
    and ops :: "(string, Entry) su_op list"
  assumes ttl: "pk_ttl s = DefaultTTL"
    and others: "list_all (\<lambda>x. x \<noteq> SReset \<and> su_key x \<noteq> Some code \<and> swept_by (now + 600000000000) x) ops"
  defines "s' \<equiv> snd (run_ops pkce_step ops (Pkce_Put now0 now code e s))"
    and "stored \<equiv> e\<lparr>en_AuthTime := (if en_AuthTime e = zero_time then now else en_AuthTime e),
      en_expiresAt := now + 600000000000\<rparr>"
  shows "fst (Pkce_Consume t code s') = (if t \<le> now + 600000000000 then Some stored else None)
    \<and> fst (Pkce_Consume t' code (snd (Pkce_Consume t code s'))) = None"
proof -
  have deadline: "time_add n DefaultTTL = n + 600000000000" for n
    by (simp add: time_add_def DefaultTTL_def dur_ns_def)
  have stamp: "pkce_stamp now e = stored"
    by (simp add: pkce_stamp_def stored_def deadline)
  have exp: "en_expiresAt stored = now + 600000000000"
    by (simp add: stored_def)
  have put: "pk_entries (Pkce_Put now0 now code e s) = pkce_put now0 now code e (pk_entries s)"
    using ttl by (simp add: pkce_put_def with_ttl_eta)
  have run: "pk_entries s' = snd (run_ops codes.su_step ops (pkce_put now0 now code e (pk_entries s)))"
    "pk_ttl s' = DefaultTTL"
    using pkce_run_codes[of "Pkce_Put now0 now code e s" ops] ttl by (simp_all add: s'_def put)
  have eq: "fst (Pkce_Consume u c s'') = fst (pkce_consume u c (pk_entries s''))"
    "pk_entries (snd (Pkce_Consume u c s'')) = snd (pkce_consume u c (pk_entries s''))"
    if "pk_ttl s'' = DefaultTTL" for u c s''
    using that by (simp_all add: pkce_consume_def with_ttl_eta split: prod.splits)
  have "list_all (\<lambda>x. x \<noteq> SReset \<and> su_key x \<noteq> Some code \<and> swept_by (en_expiresAt (pkce_stamp now e)) x) ops"
    using others by (simp add: stamp exp)
  note window = codes.redeem_window[OF this]
  have "fst (pkce_consume t code (pk_entries s')) = (if t \<le> now + 600000000000 then Some stored else None)"
    "fst (pkce_consume t' code (snd (pkce_consume t code (pk_entries s')))) = None"
    by (simp_all add: run window, simp_all add: stamp exp)
  then show ?thesis by (simp add: eq run)
qed

definition demo_entry :: Entry where
  "demo_entry = \<lparr>en_Challenge = ''ch'', en_Method = ''plain'', en_ClientID = ''c'', en_Redirect = ''r'',
     en_Nonce = ''n'', en_LoginHint = ''u'', en_Audience = [], en_Scope = [], en_AuthTime = 3, en_expiresAt = 0\<rparr>"

theorem pkce_redeem_window_witness:
  "fst (Pkce_Consume 50 ''code'' (snd (run_ops pkce_step
     [SPut 20 20 ''other'' demo_entry, SConsume 30 ''other'']
     (Pkce_Put 10 10 ''code'' demo_entry Pkce_NewStore))))
   = Some (demo_entry\<lparr>en_expiresAt := 600000000010\<rparr>)"
proof -
  have ttl: "pk_ttl Pkce_NewStore = DefaultTTL" by (simp add: Pkce_NewStore_def)
  have others: "list_all (\<lambda>x. x \<noteq> SReset \<and> su_key x \<noteq> Some ''code'' \<and> swept_by (10 + 600000000000) x)
      [SPut 20 20 ''other'' demo_entry, SConsume 30 ''other'']"
    by simp
  show ?thesis
    using pkce_redeem_window[OF ttl others, of 50 10 demo_entry 60] by (simp add: demo_entry_def)
qed

end
