(* ===== verification/Jwks.thy ===== *)
theory Jwks
  imports Session Pkce Httperr
begin

text \<open>
  Signing keys and tokens: issuer resolution, minting, verification and the published key set,
  \<^verbatim>\<open>internal/jwks\<close>, and the bearer middleware, \<^verbatim>\<open>internal/bearer/bearer.go\<close>. The JWT library is
  the parameter \<open>jwt_lib\<close>: how it signs a claim set and what it parses out of a token, with or
  without validating the registered claims. \<open>jwt_correct\<close> states its documented behaviour. The
  modulus and the exponent of the RSA key are fields of the key set; \<open>Keyset\<close> loads and generates it.
\<close>

section \<open>Configuration and issuers\<close>

record Config =
  cf_Issuer :: string
  cf_KeyFile :: string
  cf_AccessTokenTTL :: duration
  cf_IDTokenTTL :: duration
  cf_Leeway :: duration

record KeySet =
  ks_cfg :: Config
  ks_keyID :: string
  ks_N :: string
  ks_E :: int

definition AutoIssuer :: string where
  "AutoIssuer = ''auto''"

datatype jwks_error =
    ErrIssuerUnresolved
  | ErrSign string
  | ErrParse string
  | ErrIssuerMismatch string string
  | ErrAudienceMissing string "string list"

definition ResolveIssuer :: "string \<Rightarrow> request \<Rightarrow> string" where
  "ResolveIssuer configured r =
     (if configured \<noteq> AutoIssuer then configured
      else (if rq_TLS r then ''https'' else ''http'') @ ''://'' @ to_lower (rq_Host r) @ ''/'')"

definition IssuerFor :: "KeySet \<Rightarrow> request \<Rightarrow> string" where
  "IssuerFor k r = ResolveIssuer (cf_Issuer (ks_cfg k)) r"

definition issuer :: "KeySet \<Rightarrow> string \<Rightarrow> jwks_error + string" where
  "issuer k override =
     (if override \<noteq> [] then Inr override
      else if cf_Issuer (ks_cfg k) = AutoIssuer then Inl ErrIssuerUnresolved
      else Inr (cf_Issuer (ks_cfg k)))"

section \<open>Minting and verifying\<close>

text \<open>
  What a parser is told to validate: the issuer, the leeway and the time, or nothing
  (\<^verbatim>\<open>WithoutClaimsValidation\<close>). The token's algorithm and signature are always checked.
\<close>

type_synonym validation = "string \<times> duration \<times> time"

record jwt_lib =
  jl_sign :: "string \<Rightarrow> claims \<Rightarrow> string + string"
  jl_parse :: "validation option \<Rightarrow> string \<Rightarrow> string + claims"
  jl_text :: "jwks_error \<Rightarrow> string"

record MintOpts =
  mo_Issuer :: string
  mo_Subject :: string
  mo_Audience :: "string list"
  mo_Scope :: string
  mo_TTL :: duration
  mo_Extra :: claims

abbreviation JInt :: "int \<Rightarrow> json" where
  "JInt n \<equiv> JNum (of_int n)"

definition mint_claims :: "string \<Rightarrow> time \<Rightarrow> MintOpts \<Rightarrow> claims" where
  "mint_claims iss now opts =
     (let base = [''iss'' \<mapsto> JStr iss, ''sub'' \<mapsto> JStr (mo_Subject opts), ''aud'' \<mapsto> JArr (map JStr (mo_Audience opts)),
                  ''iat'' \<mapsto> JInt (unix_secs now), ''exp'' \<mapsto> JInt (unix_secs (time_add now (mo_TTL opts)))];
          scoped = (if mo_Scope opts \<noteq> [] then base(''scope'' \<mapsto> JStr (mo_Scope opts)) else base)
      in scoped ++ mo_Extra opts)"

definition Mint :: "jwt_lib \<Rightarrow> KeySet \<Rightarrow> time \<Rightarrow> MintOpts \<Rightarrow> jwks_error + string" where
  "Mint L k now opts = (case issuer k (mo_Issuer opts) of
      Inl err \<Rightarrow> Inl err
    | Inr iss \<Rightarrow> (case jl_sign L (ks_keyID k) (mint_claims iss now opts) of
          Inl err \<Rightarrow> Inl (ErrSign err)
        | Inr tok \<Rightarrow> Inr tok))"

record TokenClaims =
  tc_Issuer :: string
  tc_Subject :: string
  tc_Audience :: "string list"
  tc_Scope :: string
  tc_Extra :: claims

record VerifyOpts =
  vo_RequireAudience :: string
  vo_AllowExpired :: bool
  vo_Issuer :: string

definition str_of :: "json option \<Rightarrow> string" where
  "str_of v = (case v of Some (JStr s) \<Rightarrow> s | _ \<Rightarrow> [])"

definition aud_of :: "json option \<Rightarrow> string list" where
  "aud_of v = (case v of
      Some (JStr s) \<Rightarrow> [s]
    | Some (JArr xs) \<Rightarrow> concat (map (\<lambda>x. case x of JStr s \<Rightarrow> [s] | _ \<Rightarrow> []) xs)
    | _ \<Rightarrow> [])"

definition registered_claims :: "string list" where
  "registered_claims = [''iss'', ''sub'', ''aud'', ''iat'', ''exp'', ''scope'']"

definition Jwks_Verify :: "jwt_lib \<Rightarrow> KeySet \<Rightarrow> time \<Rightarrow> string \<Rightarrow> VerifyOpts \<Rightarrow> jwks_error + TokenClaims" where
  "Jwks_Verify L k now tokenStr opts = (case issuer k (vo_Issuer opts) of
      Inl err \<Rightarrow> Inl err
    | Inr wantIss \<Rightarrow>
        (case jl_parse L (if vo_AllowExpired opts then None else Some (wantIss, cf_Leeway (ks_cfg k), now)) tokenStr of
           Inl err \<Rightarrow> Inl (ErrParse err)
         | Inr mc \<Rightarrow>
             if vo_AllowExpired opts \<and> str_of (mc ''iss'') \<noteq> wantIss
             then Inl (ErrIssuerMismatch (str_of (mc ''iss'')) wantIss)
             else
               (let auds = aud_of (mc ''aud'')
                in if vo_RequireAudience opts \<noteq> [] \<and> vo_RequireAudience opts \<notin> set auds
                   then Inl (ErrAudienceMissing (vo_RequireAudience opts) auds)
                   else Inr \<lparr>tc_Issuer = str_of (mc ''iss''), tc_Subject = str_of (mc ''sub''), tc_Audience = auds,
                             tc_Scope = str_of (mc ''scope''), tc_Extra = mc |` (- set registered_claims)\<rparr>)))"

section \<open>The key set document\<close>

fun trim_zeros :: "nat list \<Rightarrow> nat list" where
  "trim_zeros (b # c # bs) = (if b = 0 then trim_zeros (c # bs) else b # c # bs)"
| "trim_zeros bs = bs"

definition exponent_bytes :: "int \<Rightarrow> nat list" where
  "exponent_bytes e0 =
     (let e = nat (if e0 < 0 \<or> e0 > 0xFFFFFFFF then 65537 else e0)
      in trim_zeros [e div 16777216 mod 256, e div 65536 mod 256, e div 256 mod 256, e mod 256])"

definition buildJWKSJSON :: "KeySet \<Rightarrow> json" where
  "buildJWKSJSON k = JObj [(''keys'', JArr [JObj
     [(''kty'', JStr ''RSA''), (''use'', JStr ''sig''), (''alg'', JStr ''RS256''), (''kid'', JStr (ks_keyID k)),
      (''n'', JStr (RawURLEncode (ks_N k))), (''e'', JStr (b64_groups (exponent_bytes (ks_E k))))]])]"

section \<open>The bearer middleware\<close>

definition Token :: "string \<Rightarrow> string option" where
  "Token header = (case str_cut CHR 0x20 (trim_space header) of (scheme, token, ok) \<Rightarrow>
     if \<not> ok \<or> \<not> equal_fold scheme ''Bearer'' then None
     else (let t = trim_space token in if t \<noteq> [] then Some t else None))"

text \<open>The refusal, or the claims the wrapped handler sees.\<close>

definition Bearer_Middleware :: "jwt_lib \<Rightarrow> KeySet \<Rightarrow> string \<Rightarrow> time \<Rightarrow> request \<Rightarrow> response + TokenClaims" where
  "Bearer_Middleware L k requireAudience now r = (case Token (header_get (rq_Header r) ''Authorization'') of
      None \<Rightarrow> Inl (WriteMgmt 401 ''Unauthorized'' ''missing bearer token'' ''missing_bearer'')
    | Some token \<Rightarrow>
        (case Jwks_Verify L k now token
            \<lparr>vo_RequireAudience = requireAudience, vo_AllowExpired = False, vo_Issuer = IssuerFor k r\<rparr> of
           Inl _ \<Rightarrow> Inl (WriteMgmt 401 ''Unauthorized'' ''invalid bearer token'' ''invalid_bearer'')
         | Inr claims \<Rightarrow> Inr claims))"

lemmas jwks_defs [handler_defs] = ResolveIssuer_def IssuerFor_def issuer_def Mint_def Jwks_Verify_def Bearer_Middleware_def

section \<open>The library's contract\<close>

text \<open>The instant a numeric date names, and the validation of the registered claims of a token.\<close>

definition unix_time :: "rat \<Rightarrow> rat" where
  "unix_time n = (n + 62135596800) * 1000000000"

definition claims_valid :: "validation \<Rightarrow> claims \<Rightarrow> bool" where
  "claims_valid v c = (case v of (iss, leeway, now) \<Rightarrow>
     c ''iss'' = Some (JStr iss) \<and>
     (case c ''exp'' of Some (JNum e) \<Rightarrow> of_int now < unix_time e + of_int (dur_ns leeway) | _ \<Rightarrow> False) \<and>
     (case c ''iat'' of None \<Rightarrow> True | Some (JNum e) \<Rightarrow> unix_time e - of_int (dur_ns leeway) \<le> of_int now | _ \<Rightarrow> False) \<and>
     (case c ''nbf'' of None \<Rightarrow> True | Some (JNum e) \<Rightarrow> unix_time e - of_int (dur_ns leeway) \<le> of_int now | _ \<Rightarrow> False))"

text \<open>
  The documented behaviour of the JWT library: a signed token parses to the claims it was signed
  with, and parsing with validation accepts exactly the tokens that parse and whose claims are valid.
\<close>

definition jwt_correct :: "jwt_lib \<Rightarrow> bool" where
  "jwt_correct L \<longleftrightarrow>
     (\<forall>kid c t. jl_sign L kid c = Inr t \<longrightarrow> jl_parse L None t = Inr c) \<and>
     (\<forall>v t c. jl_parse L (Some v) t = Inr c \<longleftrightarrow> jl_parse L None t = Inr c \<and> claims_valid v c)"

lemma unix_time_secs: "unix_time (of_int (unix_secs t)) = of_int (t div 1000000000 * 1000000000)"
  by (simp add: unix_time_def unix_secs_def)

lemma secs_floor: "t - 1000000000 < t div 1000000000 * 1000000000 \<and> t div 1000000000 * 1000000000 \<le> t" for t :: int
  by presburger

text \<open>Claims that the grant or a test does not override.\<close>

definition keeps_registered :: "claims \<Rightarrow> bool" where
  "keeps_registered extra \<longleftrightarrow> dom extra \<inter> set (''nbf'' # registered_claims) = {}"

lemma keeps_registered_lookup: "keeps_registered e \<Longrightarrow> k \<in> set (''nbf'' # registered_claims) \<Longrightarrow> e k = None"
  by (auto simp: keeps_registered_def)

lemma mint_claims_lookup:
  assumes "keeps_registered (mo_Extra opts)"
  shows "mint_claims iss now opts ''iss'' = Some (JStr iss)"
    "mint_claims iss now opts ''sub'' = Some (JStr (mo_Subject opts))"
    "mint_claims iss now opts ''aud'' = Some (JArr (map JStr (mo_Audience opts)))"
    "mint_claims iss now opts ''iat'' = Some (JInt (unix_secs now))"
    "mint_claims iss now opts ''exp'' = Some (JInt (unix_secs (time_add now (mo_TTL opts))))"
    "mint_claims iss now opts ''nbf'' = None"
    "mint_claims iss now opts ''scope'' = (if mo_Scope opts = [] then None else Some (JStr (mo_Scope opts)))"
  using keeps_registered_lookup[OF assms]
  by (simp_all add: mint_claims_def Let_def map_add_def registered_claims_def)

lemma mint_claims_extra:
  assumes "keeps_registered (mo_Extra opts)"
  shows "mint_claims iss now opts |` (- set registered_claims) = mo_Extra opts"
proof
  fix k
  show "(mint_claims iss now opts |` (- set registered_claims)) k = mo_Extra opts k"
    using keeps_registered_lookup[OF assms, of k]
    by (auto simp: restrict_map_def mint_claims_def Let_def map_add_def registered_claims_def split: option.splits)
qed

lemma aud_of_strings: "aud_of (Some (JArr (map JStr as))) = as"
proof -
  have "concat (map (\<lambda>x. case x of JStr s \<Rightarrow> [s] | _ \<Rightarrow> []) (map JStr as)) = as" by (induction as) simp_all
  then show ?thesis by (simp add: aud_of_def)
qed

lemma minted_verifies:
  assumes lib: "jwt_correct L" and mint: "Mint L k now opts = Inr tok"
    and iss: "mo_Issuer opts \<noteq> []" "vo_Issuer vo = mo_Issuer opts" and live: "\<not> vo_AllowExpired vo"
    and extra: "keeps_registered (mo_Extra opts)"
    and leeway: "0 \<le> dur_ns (cf_Leeway (ks_cfg k))" and later: "now \<le> now'"
  shows "let ends = time_add now (mo_TTL opts); skew = dur_ns (cf_Leeway (ks_cfg k));
             aud_ok = vo_RequireAudience vo = [] \<or> vo_RequireAudience vo \<in> set (mo_Audience opts)
         in (now' \<le> ends - 1000000000 + skew \<and> aud_ok \<longrightarrow>
               Jwks_Verify L k now' tok vo = Inr \<lparr>tc_Issuer = mo_Issuer opts, tc_Subject = mo_Subject opts,
                 tc_Audience = mo_Audience opts, tc_Scope = mo_Scope opts, tc_Extra = mo_Extra opts\<rparr>)
          \<and> (ends + skew \<le> now' \<or> \<not> aud_ok \<longrightarrow> (\<exists>err. Jwks_Verify L k now' tok vo = Inl err))"
proof -
  let ?c = "mint_claims (mo_Issuer opts) now opts" and ?ends = "time_add now (mo_TTL opts)"
  let ?skew = "dur_ns (cf_Leeway (ks_cfg k))" and ?v = "(mo_Issuer opts, cf_Leeway (ks_cfg k), now')"
  note look = mint_claims_lookup[OF extra, of "mo_Issuer opts" now]
  from mint iss have "jl_sign L (ks_keyID k) ?c = Inr tok"
    by (auto simp: Mint_def issuer_def split: sum.splits)
  with lib have parse: "jl_parse L None tok = Inr ?c" and val: "\<And>c. jl_parse L (Some ?v) tok = Inr c \<longleftrightarrow> c = ?c \<and> claims_valid ?v c"
    unfolding jwt_correct_def by (blast, metis sum.inject(2))
  have "now div 1000000000 * 1000000000 - ?skew \<le> now'" using secs_floor[of now] leeway later by linarith
  then have iat: "unix_time (of_int (unix_secs now)) - of_int ?skew \<le> (of_int now' :: rat)"
    unfolding unix_time_secs of_int_diff[symmetric] of_int_le_iff .
  have exp: "((of_int now' :: rat) < unix_time (of_int (unix_secs ?ends)) + of_int ?skew) = (now' < ?ends div 1000000000 * 1000000000 + ?skew)"
    unfolding unix_time_secs of_int_add[symmetric] of_int_less_iff ..
  have cv: "claims_valid ?v ?c \<longleftrightarrow> now' < ?ends div 1000000000 * 1000000000 + ?skew"
    using iat exp by (simp add: claims_valid_def look)
  have good: "Jwks_Verify L k now' tok vo = Inr \<lparr>tc_Issuer = mo_Issuer opts, tc_Subject = mo_Subject opts,
      tc_Audience = mo_Audience opts, tc_Scope = mo_Scope opts, tc_Extra = mo_Extra opts\<rparr>"
    if "claims_valid ?v ?c" "vo_RequireAudience vo = [] \<or> vo_RequireAudience vo \<in> set (mo_Audience opts)"
    using that val[of ?c] iss live
    by (auto simp: Jwks_Verify_def issuer_def look aud_of_strings mint_claims_extra[OF extra] str_of_def Let_def)
  have bad: "\<exists>err. Jwks_Verify L k now' tok vo = Inl err"
    if "\<not> claims_valid ?v ?c \<or> vo_RequireAudience vo \<noteq> [] \<and> vo_RequireAudience vo \<notin> set (mo_Audience opts)"
  proof (cases "jl_parse L (Some ?v) tok")
    case (Inl err)
    then show ?thesis using iss live by (simp add: Jwks_Verify_def issuer_def)
  next
    case (Inr b)
    then have "b = ?c" "claims_valid ?v ?c" using val[of b] by auto
    with that Inr iss live show ?thesis
      by (simp add: Jwks_Verify_def issuer_def look aud_of_strings Let_def)
  qed
  have "now' \<le> ?ends - 1000000000 + ?skew \<Longrightarrow> claims_valid ?v ?c" and "?ends + ?skew \<le> now' \<Longrightarrow> \<not> claims_valid ?v ?c"
    using cv secs_floor[of ?ends] by linarith+
  with good bad show ?thesis unfolding Let_def by blast
qed

text \<open>
  C9. Tokens round trip. A token minted at one instant verifies, with the same issuer, at any
  instant from the mint until the second its lifetime ends, shifted by the leeway; it yields the
  subject, the audience, the scope and the extra claims it was minted with; and from the end of its
  lifetime plus the leeway on it is refused. A required audience must be one of the minted ones.
\<close>
theorem mint_verify:
  assumes lib: "jwt_correct L" and mint: "Mint L k now opts = Inr tok"
    and iss: "mo_Issuer opts \<noteq> []" "vo_Issuer vo = mo_Issuer opts" and live: "\<not> vo_AllowExpired vo"
    and extra: "keeps_registered (mo_Extra opts)"
    and leeway: "0 \<le> dur_ns (cf_Leeway (ks_cfg k))" and later: "now \<le> now'"
  shows "let ends = time_add now (mo_TTL opts); skew = dur_ns (cf_Leeway (ks_cfg k));
             aud_ok = vo_RequireAudience vo = [] \<or> vo_RequireAudience vo \<in> set (mo_Audience opts)
         in (now' \<le> ends - 1000000000 + skew \<and> aud_ok \<longrightarrow>
               Jwks_Verify L k now' tok vo = Inr \<lparr>tc_Issuer = mo_Issuer opts, tc_Subject = mo_Subject opts,
                 tc_Audience = mo_Audience opts, tc_Scope = mo_Scope opts, tc_Extra = mo_Extra opts\<rparr>)
          \<and> (ends + skew \<le> now' \<or> \<not> aud_ok \<longrightarrow> (\<exists>err. Jwks_Verify L k now' tok vo = Inl err))"
  by (rule minted_verifies[OF assms])

text \<open>A library for witnesses: it knows a table of tokens and their claims.\<close>

definition demo_jwt :: "(string \<times> claims) list \<Rightarrow> jwt_lib" where
  "demo_jwt tab = \<lparr>jl_sign = \<lambda>kid c. (case find (\<lambda>(t, c'). c' = c) tab of Some (t, _) \<Rightarrow> Inr t | None \<Rightarrow> Inl ''unknown''),
     jl_parse = \<lambda>v t. (case map_of tab t of None \<Rightarrow> Inl ''malformed''
        | Some c \<Rightarrow> (case v of None \<Rightarrow> Inr c | Some w \<Rightarrow> if claims_valid w c then Inr c else Inl ''invalid'')),
     jl_text = \<lambda>_. ''error''\<rparr>"

lemma demo_jwt_correct: "wf_map tab \<Longrightarrow> jwt_correct (demo_jwt tab)"
  by (auto simp: jwt_correct_def demo_jwt_def split: option.splits if_splits dest!: find_SomeD)
    (metis map_of_is_SomeI option.inject)

definition demo_keys :: KeySet where
  "demo_keys = \<lparr>ks_cfg = \<lparr>cf_Issuer = ''https://mock/'', cf_KeyFile = [], cf_AccessTokenTTL = word_of_int 3600000000000,
     cf_IDTokenTTL = word_of_int 3600000000000, cf_Leeway = 0\<rparr>, ks_keyID = ''k'', ks_N = ''n'', ks_E = 65537\<rparr>"

definition demo_opts :: MintOpts where
  "demo_opts = \<lparr>mo_Issuer = ''https://mock/'', mo_Subject = ''sub'', mo_Audience = [''api''], mo_Scope = ''read'',
     mo_TTL = word_of_int 3600000000000, mo_Extra = [''gty'' \<mapsto> JStr ''password'']\<rparr>"

theorem mint_verify_witness:
  "Jwks_Verify (demo_jwt [(''tok'', mint_claims ''https://mock/'' 0 demo_opts)]) demo_keys 1000000000 ''tok''
     \<lparr>vo_RequireAudience = ''api'', vo_AllowExpired = False, vo_Issuer = ''https://mock/''\<rparr> =
   Inr \<lparr>tc_Issuer = ''https://mock/'', tc_Subject = ''sub'', tc_Audience = [''api''], tc_Scope = ''read'',
     tc_Extra = [''gty'' \<mapsto> JStr ''password'']\<rparr>"
proof -
  let ?L = "demo_jwt [(''tok'', mint_claims ''https://mock/'' 0 demo_opts)]"
  have mint: "Mint ?L demo_keys 0 demo_opts = Inr ''tok''"
    by (simp add: Mint_def issuer_def demo_opts_def demo_jwt_def)
  have extra: "keeps_registered (mo_Extra demo_opts)" by (simp add: keeps_registered_def demo_opts_def registered_claims_def)
  show ?thesis
    using mint_verify[OF demo_jwt_correct mint _ _ _ extra, of "\<lparr>vo_RequireAudience = ''api'', vo_AllowExpired = False, vo_Issuer = ''https://mock/''\<rparr>" 1000000000]
    by (simp add: demo_opts_def demo_keys_def dur_ns_def time_add_def Let_def)
qed

end
