(* ===== verification/Profile.thy ===== *)
theory Profile
  imports Jwks
begin

text \<open>
  The user a token is for: the profile derived from a subject, the passwordless user, and the hash
  claims, \<^verbatim>\<open>internal/authapi/profile.go\<close> and \<^verbatim>\<open>internal/authapi/tokenhash.go\<close>. SHA-256 is a
  parameter. Strings are UTF-8, so a character starts at a byte that is no continuation byte.
\<close>

definition DefaultSubject :: string where
  "DefaultSubject = ''auth0|mock-user''"

definition profile_keys :: "string list" where
  "profile_keys = [''email'', ''email_verified'', ''name'', ''nickname'', ''picture'', ''phone_number'', ''phone_number_verified'']"

definition profileOf :: "claims \<Rightarrow> claims" where
  "profileOf extra = fold (\<lambda>k out. case extra k of Some v \<Rightarrow> out(k \<mapsto> v) | None \<Rightarrow> out) profile_keys Map.empty"

definition is_continuation :: "char \<Rightarrow> bool" where
  "is_continuation c \<longleftrightarrow> (of_char c :: nat) div 64 = 2"

text \<open>The first \<open>n\<close> characters of a UTF-8 string.\<close>

fun first_runes :: "nat \<Rightarrow> string \<Rightarrow> string" where
  "first_runes n [] = []"
| "first_runes n (c # cs) =
     (if is_continuation c then c # first_runes n cs
      else (case n of 0 \<Rightarrow> [] | Suc m \<Rightarrow> c # first_runes m cs))"

definition local_part :: "string \<Rightarrow> string" where
  "local_part subject =
     (let l = (case str_last_index CHR ''|'' subject of Some i \<Rightarrow> drop (i + 1) subject | None \<Rightarrow> subject)
      in case str_index CHR ''@'' l of Some i \<Rightarrow> take i l | None \<Rightarrow> l)"

definition deriveProfile :: "string \<Rightarrow> claims" where
  "deriveProfile subject =
     (let local = local_part subject;
          email = (if contains_char subject CHR ''@'' then subject else local @ ''@example.com'');
          initials = first_runes 2 (to_lower local)
      in [''email'' \<mapsto> JStr email, ''email_verified'' \<mapsto> JBool True, ''name'' \<mapsto> JStr email, ''nickname'' \<mapsto> JStr local,
          ''picture'' \<mapsto> JStr (''https://cdn.auth0.com/avatars/'' @ initials @ ''.png'')])"

definition fillProfile :: "claims \<Rightarrow> string \<Rightarrow> claims" where
  "fillProfile extra subject =
     (\<lambda>k. case extra k of Some v \<Rightarrow> Some v | None \<Rightarrow> deriveProfile subject k)"

definition hex_digit :: "nat \<Rightarrow> char" where
  "hex_digit n = ''0123456789abcdef'' ! n"

definition hex_encode :: "string \<Rightarrow> string" where
  "hex_encode s = concat (map (\<lambda>c. [hex_digit (of_char c div 16), hex_digit (of_char c mod 16)]) s)"

definition passwordlessUser :: "(string \<Rightarrow> string) \<Rightarrow> string \<Rightarrow> string \<Rightarrow> string \<times> claims" where
  "passwordlessUser sha256 realm username =
     (let trimmed = trim_space username;
          subject = realm @ ''|'' @ take 24 (hex_encode (sha256 (to_lower trimmed)))
      in if realm = ''sms'' then
           (subject, [''phone_number'' \<mapsto> JStr trimmed, ''phone_number_verified'' \<mapsto> JBool True, ''name'' \<mapsto> JStr trimmed,
              ''nickname'' \<mapsto> JStr trimmed, ''picture'' \<mapsto> JStr ''https://cdn.auth0.com/avatars/default.png''])
         else (subject, deriveProfile trimmed))"

definition tokenHash :: "(string \<Rightarrow> string) \<Rightarrow> string \<Rightarrow> string" where
  "tokenHash sha256 v = (let sum = sha256 v in RawURLEncode (take (length sum div 2) sum))"

lemma profileOf_restrict: "profileOf extra = extra |` set profile_keys"
proof -
  have "fold (\<lambda>k out. case extra k of Some v \<Rightarrow> out(k \<mapsto> v) | None \<Rightarrow> out) ks out k =
      (if k \<in> set ks \<and> extra k \<noteq> None then extra k else out k)" for ks out k
    by (induction ks arbitrary: out) (auto split: option.splits)
  then show ?thesis by (auto simp: profileOf_def restrict_map_def)
qed

lemma profileOf_idem [simp]: "profileOf (profileOf c) = profileOf c"
  by (simp add: profileOf_restrict)

lemma profileOf_upd: "k \<notin> set profile_keys \<Longrightarrow> profileOf (c(k \<mapsto> v)) = profileOf c"
  by (simp add: profileOf_restrict)

lemma deriveProfile_profile: "profileOf (deriveProfile s) = deriveProfile s"
proof -
  have "dom (deriveProfile s) \<subseteq> set profile_keys" by (auto simp: deriveProfile_def Let_def profile_keys_def split: if_splits)
  then have "deriveProfile s k = None" if "k \<notin> set profile_keys" for k using that by (auto simp: dom_def)
  then show ?thesis by (auto simp: profileOf_restrict restrict_map_def)
qed

text \<open>The same address in another case or padding is the same passwordless user.\<close>

lemma to_lower_idem [simp]: "to_lower (to_lower s) = to_lower s"
proof -
  have "to_lower_char (to_lower_char c) = to_lower_char c" for c
    by (cases "65 \<le> (of_char c :: nat) \<and> (of_char c :: nat) \<le> 90") (auto simp: to_lower_char_def Let_def)
  then show ?thesis by (simp add: to_lower_def)
qed

lemma passwordless_subject_stable:
  "equal_fold (trim_space u) (trim_space u') \<Longrightarrow>
     fst (passwordlessUser sha realm u) = fst (passwordlessUser sha realm u')"
  by (simp add: passwordlessUser_def Let_def equal_fold_def)

end
