(* ===== verification/Claims.thy ===== *)
theory Claims
  imports Session
begin

text \<open>
  The stores that shape minted tokens: custom claims and request-parameter mappings,
  \<^verbatim>\<open>internal/claims\<close>, and per-audience permissions, \<^verbatim>\<open>internal/permissions\<close>. A claim map that is
  passed to a mint is a partial function; the stores, which are listed by the admin API, are
  association lists.
\<close>

section \<open>Custom claims\<close>

type_synonym Claims_Store = "(string, json) gomap"

definition Claims_NewStore :: Claims_Store where
  "Claims_NewStore = []"

definition Claims_Set :: "(string, json) gomap \<Rightarrow> Claims_Store \<Rightarrow> Claims_Store" where
  "Claims_Set claims s = maps_copy [] claims"

definition Claims_Get :: "Claims_Store \<Rightarrow> (string, json) gomap" where
  "Claims_Get s = maps_copy [] s"

definition Claims_Clear :: "Claims_Store \<Rightarrow> Claims_Store" where
  "Claims_Clear s = []"

definition MergeInto :: "Claims_Store \<Rightarrow> claims \<Rightarrow> claims" where
  "MergeInto s dst = dst ++ map_of s"

section \<open>Claim mappings\<close>

type_synonym MappingStore = "(string, string) gomap"

definition NewMappingStore :: MappingStore where
  "NewMappingStore = []"

definition Mapping_Set :: "(string, string) gomap \<Rightarrow> MappingStore \<Rightarrow> MappingStore" where
  "Mapping_Set mappings s = maps_copy [] mappings"

definition Mapping_Get :: "MappingStore \<Rightarrow> (string, string) gomap" where
  "Mapping_Get s = maps_copy [] s"

definition Mapping_Clear :: "MappingStore \<Rightarrow> MappingStore" where
  "Mapping_Clear s = []"

definition Project :: "MappingStore \<Rightarrow> claims \<Rightarrow> claims \<Rightarrow> claims" where
  "Project s params dst =
     fold (\<lambda>param d. case params param of
         None \<Rightarrow> d
       | Some v \<Rightarrow> (case map_of s param of Some c \<Rightarrow> d(c \<mapsto> v) | None \<Rightarrow> d))
       (sort (map fst s)) dst"

section \<open>Permissions\<close>

type_synonym Perm_Store = "(string, string list) gomap"

definition Perm_NewStore :: Perm_Store where
  "Perm_NewStore = []"

definition Perm_Set :: "string \<Rightarrow> string list \<Rightarrow> Perm_Store \<Rightarrow> Perm_Store" where
  "Perm_Set audience perms s = AList.update audience perms s"

definition Perm_Get :: "string \<Rightarrow> Perm_Store \<Rightarrow> string list option" where
  "Perm_Get audience s = map_of s audience"

definition Perm_Delete :: "string \<Rightarrow> Perm_Store \<Rightarrow> Perm_Store" where
  "Perm_Delete audience s = AList.delete audience s"

definition Perm_Clear :: "Perm_Store \<Rightarrow> Perm_Store" where
  "Perm_Clear s = []"

definition Perm_All :: "Perm_Store \<Rightarrow> Perm_Store" where
  "Perm_All s = fold (\<lambda>(k, v) out. AList.update k v out) s []"

lemmas claim_defs [store_defs] = Claims_NewStore_def Claims_Set_def Claims_Get_def Claims_Clear_def MergeInto_def
  NewMappingStore_def Mapping_Set_def Mapping_Get_def Mapping_Clear_def
  Perm_NewStore_def Perm_Set_def Perm_Get_def Perm_Delete_def Perm_Clear_def

lemma maps_copy_keys: "fst ` set (maps_copy dst src) = fst ` set dst \<union> fst ` set src"
proof (induction src arbitrary: dst)
  case (Cons p src)
  obtain k v where "p = (k, v)" by (cases p)
  with Cons[of "AList.update k v dst"] show ?case by (auto simp: maps_copy_def dom_update)
qed (simp add: maps_copy_def)

lemma maps_copy_wf: "wf_map dst \<Longrightarrow> wf_map (maps_copy dst src)"
  by (induction src arbitrary: dst) (auto simp: maps_copy_def distinct_update)

lemma Claims_roundtrip: "wf_map c \<Longrightarrow> map_of (Claims_Get (Claims_Set c s)) = map_of c"
  by (simp add: Claims_Get_def Claims_Set_def maps_copy_lookup maps_copy_wf)

lemma Mapping_roundtrip: "wf_map c \<Longrightarrow> map_of (Mapping_Get (Mapping_Set c s)) = map_of c"
  by (simp add: Mapping_Get_def Mapping_Set_def maps_copy_lookup maps_copy_wf)

section \<open>What projection does\<close>

text \<open>The mapped parameters of a request that target a claim, in lexicographic order.\<close>

definition mapped_params :: "MappingStore \<Rightarrow> claims \<Rightarrow> string \<Rightarrow> string list" where
  "mapped_params s params c = filter (\<lambda>p. params p \<noteq> None \<and> map_of s p = Some c) (sort (map fst s))"

lemma Project_claim:
  "Project s params dst c =
     (if mapped_params s params c = [] then dst c else params (last (mapped_params s params c)))"
proof -
  let ?f = "\<lambda>param d. case params param of None \<Rightarrow> d
       | Some v \<Rightarrow> (case map_of s param of Some c \<Rightarrow> d(c \<mapsto> v) | None \<Rightarrow> d)"
  let ?P = "\<lambda>p. params p \<noteq> None \<and> map_of s p = Some c"
  have "fold ?f ps d c = (if filter ?P ps = [] then d c else params (last (filter ?P ps)))" for ps d
  proof (induction ps rule: rev_induct)
    case (snoc p ps)
    then show ?case by (auto split: option.splits)
  qed simp
  then show ?thesis by (simp add: Project_def mapped_params_def)
qed

lemma sorted_le_last: "sorted xs \<Longrightarrow> x \<in> set xs \<Longrightarrow> x \<le> last xs" for xs :: "'a::linorder list"
  by (induction xs) auto

text \<open>The parameter that wins is the greatest of those that target the claim.\<close>

lemma mapped_params_last:
  assumes "mapped_params s params c \<noteq> []"
  shows "last (mapped_params s params c) \<in> set (mapped_params s params c)"
    and "p \<in> set (mapped_params s params c) \<Longrightarrow> p \<le> last (mapped_params s params c)"
proof -
  have "sorted (mapped_params s params c)" by (simp add: mapped_params_def sorted_filter[where f = "\<lambda>x. x", simplified])
  then show "p \<in> set (mapped_params s params c) \<Longrightarrow> p \<le> last (mapped_params s params c)"
    by (rule sorted_le_last)
qed (use assms in simp)

end
