(* ===== verification/Token.thy ===== *)
theory Token
  imports Profile Claims Mfa
begin

text \<open>
  The token endpoint \<^verbatim>\<open>POST /oauth/token\<close>: request parsing, the nine grants and the state they
  read and write, \<^verbatim>\<open>internal/authapi/token.go\<close>, \<^verbatim>\<open>mfa_grants.go\<close> and \<^verbatim>\<open>types.go\<close>. A grant is a
  function from the request and the stores to the response and the stores. What it draws at random
  and the readings of the clock are fields of \<open>env\<close>; the decoders of the standard library and the
  hash are fields of \<open>auth_lib\<close>.
\<close>

section \<open>Requests, responses and stores\<close>

record tokenRequest =
  tr_GrantType :: string
  tr_ClientID :: string
  tr_ClientSecret :: string
  tr_Audience :: string
  tr_Scope :: string
  tr_Username :: string
  tr_Password :: string
  tr_RefreshToken :: string
  tr_Code :: string
  tr_RedirectURI :: string
  tr_CodeVerifier :: string
  tr_Realm :: string
  tr_MFAToken :: string
  tr_OTP :: string
  tr_OOBCode :: string
  tr_BindingCode :: string
  tr_RecoveryCode :: string
  tr_Params :: claims

record tokenResponse =
  tp_AccessToken :: string
  tp_IDToken :: string
  tp_RefreshToken :: string
  tp_TokenType :: string
  tp_ExpiresIn :: int
  tp_Scope :: string

definition omitempty :: "string \<Rightarrow> string \<Rightarrow> (string \<times> json) list" where
  "omitempty k v = (if v = [] then [] else [(k, JStr v)])"

definition token_json :: "tokenResponse \<Rightarrow> json" where
  "token_json t = JObj ([(''access_token'', JStr (tp_AccessToken t))] @ omitempty ''id_token'' (tp_IDToken t)
     @ omitempty ''refresh_token'' (tp_RefreshToken t) @ [(''token_type'', JStr (tp_TokenType t)),
       (''expires_in'', JInt (tp_ExpiresIn t))] @ omitempty ''scope'' (tp_Scope t))"

text \<open>The handler's configuration, the stores (any of which may be nil) and the sources of chance.\<close>

record TokenHandler =
  th_Keys :: KeySet
  th_DefaultAudience :: string

record auth_state =
  as_Claims :: "Claims_Store option"
  as_Mappings :: "MappingStore option"
  as_Permissions :: "Perm_Store option"
  as_PKCE :: "Pkce_Store option"
  as_MFA :: "Mfa_Store option"
  as_Sessions :: "Store option"

record env =
  nd_subject :: string
  nd_opaque :: "string + string"
  nd_refresh :: string
  nd_mfa :: string
  nd_code :: string
  nd_login :: string
  nd_now :: "nat \<Rightarrow> time"

record auth_lib =
  al_jwt :: jwt_lib
  al_sha256 :: "string \<Rightarrow> string"
  al_request :: "string \<Rightarrow> string + tokenRequest"
  al_params :: "string \<Rightarrow> string + claims"
  al_form :: "request \<Rightarrow> string + url_values option"
  al_b64decode :: "string \<Rightarrow> string option"
  al_unescape :: "string \<Rightarrow> string option"

definition grantPasswordlessOTP :: string where
  "grantPasswordlessOTP = ''http://auth0.com/oauth/grant-type/passwordless/otp''"

definition acceptedPasswordlessOTP :: string where
  "acceptedPasswordlessOTP = ''000000''"

section \<open>Parsing\<close>

definition form_params :: "url_values \<Rightarrow> claims" where
  "form_params f = (\<lambda>k. case map_of f k of Some (v # _) \<Rightarrow> if v \<noteq> [] then Some (JStr v) else None | _ \<Rightarrow> None)"

definition parseTokenBody :: "auth_lib \<Rightarrow> request \<Rightarrow> string + tokenRequest" where
  "parseTokenBody A r =
     (if has_prefix (header_get (rq_Header r) ''Content-Type'') ''application/json'' then
        (case (case rq_Body r of None \<Rightarrow> ([], None) | Some b \<Rightarrow> b) of
           (_, Some err) \<Rightarrow> Inl err
         | (body, None) \<Rightarrow>
             if length body > 0 then
               (case al_request A body of
                  Inl err \<Rightarrow> Inl err
                | Inr req \<Rightarrow> (case al_params A body of
                      Inl err \<Rightarrow> Inl err
                    | Inr params \<Rightarrow> Inr (req\<lparr>tr_Params := params\<rparr>)))
             else Inr \<lparr>tr_GrantType = [], tr_ClientID = [], tr_ClientSecret = [], tr_Audience = [], tr_Scope = [],
                tr_Username = [], tr_Password = [], tr_RefreshToken = [], tr_Code = [], tr_RedirectURI = [],
                tr_CodeVerifier = [], tr_Realm = [], tr_MFAToken = [], tr_OTP = [], tr_OOBCode = [],
                tr_BindingCode = [], tr_RecoveryCode = [], tr_Params = Map.empty\<rparr>)
      else
        (case al_form A r of
           Inl err \<Rightarrow> Inl err
         | Inr None \<Rightarrow> Inl ''no form body''
         | Inr (Some f) \<Rightarrow> Inr
             \<lparr>tr_GrantType = values_get f ''grant_type'', tr_ClientID = values_get f ''client_id'',
              tr_ClientSecret = values_get f ''client_secret'', tr_Audience = values_get f ''audience'',
              tr_Scope = values_get f ''scope'', tr_Username = values_get f ''username'',
              tr_Password = values_get f ''password'', tr_RefreshToken = values_get f ''refresh_token'',
              tr_Code = values_get f ''code'', tr_RedirectURI = values_get f ''redirect_uri'',
              tr_CodeVerifier = values_get f ''code_verifier'', tr_Realm = values_get f ''realm'',
              tr_MFAToken = values_get f ''mfa_token'', tr_OTP = values_get f ''otp'',
              tr_OOBCode = values_get f ''oob_code'', tr_BindingCode = values_get f ''binding_code'',
              tr_RecoveryCode = values_get f ''recovery_code'', tr_Params = form_params f\<rparr>))"

definition fill_param :: "string \<Rightarrow> string \<Rightarrow> claims \<Rightarrow> claims" where
  "fill_param key v params =
     (if params key = None \<or> params key = Some (JStr []) \<or> params key = Some JNull then params(key \<mapsto> JStr v) else params)"

definition applyBasicAuth :: "auth_lib \<Rightarrow> request \<Rightarrow> tokenRequest \<Rightarrow> tokenRequest" where
  "applyBasicAuth A r req =
     (case str_cut CHR 0x20 (trim_space (header_get (rq_Header r) ''Authorization'')) of (scheme, cred, ok) \<Rightarrow>
        if \<not> ok \<or> \<not> equal_fold scheme ''Basic'' then req
        else (case al_b64decode A (trim_space cred) of
            None \<Rightarrow> req
          | Some raw \<Rightarrow> (case str_cut CHR '':'' raw of (cid, secret, ok2) \<Rightarrow>
              if \<not> ok2 then req
              else
                (let unescape = (\<lambda>v. case al_unescape A v of Some u \<Rightarrow> u | None \<Rightarrow> v);
                     req1 = (if tr_ClientID req \<noteq> [] \<or> unescape cid = [] then req
                             else req\<lparr>tr_ClientID := unescape cid,
                                      tr_Params := fill_param ''client_id'' (unescape cid) (tr_Params req)\<rparr>)
                 in if tr_ClientSecret req1 \<noteq> [] \<or> unescape secret = [] then req1
                    else req1\<lparr>tr_ClientSecret := unescape secret,
                              tr_Params := fill_param ''client_secret'' (unescape secret) (tr_Params req1)\<rparr>))))"

definition parseTokenRequest :: "auth_lib \<Rightarrow> request \<Rightarrow> string + tokenRequest" where
  "parseTokenRequest A r = (case parseTokenBody A r of Inl err \<Rightarrow> Inl err | Inr req \<Rightarrow> Inr (applyBasicAuth A r req))"

definition resolveAudience :: "TokenHandler \<Rightarrow> string \<Rightarrow> string" where
  "resolveAudience h requested =
     (let aud = (if trim_space requested = [] then th_DefaultAudience h else requested)
      in if trim_space aud = [] then [] else aud)"

section \<open>Minting\<close>

abbreviation cfg_of :: "TokenHandler \<Rightarrow> Config" where
  "cfg_of h \<equiv> ks_cfg (th_Keys h)"

definition augmentExtra :: "auth_state \<Rightarrow> claims \<Rightarrow> string \<Rightarrow> claims \<Rightarrow> claims" where
  "augmentExtra st extra audience params =
     (let e1 = (case as_Permissions st of
            Some ps \<Rightarrow> (case Perm_Get audience ps of
                Some perms \<Rightarrow> if length perms > 0 then extra(''permissions'' \<mapsto> JArr (map JStr perms)) else extra
              | None \<Rightarrow> extra)
          | None \<Rightarrow> extra);
          e2 = (case as_Claims st of Some c \<Rightarrow> MergeInto c e1 | None \<Rightarrow> e1)
      in case as_Mappings st of Some m \<Rightarrow> Project m params e2 | None \<Rightarrow> e2)"

text \<open>\<^verbatim>\<open>nd_now E 0\<close> is the clock reading of the access token; an opaque token is 32 random bytes.\<close>

definition mintAccess :: "auth_lib \<Rightarrow> env \<Rightarrow> TokenHandler \<Rightarrow> MintOpts \<Rightarrow> string \<Rightarrow> auth_state \<Rightarrow> (string + string) \<times> auth_state" where
  "mintAccess A E h opts clientID st =
     (if length (mo_Audience opts) > 0 \<and> trim_space (mo_Audience opts ! 0) \<noteq> [] then
        (case Mint (al_jwt A) (th_Keys h) (nd_now E 0) opts of
           Inl err \<Rightarrow> (Inl (jl_text (al_jwt A) err), st)
         | Inr tok \<Rightarrow> (Inr tok, st))
      else
        (case nd_opaque E of
           Inl err \<Rightarrow> (Inl err, st)
         | Inr buf \<Rightarrow>
             (let token = RawURLEncode buf
              in (Inr token, st\<lparr>as_Sessions := map_option (RememberAccess token
                    \<lparr>ac_Subject = mo_Subject opts, ac_ClientID = clientID, ac_Scope = mo_Scope opts, ac_Issuer = mo_Issuer opts,
                     ac_ExpiresAt = time_add (nd_now E 0) (mo_TTL opts)\<rparr>) (as_Sessions st)\<rparr>))))"

definition rememberProfile :: "string \<Rightarrow> claims \<Rightarrow> auth_state \<Rightarrow> auth_state" where
  "rememberProfile subject extra st = st\<lparr>as_Sessions := map_option (RememberProfile subject (profileOf extra)) (as_Sessions st)\<rparr>"

definition issueRefreshToken :: "env \<Rightarrow> Grant \<Rightarrow> claims \<Rightarrow> auth_state \<Rightarrow> string \<times> auth_state" where
  "issueRefreshToken E g idExtra st =
     (nd_refresh E, st\<lparr>as_Sessions := map_option (RememberRefresh (nd_refresh E) (g\<lparr>gr_Profile := Some (profileOf idExtra)\<rparr>)) (as_Sessions st)\<rparr>)"

definition server_error :: "string \<Rightarrow> response" where
  "server_error err = WriteAuth 500 ''server_error'' err"

text \<open>
  What every user grant ends with: mint the id token, remember the profile, issue the refresh
  token and answer. The id token reads the clock as \<^verbatim>\<open>nd_now E 2\<close>.
\<close>

definition finish_login :: "auth_lib \<Rightarrow> env \<Rightarrow> TokenHandler \<Rightarrow> request \<Rightarrow> string \<Rightarrow> claims \<Rightarrow> Grant \<Rightarrow> auth_state
    \<Rightarrow> response \<times> auth_state" where
  "finish_login A E h r access idExtra grant st =
     (case Mint (al_jwt A) (th_Keys h) (nd_now E 2)
         \<lparr>mo_Issuer = IssuerFor (th_Keys h) r, mo_Subject = gr_Subject grant, mo_Audience = [gr_ClientID grant],
          mo_Scope = [], mo_TTL = cf_IDTokenTTL (cfg_of h), mo_Extra = idExtra\<rparr> of
        Inl err \<Rightarrow> (server_error (jl_text (al_jwt A) err), st)
      | Inr idt \<Rightarrow>
          (let st1 = rememberProfile (gr_Subject grant) idExtra st
           in case issueRefreshToken E grant idExtra st1 of (rt, st2) \<Rightarrow>
             (render_json 200 (token_json \<lparr>tp_AccessToken = access, tp_IDToken = idt, tp_RefreshToken = rt,
                tp_TokenType = ''Bearer'', tp_ExpiresIn = dur_secs (cf_AccessTokenTTL (cfg_of h)),
                tp_Scope = gr_Scope grant\<rparr>), st2)))"

definition access_opts :: "TokenHandler \<Rightarrow> request \<Rightarrow> string \<Rightarrow> string \<Rightarrow> string \<Rightarrow> claims \<Rightarrow> MintOpts" where
  "access_opts h r subject aud scope extra =
     \<lparr>mo_Issuer = IssuerFor (th_Keys h) r, mo_Subject = subject, mo_Audience = [aud], mo_Scope = scope,
      mo_TTL = cf_AccessTokenTTL (cfg_of h), mo_Extra = extra\<rparr>"

text \<open>The common course of the user grants: mint the access token for the grant's client, then finish.\<close>

definition mint_and_finish :: "auth_lib \<Rightarrow> env \<Rightarrow> TokenHandler \<Rightarrow> request \<Rightarrow> claims \<Rightarrow> claims \<Rightarrow> Grant \<Rightarrow> auth_state
    \<Rightarrow> response \<times> auth_state" where
  "mint_and_finish A E h r extra idExtra grant st =
     (case mintAccess A E h (access_opts h r (gr_Subject grant) (gr_Audience grant) (gr_Scope grant) extra) (gr_ClientID grant) st of
        (Inl err, st1) \<Rightarrow> (server_error err, st1)
      | (Inr access, st1) \<Rightarrow> finish_login A E h r access idExtra grant st1)"

text \<open>\<^verbatim>\<open>requireMFA\<close>: the challenge to answer, if any. The store reads the clock twice.\<close>

definition requireMFA :: "env \<Rightarrow> Context \<Rightarrow> auth_state \<Rightarrow> response option \<times> auth_state" where
  "requireMFA E ctx st = (case as_MFA st of
      None \<Rightarrow> (None, st)
    | Some m \<Rightarrow>
        if \<not> IsRequired m then (None, st)
        else
          (Some (render_json 403 (JObj [(''error'', JStr ''mfa_required''),
              (''error_description'', JStr ''Multifactor authentication required''), (''mfa_token'', JStr (nd_mfa E))])),
           st\<lparr>as_MFA := Some (Issue (nd_now E 3) (nd_now E 4) (nd_mfa E) ctx m)\<rparr>))"

section \<open>The grants\<close>

definition azp_extra :: "string \<Rightarrow> string \<Rightarrow> claims" where
  "azp_extra gty clientID = [''gty'' \<mapsto> JStr gty, ''azp'' \<mapsto> JStr clientID]"

definition respondClientCredentials :: "auth_lib \<Rightarrow> env \<Rightarrow> TokenHandler \<Rightarrow> request \<Rightarrow> tokenRequest \<Rightarrow> string \<Rightarrow> auth_state
    \<Rightarrow> response \<times> auth_state" where
  "respondClientCredentials A E h r req aud st =
     (if aud = [] then
        (WriteAuth 403 ''access_denied'' ''No audience parameter was provided, and no default audience has been configured'', st)
      else
        (case Mint (al_jwt A) (th_Keys h) (nd_now E 0)
            (access_opts h r (tr_ClientID req @ ''@clients'') aud (tr_Scope req)
               (augmentExtra st (azp_extra ''client-credentials'' (tr_ClientID req)) aud (tr_Params req))) of
           Inl err \<Rightarrow> (server_error (jl_text (al_jwt A) err), st)
         | Inr access \<Rightarrow>
             (render_json 200 (token_json \<lparr>tp_AccessToken = access, tp_IDToken = [], tp_RefreshToken = [],
                tp_TokenType = ''Bearer'', tp_ExpiresIn = dur_secs (cf_AccessTokenTTL (cfg_of h)),
                tp_Scope = tr_Scope req\<rparr>), st)))"

definition password_subject :: "env \<Rightarrow> tokenRequest \<Rightarrow> string" where
  "password_subject E req = (if tr_Username req = [] then ''auth0|'' @ nd_subject E else tr_Username req)"

definition password_profile :: "string \<Rightarrow> string \<Rightarrow> time \<Rightarrow> claims" where
  "password_profile subject clientID authTime =
     [''email'' \<mapsto> JStr subject, ''email_verified'' \<mapsto> JBool True, ''name'' \<mapsto> JStr subject,
      ''azp'' \<mapsto> JStr clientID, ''auth_time'' \<mapsto> JInt (unix_secs authTime)]"

definition respondPassword :: "auth_lib \<Rightarrow> env \<Rightarrow> TokenHandler \<Rightarrow> request \<Rightarrow> tokenRequest \<Rightarrow> string \<Rightarrow> auth_state
    \<Rightarrow> response \<times> auth_state" where
  "respondPassword A E h r req aud st =
     (let subject = password_subject E req
      in case requireMFA E \<lparr>cx_ClientID = tr_ClientID req, cx_Audience = aud, cx_Scope = tr_Scope req, cx_Subject = subject,
            cx_Realm = [], cx_Profile = None, cx_expiresAt = zero_time\<rparr> st of
         (Some resp, st') \<Rightarrow> (resp, st')
       | (None, _) \<Rightarrow>
           (let authTime = nd_now E 1
            in mint_and_finish A E h r
                 (augmentExtra st (azp_extra ''password'' (tr_ClientID req)) aud (tr_Params req))
                 (fillProfile (password_profile subject (tr_ClientID req) authTime) subject)
                 \<lparr>gr_Subject = subject, gr_ClientID = tr_ClientID req, gr_Audience = aud, gr_Scope = tr_Scope req,
                  gr_Realm = [], gr_AuthTime = authTime, gr_Profile = None\<rparr> st))"

definition respondPasswordRealm :: "auth_lib \<Rightarrow> env \<Rightarrow> TokenHandler \<Rightarrow> request \<Rightarrow> tokenRequest \<Rightarrow> string \<Rightarrow> auth_state
    \<Rightarrow> response \<times> auth_state" where
  "respondPasswordRealm A E h r req aud st =
     (if tr_Realm req = [] then (WriteAuth 400 ''invalid_request'' ''missing realm'', st)
      else
        (let subject = password_subject E req
         in case requireMFA E \<lparr>cx_ClientID = tr_ClientID req, cx_Audience = aud, cx_Scope = tr_Scope req, cx_Subject = subject,
               cx_Realm = tr_Realm req, cx_Profile = None, cx_expiresAt = zero_time\<rparr> st of
            (Some resp, st') \<Rightarrow> (resp, st')
          | (None, _) \<Rightarrow>
              (let authTime = nd_now E 1
               in mint_and_finish A E h r
                    (augmentExtra st ((azp_extra ''password-realm'' (tr_ClientID req))(''connection'' \<mapsto> JStr (tr_Realm req),
                       ''https://auth0.com/realm'' \<mapsto> JStr (tr_Realm req))) aud (tr_Params req))
                    (fillProfile ((password_profile subject (tr_ClientID req) authTime)(''connection'' \<mapsto> JStr (tr_Realm req))) subject)
                    \<lparr>gr_Subject = subject, gr_ClientID = tr_ClientID req, gr_Audience = aud, gr_Scope = tr_Scope req,
                     gr_Realm = tr_Realm req, gr_AuthTime = authTime, gr_Profile = None\<rparr> st)))"

definition respondPasswordless :: "auth_lib \<Rightarrow> env \<Rightarrow> TokenHandler \<Rightarrow> request \<Rightarrow> tokenRequest \<Rightarrow> string \<Rightarrow> auth_state
    \<Rightarrow> response \<times> auth_state" where
  "respondPasswordless A E h r req aud st =
     (case find (\<lambda>(name, v). v = []) [(''client_id'', tr_ClientID req), (''username'', trim_space (tr_Username req)),
          (''otp'', tr_OTP req), (''realm'', tr_Realm req)] of
        Some (name, _) \<Rightarrow> (WriteAuth 400 ''invalid_request'' (''Missing required parameter: '' @ name), st)
      | None \<Rightarrow>
          if tr_Realm req \<noteq> ''email'' \<and> tr_Realm req \<noteq> ''sms'' then
            (WriteAuth 400 ''invalid_request'' ''realm must be \"email\" or \"sms\"'', st)
          else if tr_OTP req \<noteq> acceptedPasswordlessOTP then
            (WriteAuth 403 ''invalid_grant'' (if tr_Realm req = ''sms'' then ''Wrong phone number or verification code.''
               else ''Wrong email or verification code.''), st)
          else
            (case passwordlessUser (al_sha256 A) (tr_Realm req) (tr_Username req) of (subject, profile) \<Rightarrow>
              (case requireMFA E \<lparr>cx_ClientID = tr_ClientID req, cx_Audience = aud, cx_Scope = tr_Scope req, cx_Subject = subject,
                   cx_Realm = tr_Realm req, cx_Profile = Some profile, cx_expiresAt = zero_time\<rparr> st of
                 (Some resp, st') \<Rightarrow> (resp, st')
               | (None, _) \<Rightarrow>
                   (let authTime = nd_now E 1
                    in mint_and_finish A E h r
                         (augmentExtra st ((azp_extra ''passwordless'' (tr_ClientID req))(''connection'' \<mapsto> JStr (tr_Realm req)))
                            aud (tr_Params req))
                         (profile(''azp'' \<mapsto> JStr (tr_ClientID req), ''auth_time'' \<mapsto> JInt (unix_secs authTime),
                            ''connection'' \<mapsto> JStr (tr_Realm req)))
                         \<lparr>gr_Subject = subject, gr_ClientID = tr_ClientID req, gr_Audience = aud, gr_Scope = tr_Scope req,
                          gr_Realm = tr_Realm req, gr_AuthTime = authTime, gr_Profile = None\<rparr> st))))"

definition respondUnknownRefreshToken :: "auth_lib \<Rightarrow> env \<Rightarrow> TokenHandler \<Rightarrow> request \<Rightarrow> tokenRequest \<Rightarrow> string \<Rightarrow> auth_state
    \<Rightarrow> response \<times> auth_state" where
  "respondUnknownRefreshToken A E h r req aud st =
     (case mintAccess A E h (access_opts h r (tr_ClientID req @ ''@refresh'') aud []
          (augmentExtra st (azp_extra ''refresh-token'' (tr_ClientID req)) aud (tr_Params req))) (tr_ClientID req) st of
        (Inl err, st1) \<Rightarrow> (server_error err, st1)
      | (Inr access, st1) \<Rightarrow>
          (render_json 200 (token_json \<lparr>tp_AccessToken = access, tp_IDToken = [], tp_RefreshToken = [],
             tp_TokenType = ''Bearer'', tp_ExpiresIn = dur_secs (cf_AccessTokenTTL (cfg_of h)), tp_Scope = []\<rparr>), st1))"

definition respondRefreshToken :: "auth_lib \<Rightarrow> env \<Rightarrow> TokenHandler \<Rightarrow> request \<Rightarrow> tokenRequest \<Rightarrow> string \<Rightarrow> auth_state
    \<Rightarrow> response \<times> auth_state" where
  "respondRefreshToken A E h r req aud0 st =
     (case (case as_Sessions st of Some s \<Rightarrow> Refresh (tr_RefreshToken req) s | None \<Rightarrow> None) of
        None \<Rightarrow> respondUnknownRefreshToken A E h r req aud0 st
      | Some grant \<Rightarrow>
          (let aud = (if trim_space (tr_Audience req) \<noteq> [] then tr_Audience req
                      else if gr_Audience grant \<noteq> [] then gr_Audience grant else aud0);
               scope = (if tr_Scope req = [] then gr_Scope grant else tr_Scope req);
               clientID = (if tr_ClientID req = [] then gr_ClientID grant else tr_ClientID req);
               base = (case gr_Profile grant of Some p \<Rightarrow> p | None \<Rightarrow> deriveProfile (gr_Subject grant));
               idExtra = base(''azp'' \<mapsto> JStr clientID, ''auth_time'' \<mapsto> JInt (unix_secs (gr_AuthTime grant)));
               idExtra' = (if gr_Realm grant \<noteq> [] then idExtra(''connection'' \<mapsto> JStr (gr_Realm grant)) else idExtra)
           in mint_and_finish A E h r (augmentExtra st (azp_extra ''refresh-token'' clientID) aud (tr_Params req)) idExtra'
                (grant\<lparr>gr_Audience := aud, gr_Scope := scope, gr_ClientID := clientID\<rparr>) st))"

definition codeAudienceScope :: "Entry option \<Rightarrow> string \<Rightarrow> string \<Rightarrow> string \<times> string" where
  "codeAudienceScope entry aud scope = (case entry of
      None \<Rightarrow> (aud, scope)
    | Some e \<Rightarrow> (if en_Audience e \<noteq> [] then en_Audience e else aud, if en_Scope e \<noteq> [] then en_Scope e else scope))"

text \<open>The PKCE check of the code grant: the entry that was consumed, or the refusal.\<close>

definition redeem_code :: "auth_lib \<Rightarrow> env \<Rightarrow> tokenRequest \<Rightarrow> auth_state \<Rightarrow> (response + Entry option) \<times> auth_state" where
  "redeem_code A E req st = (case as_PKCE st of
      None \<Rightarrow> (Inr None, st)
    | Some p \<Rightarrow>
        if tr_Code req = [] then (Inr None, st)
        else (case Pkce_Consume (nd_now E 3) (tr_Code req) p of (entry, p') \<Rightarrow>
          (let st' = st\<lparr>as_PKCE := Some p'\<rparr>;
               hasChallenge = (case entry of Some e \<Rightarrow> en_Challenge e \<noteq> [] | None \<Rightarrow> False)
           in if hasChallenge \<or> tr_CodeVerifier req \<noteq> [] then
                (if \<not> hasChallenge then
                   (Inl (WriteAuth 400 ''invalid_grant''
                      ''PKCE verification failed: no stored challenge for this authorization_code (expired or never issued)''), st')
                 else (case Verify (al_sha256 A) (the entry) (tr_CodeVerifier req) of
                     Some err \<Rightarrow> (Inl (WriteAuth 400 ''invalid_grant'' (''PKCE verification failed: '' @ err)), st')
                   | None \<Rightarrow> (Inr entry, st')))
              else (Inr entry, st'))))"

definition respondAuthorizationCode :: "auth_lib \<Rightarrow> env \<Rightarrow> TokenHandler \<Rightarrow> request \<Rightarrow> tokenRequest \<Rightarrow> string \<Rightarrow> auth_state
    \<Rightarrow> response \<times> auth_state" where
  "respondAuthorizationCode A E h r req aud0 st0 = (case redeem_code A E req st0 of
      (Inl resp, st) \<Rightarrow> (resp, st)
    | (Inr entry, st) \<Rightarrow>
        (let subject = (case entry of Some e \<Rightarrow> if en_LoginHint e \<noteq> [] then en_LoginHint e else DefaultSubject
                        | None \<Rightarrow> DefaultSubject)
         in case codeAudienceScope entry aud0 (tr_Scope req) of (aud, scope) \<Rightarrow>
           (let idExtra = (deriveProfile subject)(''azp'' \<mapsto> JStr (tr_ClientID req));
                authTime = (case entry of Some e \<Rightarrow> en_AuthTime e | None \<Rightarrow> nd_now E 1);
                idExtra1 = (case entry of
                    Some e \<Rightarrow> if en_Nonce e \<noteq> [] then idExtra(''nonce'' \<mapsto> JStr (en_Nonce e)) else idExtra
                  | None \<Rightarrow> idExtra)
            in mint_and_finish A E h r (augmentExtra st (azp_extra ''authorization-code'' (tr_ClientID req)) aud (tr_Params req))
                 (idExtra1(''auth_time'' \<mapsto> JInt (unix_secs authTime)))
                 \<lparr>gr_Subject = subject, gr_ClientID = tr_ClientID req, gr_Audience = aud, gr_Scope = scope,
                  gr_Realm = [], gr_AuthTime = authTime, gr_Profile = None\<rparr> st)))"

text \<open>The three step-up grants.\<close>

definition consumeMFAToken :: "env \<Rightarrow> string \<Rightarrow> auth_state \<Rightarrow> (response + Context) \<times> auth_state" where
  "consumeMFAToken E token st = (case as_MFA st of
      None \<Rightarrow> (Inl (WriteAuth 400 ''invalid_request'' ''mfa not configured on this server''), st)
    | Some m \<Rightarrow>
        if token = [] then (Inl (WriteAuth 400 ''invalid_request'' ''missing mfa_token''), st)
        else (case Mfa_Consume (nd_now E 3) token m of
            (None, m') \<Rightarrow> (Inl (WriteAuth 403 ''invalid_grant'' ''Malformed or expired mfa_token''), st\<lparr>as_MFA := Some m'\<rparr>)
          | (Some ctx, m') \<Rightarrow> (Inr ctx, st\<lparr>as_MFA := Some m'\<rparr>)))"

definition mintFromMFA :: "auth_lib \<Rightarrow> env \<Rightarrow> TokenHandler \<Rightarrow> request \<Rightarrow> Context \<Rightarrow> string \<Rightarrow> claims \<Rightarrow> auth_state
    \<Rightarrow> response \<times> auth_state" where
  "mintFromMFA A E h r ctx gty params st =
     (let extra = azp_extra gty (cx_ClientID ctx);
          extra' = (if cx_Realm ctx \<noteq> [] then extra(''connection'' \<mapsto> JStr (cx_Realm ctx)) else extra);
          authTime = nd_now E 1;
          idExtra = (case cx_Profile ctx of
              Some p \<Rightarrow> p(''azp'' \<mapsto> JStr (cx_ClientID ctx), ''auth_time'' \<mapsto> JInt (unix_secs authTime))
            | None \<Rightarrow> fillProfile (password_profile (cx_Subject ctx) (cx_ClientID ctx) authTime) (cx_Subject ctx));
          idExtra' = (if cx_Realm ctx \<noteq> [] then idExtra(''connection'' \<mapsto> JStr (cx_Realm ctx)) else idExtra)
      in mint_and_finish A E h r (augmentExtra st extra' (cx_Audience ctx) params) idExtra'
           \<lparr>gr_Subject = cx_Subject ctx, gr_ClientID = cx_ClientID ctx, gr_Audience = cx_Audience ctx,
            gr_Scope = cx_Scope ctx, gr_Realm = cx_Realm ctx, gr_AuthTime = authTime, gr_Profile = None\<rparr> st)"

definition respondMFAOTP :: "auth_lib \<Rightarrow> env \<Rightarrow> TokenHandler \<Rightarrow> request \<Rightarrow> tokenRequest \<Rightarrow> auth_state \<Rightarrow> response \<times> auth_state" where
  "respondMFAOTP A E h r req st = (case consumeMFAToken E (tr_MFAToken req) st of
      (Inl resp, st1) \<Rightarrow> (resp, st1)
    | (Inr ctx, st1) \<Rightarrow>
        if tr_OTP req \<noteq> AcceptedOTP then (WriteAuth 403 ''invalid_grant'' ''Wrong otp'', st1)
        else mintFromMFA A E h r ctx ''mfa-otp'' (tr_Params req) st1)"

definition respondMFAOOB :: "auth_lib \<Rightarrow> env \<Rightarrow> TokenHandler \<Rightarrow> request \<Rightarrow> tokenRequest \<Rightarrow> auth_state \<Rightarrow> response \<times> auth_state" where
  "respondMFAOOB A E h r req st = (case consumeMFAToken E (tr_MFAToken req) st of
      (Inl resp, st1) \<Rightarrow> (resp, st1)
    | (Inr ctx, st1) \<Rightarrow>
        if tr_OOBCode req = [] then (WriteAuth 400 ''invalid_request'' ''missing oob_code'', st1)
        else if tr_BindingCode req \<noteq> AcceptedBindingCode then (WriteAuth 403 ''invalid_grant'' ''Wrong binding code'', st1)
        else mintFromMFA A E h r ctx ''mfa-oob'' (tr_Params req) st1)"

definition respondMFARecoveryCode :: "auth_lib \<Rightarrow> env \<Rightarrow> TokenHandler \<Rightarrow> request \<Rightarrow> tokenRequest \<Rightarrow> auth_state \<Rightarrow> response \<times> auth_state" where
  "respondMFARecoveryCode A E h r req st = (case consumeMFAToken E (tr_MFAToken req) st of
      (Inl resp, st1) \<Rightarrow> (resp, st1)
    | (Inr ctx, st1) \<Rightarrow>
        if tr_RecoveryCode req \<noteq> AcceptedRecoveryCode then (WriteAuth 403 ''invalid_grant'' ''Wrong recovery code'', st1)
        else mintFromMFA A E h r ctx ''mfa-recovery-code'' (tr_Params req) st1)"

section \<open>The endpoint\<close>

definition Token_ServeHTTP :: "auth_lib \<Rightarrow> env \<Rightarrow> TokenHandler \<Rightarrow> request \<Rightarrow> auth_state \<Rightarrow> response \<times> auth_state" where
  "Token_ServeHTTP A E h r st = (case parseTokenRequest A r of
      Inl err \<Rightarrow> (WriteAuth 400 ''invalid_request'' err, st)
    | Inr req \<Rightarrow>
        if tr_GrantType req = [] then (WriteAuth 400 ''invalid_request'' ''missing grant_type'', st)
        else
          (let aud = resolveAudience h (tr_Audience req); g = tr_GrantType req
           in if g = ''client_credentials'' then respondClientCredentials A E h r req aud st
              else if g = ''password'' then respondPassword A E h r req aud st
              else if g = ''http://auth0.com/oauth/grant-type/password-realm'' then respondPasswordRealm A E h r req aud st
              else if g = grantPasswordlessOTP then respondPasswordless A E h r req aud st
              else if g = ''refresh_token'' then respondRefreshToken A E h r req aud st
              else if g = ''authorization_code'' then respondAuthorizationCode A E h r req aud st
              else if g = ''http://auth0.com/oauth/grant-type/mfa-otp'' then respondMFAOTP A E h r req st
              else if g = ''http://auth0.com/oauth/grant-type/mfa-oob'' then respondMFAOOB A E h r req st
              else if g = ''http://auth0.com/oauth/grant-type/mfa-recovery-code'' then respondMFARecoveryCode A E h r req st
              else (WriteAuth 400 ''unsupported_grant_type'' (''grant_type '' @ g @ '' is not supported''), st)))"

lemmas grant_defs [handler_defs] = respondClientCredentials_def respondPassword_def respondPasswordRealm_def
  respondPasswordless_def respondUnknownRefreshToken_def respondRefreshToken_def respondAuthorizationCode_def
  respondMFAOTP_def respondMFAOOB_def respondMFARecoveryCode_def mintFromMFA_def

end
