(* ===== verification/Authorize.thy ===== *)
theory Authorize
  imports Token Matches
begin

text \<open>
  The authorization endpoint: the rules that make it fail on purpose,
  \<^verbatim>\<open>internal/authorizeerr/authorizeerr.go\<close>, redirect vetting, \<^verbatim>\<open>internal/authapi/redirect.go\<close>, the
  delivery of the answer, \<^verbatim>\<open>deliver.go\<close>, the login cookie, \<^verbatim>\<open>logincookie.go\<close>, and
  \<^verbatim>\<open>GET /authorize\<close> itself, \<^verbatim>\<open>authorize.go\<close>. \<^verbatim>\<open>url.Parse\<close> is modelled as far as the code depends
  on it; escaping, URL printing, the encoding of parameters, the cookie header and the HTML
  templates are the fields of \<open>url_lib\<close>.
\<close>

section \<open>Failure rules\<close>

record Rule =
  ru_ID :: string
  ru_Match :: "(string, string) gomap option"
  ru_Error :: string
  ru_ErrorDescription :: string

type_synonym Rule_Store = "Rule list"

definition Rules_NewStore :: Rule_Store where
  "Rules_NewStore = []"

definition Rules_Add :: "string \<Rightarrow> Rule \<Rightarrow> Rule_Store \<Rightarrow> Rule \<times> Rule_Store" where
  "Rules_Add uid r s = (let r' = r\<lparr>ru_ID := uid\<rparr> in (r', s @ [r']))"

definition Rules_List :: "Rule_Store \<Rightarrow> Rule list" where
  "Rules_List s = s"

fun Rules_Delete :: "string \<Rightarrow> Rule_Store \<Rightarrow> bool \<times> Rule_Store" where
  "Rules_Delete i [] = (False, [])"
| "Rules_Delete i (r # rs) =
     (if ru_ID r = i then (True, rs) else (case Rules_Delete i rs of (found, rs') \<Rightarrow> (found, r # rs')))"

definition Rules_Clear :: "Rule_Store \<Rightarrow> Rule_Store" where
  "Rules_Clear s = []"

definition rule_applies :: "json_codec \<Rightarrow> url_values \<Rightarrow> Rule \<Rightarrow> bool" where
  "rule_applies C q r = Matches C (Some \<lparr>rm_Query = ru_Match r, rm_Headers = None, rm_Body = []\<rparr>)
     \<lparr>mq_Query = q, mq_Headers = [], mq_Body = []\<rparr>"

definition Rules_Find :: "json_codec \<Rightarrow> url_values \<Rightarrow> Rule_Store \<Rightarrow> Rule option" where
  "Rules_Find C q s = find (rule_applies C q) (rev s)"

definition oauthSafe :: "string \<Rightarrow> bool" where
  "oauthSafe s = list_all (\<lambda>c. \<not> ((of_char c :: nat) < 0x20 \<or> (of_char c :: nat) > 0x7E \<or> c = CHR 0x22 \<or> c = CHR 0x5C)) s"

definition Rules_Validate :: "(string \<Rightarrow> string) \<Rightarrow> Rule \<Rightarrow> string option" where
  "Rules_Validate quote r =
     (if ru_Error r = [] then Some ''error is required''
      else if \<not> oauthSafe (ru_Error r) then Some ''error contains characters OAuth does not allow''
      else if \<not> oauthSafe (ru_ErrorDescription r) then Some ''error_description contains characters OAuth does not allow''
      else (case find (\<lambda>k. map_of (range_map (ru_Match r)) k = Some []) (sort (map fst (range_map (ru_Match r)))) of
          Some k \<Rightarrow> Some (''match values must not be empty (key '' @ quote k @ '')'')
        | None \<Rightarrow> None))"

text \<open>A validated rule applies exactly to the queries that carry each of its parameters.\<close>

lemma validated_rule_applies:
  assumes valid: "Rules_Validate quote r = None" and wf: "wf_map (range_map (ru_Match r))"
  shows "rule_applies C q r \<longleftrightarrow> (\<forall>(k, v) \<in> set (range_map (ru_Match r)). \<exists>vs. map_of q k = Some (v # vs))"
proof -
  have ne: "v \<noteq> []" if "(k, v) \<in> set (range_map (ru_Match r))" for k v
    using valid that wf by (force simp: Rules_Validate_def find_None_iff split: if_splits option.splits)
  have "values_get q k = v \<longleftrightarrow> (\<exists>vs. map_of q k = Some (v # vs))" if "v \<noteq> []" for k v
    using that by (auto simp: values_get_def split: option.splits list.splits)
  with ne show ?thesis
    by (auto simp: rule_applies_def Matches_Some_iff body_matches_def no_body_def list_all_iff range_map_def)
qed

section \<open>Redirects\<close>

record url =
  u_Scheme :: string
  u_Opaque :: string
  u_User :: string
  u_Host :: string
  u_Path :: string
  u_ForceQuery :: bool
  u_RawQuery :: string
  u_Fragment :: string
  u_OmitHost :: bool

text \<open>
  The parts of \<^verbatim>\<open>net/url\<close>, \<^verbatim>\<open>net/http\<close> and \<^verbatim>\<open>html/template\<close> that only transform their input:
  the user and host of an authority, the unescaping of a path or a fragment, printing a URL and a
  query, and the pages.
\<close>

record url_lib =
  ul_authority :: "string \<Rightarrow> (string \<times> string) option"
  ul_unescape_path :: "string \<Rightarrow> string option"
  ul_unescape_fragment :: "string \<Rightarrow> string option"
  ul_string :: "url \<Rightarrow> string"
  ul_query :: "url \<Rightarrow> url_values"
  ul_encode :: "url_values \<Rightarrow> string"
  ul_escape :: "string \<Rightarrow> string"
  ul_form_post :: "string \<Rightarrow> (string \<times> string) list \<Rightarrow> string"
  ul_web_message :: "string \<Rightarrow> (string, string) gomap \<Rightarrow> string"
  ul_cookie :: "request \<Rightarrow> string \<Rightarrow> string option"
  ul_form :: "request \<Rightarrow> string + url_values"

text \<open>\<^verbatim>\<open>url.Parse\<close>: the scheme and the control characters, then the query, the authority and the path.\<close>

definition is_ctl :: "char \<Rightarrow> bool" where
  "is_ctl c \<longleftrightarrow> (of_char c :: nat) < 0x20 \<or> (of_char c :: nat) = 0x7F"

definition is_alpha :: "char \<Rightarrow> bool" where
  "is_alpha c \<longleftrightarrow> (let n = (of_char c :: nat) in (97 \<le> n \<and> n \<le> 122) \<or> (65 \<le> n \<and> n \<le> 90))"

definition is_scheme_rest :: "char \<Rightarrow> bool" where
  "is_scheme_rest c \<longleftrightarrow> (let n = (of_char c :: nat) in 48 \<le> n \<and> n \<le> 57) \<or> c \<in> {CHR ''+'', CHR ''-'', CHR ''.''}"

fun scheme_scan :: "string \<Rightarrow> string \<Rightarrow> (string \<times> string) option" where
  "scheme_scan acc [] = Some ([], rev acc)"
| "scheme_scan acc (c # cs) =
     (if is_alpha c then scheme_scan (c # acc) cs
      else if is_scheme_rest c then (if acc = [] then Some ([], c # cs) else scheme_scan (c # acc) cs)
      else if c = CHR '':'' then (if acc = [] then None else Some (rev acc, cs))
      else Some ([], rev acc @ c # cs))"

definition getScheme :: "string \<Rightarrow> (string \<times> string) option" where
  "getScheme raw = scheme_scan [] raw"

definition empty_url :: url where
  "empty_url = \<lparr>u_Scheme = [], u_Opaque = [], u_User = [], u_Host = [], u_Path = [], u_ForceQuery = False,
     u_RawQuery = [], u_Fragment = [], u_OmitHost = False\<rparr>"

definition url_parse :: "url_lib \<Rightarrow> string \<Rightarrow> url option" where
  "url_parse U raw =
     (if list_ex is_ctl raw then None
      else if raw = ''*'' then Some (empty_url\<lparr>u_Path := ''*''\<rparr>)
      else (case getScheme raw of
          None \<Rightarrow> None
        | Some (scheme0, rest0) \<Rightarrow>
            (let scheme = to_lower scheme0;
                 force = (rest0 \<noteq> [] \<and> last rest0 = CHR ''?'' \<and> CHR ''?'' \<notin> set (butlast rest0));
                 rest = (if force then butlast rest0 else fst (str_cut CHR ''?'' rest0));
                 query = (if force then [] else fst (snd (str_cut CHR ''?'' rest0)));
                 u = empty_url\<lparr>u_Scheme := scheme, u_ForceQuery := force, u_RawQuery := query\<rparr>
             in if \<not> has_prefix rest ''/'' \<and> scheme \<noteq> [] then Some (u\<lparr>u_Opaque := rest\<rparr>)
                else if \<not> has_prefix rest ''/'' \<and> CHR '':'' \<in> set (fst (str_cut CHR ''/'' rest)) then None
                else if (scheme \<noteq> [] \<or> \<not> has_prefix rest ''///'') \<and> has_prefix rest ''//'' then
                  (let authority = takeWhile (\<lambda>c. c \<noteq> CHR ''/'') (drop 2 rest);
                       path = dropWhile (\<lambda>c. c \<noteq> CHR ''/'') (drop 2 rest)
                   in case ul_authority U authority of
                        None \<Rightarrow> None
                      | Some (user, host) \<Rightarrow> map_option (\<lambda>p. u\<lparr>u_User := user, u_Host := host, u_Path := p\<rparr>) (ul_unescape_path U path))
                else map_option (\<lambda>p. u\<lparr>u_OmitHost := (scheme \<noteq> [] \<and> has_prefix rest ''/''), u_Path := p\<rparr>) (ul_unescape_path U rest))))"

definition url_Parse :: "url_lib \<Rightarrow> string \<Rightarrow> url option" where
  "url_Parse U raw = (case str_cut CHR ''#'' raw of (before, frag, _) \<Rightarrow>
     (case url_parse U before of
        None \<Rightarrow> None
      | Some u \<Rightarrow> if frag = [] then Some u else map_option (\<lambda>f. u\<lparr>u_Fragment := f\<rparr>) (ul_unescape_fragment U frag)))"

definition is_leading_control :: "char \<Rightarrow> bool" where
  "is_leading_control c \<longleftrightarrow> c \<in> {CHR 0x00, CHR 0x20, CHR 0x09, CHR 0x0A, CHR 0x0B, CHR 0x0C, CHR 0x0D}"

definition isSafeRedirect :: "url_lib \<Rightarrow> string \<Rightarrow> string list \<Rightarrow> bool" where
  "isSafeRedirect U raw allowList =
     (if contains_char raw CHR 0x5C then False
      else if dropWhile is_leading_control raw \<noteq> raw then False
      else if has_prefix raw ''//'' then False
      else (case url_Parse U raw of
          None \<Rightarrow> False
        | Some u \<Rightarrow> if u_Scheme u = [] \<and> u_Host u = [] then True else raw \<in> set allowList))"

definition isRedirectAllowed :: "url_lib \<Rightarrow> string list \<Rightarrow> string \<Rightarrow> bool" where
  "isRedirectAllowed U allowed raw = (if length allowed = 0 then True else isSafeRedirect U raw allowed)"

definition vetRedirect :: "url_lib \<Rightarrow> string list \<Rightarrow> string \<Rightarrow> response + url" where
  "vetRedirect U allowed redirect = (case url_Parse U redirect of
      None \<Rightarrow> Inl (WriteAuth 400 ''invalid_request'' ''invalid redirect_uri'')
    | Some u \<Rightarrow>
        if \<not> isRedirectAllowed U allowed redirect then
          Inl (WriteAuth 400 ''invalid_request''
            ''redirect_uri is not in the configured allow-list (AUTHORIZE_ALLOWED_CALLBACKS); add it there to permit this redirect'')
        else Inr u)"

section \<open>An accepted relative redirect stays on the origin\<close>

text \<open>
  What a browser makes of the target of a redirect before it follows it: leading control characters
  and blanks are stripped, tabs and line ends are removed everywhere, a backslash is a slash. The
  target leaves the origin when it then has a scheme or starts with two slashes.
\<close>

definition browser_url :: "string \<Rightarrow> string" where
  "browser_url raw = map (\<lambda>c. if c = CHR 0x5C then CHR ''/'' else c)
     (filter (\<lambda>c. c \<notin> {CHR 0x09, CHR 0x0A, CHR 0x0D}) (dropWhile (\<lambda>c. (of_char c :: nat) \<le> 0x20) raw))"

definition has_scheme :: "string \<Rightarrow> bool" where
  "has_scheme s \<longleftrightarrow> (let name = takeWhile (\<lambda>c. is_alpha c \<or> is_scheme_rest c) s
     in name \<noteq> [] \<and> is_alpha (hd name) \<and> length name < length s \<and> s ! length name = CHR '':'')"

definition leaves_origin :: "string \<Rightarrow> bool" where
  "leaves_origin raw \<longleftrightarrow> has_scheme (browser_url raw) \<or> has_prefix (browser_url raw) ''//''"

lemma scheme_scan_none:
  assumes "scheme_scan acc s = Some ([], r)" "acc \<noteq> []"
  shows "let n = length (takeWhile (\<lambda>c. is_alpha c \<or> is_scheme_rest c) s) in \<not> (n < length s \<and> s ! n = CHR '':'')"
  using assms by (induction acc s rule: scheme_scan.induct) (auto simp: Let_def split: if_splits)

lemma getScheme_none: "getScheme s = Some ([], r) \<Longrightarrow> \<not> has_scheme s"
  unfolding getScheme_def
proof (cases s)
  case (Cons c cs)
  assume scan: "scheme_scan [] s = Some ([], r)"
  show ?thesis
  proof (cases "is_alpha c")
    case True
    with scan Cons scheme_scan_none[of "[c]" cs r] show ?thesis by (simp add: has_scheme_def Let_def)
  next
    case False
    then show ?thesis by (auto simp: has_scheme_def Let_def Cons)
  qed
qed (simp add: has_scheme_def)

lemma has_scheme_fragment:
  assumes "has_scheme (u @ CHR ''#'' # f)" shows "has_scheme u"
proof -
  let ?P = "\<lambda>c. is_alpha c \<or> is_scheme_rest c"
  have hash: "\<not> ?P CHR ''#''" by (simp add: is_alpha_def is_scheme_rest_def)
  have tw: "takeWhile ?P (u @ CHR ''#'' # f) = takeWhile ?P u"
    using hash by (induction u) simp_all
  from assms have ne: "takeWhile ?P u \<noteq> []" "is_alpha (hd (takeWhile ?P u))"
    and colon: "(u @ CHR ''#'' # f) ! length (takeWhile ?P u) = CHR '':''"
    by (simp_all add: has_scheme_def tw Let_def)
  have "length (takeWhile ?P u) \<noteq> length u" using colon by auto
  then have lt: "length (takeWhile ?P u) < length u"
    using length_takeWhile_le[of ?P u] by linarith
  with colon have "u ! length (takeWhile ?P u) = CHR '':''" by (simp add: nth_append)
  with ne lt show ?thesis by (simp add: has_scheme_def Let_def)
qed

lemma slashes_fragment: "has_prefix (u @ CHR ''#'' # f) ''//'' \<longleftrightarrow> has_prefix u ''//''"
  by (cases u; cases "tl u") (auto simp: has_prefix_def)

lemma browser_url_parsed:
  assumes before: "str_cut CHR ''#'' raw = (u, f, b)" and clean: "\<not> list_ex is_ctl u"
    and lead: "dropWhile is_leading_control raw = raw" and slash: "\<not> contains_char raw CHR 0x5C"
  shows "browser_url raw = u \<or> (\<exists>g. browser_url raw = u @ CHR ''#'' # g)"
proof -
  have raw: "raw = u \<or> raw = u @ CHR ''#'' # f"
    using before str_cut_found[of "CHR ''#''" raw u f] str_cut_not_found[of "CHR ''#''" raw u f] by (cases b) auto
  have no_ctl: "c \<in> set u \<Longrightarrow> \<not> is_ctl c" for c using clean by (auto simp: list_ex_iff)
  have strip: "dropWhile (\<lambda>c. (of_char c :: nat) \<le> 0x20) raw = raw"
  proof (cases raw)
    case (Cons c cs)
    with lead have "c \<noteq> CHR 0x20"
      by (metis dropWhile.simps(2) insertI1 insertI2 is_leading_control_def length_Cons length_dropWhile_le
          not_less_eq_eq)
    moreover have "c = CHR ''#'' \<or> c \<in> set u" using raw Cons by (cases u) auto
    moreover have "c = CHR 0x20" if "(of_char c :: nat) = 32"
      using that of_char_eq_iff[of c "CHR 0x20", where 'a = nat] by simp
    ultimately have "\<not> (of_char c :: nat) \<le> 0x20"
      using no_ctl[of c] by (fastforce simp: is_ctl_def le_less)
    with Cons show ?thesis by simp
  qed simp
  have keep: "filter (\<lambda>c. c \<notin> {CHR 0x09, CHR 0x0A, CHR 0x0D}) u = u"
    using no_ctl[of "CHR 0x09"] no_ctl[of "CHR 0x0A"] no_ctl[of "CHR 0x0D"] by (auto simp: filter_id_conv is_ctl_def)
  have unslash: "map (\<lambda>c. if c = CHR 0x5C then CHR ''/'' else c) (filter P raw) = filter P raw" for P
    using slash by (auto simp: contains_char_def intro!: map_idI)
  show ?thesis using raw keep by (auto simp: browser_url_def strip unslash)
qed

lemma safe_redirect_cases:
  assumes "isSafeRedirect U raw allowList"
  shows "raw \<in> set allowList \<or> \<not> leaves_origin raw"
proof (cases "raw \<in> set allowList")
  case False
  obtain u f b where cut: "str_cut CHR ''#'' raw = (u, f, b)" by (cases "str_cut CHR ''#'' raw")
  from assms False obtain v where
    guards: "dropWhile is_leading_control raw = raw" "\<not> contains_char raw CHR 0x5C" "\<not> has_prefix raw ''//''"
    and parsed: "url_Parse U raw = Some v" "u_Scheme v = []"
    by (auto simp: isSafeRedirect_def split: if_splits option.splits)
  from parsed cut obtain v0 where v0: "url_parse U u = Some v0" "u_Scheme v0 = []"
    by (auto simp: url_Parse_def split: option.splits if_splits)
  then have clean: "\<not> list_ex is_ctl u" by (auto simp: url_parse_def split: if_splits)
  have nos: "\<not> has_scheme u"
  proof (cases "u = ''*''")
    case True
    then show ?thesis by (simp add: has_scheme_def is_alpha_def is_scheme_rest_def Let_def)
  next
    case False
    with v0 clean obtain sc rest where g: "getScheme u = Some (sc, rest)" and "to_lower sc = []"
      by (auto simp: url_parse_def Let_def empty_url_def split: option.splits if_splits)
    then have "getScheme u = Some ([], rest)" by (simp add: to_lower_def)
    then show ?thesis by (rule getScheme_none)
  qed
  have "raw = u \<or> raw = u @ CHR ''#'' # f"
    using cut str_cut_found[of "CHR ''#''" raw u f] str_cut_not_found[of "CHR ''#''" raw u f] by (cases b) auto
  with guards(3) have nodbl: "\<not> has_prefix u ''//''" by (auto simp: slashes_fragment)
  from browser_url_parsed[OF cut clean guards(1,2)] nos nodbl has_scheme_fragment show ?thesis
    by (auto simp: leaves_origin_def slashes_fragment)
qed simp

section \<open>Delivery\<close>

definition modeQuery :: string where "modeQuery = ''query''"
definition modeFragment :: string where "modeFragment = ''fragment''"
definition modeFormPost :: string where "modeFormPost = ''form_post''"
definition modeWebMessage :: string where "modeWebMessage = ''web_message''"

lemmas mode_defs = modeQuery_def modeFragment_def modeFormPost_def modeWebMessage_def

definition resolveMode :: "string \<Rightarrow> bool \<Rightarrow> string" where
  "resolveMode responseMode issuesToken =
     (if responseMode \<in> {modeQuery, modeFragment, modeFormPost, modeWebMessage} then responseMode
      else if issuesToken then modeFragment else modeQuery)"

definition modeCanDeliver :: "string \<Rightarrow> url \<Rightarrow> bool" where
  "modeCanDeliver mode redirect =
     (let httpScheme = (u_Scheme redirect = ''http'' \<or> u_Scheme redirect = ''https'')
      in if mode = modeFormPost then httpScheme
         else if mode = modeWebMessage then httpScheme \<and> u_Host redirect \<noteq> []
         else True)"

definition html_response :: "string \<Rightarrow> response" where
  "html_response page = \<lparr>rs_status = 200,
     rs_headers = [(''Content-Type'', [''text/html; charset=utf-8'']), (''Cache-Control'', [''no-store''])], rs_body = TextBody page\<rparr>"

definition found :: "string \<Rightarrow> response" where
  "found location = \<lparr>rs_status = 302, rs_headers = [(''Location'', [location])], rs_body = NoBody\<rparr>"

definition deliver :: "url_lib \<Rightarrow> url \<Rightarrow> string \<Rightarrow> url_values \<Rightarrow> response" where
  "deliver U redirect mode params =
     (if mode = modeFragment then found (ul_string U (redirect\<lparr>u_Fragment := []\<rparr>) @ ''#'' @ ul_encode U params)
      else if mode = modeFormPost then
        html_response (ul_form_post U (ul_string U redirect) (map (\<lambda>k. (k, values_get params k)) (sort (map fst params))))
      else if mode = modeWebMessage then
        html_response (ul_web_message U (u_Scheme redirect @ ''://'' @ u_Host redirect) (map (\<lambda>(k, _). (k, values_get params k)) params))
      else found (ul_string U (redirect\<lparr>u_RawQuery := ul_encode U (maps_copy (ul_query U redirect) params)\<rparr>)))"

section \<open>The login cookie\<close>

record Cookie =
  ck_Name :: string
  ck_Value :: string
  ck_Path :: string
  ck_HttpOnly :: bool
  ck_Secure :: bool
  ck_SameSite :: string
  ck_MaxAge :: int

definition loginCookieName :: string where
  "loginCookieName = ''auth0''"

definition loginCookie :: "request \<Rightarrow> string \<Rightarrow> Cookie" where
  "loginCookie r v = \<lparr>ck_Name = loginCookieName, ck_Value = v, ck_Path = ''/'', ck_HttpOnly = True, ck_Secure = rq_TLS r,
     ck_SameSite = (if rq_TLS r then ''None'' else ''Lax''), ck_MaxAge = 0\<rparr>"

definition setLoginCookie :: "request \<Rightarrow> string \<Rightarrow> Cookie" where
  "setLoginCookie r i = loginCookie r i"

definition clearLoginCookie :: "request \<Rightarrow> Cookie" where
  "clearLoginCookie r = (loginCookie r [])\<lparr>ck_MaxAge := -1\<rparr>"

definition currentLogin :: "url_lib \<Rightarrow> request \<Rightarrow> Store option \<Rightarrow> (string \<times> Login) option" where
  "currentLogin U r s = (case s of
      None \<Rightarrow> None
    | Some st \<Rightarrow> (case ul_cookie U r loginCookieName of
          None \<Rightarrow> None
        | Some v \<Rightarrow> map_option (\<lambda>l. (v, l)) (Login_of v st)))"

definition endLogin :: "url_lib \<Rightarrow> request \<Rightarrow> Store option \<Rightarrow> Cookie \<times> Store option" where
  "endLogin U r s = (clearLoginCookie r, case currentLogin U r s of Some (i, _) \<Rightarrow> map_option (EndLogin i) s | None \<Rightarrow> s)"

section \<open>The request\<close>

record responseTypes =
  rt_code :: bool
  rt_token :: bool
  rt_idToken :: bool

fun parse_words :: "string list \<Rightarrow> responseTypes \<Rightarrow> responseTypes option" where
  "parse_words [] rt = Some rt"
| "parse_words (w # ws) rt =
     (if w = ''code'' then parse_words ws (rt\<lparr>rt_code := True\<rparr>)
      else if w = ''token'' then parse_words ws (rt\<lparr>rt_token := True\<rparr>)
      else if w = ''id_token'' then parse_words ws (rt\<lparr>rt_idToken := True\<rparr>)
      else None)"

definition no_types :: responseTypes where
  "no_types = \<lparr>rt_code = False, rt_token = False, rt_idToken = False\<rparr>"

text \<open>The set, and whether the value is valid.\<close>

definition parseResponseTypes :: "string \<Rightarrow> responseTypes \<times> bool" where
  "parseResponseTypes raw =
     (let words = str_fields raw
      in if length words = 0 then (no_types\<lparr>rt_code := True\<rparr>, True)
         else (case parse_words words no_types of Some rt \<Rightarrow> (rt, True) | None \<Rightarrow> (no_types, False)))"

definition validateResponseType :: "url_values \<Rightarrow> string \<Rightarrow> responseTypes \<Rightarrow> bool \<Rightarrow> (string \<times> string) option" where
  "validateResponseType q raw rt valid =
     (let challenge = values_get q ''code_challenge''; n = length challenge
      in if \<not> valid then Some (''unsupported_response_type'', ''Unsupported response type: '' @ raw)
         else if challenge \<noteq> [] \<and> (n < 43 \<or> n > 128) then
           Some (''invalid_request'', ''code_challenge must be 43..128 characters (RFC 7636 section 4.1), got '' @ nat_str n)
         else if \<not> rt_token rt \<and> \<not> rt_idToken rt then None
         else if values_get q ''client_id'' = [] then Some (''invalid_request'', ''Missing required parameter: client_id'')
         else if rt_idToken rt \<and> values_get q ''nonce'' = [] then
           Some (''invalid_request'', ''nonce is required when response_type includes id_token'')
         else None)"

definition errorParams :: "string \<Rightarrow> string \<Rightarrow> string \<Rightarrow> url_values" where
  "errorParams code description state =
     [(''error'', [code])] @ (if description \<noteq> [] then [(''error_description'', [description])] else [])
     @ (if state \<noteq> [] then [(''state'', [state])] else [])"

text \<open>Who logs in, when they authenticated, and whether the session is reused; \<^const>\<open>None\<close> is login_required.\<close>

definition resolveLogin :: "url_lib \<Rightarrow> env \<Rightarrow> request \<Rightarrow> url_values \<Rightarrow> Store option \<Rightarrow> (string \<times> time \<times> bool) option" where
  "resolveLogin U E r q s =
     (let prompts = str_fields (values_get q ''prompt''); hint = values_get q ''login_hint'';
          live = currentLogin U r s
      in if ''none'' \<in> set prompts then map_option (\<lambda>(_, l). (lg_Subject l, lg_AuthTime l, True)) live
         else if hint \<noteq> [] then
           (case live of
              Some (_, l) \<Rightarrow> if hint = lg_Subject l \<and> ''login'' \<notin> set prompts then Some (lg_Subject l, lg_AuthTime l, True)
                             else Some (hint, nd_now E 1, False)
            | None \<Rightarrow> Some (hint, nd_now E 1, False))
         else (case live of
              Some (_, l) \<Rightarrow> if ''login'' \<notin> set prompts then Some (lg_Subject l, lg_AuthTime l, True)
                             else Some (DefaultSubject, nd_now E 1, False)
            | None \<Rightarrow> Some (DefaultSubject, nd_now E 1, False)))"

definition startSession :: "url_lib \<Rightarrow> env \<Rightarrow> request \<Rightarrow> string \<Rightarrow> time \<Rightarrow> Store \<Rightarrow> Cookie \<times> Store" where
  "startSession U E r subject authTime s =
     (let s1 = (case currentLogin U r (Some s) of Some (old, _) \<Rightarrow> EndLogin old s | None \<Rightarrow> s)
      in (setLoginCookie r (nd_login E), StartLogin (nd_login E) subject authTime s1))"

section \<open>Issuing\<close>

definition params_set :: "string \<Rightarrow> string \<Rightarrow> url_values \<Rightarrow> url_values" where
  "params_set k v params = AList.update k [v] params"

definition accessToken :: "auth_lib \<Rightarrow> env \<Rightarrow> TokenHandler \<Rightarrow> request \<Rightarrow> url_values \<Rightarrow> string \<Rightarrow> string \<Rightarrow> auth_state
    \<Rightarrow> (string + string) \<times> auth_state" where
  "accessToken A E h r q subject clientID st =
     (let aud = resolveAudience h (values_get q ''audience'');
          params = (\<lambda>k. if map_of q k = None then None else Some (JStr (values_get q k)))
      in mintAccess A E h (access_opts h r subject aud (values_get q ''scope'')
           (augmentExtra st [''azp'' \<mapsto> JStr clientID] aud params)) clientID st)"

text \<open>
  \<^verbatim>\<open>mintTokens\<close>: the description of the failure, or the parameters with the tokens added; first the
  access token, then the id token. The handler is \<^const>\<open>None\<close> when token minting is not configured.
\<close>

definition add_access :: "auth_lib \<Rightarrow> env \<Rightarrow> TokenHandler \<Rightarrow> request \<Rightarrow> url_values \<Rightarrow> responseTypes \<Rightarrow> string
    \<Rightarrow> url_values \<Rightarrow> auth_state \<Rightarrow> (string + string \<times> url_values) \<times> auth_state" where
  "add_access A E h r q rt subject params st =
     (if rt_token rt then
        (case accessToken A E h r q subject (values_get q ''client_id'') st of
           (Inl err, st1) \<Rightarrow> (Inl err, st1)
         | (Inr access, st1) \<Rightarrow>
             (let p1 = params_set ''access_token'' access params;
                  p2 = params_set ''token_type'' ''Bearer'' p1;
                  p3 = params_set ''expires_in'' (itoa (dur_secs (cf_AccessTokenTTL (cfg_of h)))) p2;
                  p4 = (if values_get q ''scope'' \<noteq> [] then params_set ''scope'' (values_get q ''scope'') p3 else p3)
              in (Inr (access, p4), st1)))
      else (Inr ([], params), st))"

definition add_id_token :: "auth_lib \<Rightarrow> env \<Rightarrow> TokenHandler \<Rightarrow> request \<Rightarrow> url_values \<Rightarrow> responseTypes \<Rightarrow> string \<Rightarrow> string
    \<Rightarrow> time \<Rightarrow> string \<Rightarrow> url_values \<Rightarrow> auth_state \<Rightarrow> (string + url_values) \<times> auth_state" where
  "add_id_token A E h r q rt issuedCode subject authTime access p st =
     (if rt_idToken rt then
        (let clientID = values_get q ''client_id'';
             x1 = (deriveProfile subject)(''azp'' \<mapsto> JStr clientID, ''nonce'' \<mapsto> JStr (values_get q ''nonce''),
                    ''auth_time'' \<mapsto> JInt (unix_secs authTime));
             x2 = (if access \<noteq> [] then x1(''at_hash'' \<mapsto> JStr (tokenHash (al_sha256 A) access)) else x1);
             x3 = (if issuedCode \<noteq> [] then x2(''c_hash'' \<mapsto> JStr (tokenHash (al_sha256 A) issuedCode)) else x2)
         in case Mint (al_jwt A) (th_Keys h) (nd_now E 2)
              \<lparr>mo_Issuer = IssuerFor (th_Keys h) r, mo_Subject = subject, mo_Audience = [clientID], mo_Scope = [],
               mo_TTL = cf_IDTokenTTL (cfg_of h), mo_Extra = x3\<rparr> of
              Inl err \<Rightarrow> (Inl (jl_text (al_jwt A) err), st)
            | Inr idt \<Rightarrow> (Inr (params_set ''id_token'' idt p), rememberProfile subject x3 st))
      else (Inr p, rememberProfile subject (deriveProfile subject) st))"

definition mintTokens :: "auth_lib \<Rightarrow> env \<Rightarrow> TokenHandler option \<Rightarrow> request \<Rightarrow> url_values \<Rightarrow> responseTypes \<Rightarrow> string \<Rightarrow> string
    \<Rightarrow> time \<Rightarrow> url_values \<Rightarrow> auth_state \<Rightarrow> (string + url_values) \<times> auth_state" where
  "mintTokens A E th r q rt issuedCode subject authTime params st = (case th of
      None \<Rightarrow> (Inl ''token minting is not configured'', st)
    | Some h \<Rightarrow>
        (case add_access A E h r q rt subject params st of
           (Inl err, st1) \<Rightarrow> (Inl err, st1)
         | (Inr (access, p), st1) \<Rightarrow> add_id_token A E h r q rt issuedCode subject authTime access p st1))"

definition code_entry :: "url_values \<Rightarrow> string \<Rightarrow> time \<Rightarrow> Entry" where
  "code_entry q subject authTime =
     (let challenge = values_get q ''code_challenge''; method = values_get q ''code_challenge_method''
      in \<lparr>en_Challenge = challenge, en_Method = (if challenge = [] then [] else if method = [] then MethodPlain else method),
          en_ClientID = values_get q ''client_id'', en_Redirect = values_get q ''redirect_uri'',
          en_Nonce = values_get q ''nonce'', en_LoginHint = subject, en_Audience = trim_space (values_get q ''audience''),
          en_Scope = values_get q ''scope'', en_AuthTime = authTime, en_expiresAt = zero_time\<rparr>)"

definition recordCode :: "env \<Rightarrow> url_values \<Rightarrow> string \<Rightarrow> string \<Rightarrow> time \<Rightarrow> auth_state \<Rightarrow> auth_state" where
  "recordCode E q issuedCode subject authTime st = (case as_PKCE st of
      None \<Rightarrow> st
    | Some p \<Rightarrow>
        if issuedCode = [] then st
        else st\<lparr>as_PKCE := Some (Pkce_Put (nd_now E 3) (nd_now E 4) issuedCode (code_entry q subject authTime) p)\<rparr>)"

definition issue :: "auth_lib \<Rightarrow> env \<Rightarrow> TokenHandler option \<Rightarrow> request \<Rightarrow> url_values \<Rightarrow> responseTypes \<Rightarrow> string \<Rightarrow> string
    \<Rightarrow> time \<Rightarrow> auth_state \<Rightarrow> (string + url_values) \<times> auth_state" where
  "issue A E th r q rt state subject authTime st =
     (let issuedCode = (if rt_code rt then nd_code E else []);
          params = (if rt_code rt then params_set ''code'' issuedCode [] else []);
          minted = (if rt_token rt \<or> rt_idToken rt
                    then mintTokens A E th r q rt issuedCode subject authTime params st else (Inr params, st))
      in case minted of
           (Inl err, st1) \<Rightarrow> (Inl err, st1)
         | (Inr p, st1) \<Rightarrow>
             (Inr (if state \<noteq> [] then params_set ''state'' state p else p), recordCode E q issuedCode subject authTime st1))"

text \<open>The endpoint: the response, the cookie it sets and the stores afterwards.\<close>

definition Authorize_ServeHTTP :: "auth_lib \<Rightarrow> url_lib \<Rightarrow> json_codec \<Rightarrow> env \<Rightarrow> string list \<Rightarrow> Rule_Store option \<Rightarrow> TokenHandler option
    \<Rightarrow> request \<Rightarrow> auth_state \<Rightarrow> response \<times> Cookie option \<times> auth_state" where
  "Authorize_ServeHTTP A U C E allowed errs th r st =
     (let q = rq_Query r; redirect = values_get q ''redirect_uri''
      in if redirect = [] then (WriteAuth 400 ''invalid_request'' ''missing redirect_uri'', None, st)
         else
           (let state = values_get q ''state''; responseType = values_get q ''response_type''
            in case parseResponseTypes responseType of (rt, validType) \<Rightarrow>
              (let fragmentDefault = (rt_token rt \<or> rt_idToken rt)
               in case vetRedirect U allowed redirect of
                    Inl resp \<Rightarrow> (resp, None, st)
                  | Inr u \<Rightarrow>
                      (let mode0 = resolveMode (values_get q ''response_mode'') fragmentDefault;
                           mode = (if \<not> modeCanDeliver mode0 u then resolveMode [] fragmentDefault else mode0)
                       in case validateResponseType q responseType rt validType of
                            Some (code, desc) \<Rightarrow> (deliver U u mode (errorParams code desc state), None, st)
                          | None \<Rightarrow>
                              (case (case errs of Some rules \<Rightarrow> Rules_Find C q rules | None \<Rightarrow> None) of
                                 Some rule \<Rightarrow> (deliver U u mode (errorParams (ru_Error rule) (ru_ErrorDescription rule) state), None, st)
                               | None \<Rightarrow>
                                   (case resolveLogin U E r q (as_Sessions st) of
                                      None \<Rightarrow> (deliver U u mode (errorParams ''login_required'' ''Login required'' state), None, st)
                                    | Some (subject, authTime, reuse) \<Rightarrow>
                                        (case issue A E th r q rt state subject authTime st of
                                           (Inl desc, st1) \<Rightarrow> (deliver U u mode (errorParams ''server_error'' desc state), None, st1)
                                         | (Inr params, st1) \<Rightarrow>
                                             (case as_Sessions st1 of
                                                Some s \<Rightarrow>
                                                  if \<not> reuse then
                                                    (case startSession U E r subject authTime s of (ck, s') \<Rightarrow>
                                                      (deliver U u mode params, Some ck, st1\<lparr>as_Sessions := Some s'\<rparr>))
                                                  else (deliver U u mode params, None, st1)
                                              | None \<Rightarrow> (deliver U u mode params, None, st1)))))))))"

lemmas authorize_defs [handler_defs] = vetRedirect_def issue_def recordCode_def mintTokens_def resolveLogin_def startSession_def

end
