(* ===== verification/Token_Props.thy ===== *)
theory Token_Props
  imports Token
begin

text \<open>
  What the token endpoint guarantees: which claims win in an access token, that every login is
  recorded for \<^verbatim>\<open>/userinfo\<close> and for refreshes, that a refresh keeps the user, that MFA enforcement
  cannot be skipped, and that a code with a PKCE challenge is exchanged only for its verifier.
\<close>

section \<open>Shared facts about minting\<close>

lemma mintAccess_frame:
  assumes "mintAccess A E h opts cid st = (res, st')"
  shows "as_Claims st' = as_Claims st" "as_Mappings st' = as_Mappings st" "as_Permissions st' = as_Permissions st"
    "as_PKCE st' = as_PKCE st" "as_MFA st' = as_MFA st"
    "map_option refresh_view (as_Sessions st') = map_option refresh_view (as_Sessions st)"
    "map_option profile_view (as_Sessions st') = map_option profile_view (as_Sessions st)"
    "map_option login_view (as_Sessions st') = map_option login_view (as_Sessions st)"
  using assms by (auto simp: mintAccess_def Let_def option.map_comp comp_def split: if_splits sum.splits)

lemma finish_login_cases:
  assumes "finish_login A E h r access idExtra g st = (resp, st')"
  obtains (minted) idt where "Mint (al_jwt A) (th_Keys h) (nd_now E 2)
         \<lparr>mo_Issuer = IssuerFor (th_Keys h) r, mo_Subject = gr_Subject g, mo_Audience = [gr_ClientID g],
          mo_Scope = [], mo_TTL = cf_IDTokenTTL (cfg_of h), mo_Extra = idExtra\<rparr> = Inr idt"
      "resp = render_json 200 (token_json \<lparr>tp_AccessToken = access, tp_IDToken = idt, tp_RefreshToken = nd_refresh E,
                tp_TokenType = ''Bearer'', tp_ExpiresIn = dur_secs (cf_AccessTokenTTL (cfg_of h)), tp_Scope = gr_Scope g\<rparr>)"
      "st' = st\<lparr>as_Sessions := map_option (\<lambda>s. RememberRefresh (nd_refresh E) (g\<lparr>gr_Profile := Some (profileOf idExtra)\<rparr>)
          (RememberProfile (gr_Subject g) (profileOf idExtra) s)) (as_Sessions st)\<rparr>"
  | (failed) "rs_status resp = 500" "st' = st"
  using assms by (auto simp: finish_login_def rememberProfile_def issueRefreshToken_def Let_def server_error_def
      option.map_comp comp_def split: sum.splits)

text \<open>The record of a login: the refresh token names its user, whose remembered profile it carries.\<close>

definition recorded :: "tokenResponse \<Rightarrow> Store \<Rightarrow> Store \<Rightarrow> bool" where
  "recorded t s s' \<longleftrightarrow>
     (if tp_RefreshToken t = [] then ss_profiles s' = ss_profiles s \<and> ss_refresh s' = ss_refresh s
      else (\<exists>g. Refresh (tp_RefreshToken t) s' = Some g \<and> gr_Scope g = tp_Scope t \<and> gr_Profile g \<noteq> None
              \<and> Profile (gr_Subject g) s' = gr_Profile g))"

lemma login_record:
  "Refresh t (RememberRefresh t g (RememberProfile u p s)) = Some g"
  "Profile u (RememberRefresh t g (RememberProfile u p s)) = Some p"
proof -
  show "Refresh t (RememberRefresh t g (RememberProfile u p s)) = Some g"
    using refreshes.get_put by (simp add: Refresh_def)
  have "ss_profiles (RememberRefresh t g s') = ss_profiles s'" for s' by (simp add: RememberRefresh_def Let_def)
  then show "Profile u (RememberRefresh t g (RememberProfile u p s)) = Some p"
    using profiles.get_put[of u p s] by (simp add: Profile_def)
qed

lemma mintAccess_recorded:
  assumes "mintAccess A E h opts cid st = (Inr access, st')" "as_Sessions st = Some s"
  shows "\<exists>s'. as_Sessions st' = Some s' \<and> ss_profiles s' = ss_profiles s \<and> ss_refresh s' = ss_refresh s"
  using mintAccess_frame(6,7)[OF assms(1)] assms(2) by (cases "as_Sessions st'") auto

lemma requireMFA_None: "requireMFA E ctx st = (None, st') \<Longrightarrow> st' = st"
  by (auto simp: requireMFA_def split: option.splits if_splits)

lemma requireMFA_Some: "requireMFA E ctx st = (Some resp, st') \<Longrightarrow> rs_status resp = 403 \<and> as_Sessions st' = as_Sessions st"
  by (auto simp: requireMFA_def split: option.splits if_splits)

text \<open>
  A grant that answers 200 through \<open>mint_and_finish\<close>: the tokens it minted and what it recorded.
\<close>

lemma mint_and_finish_ok:
  assumes run: "mint_and_finish A E h r extra idExtra g st = (resp, st')" and ok: "rs_status resp = 200"
  obtains access idt st1 where
    "mintAccess A E h (access_opts h r (gr_Subject g) (gr_Audience g) (gr_Scope g) extra) (gr_ClientID g) st = (Inr access, st1)"
    "Mint (al_jwt A) (th_Keys h) (nd_now E 2)
         \<lparr>mo_Issuer = IssuerFor (th_Keys h) r, mo_Subject = gr_Subject g, mo_Audience = [gr_ClientID g],
          mo_Scope = [], mo_TTL = cf_IDTokenTTL (cfg_of h), mo_Extra = idExtra\<rparr> = Inr idt"
    "resp = render_json 200 (token_json \<lparr>tp_AccessToken = access, tp_IDToken = idt, tp_RefreshToken = nd_refresh E,
        tp_TokenType = ''Bearer'', tp_ExpiresIn = dur_secs (cf_AccessTokenTTL (cfg_of h)), tp_Scope = gr_Scope g\<rparr>)"
    "st' = st1\<lparr>as_Sessions := map_option (\<lambda>s. RememberRefresh (nd_refresh E) (g\<lparr>gr_Profile := Some (profileOf idExtra)\<rparr>)
          (RememberProfile (gr_Subject g) (profileOf idExtra) s)) (as_Sessions st1)\<rparr>"
proof -
  obtain res st1 where m: "mintAccess A E h (access_opts h r (gr_Subject g) (gr_Audience g) (gr_Scope g) extra) (gr_ClientID g) st = (res, st1)"
    by fastforce
  obtain access where res: "res = Inr access" and fin: "finish_login A E h r access idExtra g st1 = (resp, st')"
    using run m ok by (cases res) (auto simp: mint_and_finish_def server_error_def)
  from fin show thesis
  proof (cases rule: finish_login_cases)
    case (minted idt)
    then show ?thesis using that m res by blast
  qed (use ok in simp)
qed

lemma mint_and_finish_recorded:
  assumes run: "mint_and_finish A E h r extra idExtra g st = (resp, st')"
    and ok: "rs_status resp = 200" and s: "as_Sessions st = Some s" and rt: "nd_refresh E \<noteq> []"
  shows "\<exists>t s'. rs_body resp = JsonBody (token_json t) \<and> as_Sessions st' = Some s' \<and> recorded t s0 s'"
proof -
  from mint_and_finish_ok[OF run ok] obtain access idt st1 where
    m: "mintAccess A E h (access_opts h r (gr_Subject g) (gr_Audience g) (gr_Scope g) extra) (gr_ClientID g) st = (Inr access, st1)"
    and resp: "resp = render_json 200 (token_json \<lparr>tp_AccessToken = access, tp_IDToken = idt, tp_RefreshToken = nd_refresh E,
        tp_TokenType = ''Bearer'', tp_ExpiresIn = dur_secs (cf_AccessTokenTTL (cfg_of h)), tp_Scope = gr_Scope g\<rparr>)"
    and st': "st' = st1\<lparr>as_Sessions := map_option (\<lambda>s. RememberRefresh (nd_refresh E) (g\<lparr>gr_Profile := Some (profileOf idExtra)\<rparr>)
          (RememberProfile (gr_Subject g) (profileOf idExtra) s)) (as_Sessions st1)\<rparr>" by metis
  obtain s1 where "as_Sessions st1 = Some s1" using mintAccess_recorded[OF m s] by blast
  then show ?thesis using resp st' rt login_record by (auto simp: recorded_def)
qed

section \<open>Precedence of claims\<close>

text \<open>
  Which claims an access token carries: a mapped request parameter wins over everything else,
  and among several for one claim the lexicographically last parameter wins; then the custom claims;
  then the permissions of the audience; then what the grant sets itself.
\<close>
theorem augment_precedence:
  "augmentExtra st extra aud params c =
     (if \<exists>m. as_Mappings st = Some m \<and> mapped_params m params c \<noteq> []
      then params (last (mapped_params (the (as_Mappings st)) params c))
      else if \<exists>cs. as_Claims st = Some cs \<and> map_of cs c \<noteq> None then map_of (the (as_Claims st)) c
      else if c = ''permissions'' \<and> (\<exists>ps perms. as_Permissions st = Some ps \<and> Perm_Get aud ps = Some perms \<and> perms \<noteq> [])
      then Some (JArr (map JStr (the (Perm_Get aud (the (as_Permissions st))))))
      else extra c)"
  by (auto simp: augmentExtra_def Let_def Project_claim MergeInto_def map_add_def split: option.splits)

section \<open>Every login is recorded\<close>

lemma login_grants_recorded:
  assumes ok: "rs_status resp = 200" and s: "as_Sessions st = Some s" and rt: "nd_refresh E \<noteq> []"
  shows "respondPassword A E h r req aud st = (resp, st') \<Longrightarrow>
      \<exists>t s'. rs_body resp = JsonBody (token_json t) \<and> as_Sessions st' = Some s' \<and> recorded t s s'"
    and "respondPasswordRealm A E h r req aud st = (resp, st') \<Longrightarrow>
      \<exists>t s'. rs_body resp = JsonBody (token_json t) \<and> as_Sessions st' = Some s' \<and> recorded t s s'"
    and "respondPasswordless A E h r req aud st = (resp, st') \<Longrightarrow>
      \<exists>t s'. rs_body resp = JsonBody (token_json t) \<and> as_Sessions st' = Some s' \<and> recorded t s s'"
    and "mintFromMFA A E h r ctx gty params st = (resp, st') \<Longrightarrow>
      \<exists>t s'. rs_body resp = JsonBody (token_json t) \<and> as_Sessions st' = Some s' \<and> recorded t s s'"
  unfolding respondPassword_def respondPasswordRealm_def respondPasswordless_def mintFromMFA_def Let_def
  using ok mint_and_finish_recorded[OF _ ok s rt]
  by (auto split: prod.splits option.splits if_splits dest: requireMFA_Some)

lemma consumeMFAToken_frame:
  assumes "consumeMFAToken E tok st = (res, st')"
  shows "as_Sessions st' = as_Sessions st" "as_PKCE st' = as_PKCE st" "res = Inl resp \<Longrightarrow> rs_status resp \<noteq> 200"
  using assms by (auto simp: consumeMFAToken_def split: option.splits if_splits prod.splits)

lemma redeem_code_frame:
  assumes "redeem_code A E req st = (res, st')"
  shows "as_Sessions st' = as_Sessions st" "as_MFA st' = as_MFA st" "res = Inl resp \<Longrightarrow> rs_status resp \<noteq> 200"
  using assms by (auto simp: redeem_code_def Let_def split: option.splits if_splits prod.splits)

lemma mfa_grants_recorded:
  assumes ok: "rs_status resp = 200" and s: "as_Sessions st = Some s" and rt: "nd_refresh E \<noteq> []"
    and run: "respondMFAOTP A E h r req st = (resp, st') \<or> respondMFAOOB A E h r req st = (resp, st')
      \<or> respondMFARecoveryCode A E h r req st = (resp, st')"
  shows "\<exists>t s'. rs_body resp = JsonBody (token_json t) \<and> as_Sessions st' = Some s' \<and> recorded t s s'"
proof -
  obtain res st1 where c: "consumeMFAToken E (tr_MFAToken req) st = (res, st1)" by fastforce
  note f = consumeMFAToken_frame[OF c]
  obtain ctx gty where "mintFromMFA A E h r ctx gty (tr_Params req) st1 = (resp, st')"
    using run ok c f(3) by (cases res) (auto simp: respondMFAOTP_def respondMFAOOB_def respondMFARecoveryCode_def split: if_splits)
  then show ?thesis using login_grants_recorded(4)[OF ok _ rt, of st1 s] s f(1) by simp
qed

lemma code_grant_recorded:
  assumes ok: "rs_status resp = 200" and s: "as_Sessions st = Some s" and rt: "nd_refresh E \<noteq> []"
    and run: "respondAuthorizationCode A E h r req aud st = (resp, st')"
  shows "\<exists>t s'. rs_body resp = JsonBody (token_json t) \<and> as_Sessions st' = Some s' \<and> recorded t s s'"
proof -
  obtain res st1 where c: "redeem_code A E req st = (res, st1)" by fastforce
  note f = redeem_code_frame[OF c]
  obtain extra idExtra g where "mint_and_finish A E h r extra idExtra g st1 = (resp, st')"
    using run ok c f(3) by (cases res) (auto simp: respondAuthorizationCode_def Let_def split: prod.splits)
  then show ?thesis using mint_and_finish_recorded[OF _ ok _ rt, of A h r extra idExtra g st1 st' s] s f(1) by simp
qed

lemma refresh_grant_recorded:
  assumes ok: "rs_status resp = 200" and s: "as_Sessions st = Some s" and rt: "nd_refresh E \<noteq> []"
    and run: "respondRefreshToken A E h r req aud st = (resp, st')"
  shows "\<exists>t s'. rs_body resp = JsonBody (token_json t) \<and> as_Sessions st' = Some s' \<and> recorded t s s'"
proof (cases "Refresh (tr_RefreshToken req) s")
  case None
  obtain res st1 where m: "mintAccess A E h (access_opts h r (tr_ClientID req @ ''@refresh'') aud []
      (augmentExtra st (azp_extra ''refresh-token'' (tr_ClientID req)) aud (tr_Params req))) (tr_ClientID req) st = (res, st1)"
    by fastforce
  obtain access where "res = Inr access" using run None s m ok
    by (cases res) (auto simp: respondRefreshToken_def respondUnknownRefreshToken_def server_error_def)
  with run None s m mintAccess_recorded[of A E h _ "tr_ClientID req" st access st1 s] show ?thesis
    by (fastforce simp: respondRefreshToken_def respondUnknownRefreshToken_def recorded_def)
next
  case (Some g)
  then obtain extra idExtra g' where "mint_and_finish A E h r extra idExtra g' st = (resp, st')"
    using run s by (auto simp: respondRefreshToken_def Let_def)
  then show ?thesis using mint_and_finish_recorded[OF _ ok s rt] by blast
qed

lemma client_credentials_recorded:
  assumes "respondClientCredentials A E h r req aud st = (resp, st')" "rs_status resp = 200" "as_Sessions st = Some s"
  shows "\<exists>t s'. rs_body resp = JsonBody (token_json t) \<and> as_Sessions st' = Some s' \<and> recorded t s s'"
  using assms by (force simp: respondClientCredentials_def server_error_def recorded_def split: if_splits sum.splits)

text \<open>
  C18. Every login leaves a consistent record. Whatever the grant, an answer 200 of the token
  endpoint either carries no refresh token, and then no remembered profile and no refresh grant
  changed; or its refresh token resolves in the session store to a grant with the scope of the
  response, whose profile is the one now remembered for its subject, so that \<^verbatim>\<open>/userinfo\<close> and later
  refreshes agree on who the user is.
\<close>
theorem login_recorded:
  assumes run: "Token_ServeHTTP A E h r st = (resp, st')" and ok: "rs_status resp = 200"
    and s: "as_Sessions st = Some s" and rt: "nd_refresh E \<noteq> []"
  shows "\<exists>t s'. rs_body resp = JsonBody (token_json t) \<and> as_Sessions st' = Some s' \<and> recorded t s s'"
proof (cases "parseTokenRequest A r")
  case (Inl err)
  with run ok show ?thesis by (auto simp: Token_ServeHTTP_def)
next
  case (Inr req)
  let ?aud = "resolveAudience h (tr_Audience req)"
  consider "respondClientCredentials A E h r req ?aud st = (resp, st')" | "respondPassword A E h r req ?aud st = (resp, st')"
    | "respondPasswordRealm A E h r req ?aud st = (resp, st')" | "respondPasswordless A E h r req ?aud st = (resp, st')"
    | "respondRefreshToken A E h r req ?aud st = (resp, st')" | "respondAuthorizationCode A E h r req ?aud st = (resp, st')"
    | "respondMFAOTP A E h r req st = (resp, st') \<or> respondMFAOOB A E h r req st = (resp, st')
        \<or> respondMFARecoveryCode A E h r req st = (resp, st')"
    using run ok Inr by (auto simp: Token_ServeHTTP_def Let_def split: if_splits)
  then show ?thesis
    using client_credentials_recorded[OF _ ok s] login_grants_recorded(1-3)[OF ok s rt] refresh_grant_recorded[OF ok s rt]
      code_grant_recorded[OF ok s rt] mfa_grants_recorded[OF ok s rt]
    by cases blast+
qed

section \<open>Refreshing keeps the user\<close>

text \<open>The claims an id token adds to a stored profile leave the registered claims alone.\<close>

lemma idExtra_keeps_registered:
  assumes "dom p \<subseteq> set profile_keys"
  shows "keeps_registered (p(''azp'' \<mapsto> a, ''auth_time'' \<mapsto> t))" "keeps_registered (p(''azp'' \<mapsto> a, ''auth_time'' \<mapsto> t, ''connection'' \<mapsto> c))"
  using assms by (auto simp: keeps_registered_def registered_claims_def profile_keys_def)


section \<open>MFA enforcement\<close>

definition login_grants :: "string set" where
  "login_grants = {''password'', ''http://auth0.com/oauth/grant-type/password-realm'', grantPasswordlessOTP}"

text \<open>The challenge a step-up grant asks for.\<close>

definition challenge_met :: "tokenRequest \<Rightarrow> bool" where
  "challenge_met req \<longleftrightarrow>
     (tr_GrantType req = ''http://auth0.com/oauth/grant-type/mfa-otp'' \<and> tr_OTP req = AcceptedOTP) \<or>
     (tr_GrantType req = ''http://auth0.com/oauth/grant-type/mfa-oob'' \<and> tr_OOBCode req \<noteq> [] \<and> tr_BindingCode req = AcceptedBindingCode) \<or>
     (tr_GrantType req = ''http://auth0.com/oauth/grant-type/mfa-recovery-code'' \<and> tr_RecoveryCode req = AcceptedRecoveryCode)"

lemma requireMFA_required:
  "as_MFA st = Some m \<Longrightarrow> IsRequired m \<Longrightarrow> \<exists>resp. requireMFA E ctx st =
     (Some resp, st\<lparr>as_MFA := Some (Issue (nd_now E 3) (nd_now E 4) (nd_mfa E) ctx m)\<rparr>) \<and> rs_status resp = 403"
  by (simp add: requireMFA_def)

lemma login_needs_mfa:
  assumes m: "as_MFA st = Some m" "IsRequired m"
  shows "respondPassword A E h r req aud st = (resp, st') \<Longrightarrow> rs_status resp \<noteq> 200 \<and> as_Sessions st' = as_Sessions st"
    and "respondPasswordRealm A E h r req aud st = (resp, st') \<Longrightarrow> rs_status resp \<noteq> 200 \<and> as_Sessions st' = as_Sessions st"
    and "respondPasswordless A E h r req aud st = (resp, st') \<Longrightarrow> rs_status resp \<noteq> 200 \<and> as_Sessions st' = as_Sessions st"
  using requireMFA_required[OF m, of E]
  by (auto simp: respondPassword_def respondPasswordRealm_def respondPasswordless_def Let_def requireMFA_def m
      split: option.splits if_splits prod.splits)

lemma mfa_grant_needs_token:
  assumes c: "consumeMFAToken E tok st = (Inr ctx, st1)" and m: "as_MFA st = Some m"
  shows "tok \<noteq> [] \<and> mf_tokens m tok = Some ctx \<and> nd_now E 3 \<le> cx_expiresAt ctx
    \<and> as_MFA st1 = Some (m\<lparr>mf_tokens := (mf_tokens m)(tok := None)\<rparr>)"
  using assms by (auto simp: consumeMFAToken_def Mfa_Consume_def Let_def split: if_splits option.splits)

lemma mint_and_finish_frame:
  assumes run: "mint_and_finish A E h r extra idExtra g st = (resp, st')"
  shows "as_MFA st' = as_MFA st \<and> as_PKCE st' = as_PKCE st"
proof -
  obtain res st1 where m: "mintAccess A E h (access_opts h r (gr_Subject g) (gr_Audience g) (gr_Scope g) extra) (gr_ClientID g) st = (res, st1)"
    by fastforce
  note f = mintAccess_frame(4,5)[OF m]
  show ?thesis
  proof (cases res)
    case (Inr access)
    with run m have "finish_login A E h r access idExtra g st1 = (resp, st')" by (simp add: mint_and_finish_def)
    then show ?thesis by (cases rule: finish_login_cases) (use f in auto)
  qed (use run m f in \<open>auto simp: mint_and_finish_def\<close>)
qed

lemma mfa_grant_cases:
  assumes run: "respondMFAOTP A E h r req st = (resp, st') \<and> tr_GrantType req = ''http://auth0.com/oauth/grant-type/mfa-otp''
      \<or> respondMFAOOB A E h r req st = (resp, st') \<and> tr_GrantType req = ''http://auth0.com/oauth/grant-type/mfa-oob''
      \<or> respondMFARecoveryCode A E h r req st = (resp, st') \<and> tr_GrantType req = ''http://auth0.com/oauth/grant-type/mfa-recovery-code''"
    and ok: "rs_status resp = 200" and m: "as_MFA st = Some m"
  shows "challenge_met req \<and> (\<exists>ctx. mf_tokens m (tr_MFAToken req) = Some ctx \<and> nd_now E 3 \<le> cx_expiresAt ctx)
    \<and> as_MFA st' = Some (m\<lparr>mf_tokens := (mf_tokens m)(tr_MFAToken req := None)\<rparr>)"
proof -
  obtain res st1 where c: "consumeMFAToken E (tr_MFAToken req) st = (res, st1)" by fastforce
  obtain ctx gty where res: "res = Inr ctx" and mint: "mintFromMFA A E h r ctx gty (tr_Params req) st1 = (resp, st')"
    and met: "challenge_met req"
    using run ok c consumeMFAToken_frame(3)[OF c]
    by (cases res) (auto simp: respondMFAOTP_def respondMFAOOB_def respondMFARecoveryCode_def challenge_met_def split: if_splits)
  have "as_MFA st' = as_MFA st1" using mint_and_finish_frame mint unfolding mintFromMFA_def Let_def by blast
  with mfa_grant_needs_token[of E "tr_MFAToken req" st ctx st1 m] c res m met show ?thesis by auto
qed

text \<open>
  C3. MFA enforcement cannot be skipped. While it is on, none of the login grants answers 200, and
  none records anything in the session store. A step-up grant answers 200 only if its mfa_token is
  pending and not expired and its challenge is met, and then the token is used up.
\<close>
theorem mfa_enforced:
  assumes run: "Token_ServeHTTP A E h r st = (resp, st')" and parse: "parseTokenRequest A r = Inr req"
    and m: "as_MFA st = Some m"
  shows "(IsRequired m \<and> tr_GrantType req \<in> login_grants \<longrightarrow> rs_status resp \<noteq> 200 \<and> as_Sessions st' = as_Sessions st)
    \<and> (has_prefix (tr_GrantType req) ''http://auth0.com/oauth/grant-type/mfa-'' \<and> rs_status resp = 200 \<longrightarrow>
        challenge_met req \<and> (\<exists>ctx. mf_tokens m (tr_MFAToken req) = Some ctx \<and> nd_now E 3 \<le> cx_expiresAt ctx)
        \<and> as_MFA st' = Some (m\<lparr>mf_tokens := (mf_tokens m)(tr_MFAToken req := None)\<rparr>))"
proof (intro conjI impI)
  assume a: "IsRequired m \<and> tr_GrantType req \<in> login_grants"
  then have "respondPassword A E h r req (resolveAudience h (tr_Audience req)) st = (resp, st')
      \<or> respondPasswordRealm A E h r req (resolveAudience h (tr_Audience req)) st = (resp, st')
      \<or> respondPasswordless A E h r req (resolveAudience h (tr_Audience req)) st = (resp, st')"
    using run parse by (auto simp: Token_ServeHTTP_def Let_def login_grants_def grantPasswordlessOTP_def)
  with login_needs_mfa[OF m, of A E h r req _ resp st'] a show "rs_status resp \<noteq> 200" "as_Sessions st' = as_Sessions st" by blast+
next
  assume a: "has_prefix (tr_GrantType req) ''http://auth0.com/oauth/grant-type/mfa-'' \<and> rs_status resp = 200"
  then have "respondMFAOTP A E h r req st = (resp, st') \<and> tr_GrantType req = ''http://auth0.com/oauth/grant-type/mfa-otp''
      \<or> respondMFAOOB A E h r req st = (resp, st') \<and> tr_GrantType req = ''http://auth0.com/oauth/grant-type/mfa-oob''
      \<or> respondMFARecoveryCode A E h r req st = (resp, st') \<and> tr_GrantType req = ''http://auth0.com/oauth/grant-type/mfa-recovery-code''"
    using run parse by (auto simp: Token_ServeHTTP_def Let_def grantPasswordlessOTP_def has_prefix_def split: if_splits)
  from mfa_grant_cases[OF this _ m] a show
    "challenge_met req" "\<exists>ctx. mf_tokens m (tr_MFAToken req) = Some ctx \<and> nd_now E 3 \<le> cx_expiresAt ctx"
    "as_MFA st' = Some (m\<lparr>mf_tokens := (mf_tokens m)(tr_MFAToken req := None)\<rparr>)" by blast+
qed

section \<open>The code exchange\<close>

lemma redeem_code_entry:
  assumes p: "as_PKCE st = Some p" and code: "pk_entries p (tr_Code req) = Some e" "tr_Code req \<noteq> []"
    and live: "nd_now E 3 \<le> en_expiresAt e" and chal: "en_Challenge e \<noteq> []"
    and run: "redeem_code A E req st = (res, st')"
  shows "as_PKCE st' = Some (p\<lparr>pk_entries := (pk_entries p)(tr_Code req := None)\<rparr>) \<and> as_Sessions st' = as_Sessions st
    \<and> (case Verify (al_sha256 A) e (tr_CodeVerifier req) of
         None \<Rightarrow> res = Inr (Some e) | Some err \<Rightarrow> \<exists>resp. res = Inl resp \<and> rs_status resp = 400)"
  using assms by (auto simp: redeem_code_def Pkce_Consume_def Let_def split: option.splits if_splits)

text \<open>The user, the audience and the scope that a stored code is exchanged for.\<close>

definition code_grant :: "Entry \<Rightarrow> string \<Rightarrow> string \<Rightarrow> Grant \<Rightarrow> bool" where
  "code_grant e aud scope g \<longleftrightarrow>
     gr_Subject g = (if en_LoginHint e \<noteq> [] then en_LoginHint e else DefaultSubject)
     \<and> gr_Audience g = (if en_Audience e \<noteq> [] then en_Audience e else aud)
     \<and> gr_Scope g = (if en_Scope e \<noteq> [] then en_Scope e else scope) \<and> gr_AuthTime g = en_AuthTime e"

lemma code_exchange:
  assumes p: "as_PKCE st = Some p" and code: "pk_entries p (tr_Code req) = Some e" "tr_Code req \<noteq> []"
    and live: "nd_now E 3 \<le> en_expiresAt e" and chal: "en_Challenge e \<noteq> []"
    and s: "as_Sessions st = Some s"
    and run: "respondAuthorizationCode A E h r req aud st = (resp, st')"
  shows "(\<exists>p'. as_PKCE st' = Some p' \<and> pk_entries p' = (pk_entries p)(tr_Code req := None))
    \<and> (Verify (al_sha256 A) e (tr_CodeVerifier req) \<noteq> None \<longrightarrow> rs_status resp = 400 \<and> as_Sessions st' = as_Sessions st)
    \<and> (rs_status resp = 200 \<longrightarrow> (\<exists>s' g. as_Sessions st' = Some s' \<and> Refresh (nd_refresh E) s' = Some g
         \<and> code_grant e aud (tr_Scope req) g))"
proof -
  obtain res st1 where c: "redeem_code A E req st = (res, st1)" by fastforce
  note ent = redeem_code_entry[OF p code live chal c]
  show ?thesis
  proof (cases "Verify (al_sha256 A) e (tr_CodeVerifier req)")
    case (Some err)
    then obtain resp' where "res = Inl resp'" "rs_status resp' = 400" using ent by auto
    then show ?thesis using run c ent by (auto simp: respondAuthorizationCode_def)
  next
    case None
    then have res: "res = Inr (Some e)" using ent by simp
    define scope where "scope = (if en_Scope e \<noteq> [] then en_Scope e else tr_Scope req)"
    define sub where "sub = (if en_LoginHint e \<noteq> [] then en_LoginHint e else DefaultSubject)"
    define aud' where "aud' = (if en_Audience e \<noteq> [] then en_Audience e else aud)"
    let ?g = "\<lparr>gr_Subject = sub, gr_ClientID = tr_ClientID req, gr_Audience = aud', gr_Scope = scope,
        gr_Realm = [], gr_AuthTime = en_AuthTime e, gr_Profile = None\<rparr>"
    obtain extra idx where fin: "mint_and_finish A E h r extra idx ?g st1 = (resp, st')"
      using run c res
      by (auto simp: respondAuthorizationCode_def Let_def codeAudienceScope_def scope_def sub_def aud'_def split del: if_split)
    have pk: "as_PKCE st' = as_PKCE st1" using mint_and_finish_frame[OF fin] by simp
    have "\<exists>s' g. as_Sessions st' = Some s' \<and> Refresh (nd_refresh E) s' = Some g \<and> code_grant e aud (tr_Scope req) g"
      if ok: "rs_status resp = 200"
    proof -
      obtain access st2 where m: "mintAccess A E h (access_opts h r sub aud' scope extra) (tr_ClientID req) st1 = (Inr access, st2)"
        and st': "st' = st2\<lparr>as_Sessions := map_option (\<lambda>s. RememberRefresh (nd_refresh E)
            \<lparr>gr_Subject = sub, gr_ClientID = tr_ClientID req, gr_Audience = aud', gr_Scope = scope,
             gr_Realm = [], gr_AuthTime = en_AuthTime e, gr_Profile = Some (profileOf idx)\<rparr>
          (RememberProfile sub (profileOf idx) s)) (as_Sessions st2)\<rparr>"
        by (rule mint_and_finish_ok[OF fin ok, simplified]) blast
      obtain s2 where "as_Sessions st2 = Some s2" using mintAccess_recorded[OF m, of s] ent s by auto
      with st' login_record(1) show ?thesis by (simp add: code_grant_def scope_def sub_def aud'_def)
    qed
    with None pk ent show ?thesis by simp
  qed
qed

text \<open>
  The code exchange is guarded by its challenge. A stored, unexpired code with a PKCE challenge
  yields tokens only if the verifier sent passes \<^verbatim>\<open>Verify\<close>, and is used up either way; without the
  verifier the answer is 400 and the session store is unchanged; with it, an answer 200 logs in the
  user, the audience, the scope and the time of authentication that the code was stored with.
\<close>
theorem code_exchange_guarded:
  assumes "as_PKCE st = Some p" and "pk_entries p (tr_Code req) = Some e" "tr_Code req \<noteq> []"
    and "nd_now E 3 \<le> en_expiresAt e" and "en_Challenge e \<noteq> []" and "as_Sessions st = Some s"
    and "respondAuthorizationCode A E h r req aud st = (resp, st')"
  shows "(\<exists>p'. as_PKCE st' = Some p' \<and> pk_entries p' = (pk_entries p)(tr_Code req := None))
    \<and> (Verify (al_sha256 A) e (tr_CodeVerifier req) \<noteq> None \<longrightarrow> rs_status resp = 400 \<and> as_Sessions st' = as_Sessions st)
    \<and> (rs_status resp = 200 \<longrightarrow> (\<exists>s' g. as_Sessions st' = Some s' \<and> Refresh (nd_refresh E) s' = Some g
         \<and> code_grant e aud (tr_Scope req) g))"
  using assms by (rule code_exchange)

section \<open>Witnesses\<close>

definition demo_req :: tokenRequest where
  "demo_req = \<lparr>tr_GrantType = ''password'', tr_ClientID = ''app'', tr_ClientSecret = [], tr_Audience = [], tr_Scope = [],
     tr_Username = ''alice'', tr_Password = [], tr_RefreshToken = ''old'', tr_Code = ''code'', tr_RedirectURI = [],
     tr_CodeVerifier = ''wrong'', tr_Realm = [], tr_MFAToken = [], tr_OTP = [], tr_OOBCode = [], tr_BindingCode = [],
     tr_RecoveryCode = [], tr_Params = Map.empty\<rparr>"

definition demo_http :: request where
  "demo_http = \<lparr>rq_Method = ''POST'', rq_Path = ''/oauth/token'', rq_Query = [], rq_Header = [], rq_Host = ''mock'', rq_TLS = True,
     rq_Body = None\<rparr>"

definition demo_auth_lib :: "(string \<times> claims) list \<Rightarrow> auth_lib" where
  "demo_auth_lib tab = \<lparr>al_jwt = demo_jwt tab, al_sha256 = \<lambda>s. s, al_request = \<lambda>_. Inl ''no'', al_params = \<lambda>_. Inl ''no'',
     al_form = \<lambda>_. Inr (Some [(''grant_type'', [''password'']), (''username'', [''alice'']), (''client_id'', [''app''])]),
     al_b64decode = \<lambda>_. None, al_unescape = \<lambda>_. None\<rparr>"

definition demo_env :: env where
  "demo_env = \<lparr>nd_subject = ''u'', nd_opaque = Inr ''bytes'', nd_refresh = ''new'', nd_mfa = ''mt'', nd_code = ''c'', nd_login = ''l'',
     nd_now = \<lambda>_. 0\<rparr>"

definition demo_handler :: TokenHandler where
  "demo_handler = \<lparr>th_Keys = demo_keys, th_DefaultAudience = []\<rparr>"

definition demo_auth :: "Store \<Rightarrow> auth_state" where
  "demo_auth s = \<lparr>as_Claims = None, as_Mappings = None, as_Permissions = None, as_PKCE = None, as_MFA = None, as_Sessions = Some s\<rparr>"

text \<open>The claims of the id token that a login of the example mints.\<close>

definition demo_id_claims :: "string \<Rightarrow> claims \<Rightarrow> claims" where
  "demo_id_claims subject idx = mint_claims ''https://mock/'' 0
     \<lparr>mo_Issuer = ''https://mock/'', mo_Subject = subject, mo_Audience = [''app''], mo_Scope = [],
      mo_TTL = word_of_int 3600000000000, mo_Extra = idx\<rparr>"

lemma demo_parse: "\<exists>req. parseTokenRequest (demo_auth_lib tab) demo_http = Inr req \<and> tr_GrantType req = ''password''
    \<and> tr_ClientID req = ''app'' \<and> tr_Username req = ''alice'' \<and> tr_Audience req = [] \<and> tr_Scope req = []"
  by (simp add: parseTokenRequest_def parseTokenBody_def demo_auth_lib_def demo_http_def header_get_def values_get_def
      applyBasicAuth_def has_prefix_def)

lemma demo_mint:
  "mint_and_finish (demo_auth_lib [(''idt'', demo_id_claims (gr_Subject g) idx)]) demo_env demo_handler demo_http extra idx g (demo_auth s) =
     (resp, st') \<Longrightarrow> gr_Audience g = [] \<Longrightarrow> gr_ClientID g = ''app'' \<Longrightarrow> rs_status resp = 200"
  by (auto simp: mint_and_finish_def mintAccess_def access_opts_def demo_env_def Let_def finish_login_def demo_handler_def
      demo_keys_def Mint_def issuer_def IssuerFor_def ResolveIssuer_def AutoIssuer_def demo_auth_lib_def demo_jwt_def demo_id_claims_def
      issueRefreshToken_def)

theorem login_recorded_witness:
  "\<exists>t s'. rs_body (fst (Token_ServeHTTP (demo_auth_lib [(''idt'', demo_id_claims ''alice''
        (fillProfile (password_profile ''alice'' ''app'' 0) ''alice''))]) demo_env demo_handler demo_http (demo_auth NewStore)))
      = JsonBody (token_json t) \<and> recorded t NewStore s'"
proof -
  let ?A = "demo_auth_lib [(''idt'', demo_id_claims ''alice'' (fillProfile (password_profile ''alice'' ''app'' 0) ''alice''))]"
  obtain resp st' where run: "Token_ServeHTTP ?A demo_env demo_handler demo_http (demo_auth NewStore) = (resp, st')" by fastforce
  obtain req where req: "parseTokenRequest ?A demo_http = Inr req" "tr_GrantType req = ''password''" "tr_ClientID req = ''app''"
    "tr_Username req = ''alice''" "tr_Audience req = []" "tr_Scope req = []" using demo_parse by blast
  let ?g = "\<lparr>gr_Subject = ''alice'', gr_ClientID = ''app'', gr_Audience = [], gr_Scope = [], gr_Realm = [], gr_AuthTime = 0, gr_Profile = None\<rparr>"
  have "mint_and_finish ?A demo_env demo_handler demo_http (augmentExtra (demo_auth NewStore) (azp_extra ''password'' ''app'') [] (tr_Params req))
      (fillProfile (password_profile ''alice'' ''app'' 0) ''alice'') ?g (demo_auth NewStore) = (resp, st')"
    using run req
    by (simp add: Token_ServeHTTP_def Let_def respondPassword_def requireMFA_def resolveAudience_def demo_handler_def
        password_subject_def demo_auth_def demo_env_def)
  then have "rs_status resp = 200" using demo_mint[of ?g] by simp
  with login_recorded[OF run, of NewStore] run show ?thesis by (auto simp: demo_auth_def demo_env_def)
qed

definition demo_login :: Grant where
  "demo_login = \<lparr>gr_Subject = ''alice'', gr_ClientID = ''app'', gr_Audience = [], gr_Scope = [], gr_Realm = [], gr_AuthTime = 0,
     gr_Profile = Some Map.empty\<rparr>"


theorem mfa_enforced_witness:
  "rs_status (fst (Token_ServeHTTP (demo_auth_lib []) demo_env demo_handler demo_http
     ((demo_auth NewStore)\<lparr>as_MFA := Some (Mfa_NewStore\<lparr>mf_required := True\<rparr>)\<rparr>))) \<noteq> 200"
proof -
  let ?st = "(demo_auth NewStore)\<lparr>as_MFA := Some (Mfa_NewStore\<lparr>mf_required := True\<rparr>)\<rparr>"
  obtain resp st' where run: "Token_ServeHTTP (demo_auth_lib []) demo_env demo_handler demo_http ?st = (resp, st')" by fastforce
  obtain req where req: "parseTokenRequest (demo_auth_lib []) demo_http = Inr req" "tr_GrantType req = ''password''" using demo_parse by blast
  have "as_MFA ?st = Some (Mfa_NewStore\<lparr>mf_required := True\<rparr>)" by simp
  from mfa_enforced[OF run req(1) this] run req show ?thesis by (simp add: login_grants_def IsRequired_def)
qed

definition demo_code :: Entry where
  "demo_code = \<lparr>en_Challenge = ''right'', en_Method = ''plain'', en_ClientID = ''app'', en_Redirect = [], en_Nonce = [],
     en_LoginHint = ''alice'', en_Audience = ''api'', en_Scope = [], en_AuthTime = 5, en_expiresAt = 10\<rparr>"

theorem code_exchange_guarded_witness:
  "rs_status (fst (respondAuthorizationCode (demo_auth_lib []) demo_env demo_handler demo_http demo_req []
     ((demo_auth NewStore)\<lparr>as_PKCE := Some (Pkce_NewStore\<lparr>pk_entries := [''code'' \<mapsto> demo_code]\<rparr>)\<rparr>))) = 400"
proof -
  let ?p = "Pkce_NewStore\<lparr>pk_entries := [''code'' \<mapsto> demo_code]\<rparr>"
  let ?st = "(demo_auth NewStore)\<lparr>as_PKCE := Some ?p\<rparr>"
  obtain resp st' where run: "respondAuthorizationCode (demo_auth_lib []) demo_env demo_handler demo_http demo_req [] ?st = (resp, st')" by fastforce
  have "as_PKCE ?st = Some ?p" "pk_entries ?p (tr_Code demo_req) = Some demo_code" "tr_Code demo_req \<noteq> []"
    "nd_now demo_env 3 \<le> en_expiresAt demo_code" "en_Challenge demo_code \<noteq> []"
    "as_Sessions ?st = Some NewStore"
    by (simp_all add: demo_req_def demo_code_def demo_env_def demo_auth_def)
  from code_exchange_guarded[OF this run] run show ?thesis
    by (simp add: Verify_def demo_code_def demo_req_def MethodS256_def MethodPlain_def)
qed

end
