(* ===== verification/Endpoints.thy ===== *)
theory Endpoints
  imports Authorize Token_Props
begin

text \<open>
  The remaining endpoints of the Authentication API: \<^verbatim>\<open>userinfo.go\<close>, \<^verbatim>\<open>logout.go\<close>,
  \<^verbatim>\<open>oidclogout.go\<close>, \<^verbatim>\<open>passwordless.go\<close>, \<^verbatim>\<open>dbconnections.go\<close>, \<^verbatim>\<open>revoke.go\<close> and
  \<^verbatim>\<open>discovery.go\<close> of \<^verbatim>\<open>internal/authapi\<close>; and the properties of the authorization endpoint and of
  the flows that cross endpoints. The decoder of a request body is an argument of its handler.
\<close>

section \<open>User info\<close>

text \<open>
  The refusal, or the claims that are rendered with status 200. The verification reads the clock
  as \<open>now\<close>, the expiry check of an opaque token as \<open>now'\<close>.
\<close>

definition UserInfo_ServeHTTP :: "jwt_lib \<Rightarrow> KeySet \<Rightarrow> Store option \<Rightarrow> time \<Rightarrow> time \<Rightarrow> request \<Rightarrow> response + claims" where
  "UserInfo_ServeHTTP L k sessions now now' r = (case Token (header_get (rq_Header r) ''Authorization'') of
      None \<Rightarrow> Inl (WriteAuth 401 ''invalid_token'' ''missing bearer token'')
    | Some token \<Rightarrow>
        (case Jwks_Verify L k now token \<lparr>vo_RequireAudience = [], vo_AllowExpired = False, vo_Issuer = IssuerFor k r\<rparr> of
           Inl err \<Rightarrow>
             (let refuse = Inl (WriteAuth 401 ''invalid_token'' (jl_text L err))
              in case sessions of
                   None \<Rightarrow> refuse
                 | Some s \<Rightarrow>
                     (case Access_of token s of
                        None \<Rightarrow> refuse
                      | Some a \<Rightarrow>
                          if ac_Issuer a = IssuerFor k r \<and> now' < ac_ExpiresAt a then
                            Inr ((case Profile (ac_Subject a) s of Some profile \<Rightarrow> profile | None \<Rightarrow> Map.empty)
                                 (''sub'' \<mapsto> JStr (ac_Subject a)))
                          else refuse))
         | Inr claims \<Rightarrow>
             (let out = [''sub'' \<mapsto> JStr (tc_Subject claims)];
                  out1 = (case sessions of
                      Some s \<Rightarrow> if tc_Extra claims ''gty'' \<noteq> Some (JStr ''client-credentials'')
                                then (case Profile (tc_Subject claims) s of Some profile \<Rightarrow> out ++ profile | None \<Rightarrow> out)
                                else out
                    | None \<Rightarrow> out)
              in Inr (out1 ++ tc_Extra claims))))"

section \<open>Logout\<close>

definition Logout_isAllowed :: "url_lib \<Rightarrow> string list \<Rightarrow> string \<Rightarrow> bool" where
  "Logout_isAllowed U allowed returnTo = (if length allowed = 0 then True else isSafeRedirect U returnTo allowed)"

definition Logout_ServeHTTP :: "url_lib \<Rightarrow> string list \<Rightarrow> request \<Rightarrow> Store option \<Rightarrow> response \<times> Cookie option \<times> Store option" where
  "Logout_ServeHTTP U allowed r sessions =
     (let q = values_get (rq_Query r) ''returnTo''; ret = (if q = [] then ''/'' else q)
      in if \<not> Logout_isAllowed U allowed ret then
           (WriteAuth 400 ''invalid_request''
              ''returnTo is not in the configured allow-list (LOGOUT_ALLOWED_URLS); add it there to permit this redirect'', None, sessions)
         else (case endLogin U r sessions of (ck, sessions') \<Rightarrow> (found ret, Some ck, sessions')))"

definition loggedOutPage :: string where
  "loggedOutPage = ''<!doctype html>'' @ [CHR 0x0A] @ ''<html lang=\"en\">'' @ [CHR 0x0A]
     @ ''<head><meta charset=\"utf-8\"><title>You have been logged out.</title></head>'' @ [CHR 0x0A]
     @ ''<body><p>You have been logged out.</p></body>'' @ [CHR 0x0A] @ ''</html>'' @ [CHR 0x0A]"

definition badLogout :: "string \<Rightarrow> response" where
  "badLogout description = WriteAuth 400 ''invalid_request'' description"

text \<open>The refusal of an \<^verbatim>\<open>id_token_hint\<close>, if it is refused.\<close>

definition check_hint :: "jwt_lib \<Rightarrow> KeySet \<Rightarrow> time \<Rightarrow> request \<Rightarrow> string \<Rightarrow> string \<Rightarrow> response option" where
  "check_hint L k now r hint clientID =
     (if hint = [] then None
      else (case Jwks_Verify L k now hint \<lparr>vo_RequireAudience = [], vo_AllowExpired = True, vo_Issuer = IssuerFor k r\<rparr> of
          Inl err \<Rightarrow> Some (badLogout (''id_token_hint is not a valid id_token issued by this mock: '' @ jl_text L err))
        | Inr claims \<Rightarrow>
            if tc_Extra claims ''gty'' \<noteq> None then Some (badLogout ''id_token_hint is an access token; send the id_token instead'')
            else if clientID \<noteq> [] \<and> clientID \<notin> set (tc_Audience claims) then
              Some (badLogout ''id_token_hint was issued to a different client than client_id'')
            else None))"

definition with_state :: "url_lib \<Rightarrow> string \<Rightarrow> url \<Rightarrow> url" where
  "with_state U state u =
     (if state = [] then u
      else if u_RawQuery u = [] then u\<lparr>u_RawQuery := ''state='' @ ul_escape U state\<rparr>
      else u\<lparr>u_RawQuery := u_RawQuery u @ ''&state='' @ ul_escape U state\<rparr>)"

definition OIDCLogout_ServeHTTP :: "jwt_lib \<Rightarrow> url_lib \<Rightarrow> KeySet \<Rightarrow> string list \<Rightarrow> time \<Rightarrow> request \<Rightarrow> Store option
    \<Rightarrow> response \<times> Cookie option \<times> Store option" where
  "OIDCLogout_ServeHTTP L U k allowed now r sessions = (case ul_form U r of
      Inl err \<Rightarrow> (badLogout (''invalid form body: '' @ err), None, sessions)
    | Inr f \<Rightarrow>
        (let hint = values_get f ''id_token_hint''; clientID = values_get f ''client_id'';
             target = values_get f ''post_logout_redirect_uri''; state = values_get f ''state''
         in case check_hint L k now r hint clientID of
              Some resp \<Rightarrow> (resp, None, sessions)
            | None \<Rightarrow>
                if target = [] then
                  (case endLogin U r sessions of (ck, sessions') \<Rightarrow>
                    (\<lparr>rs_status = 200, rs_headers = [(''Content-Type'', [''text/html; charset=utf-8''])], rs_body = TextBody loggedOutPage\<rparr>,
                     Some ck, sessions'))
                else if clientID = [] \<and> hint = [] then
                  (badLogout ''post_logout_redirect_uri requires client_id or id_token_hint'', None, sessions)
                else if length allowed > 0 \<and> \<not> isSafeRedirect U target allowed then
                  (badLogout ''post_logout_redirect_uri is not in the configured allow-list (LOGOUT_ALLOWED_URLS); add it there to permit this redirect'',
                   None, sessions)
                else (case url_Parse U target of
                    None \<Rightarrow> (badLogout ''post_logout_redirect_uri is not a valid URL'', None, sessions)
                  | Some u \<Rightarrow>
                      (case endLogin U r sessions of (ck, sessions') \<Rightarrow>
                        (found (ul_string U (with_state U state u)), Some ck, sessions')))))"

section \<open>Passwordless and database connections\<close>

record passwordlessStartRequest =
  ps_ClientID :: string
  ps_Connection :: string
  ps_Email :: string
  ps_PhoneNumber :: string
  ps_Send :: string
  ps_AuthParams :: claims

definition PasswordlessStart_ServeHTTP :: "(string \<Rightarrow> string + passwordlessStartRequest) \<Rightarrow> string \<Rightarrow> string \<Rightarrow> response" where
  "PasswordlessStart_ServeHTTP decode uid body = (case decode body of
      Inl err \<Rightarrow> WriteAuth 400 ''invalid_request'' err
    | Inr req \<Rightarrow>
        if ps_Connection req = [] \<or> (ps_Email req = [] \<and> ps_PhoneNumber req = []) then
          WriteAuth 400 ''invalid_request'' ''connection and one of (email, phone_number) are required''
        else render_json 200 (JObj ([(''_id'', JStr uid)] @ omitempty ''email'' (ps_Email req)
               @ omitempty ''phone_number'' (ps_PhoneNumber req))))"

definition PasswordlessVerify_ServeHTTP :: "auth_lib \<Rightarrow> env \<Rightarrow> TokenHandler \<Rightarrow> request \<Rightarrow> auth_state \<Rightarrow> response \<times> auth_state" where
  "PasswordlessVerify_ServeHTTP A E h r st = (case parseTokenRequest A r of
      Inl err \<Rightarrow> (WriteAuth 400 ''invalid_request'' err, st)
    | Inr req \<Rightarrow>
        if trim_space (tr_GrantType req) \<noteq> grantPasswordlessOTP then
          (WriteAuth 400 ''unsupported_grant_type'' (tr_GrantType req), st)
        else respondPasswordless A E h r req (resolveAudience h (tr_Audience req)) st)"

record signupRequest =
  su_ClientID :: string
  su_Email :: string
  su_Password :: string
  su_Connection :: string
  su_Username :: string

definition DBConnectionsSignup_ServeHTTP :: "(string \<Rightarrow> string + signupRequest) \<Rightarrow> string \<Rightarrow> string \<Rightarrow> response" where
  "DBConnectionsSignup_ServeHTTP decode uid body = (case decode body of
      Inl err \<Rightarrow> WriteAuth 400 ''invalid_request'' err
    | Inr req \<Rightarrow>
        if su_Email req = [] \<or> su_Connection req = [] then WriteAuth 400 ''invalid_request'' ''email and connection are required''
        else render_json 201 (JObj [(''_id'', JStr uid), (''email'', JStr (su_Email req)), (''email_verified'', JBool False)]))"

record changePasswordRequest =
  cp_ClientID :: string
  cp_Email :: string
  cp_Connection :: string

definition DBConnectionsChangePassword_ServeHTTP :: "(string \<Rightarrow> string + changePasswordRequest) \<Rightarrow> string \<Rightarrow> response" where
  "DBConnectionsChangePassword_ServeHTTP decode body = (case decode body of
      Inl err \<Rightarrow> WriteAuth 400 ''invalid_request'' err
    | Inr req \<Rightarrow>
        if cp_Email req = [] \<or> cp_Connection req = [] then WriteAuth 400 ''invalid_request'' ''email and connection are required''
        else \<lparr>rs_status = 200, rs_headers = [(''Content-Type'', [''text/plain; charset=utf-8''])],
              rs_body = TextBody (''We'' @ [CHR 0x27] @ ''ve just sent you an email to reset your password.'')\<rparr>)"

definition Revoke_ServeHTTP :: response where
  "Revoke_ServeHTTP = no_content 200"

section \<open>Discovery\<close>

definition trim_slash :: "string \<Rightarrow> string" where
  "trim_slash s = (if s \<noteq> [] \<and> last s = CHR ''/'' then butlast s else s)"

abbreviation JStrs :: "string list \<Rightarrow> json" where
  "JStrs xs \<equiv> JArr (map JStr xs)"

definition discoveryDoc :: "string \<Rightarrow> json" where
  "discoveryDoc iss =
     (let base = trim_slash iss
      in JObj
       [(''issuer'', JStr iss),
        (''authorization_endpoint'', JStr (base @ ''/authorize'')),
        (''token_endpoint'', JStr (base @ ''/oauth/token'')),
        (''userinfo_endpoint'', JStr (base @ ''/userinfo'')),
        (''jwks_uri'', JStr (base @ ''/.well-known/jwks.json'')),
        (''end_session_endpoint'', JStr (base @ ''/oidc/logout'')),
        (''revocation_endpoint'', JStr (base @ ''/oauth/revoke'')),
        (''response_types_supported'', JStrs [''code'', ''token'', ''id_token'', ''code token'', ''code id_token'', ''token id_token'', ''code token id_token'']),
        (''subject_types_supported'', JStrs [''public'']),
        (''id_token_signing_alg_values_supported'', JStrs [''RS256'']),
        (''token_endpoint_auth_methods_supported'', JStrs [''client_secret_basic'', ''client_secret_post'', ''none'']),
        (''scopes_supported'', JStrs [''openid'', ''profile'', ''email'', ''offline_access'']),
        (''grant_types_supported'', JStrs [''client_credentials'', ''authorization_code'', ''refresh_token'', ''password'', ''implicit'',
           ''http://auth0.com/oauth/grant-type/password-realm'', ''http://auth0.com/oauth/grant-type/passwordless/otp'',
           ''http://auth0.com/oauth/grant-type/mfa-oob'', ''http://auth0.com/oauth/grant-type/mfa-otp'',
           ''http://auth0.com/oauth/grant-type/mfa-recovery-code'']),
        (''code_challenge_methods_supported'', JStrs [''S256'', ''plain'']),
        (''response_modes_supported'', JStrs [''query'', ''fragment'', ''form_post'']),
        (''claims_supported'', JStrs [''aud'', ''auth_time'', ''azp'', ''email'', ''email_verified'', ''exp'', ''iat'', ''iss'', ''name'', ''nickname'',
           ''nonce'', ''phone_number'', ''phone_number_verified'', ''picture'', ''sub''])])"

record DiscoveryHandler =
  dh_doc :: "json option"
  dh_auto :: bool

definition NewDiscoveryHandler :: "string \<Rightarrow> DiscoveryHandler" where
  "NewDiscoveryHandler iss =
     (if iss = AutoIssuer then \<lparr>dh_doc = None, dh_auto = True\<rparr> else \<lparr>dh_doc = Some (discoveryDoc iss), dh_auto = False\<rparr>)"

definition Discovery_ServeHTTP :: "DiscoveryHandler \<Rightarrow> request \<Rightarrow> response" where
  "Discovery_ServeHTTP h r =
     (let doc = (if dh_auto h then Some (discoveryDoc (ResolveIssuer AutoIssuer r)) else dh_doc h)
      in \<lparr>rs_status = 200, rs_headers = [(''Content-Type'', [''application/json''])],
          rs_body = (case doc of Some d \<Rightarrow> JsonBody d | None \<Rightarrow> NoBody)\<rparr>)"

lemmas endpoint_defs [handler_defs] = UserInfo_ServeHTTP_def Logout_isAllowed_def Logout_ServeHTTP_def badLogout_def
  OIDCLogout_ServeHTTP_def PasswordlessStart_ServeHTTP_def PasswordlessVerify_ServeHTTP_def
  DBConnectionsSignup_ServeHTTP_def DBConnectionsChangePassword_ServeHTTP_def

end
