(* ===== verification/Auth_Props.thy ===== *)
theory Auth_Props
  imports Endpoints
begin

text \<open>
  What the Authentication API guarantees across its endpoints: redirects cannot be turned against
  the user, an authorization code carries the login to the token endpoint, the login cookie lives
  from \<^verbatim>\<open>/authorize\<close> to the logout, and \<^verbatim>\<open>/userinfo\<close> answers for the subject of the token.
\<close>

section \<open>Redirects\<close>

text \<open>
  C1. No open redirect. With an allow-list configured, a target that a browser would take to
  another origin and that is not on the list is refused with status 400 by \<^verbatim>\<open>/authorize\<close>, by
  \<^verbatim>\<open>/v2/logout\<close> and by \<^verbatim>\<open>/oidc/logout\<close>; no cookie is set and no store changes. The browser
  strips leading blanks and control characters, drops tabs and line ends and reads a backslash
  as a slash before it follows a target.
\<close>
theorem no_open_redirect:
  assumes list: "allowed \<noteq> []" and bad: "leaves_origin target" "target \<notin> set allowed"
  shows "(values_get (rq_Query r) ''redirect_uri'' = target \<longrightarrow>
        (\<exists>resp. Authorize_ServeHTTP A U C E allowed errs th r st = (resp, None, st) \<and> rs_status resp = 400))
    \<and> (values_get (rq_Query r) ''returnTo'' = target \<longrightarrow>
        (\<exists>resp. Logout_ServeHTTP U allowed r s = (resp, None, s) \<and> rs_status resp = 400))
    \<and> (ul_form U r = Inr f \<and> values_get f ''post_logout_redirect_uri'' = target \<longrightarrow>
        (\<exists>resp. OIDCLogout_ServeHTTP L U k allowed now r s = (resp, None, s) \<and> rs_status resp = 400))"
proof -
  have unsafe: "\<not> isSafeRedirect U target allowed" using safe_redirect_cases bad by blast
  have ne: "target \<noteq> []" using bad(1) by (auto simp: leaves_origin_def browser_url_def has_scheme_def has_prefix_def)
  have hint: "rs_status resp = 400" if "check_hint L k now r h c = Some resp" for h c resp
    using that by (auto simp: check_hint_def badLogout_def split: if_splits sum.splits)
  have "\<exists>resp. vetRedirect U allowed target = Inl resp \<and> rs_status resp = 400"
    using unsafe list by (auto simp: vetRedirect_def isRedirectAllowed_def split: option.splits)
  then show ?thesis
    using unsafe list ne
    by (auto simp: Authorize_ServeHTTP_def Logout_ServeHTTP_def Logout_isAllowed_def OIDCLogout_ServeHTTP_def badLogout_def Let_def
        split: prod.splits option.splits intro: hint)
qed

section \<open>The course of an authorization request\<close>

lemma authorize_cases:
  assumes "Authorize_ServeHTTP A U C E allowed errs th r st = (resp, ck, st')"
  obtains (refused) "ck = None" "st' = st"
  | (failed) rt subject authTime reuse desc where "ck = None"
      "resolveLogin U E r (rq_Query r) (as_Sessions st) = Some (subject, authTime, reuse)"
      "issue A E th r (rq_Query r) rt (values_get (rq_Query r) ''state'') subject authTime st = (Inl desc, st')"
  | (issued) u mode rt subject authTime reuse params st1 where
      "vetRedirect U allowed (values_get (rq_Query r) ''redirect_uri'') = Inr u"
      "parseResponseTypes (values_get (rq_Query r) ''response_type'') = (rt, True)"
      "validateResponseType (rq_Query r) (values_get (rq_Query r) ''response_type'') rt True = None"
      "resolveLogin U E r (rq_Query r) (as_Sessions st) = Some (subject, authTime, reuse)"
      "issue A E th r (rq_Query r) rt (values_get (rq_Query r) ''state'') subject authTime st = (Inr params, st1)"
      "resp = deliver U u mode params"
      "(case as_Sessions st1 of
          Some s \<Rightarrow> if reuse then ck = None \<and> st' = st1
                    else (case startSession U E r subject authTime s of (c, s') \<Rightarrow> ck = Some c \<and> st' = st1\<lparr>as_Sessions := Some s'\<rparr>)
        | None \<Rightarrow> ck = None \<and> st' = st1)"
proof -
  let ?q = "rq_Query r"
  let ?rule = "case errs of Some rules \<Rightarrow> Rules_Find C ?q rules | None \<Rightarrow> None"
  obtain rt ok where rt: "parseResponseTypes (values_get ?q ''response_type'') = (rt, ok)" by fastforce
  note run = assms[unfolded Authorize_ServeHTTP_def Let_def rt prod.case]
  consider (early) "values_get ?q ''redirect_uri'' = []" | (vet) x where "values_get ?q ''redirect_uri'' \<noteq> []"
      "vetRedirect U allowed (values_get ?q ''redirect_uri'') = Inl x"
    | (go) u where "values_get ?q ''redirect_uri'' \<noteq> []" "vetRedirect U allowed (values_get ?q ''redirect_uri'') = Inr u"
    by (cases "vetRedirect U allowed (values_get ?q ''redirect_uri'')") auto
  then show thesis
  proof cases
    case (go u)
    consider (bad) "validateResponseType ?q (values_get ?q ''response_type'') rt ok \<noteq> None"
      | (rule) "validateResponseType ?q (values_get ?q ''response_type'') rt ok = None" "?rule \<noteq> None"
      | (login) "validateResponseType ?q (values_get ?q ''response_type'') rt ok = None" "?rule = None"
          "resolveLogin U E r ?q (as_Sessions st) = None"
      | (ok) subject authTime reuse where "validateResponseType ?q (values_get ?q ''response_type'') rt ok = None" "?rule = None"
          "resolveLogin U E r ?q (as_Sessions st) = Some (subject, authTime, reuse)"
      by (metis option.exhaust prod_cases3)
    then show ?thesis
    proof cases
      case bad
      then show ?thesis using run go refused by auto
    next
      case rule
      then show ?thesis using run go refused by auto
    next
      case login
      then show ?thesis using run go refused by auto
    next
      case (ok subject authTime reuse)
      have valid: "ok" using ok(1) by (auto simp: validateResponseType_def Let_def split: if_splits)
      obtain res st1 where iss: "issue A E th r ?q rt (values_get ?q ''state'') subject authTime st = (res, st1)" by fastforce
      show ?thesis
      proof (cases res)
        case (Inl desc)
        with run go ok iss have "ck = None \<and> st' = st1" by simp
        with iss Inl ok show ?thesis using failed by blast
      next
        case (Inr params)
        with run go ok iss have "\<exists>mode. resp = deliver U u mode params" and
          sess: "case as_Sessions st1 of
            Some s \<Rightarrow> if reuse then ck = None \<and> st' = st1
                      else (case startSession U E r subject authTime s of (c, s') \<Rightarrow> ck = Some c \<and> st' = st1\<lparr>as_Sessions := Some s'\<rparr>)
          | None \<Rightarrow> ck = None \<and> st' = st1"
          by (auto split: option.splits prod.splits if_splits)
        then obtain mode where "resp = deliver U u mode params" by blast
        with iss Inr rt go ok valid sess show ?thesis using issued[of u rt subject authTime reuse params st1 mode] by simp
      qed
    qed
  qed (use run refused in auto)
qed

lemma values_get_set: "values_get (params_set k v p) k' = (if k' = k then v else values_get p k')"
  by (simp add: params_set_def values_get_def update_conv')

lemma rememberProfile_frame:
  "as_PKCE (rememberProfile u c st) = as_PKCE st"
  "map_option login_view (as_Sessions (rememberProfile u c st)) = map_option login_view (as_Sessions st)"
  by (simp_all add: rememberProfile_def option.map_comp comp_def)

lemma add_access_frame:
  assumes "add_access A E h r q rt subject params st = (res, st')"
  shows "as_PKCE st' = as_PKCE st \<and> map_option login_view (as_Sessions st') = map_option login_view (as_Sessions st)
    \<and> (\<forall>access p. res = Inr (access, p) \<longrightarrow> values_get p ''code'' = values_get params ''code'')"
proof -
  have "as_PKCE st1 = as_PKCE st \<and> map_option login_view (as_Sessions st1) = map_option login_view (as_Sessions st)"
    if "accessToken A E h r q subject cid st = (x, st1)" for cid x st1
    using that unfolding accessToken_def Let_def by (intro conjI mintAccess_frame(4,8))
  with assms show ?thesis
    by (auto simp: add_access_def Let_def values_get_set split: sum.splits prod.splits if_splits)
qed

lemma add_id_token_frame:
  assumes "add_id_token A E h r q rt code subject authTime access params st = (res, st')"
  shows "as_PKCE st' = as_PKCE st \<and> map_option login_view (as_Sessions st') = map_option login_view (as_Sessions st)
    \<and> (\<forall>p. res = Inr p \<longrightarrow> values_get p ''code'' = values_get params ''code'')"
  using assms unfolding add_id_token_def Let_def
  by (cases "rt_idToken rt") (auto simp: rememberProfile_frame values_get_set split: sum.splits)

lemma mintTokens_frame:
  assumes "mintTokens A E th r q rt code subject authTime params st = (res, st')"
  shows "as_PKCE st' = as_PKCE st \<and> map_option login_view (as_Sessions st') = map_option login_view (as_Sessions st)
    \<and> (\<forall>p. res = Inr p \<longrightarrow> values_get p ''code'' = values_get params ''code'')"
proof (cases th)
  case (Some h)
  obtain x st1 where a: "add_access A E h r q rt subject params st = (x, st1)" by fastforce
  note fa = add_access_frame[OF a]
  show ?thesis
  proof (cases x)
    case (Inr y)
    obtain access p where y: "y = (access, p)" by (cases y)
    with assms Some a Inr have "add_id_token A E h r q rt code subject authTime access p st1 = (res, st')"
      by (simp add: mintTokens_def)
    from add_id_token_frame[OF this] fa Inr y show ?thesis by simp
  qed (use assms Some a fa in \<open>auto simp: mintTokens_def\<close>)
qed (use assms in \<open>auto simp: mintTokens_def\<close>)

lemma issue_ok:
  assumes "issue A E th r q rt state subject authTime st = (Inr params, st1)"
  shows "map_option login_view (as_Sessions st1) = map_option login_view (as_Sessions st)"
    and "as_PKCE st1 = (if rt_code rt \<and> nd_code E \<noteq> []
           then map_option (Pkce_Put (nd_now E 3) (nd_now E 4) (nd_code E) (code_entry q subject authTime)) (as_PKCE st)
           else as_PKCE st)"
    and "rt_code rt \<Longrightarrow> values_get params ''code'' = nd_code E"
    and "state \<noteq> [] \<Longrightarrow> values_get params ''state'' = state"
proof -
  let ?code = "if rt_code rt then nd_code E else []" and ?p0 = "if rt_code rt then params_set ''code'' (if rt_code rt then nd_code E else []) [] else []"
  obtain p st0 where st1: "st1 = recordCode E q ?code subject authTime st0"
    and params: "params = (if state \<noteq> [] then params_set ''state'' state p else p)"
    and fr: "as_PKCE st0 = as_PKCE st" "map_option login_view (as_Sessions st0) = map_option login_view (as_Sessions st)"
      "values_get p ''code'' = values_get ?p0 ''code''"
  proof (cases "rt_token rt \<or> rt_idToken rt")
    case True
    obtain res st0 where m: "mintTokens A E th r q rt ?code subject authTime ?p0 st = (res, st0)" by fastforce
    with assms True obtain p where "res = Inr p" "st1 = recordCode E q ?code subject authTime st0"
      "params = (if state \<noteq> [] then params_set ''state'' state p else p)"
      by (cases res) (simp_all add: issue_def Let_def split del: if_split)
    with mintTokens_frame[OF m] show ?thesis using that by blast
  qed (use assms that[of st ?p0] in \<open>simp add: issue_def Let_def split del: if_split\<close>)
  show "map_option login_view (as_Sessions st1) = map_option login_view (as_Sessions st)"
    using fr(2) by (auto simp: st1 recordCode_def split: option.splits)
  show "as_PKCE st1 = (if rt_code rt \<and> nd_code E \<noteq> []
           then map_option (Pkce_Put (nd_now E 3) (nd_now E 4) (nd_code E) (code_entry q subject authTime)) (as_PKCE st)
           else as_PKCE st)"
    using fr(1) by (auto simp: st1 recordCode_def split: option.splits)
  show "rt_code rt \<Longrightarrow> values_get params ''code'' = nd_code E"
    using fr(3) by (auto simp: params values_get_set)
  show "state \<noteq> [] \<Longrightarrow> values_get params ''state'' = state"
    by (simp add: params values_get_set)
qed

section \<open>From the authorization request to the tokens\<close>

text \<open>The check a verifier has to pass for the challenge of a request.\<close>

definition verifier_ok :: "(string \<Rightarrow> string) \<Rightarrow> url_values \<Rightarrow> string \<Rightarrow> bool" where
  "verifier_ok sha256 q verifier \<longleftrightarrow>
     (let method = values_get q ''code_challenge_method''; challenge = values_get q ''code_challenge''
      in if method = [] \<or> method = ''plain'' then verifier = challenge
         else method = ''S256'' \<and> verifier \<noteq> [] \<and> RawURLEncode (sha256 verifier) = challenge)"

lemma Verify_code_entry:
  "values_get q ''code_challenge'' \<noteq> [] \<Longrightarrow>
     Verify sha256 ((code_entry q subject t)\<lparr>en_AuthTime := a, en_expiresAt := x\<rparr>) v = None \<longleftrightarrow> verifier_ok sha256 q v"
  by (auto simp: Verify_def code_entry_def verifier_ok_def Let_def MethodPlain_def MethodS256_def)

lemma Pkce_Put_lookup:
  "pk_entries (Pkce_Put n0 now c e p) c = Some (e\<lparr>en_AuthTime := (if en_AuthTime e = zero_time then now else en_AuthTime e),
     en_expiresAt := time_add now (pk_ttl p)\<rparr>)"
  by (simp add: Pkce_Put_def pkce_sweep_def Let_def)

lemma authorize_issues_code:
  assumes run: "Authorize_ServeHTTP A U C E allowed errs th r st = (resp, ck, st1)"
    and p: "as_PKCE st = Some p" "pk_entries p (nd_code E) = None"
    and new: "as_PKCE st1 = Some p1" "pk_entries p1 (nd_code E) = Some e"
  obtains u subject authTime reuse mode params where
    "vetRedirect U allowed (values_get (rq_Query r) ''redirect_uri'') = Inr u"
    "resolveLogin U E r (rq_Query r) (as_Sessions st) = Some (subject, authTime, reuse)"
    "resp = deliver U u mode params" "values_get params ''code'' = nd_code E"
    "values_get (rq_Query r) ''state'' \<noteq> [] \<Longrightarrow> values_get params ''state'' = values_get (rq_Query r) ''state''"
    "e = (code_entry (rq_Query r) subject authTime)\<lparr>en_AuthTime := (if authTime = zero_time then nd_now E 4 else authTime),
       en_expiresAt := time_add (nd_now E 4) (pk_ttl p)\<rparr>"
    "values_get (rq_Query r) ''code_challenge'' \<noteq> [] \<Longrightarrow>
       43 \<le> length (values_get (rq_Query r) ''code_challenge'') \<and> length (values_get (rq_Query r) ''code_challenge'') \<le> 128"
  using run
proof (cases rule: authorize_cases)
  case (failed rt subject authTime reuse desc)
  have "as_PKCE st1 = as_PKCE st"
    using failed(3) mintTokens_frame unfolding issue_def Let_def
    by (fastforce split: if_splits sum.splits prod.splits)
  then show ?thesis using p new by simp
next
  case (issued u mode rt subject authTime reuse params st0)
  note iss = issue_ok[OF issued(5)]
  have same: "as_PKCE st1 = as_PKCE st0"
    using issued(7) by (auto split: option.splits if_splits prod.splits)
  have code: "rt_code rt \<and> nd_code E \<noteq> []" using same iss(2) p new by (auto split: if_splits)
  then have "e = (code_entry (rq_Query r) subject authTime)\<lparr>en_AuthTime := (if authTime = zero_time then nd_now E 4 else authTime),
       en_expiresAt := time_add (nd_now E 4) (pk_ttl p)\<rparr>"
    using same iss(2) p new Pkce_Put_lookup[of "nd_now E 3" "nd_now E 4" "nd_code E" "code_entry (rq_Query r) subject authTime" p]
    by (auto simp: code_entry_def Let_def)
  moreover have "values_get (rq_Query r) ''code_challenge'' \<noteq> [] \<Longrightarrow>
       43 \<le> length (values_get (rq_Query r) ''code_challenge'') \<and> length (values_get (rq_Query r) ''code_challenge'') \<le> 128"
    using issued(3) by (auto simp: validateResponseType_def Let_def split: if_splits)
  ultimately show ?thesis using that issued(1,4,6) iss(3,4) code by blast
qed (use p new in simp)


section \<open>The life of a login session\<close>

lemma login_view_eq: "map_option login_view a = map_option login_view b \<Longrightarrow> currentLogin U r a = currentLogin U r b"
  by (cases a; cases b) (auto simp: currentLogin_def Login_of_def split: option.splits)

lemma startSession_facts:
  assumes "startSession U E r subject authTime s = (ck, s')"
  shows "ck_Value ck = nd_login E" "Login_of (nd_login E) s' = Some \<lparr>lg_Subject = subject, lg_AuthTime = authTime\<rparr>"
    "currentLogin U r (Some s) = Some (old, l) \<Longrightarrow> old \<noteq> nd_login E \<Longrightarrow> Login_of old s' = None"
proof -
  have s': "s' = StartLogin (nd_login E) subject authTime
      (case currentLogin U r (Some s) of Some (old, _) \<Rightarrow> EndLogin old s | None \<Rightarrow> s)"
    and ck: "ck = setLoginCookie r (nd_login E)"
    using assms by (auto simp: startSession_def Let_def)
  show "ck_Value ck = nd_login E" by (simp add: ck setLoginCookie_def loginCookie_def)
  show "Login_of (nd_login E) s' = Some \<lparr>lg_Subject = subject, lg_AuthTime = authTime\<rparr>"
    by (simp add: s' StartLogin_def Login_of_def Let_def)
  assume "currentLogin U r (Some s) = Some (old, l)" "old \<noteq> nd_login E"
  then show "Login_of old s' = None" by (auto simp: s' StartLogin_def EndLogin_def Login_of_def Let_def)
qed

lemma silent_login:
  assumes "''none'' \<in> set (str_fields (values_get q ''prompt''))" "ul_cookie U r loginCookieName = Some i"
  shows "resolveLogin U E r q (Some s) = map_option (\<lambda>l. (lg_Subject l, lg_AuthTime l, True)) (Login_of i s)"
  using assms by (simp add: resolveLogin_def currentLogin_def Let_def option.map_comp comp_def)

lemma no_login_refused:
  assumes "resolveLogin U E r (rq_Query r) (as_Sessions st) = None"
    and "Authorize_ServeHTTP A U C E allowed errs th r st = (resp, ck, st')"
  shows "ck = None \<and> st' = st"
  using assms(2) by (cases rule: authorize_cases) (use assms(1) in auto)

lemma endLogin_current:
  assumes "ul_cookie U r loginCookieName = Some i" "endLogin U r (Some s) = (ck, s')"
  shows "\<exists>s''. s' = Some s'' \<and> Login_of i s'' = None"
  using assms by (auto simp: endLogin_def currentLogin_def Login_of_def EndLogin_def split: option.splits)


end
