(* ===== verification/Auth_Runs.thy ===== *)
theory Auth_Runs
  imports Auth_Props
begin

text \<open>
  The Authentication API as one machine: any sequence of calls of its stateful endpoints, and what
  holds of the session store after it, hence of what \<^verbatim>\<open>/userinfo\<close> answers.
\<close>

section \<open>What the session store remembers of a user\<close>

text \<open>Profiles, remembered or carried by a refresh grant, hold profile claims only.\<close>

definition profiles_only :: "Store \<Rightarrow> bool" where
  "profiles_only s \<longleftrightarrow> (\<forall>p \<in> ran (ss_profiles s). dom p \<subseteq> set profile_keys)
     \<and> (\<forall>g \<in> ran (ss_refresh s). \<forall>p. gr_Profile g = Some p \<longrightarrow> dom p \<subseteq> set profile_keys)"

definition sess_ok :: "Store option \<Rightarrow> bool" where
  "sess_ok s = (case s of None \<Rightarrow> True | Some s \<Rightarrow> profiles_only s)"

lemma dom_profileOf: "dom (profileOf c) \<subseteq> set profile_keys"
  by (auto simp: profileOf_restrict)

lemma ran_upd: "ran (m(k \<mapsto> v)) \<subseteq> insert v (ran m)"
  by (auto simp: ran_def)

lemma ran_del: "ran (m(h := None)) \<subseteq> insert v (ran m)"
  by (auto simp: ran_def)

lemma ran_evict: "ran (m(h := None, k \<mapsto> v)) \<subseteq> insert v (ran m)"
  by (auto simp: ran_def)

lemma profiles_only_profile:
  assumes "profiles_only s" shows "profiles_only (RememberProfile u (profileOf c) s)"
proof -
  have "ran (ss_profiles (RememberProfile u (profileOf c) s)) \<subseteq> insert (profileOf c) (ran (ss_profiles s))"
    by (simp add: RememberProfile_def Let_def ran_upd ran_evict ran_del subset_insertI)
  moreover have "ss_refresh (RememberProfile u (profileOf c) s) = ss_refresh s" by (simp add: RememberProfile_def Let_def)
  ultimately show ?thesis using assms dom_profileOf[of c] unfolding profiles_only_def by (metis (no_types) insertE subsetD)
qed

lemma profiles_only_refresh:
  assumes "profiles_only s" shows "profiles_only (RememberRefresh t (g\<lparr>gr_Profile := Some (profileOf c)\<rparr>) s)"
proof -
  let ?g = "g\<lparr>gr_Profile := Some (profileOf c)\<rparr>"
  have ran: "ran (ss_refresh (RememberRefresh t ?g s)) \<subseteq> insert ?g (ran (ss_refresh s))"
    by (simp add: RememberRefresh_def Let_def ran_upd ran_evict ran_del subset_insertI)
  have same: "ss_profiles (RememberRefresh t ?g s) = ss_profiles s" by (simp add: RememberRefresh_def Let_def)
  have "dom p \<subseteq> set profile_keys" if "g' \<in> ran (ss_refresh (RememberRefresh t ?g s))" "gr_Profile g' = Some p" for g' p
  proof (cases "g' = ?g")
    case True
    with that dom_profileOf[of c] show ?thesis by simp
  next
    case False
    with that ran assms show ?thesis unfolding profiles_only_def by blast
  qed
  then show ?thesis using assms same unfolding profiles_only_def by simp
qed

lemma profiles_only_views:
  "profile_view s' = profile_view s \<Longrightarrow> refresh_view s' = refresh_view s \<Longrightarrow> profiles_only s' = profiles_only s"
  by (simp add: profiles_only_def)

lemma sess_ok_views:
  "map_option profile_view s' = map_option profile_view s \<Longrightarrow> map_option refresh_view s' = map_option refresh_view s \<Longrightarrow>
     sess_ok s' = sess_ok s"
  by (cases s; cases s') (auto simp: sess_ok_def profiles_only_def)

lemma mintAccess_sess:
  "mintAccess A E h opts cid st = (res, st') \<Longrightarrow> sess_ok (as_Sessions st') = sess_ok (as_Sessions st)"
  by (rule sess_ok_views[OF mintAccess_frame(7,6)])

lemma rememberProfile_sess: "sess_ok (as_Sessions st) \<Longrightarrow> sess_ok (as_Sessions (rememberProfile u c st))"
  by (cases "as_Sessions st") (simp_all add: rememberProfile_def sess_ok_def profiles_only_profile)

lemma finish_login_sess:
  assumes "finish_login A E h r access idExtra g st = (resp, st')" "sess_ok (as_Sessions st)"
  shows "sess_ok (as_Sessions st')"
  using assms(1)
proof (cases rule: finish_login_cases)
  case (minted idt)
  then show ?thesis using assms(2)
    by (cases "as_Sessions st") (simp_all add: sess_ok_def profiles_only_refresh profiles_only_profile)
qed (use assms(2) in simp)

lemma mint_and_finish_sess:
  assumes "mint_and_finish A E h r extra idExtra g st = (resp, st')" "sess_ok (as_Sessions st)"
  shows "sess_ok (as_Sessions st')"
proof -
  obtain res st1 where m: "mintAccess A E h (access_opts h r (gr_Subject g) (gr_Audience g) (gr_Scope g) extra) (gr_ClientID g) st = (res, st1)"
    by fastforce
  with mintAccess_sess[OF m] assms show ?thesis
    by (cases res) (auto simp: mint_and_finish_def intro: finish_login_sess)
qed

lemma requireMFA_sess: "as_Sessions (snd (requireMFA E ctx st)) = as_Sessions st"
  by (simp add: requireMFA_def split: option.splits)

lemma login_grants_sess:
  assumes ok: "sess_ok (as_Sessions st)"
  shows "respondPassword A E h r req aud st = (resp, st') \<Longrightarrow> sess_ok (as_Sessions st')"
    and "respondPasswordRealm A E h r req aud st = (resp, st') \<Longrightarrow> sess_ok (as_Sessions st')"
    and "respondPasswordless A E h r req aud st = (resp, st') \<Longrightarrow> sess_ok (as_Sessions st')"
    and "mintFromMFA A E h r ctx gty params st = (resp, st') \<Longrightarrow> sess_ok (as_Sessions st')"
  unfolding respondPassword_def respondPasswordRealm_def respondPasswordless_def mintFromMFA_def Let_def
  using ok requireMFA_sess mint_and_finish_sess
  by (auto split: prod.splits option.splits if_splits dest: requireMFA_Some)

lemma mfa_grants_sess:
  assumes ok: "sess_ok (as_Sessions st)"
  shows "respondMFAOTP A E h r req st = (resp, st') \<Longrightarrow> sess_ok (as_Sessions st')"
    and "respondMFAOOB A E h r req st = (resp, st') \<Longrightarrow> sess_ok (as_Sessions st')"
    and "respondMFARecoveryCode A E h r req st = (resp, st') \<Longrightarrow> sess_ok (as_Sessions st')"
proof -
  have c: "sess_ok (as_Sessions st1)" if "consumeMFAToken E tok st = (x, st1)" for tok x st1
    using that ok by (auto simp: consumeMFAToken_def split: option.splits if_splits prod.splits)
  show "respondMFAOTP A E h r req st = (resp, st') \<Longrightarrow> sess_ok (as_Sessions st')"
    and "respondMFAOOB A E h r req st = (resp, st') \<Longrightarrow> sess_ok (as_Sessions st')"
    and "respondMFARecoveryCode A E h r req st = (resp, st') \<Longrightarrow> sess_ok (as_Sessions st')"
    unfolding respondMFAOTP_def respondMFAOOB_def respondMFARecoveryCode_def
    by (auto split: prod.splits sum.splits if_splits dest!: c intro: login_grants_sess(4))
qed

lemma other_grants_sess:
  assumes ok: "sess_ok (as_Sessions st)"
  shows "respondClientCredentials A E h r req aud st = (resp, st') \<Longrightarrow> sess_ok (as_Sessions st')"
    and "respondRefreshToken A E h r req aud st = (resp, st') \<Longrightarrow> sess_ok (as_Sessions st')"
    and "respondAuthorizationCode A E h r req aud st = (resp, st') \<Longrightarrow> sess_ok (as_Sessions st')"
proof -
  show "respondClientCredentials A E h r req aud st = (resp, st') \<Longrightarrow> sess_ok (as_Sessions st')"
    using ok by (auto simp: respondClientCredentials_def split: if_splits sum.splits)
  have unknown: "sess_ok (as_Sessions st')" if "respondUnknownRefreshToken A E h r req aud st = (resp, st')"
    using that mintAccess_sess ok by (fastforce simp: respondUnknownRefreshToken_def split: prod.splits sum.splits)
  show "respondRefreshToken A E h r req aud st = (resp, st') \<Longrightarrow> sess_ok (as_Sessions st')"
    unfolding respondRefreshToken_def Let_def
    by (auto split: option.splits intro: unknown mint_and_finish_sess[OF _ ok])
  have red: "sess_ok (as_Sessions st1)" if "redeem_code A E req st = (x, st1)" for x st1
    using redeem_code_frame[OF that] ok by simp
  show "respondAuthorizationCode A E h r req aud st = (resp, st') \<Longrightarrow> sess_ok (as_Sessions st')"
    unfolding respondAuthorizationCode_def Let_def
    by (auto split: prod.splits sum.splits intro: red mint_and_finish_sess)
qed

lemma token_sess:
  assumes "Token_ServeHTTP A E h r st = (resp, st')" "sess_ok (as_Sessions st)"
  shows "sess_ok (as_Sessions st')"
  using assms login_grants_sess[OF assms(2)] mfa_grants_sess[OF assms(2)] other_grants_sess[OF assms(2)]
  unfolding Token_ServeHTTP_def Let_def by (auto split: sum.splits if_splits)

lemma mintTokens_sess:
  assumes "mintTokens A E th r q rt code subject authTime params st = (res, st')" "sess_ok (as_Sessions st)"
  shows "sess_ok (as_Sessions st')"
proof (cases th)
  case (Some h)
  obtain x st1 where a: "add_access A E h r q rt subject params st = (x, st1)" by fastforce
  have "accessToken A E h r q subject cid st = (y, st2) \<Longrightarrow> sess_ok (as_Sessions st2) = sess_ok (as_Sessions st)" for cid y st2
    unfolding accessToken_def Let_def by (rule mintAccess_sess)
  with a assms(2) have st1: "sess_ok (as_Sessions st1)"
    by (auto simp: add_access_def Let_def split: if_splits sum.splits prod.splits)
  have "add_id_token A E h r q rt code subject authTime access p st1 = (res, st') \<Longrightarrow> sess_ok (as_Sessions st')" for access p
    unfolding add_id_token_def Let_def using st1
    by (cases "rt_idToken rt") (auto simp: rememberProfile_sess split: sum.splits)
  with assms(1) Some a st1 show ?thesis by (auto simp: mintTokens_def split: sum.splits)
qed (use assms in \<open>auto simp: mintTokens_def\<close>)

lemma issue_sess:
  assumes "issue A E th r q rt state subject authTime st = (res, st')" "sess_ok (as_Sessions st)"
  shows "sess_ok (as_Sessions st')"
proof -
  have rec: "as_Sessions (recordCode E q c subject authTime st1) = as_Sessions st1" for c st1
    by (simp add: recordCode_def split: option.splits)
  show ?thesis
  proof (cases "rt_token rt \<or> rt_idToken rt")
    case True
    let ?code = "if rt_code rt then nd_code E else []"
    obtain x st1 where m: "mintTokens A E th r q rt ?code subject authTime (if rt_code rt then params_set ''code'' ?code [] else []) st = (x, st1)"
      by fastforce
    from mintTokens_sess[OF m assms(2)] assms(1) True m show ?thesis
      by (cases x) (auto simp: issue_def Let_def rec split del: if_split)
  qed (use assms in \<open>auto simp: issue_def Let_def rec\<close>)
qed

lemma login_ops_profiles:
  "profiles_only (StartLogin i u t s) = profiles_only s" "profiles_only (EndLogin i s) = profiles_only s"
  by (rule profiles_only_views; simp only: remember_frames)+

lemma authorize_sess:
  assumes "Authorize_ServeHTTP A U C E allowed errs th r st = (resp, ck, st')" "sess_ok (as_Sessions st)"
  shows "sess_ok (as_Sessions st')"
  using assms(1)
proof (cases rule: authorize_cases)
  case (failed rt subject authTime reuse desc)
  then show ?thesis using issue_sess assms(2) by blast
next
  case (issued u mode rt subject authTime reuse params st1)
  have st1: "sess_ok (as_Sessions st1)" using issue_sess[OF issued(5) assms(2)] .
  have "startSession U E r subject authTime s = (c, s') \<Longrightarrow> profiles_only s \<Longrightarrow> profiles_only s'" for s c s'
    by (auto simp: startSession_def Let_def login_ops_profiles split: option.splits)
  with st1 issued(7) show ?thesis by (auto simp: sess_ok_def split: option.splits if_splits prod.splits)
qed (use assms(2) in simp)

lemma endLogin_sess: "endLogin U r s = (ck, s') \<Longrightarrow> sess_ok s \<Longrightarrow> sess_ok s'"
  by (cases s) (auto simp: endLogin_def currentLogin_def sess_ok_def login_ops_profiles split: option.splits)

lemma logout_sess:
  assumes "sess_ok s"
  shows "Logout_ServeHTTP U allowed r s = (resp, ck, s') \<Longrightarrow> sess_ok s'"
    and "OIDCLogout_ServeHTTP L U k allowed now r s = (resp, ck, s') \<Longrightarrow> sess_ok s'"
  using assms endLogin_sess[of U r s]
  by (auto simp: Logout_ServeHTTP_def OIDCLogout_ServeHTTP_def Let_def split: if_splits prod.splits sum.splits option.splits)

section \<open>Runs of the API\<close>

text \<open>
  The stateful endpoints as \<^verbatim>\<open>Mount\<close> registers them, over the shared stores. The environment of a
  call is what it draws at random and the clock it reads.
\<close>

datatype auth_call =
    CallToken env request
  | CallAuthorize env request
  | CallLogout request
  | CallOIDCLogout time request
  | CallPasswordlessVerify env request

record auth_config =
  ac_lib :: auth_lib
  ac_url :: url_lib
  ac_codec :: json_codec
  ac_token :: TokenHandler
  ac_callbacks :: "string list"
  ac_logout_urls :: "string list"
  ac_rules :: "Rule_Store option"

definition with_sessions :: "auth_state \<Rightarrow> response \<times> Cookie option \<times> Store option \<Rightarrow> response \<times> auth_state" where
  "with_sessions st x = (case x of (resp, _, s) \<Rightarrow> (resp, st\<lparr>as_Sessions := s\<rparr>))"

fun auth_serve :: "auth_config \<Rightarrow> auth_call \<Rightarrow> auth_state \<Rightarrow> response \<times> auth_state" where
  "auth_serve D (CallToken E r) st = Token_ServeHTTP (ac_lib D) E (ac_token D) r st"
| "auth_serve D (CallAuthorize E r) st =
     (case Authorize_ServeHTTP (ac_lib D) (ac_url D) (ac_codec D) E (ac_callbacks D) (ac_rules D) (Some (ac_token D)) r st of
        (resp, _, st') \<Rightarrow> (resp, st'))"
| "auth_serve D (CallLogout r) st = with_sessions st (Logout_ServeHTTP (ac_url D) (ac_logout_urls D) r (as_Sessions st))"
| "auth_serve D (CallOIDCLogout now r) st =
     with_sessions st (OIDCLogout_ServeHTTP (al_jwt (ac_lib D)) (ac_url D) (th_Keys (ac_token D)) (ac_logout_urls D) now r (as_Sessions st))"
| "auth_serve D (CallPasswordlessVerify E r) st = PasswordlessVerify_ServeHTTP (ac_lib D) E (ac_token D) r st"

lemma auth_serve_sess: "sess_ok (as_Sessions st) \<Longrightarrow> sess_ok (as_Sessions (snd (auth_serve D c st)))"
proof (induction D c st rule: auth_serve.induct)
  case (1 D E r st)
  then show ?case using token_sess by (metis auth_serve.simps(1) prod.collapse)
next
  case (2 D E r st)
  then show ?case using authorize_sess by (auto split: prod.splits)
next
  case (3 D r st)
  then show ?case using logout_sess(1) by (auto simp: with_sessions_def split: prod.splits)
next
  case (4 D now r st)
  then show ?case using logout_sess(2) by (auto simp: with_sessions_def split: prod.splits)
next
  case (5 D E r st)
  then show ?case using login_grants_sess(3)
    by (auto simp: PasswordlessVerify_ServeHTTP_def split: sum.splits) (metis prod.collapse)
qed

lemma auth_run_sess: "sess_ok (as_Sessions st) \<Longrightarrow> sess_ok (as_Sessions (snd (run_ops (auth_serve D) calls st)))"
  using run_ops_invariant[of "\<lambda>st. sess_ok (as_Sessions st)" "auth_serve D"] auth_serve_sess by blast

text \<open>
  C21. \<^verbatim>\<open>/userinfo\<close> answers for the subject of the token it is sent. After any run of the API from an
  empty session store, an answer names as \<^verbatim>\<open>sub\<close> the subject of the verified JWT, whose own claims it
  contains unchanged; for a machine token it contains nothing else. Or the token is an opaque one the
  store knows, of this issuer and unexpired, and the answer is its subject with the remembered profile.
\<close>
theorem userinfo_subject:
  assumes init: "as_Sessions st = Some NewStore" and s: "as_Sessions (snd (run_ops (auth_serve D) calls st)) = Some s"
    and info: "UserInfo_ServeHTTP L k (Some s) now now' r = Inr out"
  shows "\<exists>token. Token (header_get (rq_Header r) ''Authorization'') = Some token \<and>
    ((\<exists>c. Jwks_Verify L k now token \<lparr>vo_RequireAudience = [], vo_AllowExpired = False, vo_Issuer = IssuerFor k r\<rparr> = Inr c
        \<and> out ''sub'' = Some (JStr (tc_Subject c)) \<and> tc_Extra c \<subseteq>\<^sub>m out
        \<and> (tc_Extra c ''gty'' = Some (JStr ''client-credentials'') \<longrightarrow> out = (tc_Extra c)(''sub'' \<mapsto> JStr (tc_Subject c))))
     \<or> (\<exists>a. Access_of token s = Some a \<and> ac_Issuer a = IssuerFor k r \<and> now' < ac_ExpiresAt a
        \<and> out ''sub'' = Some (JStr (ac_Subject a))
        \<and> (\<forall>key. key \<noteq> ''sub'' \<longrightarrow> out key = (case Profile (ac_Subject a) s of Some p \<Rightarrow> p key | None \<Rightarrow> None))))"
proof -
  have "sess_ok (as_Sessions st)" by (auto simp: init sess_ok_def profiles_only_def NewStore_def)
  from auth_run_sess[OF this, of D calls] s have ok: "profiles_only s" by (simp add: sess_ok_def)
  have nosub: "p ''sub'' = None" if "Profile u s = Some p" for u p
  proof -
    have "dom p \<subseteq> set profile_keys" using ok that by (auto simp: profiles_only_def Profile_def ran_def)
    then show ?thesis by (auto simp: profile_keys_def dom_def)
  qed
  obtain token where t: "Token (header_get (rq_Header r) ''Authorization'') = Some token"
    using info by (auto simp: UserInfo_ServeHTTP_def split: option.splits)
  let ?v = "Jwks_Verify L k now token \<lparr>vo_RequireAudience = [], vo_AllowExpired = False, vo_Issuer = IssuerFor k r\<rparr>"
  show ?thesis
  proof (cases ?v)
    case (Inl err)
    then obtain a where a: "Access_of token s = Some a" "ac_Issuer a = IssuerFor k r" "now' < ac_ExpiresAt a"
      and out: "out = (case Profile (ac_Subject a) s of Some profile \<Rightarrow> profile | None \<Rightarrow> Map.empty)(''sub'' \<mapsto> JStr (ac_Subject a))"
      using info t by (auto simp: UserInfo_ServeHTTP_def Let_def split: option.splits if_splits)
    have rest: "\<forall>key. key \<noteq> ''sub'' \<longrightarrow> out key = (case Profile (ac_Subject a) s of Some p \<Rightarrow> p key | None \<Rightarrow> None)"
      using out by (auto split: option.splits)
    have "out ''sub'' = Some (JStr (ac_Subject a))" using out by simp
    with t a rest show ?thesis by blast
  next
    case (Inr c)
    have ex: "tc_Extra c ''sub'' = None"
      using Inr by (auto simp: Jwks_Verify_def Let_def registered_claims_def split: sum.splits if_splits)
    define out1 where "out1 = (if tc_Extra c ''gty'' \<noteq> Some (JStr ''client-credentials'')
        then (case Profile (tc_Subject c) s of Some p \<Rightarrow> [''sub'' \<mapsto> JStr (tc_Subject c)] ++ p | None \<Rightarrow> [''sub'' \<mapsto> JStr (tc_Subject c)])
        else [''sub'' \<mapsto> JStr (tc_Subject c)])"
    have out: "out = out1 ++ tc_Extra c"
      using info t Inr by (auto simp: UserInfo_ServeHTTP_def Let_def out1_def)
    have "out ''sub'' = Some (JStr (tc_Subject c))"
      using ex nosub[of "tc_Subject c"] by (cases "Profile (tc_Subject c) s") (simp_all add: out out1_def map_add_def)
    moreover have "tc_Extra c \<subseteq>\<^sub>m out" by (auto simp: out map_le_def map_add_def dom_def)
    moreover have "out = (tc_Extra c)(''sub'' \<mapsto> JStr (tc_Subject c))" if "tc_Extra c ''gty'' = Some (JStr ''client-credentials'')"
      using that ex by (auto simp: out out1_def map_add_def fun_eq_iff split: option.splits)
    ultimately show ?thesis using t Inr by blast
  qed
qed

end
