(* ===== verification/Auth_Witness.thy ===== *)
theory Auth_Witness
  imports Auth_Runs
begin

text \<open>
  Concrete runs of the Authentication API that meet the hypotheses of the properties of
  \<open>Auth_Props\<close> and \<open>Auth_Runs\<close>.
\<close>

definition demo_url :: url_lib where
  "demo_url = \<lparr>ul_authority = \<lambda>s. Some ([], s), ul_unescape_path = Some, ul_unescape_fragment = Some, ul_string = u_Path,
     ul_query = \<lambda>_. [], ul_encode = \<lambda>_. [], ul_escape = \<lambda>s. s, ul_form_post = \<lambda>_ _. [], ul_web_message = \<lambda>_ _. [],
     ul_cookie = \<lambda>r _. if rq_Path r = ''silent'' then Some ''l'' else None, ul_form = \<lambda>r. Inr (rq_Query r)\<rparr>"

definition demo_codec0 :: json_codec where
  "demo_codec0 = \<lparr>marshal = \<lambda>_. [], marshal_raw = \<lambda>_. None, unmarshal = \<lambda>_. None\<rparr>"

theorem no_open_redirect_witness:
  "\<exists>resp. Logout_ServeHTTP demo_url [''https://app/''] (demo_http\<lparr>rq_Query := [(''returnTo'', ['' //evil'' ])]\<rparr>) None = (resp, None, None)
     \<and> rs_status resp = 400"
proof -
  have "leaves_origin '' //evil''" by (simp add: leaves_origin_def browser_url_def has_prefix_def)
  from no_open_redirect[of "[''https://app/'']" "'' //evil''" "demo_http\<lparr>rq_Query := [(''returnTo'', ['' //evil'' ])]\<rparr>", OF _ this]
  show ?thesis by (simp add: values_get_def)
qed

definition demo_query :: url_values where
  "demo_query = [(''redirect_uri'', [''/cb'']), (''code_challenge'', [replicate 43 CHR ''a''])]"

definition demo_authorize :: request where
  "demo_authorize = demo_http\<lparr>rq_Query := demo_query\<rparr>"

lemma demo_query_get [simp]:
  "values_get demo_query ''redirect_uri'' = ''/cb''" "values_get demo_query ''code_challenge'' = replicate 43 CHR ''a''"
  "values_get demo_query ''response_type'' = []" "values_get demo_query ''state'' = []" "values_get demo_query ''prompt'' = []"
  "values_get demo_query ''login_hint'' = []" "values_get demo_query ''code_challenge_method'' = []"
  "values_get demo_query ''response_mode'' = []"
  by (simp_all add: demo_query_def values_get_def)

definition demo_state :: auth_state where
  "demo_state = (demo_auth NewStore)\<lparr>as_PKCE := Some Pkce_NewStore\<rparr>"

lemma demo_parse_cb: "url_Parse demo_url ''/cb'' = Some (empty_url\<lparr>u_Path := ''/cb''\<rparr>)"
  by (simp add: url_Parse_def url_parse_def getScheme_def is_ctl_def is_alpha_def is_scheme_rest_def has_prefix_def demo_url_def
      empty_url_def to_lower_def Let_def)

definition demo_entry :: Entry where
  "demo_entry = (code_entry demo_query DefaultSubject 0)\<lparr>en_expiresAt := time_add 0 DefaultTTL\<rparr>"

lemma demo_run:
  obtains resp ck s1 where "Authorize_ServeHTTP (demo_auth_lib []) demo_url demo_codec0 demo_env [] None (Some demo_handler) demo_authorize demo_state
     = (resp, Some ck, demo_state\<lparr>as_PKCE := Some \<lparr>pk_entries = [''c'' \<mapsto> demo_entry], pk_ttl = DefaultTTL\<rparr>, as_Sessions := Some s1\<rparr>)"
    "ck_Value ck = ''l''"
proof -
  have res: "resolveLogin demo_url demo_env demo_authorize demo_query (Some NewStore) = Some (DefaultSubject, 0, False)"
    by (simp add: resolveLogin_def Let_def currentLogin_def demo_url_def demo_authorize_def demo_http_def demo_env_def str_fields_def)
  have val: "validateResponseType demo_query [] (no_types\<lparr>rt_code := True\<rparr>) True = None"
    by (simp add: validateResponseType_def Let_def no_types_def)
  have rec: "recordCode demo_env demo_query ''c'' DefaultSubject 0 demo_state =
      demo_state\<lparr>as_PKCE := Some \<lparr>pk_entries = [''c'' \<mapsto> demo_entry], pk_ttl = DefaultTTL\<rparr>\<rparr>"
    by (simp add: recordCode_def demo_state_def demo_env_def Pkce_Put_def pkce_sweep_def Pkce_NewStore_def Let_def demo_entry_def
        code_entry_def)
  have "\<exists>resp ck s1. Authorize_ServeHTTP (demo_auth_lib []) demo_url demo_codec0 demo_env [] None (Some demo_handler) demo_authorize demo_state
     = (resp, Some ck, demo_state\<lparr>as_PKCE := Some \<lparr>pk_entries = [''c'' \<mapsto> demo_entry], pk_ttl = DefaultTTL\<rparr>, as_Sessions := Some s1\<rparr>)
     \<and> ck_Value ck = ''l''"
    using res val rec
    by (simp add: Authorize_ServeHTTP_def demo_authorize_def parseResponseTypes_def str_fields_def vetRedirect_def demo_parse_cb
        isRedirectAllowed_def issue_def no_types_def demo_state_def demo_auth_def demo_env_def startSession_def setLoginCookie_def
        loginCookie_def Let_def split: option.splits)
  then show thesis using that by blast
qed


definition demo_silent :: request where
  "demo_silent = demo_http\<lparr>rq_Path := ''silent'', rq_Query := [(''prompt'', [''none''])]\<rparr>"


definition demo_config :: auth_config where
  "demo_config = \<lparr>ac_lib = demo_auth_lib [], ac_url = demo_url, ac_codec = demo_codec0, ac_token = demo_handler, ac_callbacks = [],
     ac_logout_urls = [], ac_rules = None\<rparr>"

definition demo_user_claims :: claims where
  "demo_user_claims = [''iss'' \<mapsto> JStr ''https://mock/'', ''sub'' \<mapsto> JStr ''alice'', ''exp'' \<mapsto> JNum 5, ''gty'' \<mapsto> JStr ''password'']"

definition demo_bearer :: request where
  "demo_bearer = demo_http\<lparr>rq_Header := [(''Authorization'', [''Bearer tok''])]\<rparr>"

lemma demo_bearer_token: "Token (header_get (rq_Header demo_bearer) ''Authorization'') = Some ''tok''"
proof -
  have "CanonicalHeaderKey ''Authorization'' = ''Authorization''" by code_simp
  moreover have "Token ''Bearer tok'' = Some ''tok''" by code_simp
  ultimately show ?thesis by (simp add: demo_bearer_def header_get_def values_get_def)
qed

lemma demo_user_verify:
  "Jwks_Verify (demo_jwt [(''tok'', demo_user_claims)]) demo_keys 1 ''tok''
     \<lparr>vo_RequireAudience = [], vo_AllowExpired = False, vo_Issuer = ''https://mock/''\<rparr>
   = Inr \<lparr>tc_Issuer = ''https://mock/'', tc_Subject = ''alice'', tc_Audience = [], tc_Scope = [], tc_Extra = [''gty'' \<mapsto> JStr ''password'']\<rparr>"
  by (simp add: Jwks_Verify_def issuer_def demo_jwt_def demo_user_claims_def claims_valid_def demo_keys_def unix_time_def
      str_of_def aud_of_def registered_claims_def Let_def restrict_map_def fun_eq_iff)

theorem userinfo_subject_witness:
  "\<exists>out. UserInfo_ServeHTTP (demo_jwt [(''tok'', demo_user_claims)]) demo_keys (Some NewStore) 1 1 demo_bearer = Inr out
     \<and> out ''sub'' = Some (JStr ''alice'')"
proof -
  have iss: "IssuerFor demo_keys demo_bearer = ''https://mock/''"
    by (simp add: IssuerFor_def ResolveIssuer_def demo_keys_def AutoIssuer_def)
  obtain out where info: "UserInfo_ServeHTTP (demo_jwt [(''tok'', demo_user_claims)]) demo_keys (Some NewStore) 1 1 demo_bearer = Inr out"
    by (simp add: UserInfo_ServeHTTP_def demo_bearer_token iss demo_user_verify Let_def)
  have init: "as_Sessions (demo_auth NewStore) = Some NewStore" "as_Sessions (snd (run_ops (auth_serve demo_config) [] (demo_auth NewStore))) = Some NewStore"
    by (simp_all add: demo_auth_def)
  from userinfo_subject[OF init info] have "out ''sub'' = Some (JStr ''alice'')"
    by (auto simp: demo_bearer_token iss demo_user_verify Access_of_def NewStore_def)
  with info show ?thesis by blast
qed

end
