(* ===== verification/Auth_Mount.thy ===== *)
theory Auth_Mount
  imports Auth_Runs
begin

text \<open>
  The routes of the Authentication API as \<^verbatim>\<open>Mount\<close> of \<^verbatim>\<open>internal/authapi/mount.go\<close> registers them, the
  dispatch of a call to the handler of its route, and that what the discovery document advertises is
  what the endpoints do.
\<close>

section \<open>Routes\<close>

datatype auth_handler =
    HToken | HAuthorize | HUserInfo | HDiscovery | HLogout | HOIDCLogout | HRevoke | HSignup | HChangePassword
  | HPasswordlessStart | HPasswordlessVerify

definition Auth_Mount :: "((string \<times> string) \<times> auth_handler) list" where
  "Auth_Mount =
    [((''POST'', ''/oauth/token''), HToken),
     ((''GET'', ''/authorize''), HAuthorize),
     ((''GET'', ''/userinfo''), HUserInfo),
     ((''GET'', ''/.well-known/openid-configuration''), HDiscovery),
     ((''GET'', ''/v2/logout''), HLogout),
     ((''GET'', ''/oidc/logout''), HOIDCLogout),
     ((''POST'', ''/oidc/logout''), HOIDCLogout),
     ((''POST'', ''/oauth/revoke''), HRevoke),
     ((''POST'', ''/dbconnections/signup''), HSignup),
     ((''POST'', ''/dbconnections/change_password''), HChangePassword),
     ((''POST'', ''/passwordless/start''), HPasswordlessStart),
     ((''POST'', ''/passwordless/verify''), HPasswordlessVerify)]"

text \<open>
  What a call brings along: the request, what it draws at random and the clocks it reads, the id that
  is drawn, the body, and the decoders of the JSON bodies.
\<close>

record auth_input =
  ai_request :: request
  ai_env :: env
  ai_now :: time
  ai_now' :: time
  ai_uid :: string
  ai_body :: string
  ai_start :: "string \<Rightarrow> string + passwordlessStartRequest"
  ai_signup :: "string \<Rightarrow> string + signupRequest"
  ai_change :: "string \<Rightarrow> string + changePasswordRequest"

definition info_response :: "response + claims \<Rightarrow> response" where
  "info_response x = (case x of Inl resp \<Rightarrow> resp | Inr out \<Rightarrow> render_json 200 (JObj (map (\<lambda>k. (k, the (out k))) (sorted_list_of_set (dom out)))))"

fun mount_serve :: "auth_config \<Rightarrow> string \<Rightarrow> auth_handler \<Rightarrow> auth_input \<Rightarrow> auth_state \<Rightarrow> response \<times> auth_state" where
  "mount_serve D iss HToken i st = auth_serve D (CallToken (ai_env i) (ai_request i)) st"
| "mount_serve D iss HAuthorize i st = auth_serve D (CallAuthorize (ai_env i) (ai_request i)) st"
| "mount_serve D iss HLogout i st = auth_serve D (CallLogout (ai_request i)) st"
| "mount_serve D iss HOIDCLogout i st = auth_serve D (CallOIDCLogout (ai_now i) (ai_request i)) st"
| "mount_serve D iss HPasswordlessVerify i st = auth_serve D (CallPasswordlessVerify (ai_env i) (ai_request i)) st"
| "mount_serve D iss HUserInfo i st =
     (info_response (UserInfo_ServeHTTP (al_jwt (ac_lib D)) (th_Keys (ac_token D)) (as_Sessions st) (ai_now i) (ai_now' i) (ai_request i)), st)"
| "mount_serve D iss HDiscovery i st = (Discovery_ServeHTTP (NewDiscoveryHandler iss) (ai_request i), st)"
| "mount_serve D iss HRevoke i st = (Revoke_ServeHTTP, st)"
| "mount_serve D iss HSignup i st = (DBConnectionsSignup_ServeHTTP (ai_signup i) (ai_uid i) (ai_body i), st)"
| "mount_serve D iss HChangePassword i st = (DBConnectionsChangePassword_ServeHTTP (ai_change i) (ai_body i), st)"
| "mount_serve D iss HPasswordlessStart i st = (PasswordlessStart_ServeHTTP (ai_start i) (ai_uid i) (ai_body i), st)"

section \<open>The errors of the token endpoint\<close>

definition error_code :: "response \<Rightarrow> string option" where
  "error_code resp = (case rs_body resp of AuthBody e \<Rightarrow> Some (ae_error e) | _ \<Rightarrow> None)"

lemma error_code_simps [simp]:
  "error_code (WriteAuth s e d) = Some e" "error_code (render_json s v) = None" "error_code (server_error err) = Some ''server_error''"
  by (simp_all add: error_code_def server_error_def)

definition grant_error :: "response \<Rightarrow> bool" where
  "grant_error resp \<longleftrightarrow> error_code resp \<in> {None, Some ''invalid_request'', Some ''invalid_grant'', Some ''access_denied'', Some ''server_error''}"

lemma grant_error_simps [simp]:
  "grant_error (render_json s v)" "grant_error (server_error err)" "grant_error (WriteAuth s ''invalid_request'' d)"
  "grant_error (WriteAuth s ''invalid_grant'' d)" "grant_error (WriteAuth s ''access_denied'' d)"
  by (simp_all add: grant_error_def)

lemma finish_errors [simp]: "grant_error (fst (finish_login A E h r access idExtra g st))"
  by (simp add: finish_login_def Let_def split: sum.splits prod.splits)

lemma mint_errors [simp]: "grant_error (fst (mint_and_finish A E h r extra idExtra g st))"
  using finish_errors by (auto simp: mint_and_finish_def split: prod.splits sum.splits)

lemma mfa_errors: "requireMFA E ctx st = (Some resp, st') \<Longrightarrow> grant_error resp"
  by (auto simp: requireMFA_def split: option.splits if_splits)

lemma password_errors: "grant_error (fst (respondPassword A E h r req aud st))" "grant_error (fst (respondPasswordRealm A E h r req aud st))"
  by (auto simp: respondPassword_def respondPasswordRealm_def Let_def split: prod.splits option.splits dest: mfa_errors)

lemma passwordless_errors: "grant_error (fst (respondPasswordless A E h r req aud st))"
  unfolding respondPasswordless_def Let_def
  by (simp split: option.splits prod.splits del: find.simps) (use mfa_errors in blast)

lemma refresh_errors: "grant_error (fst (respondRefreshToken A E h r req aud st))"
  by (auto simp: respondRefreshToken_def respondUnknownRefreshToken_def Let_def simp del: fun_upd_apply split: prod.splits option.splits sum.splits)

lemma code_errors: "grant_error (fst (respondAuthorizationCode A E h r req aud st))"
proof -
  have redeem: "grant_error resp" if "redeem_code A E req st = (Inl resp, st')" for resp st'
    using that by (auto simp: redeem_code_def Let_def split: option.splits if_splits prod.splits)
  obtain x st' where x: "redeem_code A E req st = (x, st')" by fastforce
  show ?thesis
  proof (cases x)
    case (Inl resp)
    then show ?thesis using redeem x by (simp add: respondAuthorizationCode_def)
  next
    case (Inr entry)
    then show ?thesis using x by (simp add: respondAuthorizationCode_def Let_def split: prod.splits)
  qed
qed

lemma step_up_errors:
  "grant_error (fst (respondMFAOTP A E h r req st))" "grant_error (fst (respondMFAOOB A E h r req st))"
  "grant_error (fst (respondMFARecoveryCode A E h r req st))"
proof -
  have consume: "grant_error resp" if "consumeMFAToken E t st = (Inl resp, st')" for t resp st'
    using that by (auto simp: consumeMFAToken_def split: option.splits if_splits prod.splits)
  have mint: "grant_error (fst (mintFromMFA A E h r ctx gty params s))" for ctx gty params s by (simp add: mintFromMFA_def Let_def)
  show "grant_error (fst (respondMFAOTP A E h r req st))" "grant_error (fst (respondMFAOOB A E h r req st))"
    "grant_error (fst (respondMFARecoveryCode A E h r req st))"
    unfolding respondMFAOTP_def respondMFAOOB_def respondMFARecoveryCode_def
    using consume mint by (auto split: prod.splits sum.splits)
qed

lemma credentials_errors: "grant_error (fst (respondClientCredentials A E h r req aud st))"
  by (auto simp: respondClientCredentials_def split: sum.splits)

lemmas grant_errors = password_errors passwordless_errors refresh_errors code_errors step_up_errors credentials_errors

section \<open>Discovery\<close>

definition doc_field :: "json \<Rightarrow> string \<Rightarrow> json option" where
  "doc_field doc f = (case doc of JObj fs \<Rightarrow> map_of fs f | _ \<Rightarrow> None)"

definition advertised :: "json \<Rightarrow> string \<Rightarrow> string list" where
  "advertised doc f = (case doc_field doc f of Some (JArr xs) \<Rightarrow> concat (map (\<lambda>x. case x of JStr s \<Rightarrow> [s] | _ \<Rightarrow> []) xs) | _ \<Rightarrow> [])"

lemma advertised_lists:
  "advertised (discoveryDoc iss) ''response_types_supported'' =
     [''code'', ''token'', ''id_token'', ''code token'', ''code id_token'', ''token id_token'', ''code token id_token'']"
  "advertised (discoveryDoc iss) ''code_challenge_methods_supported'' = [''S256'', ''plain'']"
  "advertised (discoveryDoc iss) ''response_modes_supported'' = [''query'', ''fragment'', ''form_post'']"
  "advertised (discoveryDoc iss) ''grant_types_supported'' = [''client_credentials'', ''authorization_code'', ''refresh_token'', ''password'', ''implicit'',
     ''http://auth0.com/oauth/grant-type/password-realm'', ''http://auth0.com/oauth/grant-type/passwordless/otp'',
     ''http://auth0.com/oauth/grant-type/mfa-oob'', ''http://auth0.com/oauth/grant-type/mfa-otp'',
     ''http://auth0.com/oauth/grant-type/mfa-recovery-code'']"
  by (simp_all add: advertised_def doc_field_def discoveryDoc_def Let_def)

lemma endpoints_mounted:
  assumes "doc_field (discoveryDoc iss) f = Some (JStr v)" "suffix ''_endpoint'' f"
  shows "\<exists>m p h. v = trim_slash iss @ p \<and> ((m, p), h) \<in> set Auth_Mount"
proof -
  have field: "f \<in> {''authorization_endpoint'', ''token_endpoint'', ''userinfo_endpoint'', ''end_session_endpoint'', ''revocation_endpoint''}"
    using assms by (auto simp: doc_field_def discoveryDoc_def Let_def suffix_def split: if_splits)
  have mounted: "((''GET'', ''/authorize''), HAuthorize) \<in> set Auth_Mount" "((''POST'', ''/oauth/token''), HToken) \<in> set Auth_Mount"
    "((''GET'', ''/userinfo''), HUserInfo) \<in> set Auth_Mount" "((''GET'', ''/oidc/logout''), HOIDCLogout) \<in> set Auth_Mount"
    "((''POST'', ''/oauth/revoke''), HRevoke) \<in> set Auth_Mount" by (simp_all add: Auth_Mount_def)
  have val: "v \<in> {trim_slash iss @ ''/authorize'', trim_slash iss @ ''/oauth/token'', trim_slash iss @ ''/userinfo'',
      trim_slash iss @ ''/oidc/logout'', trim_slash iss @ ''/oauth/revoke''}"
    using field assms(1) by (auto simp: doc_field_def discoveryDoc_def Let_def)
  show ?thesis using val mounted by blast
qed

lemma unsupported_grant:
  assumes "parseTokenRequest A r = Inr req" "tr_GrantType req \<noteq> []"
  shows "error_code (fst (Token_ServeHTTP A E h r st)) = Some ''unsupported_grant_type'' \<longleftrightarrow>
    tr_GrantType req \<notin> set (advertised (discoveryDoc iss) ''grant_types_supported'') - {''implicit''}"
proof -
  have code: "error_code resp \<noteq> Some ''unsupported_grant_type''" if "grant_error resp" for resp
    using that by (auto simp: grant_error_def)
  note none = grant_errors[THEN code]
  show ?thesis unfolding advertised_lists using assms none by (simp add: Token_ServeHTTP_def grantPasswordlessOTP_def Let_def)
qed

lemma parse_words_some:
  "parse_words ws rt = Some rt' \<longleftrightarrow> set ws \<subseteq> {''code'', ''token'', ''id_token''} \<and>
     rt' = \<lparr>rt_code = (rt_code rt \<or> ''code'' \<in> set ws), rt_token = (rt_token rt \<or> ''token'' \<in> set ws), rt_idToken = (rt_idToken rt \<or> ''id_token'' \<in> set ws)\<rparr>"
  by (induction ws rt rule: parse_words.induct) auto

lemma response_types_accepted:
  "list_all (\<lambda>t. snd (parseResponseTypes t)) (advertised (discoveryDoc iss) ''response_types_supported'')"
  unfolding advertised_lists by code_simp

lemma response_types_complete:
  assumes "snd (parseResponseTypes raw)"
  shows "\<exists>t \<in> set (advertised (discoveryDoc iss) ''response_types_supported''). fst (parseResponseTypes t) = fst (parseResponseTypes raw)"
proof -
  let ?types = "\<lambda>c t i. \<lparr>rt_code = c, rt_token = t, rt_idToken = i\<rparr>"
  have sets: "fst (parseResponseTypes ''code'') = ?types True False False" "fst (parseResponseTypes ''token'') = ?types False True False"
    "fst (parseResponseTypes ''id_token'') = ?types False False True" "fst (parseResponseTypes ''code token'') = ?types True True False"
    "fst (parseResponseTypes ''code id_token'') = ?types True False True" "fst (parseResponseTypes ''token id_token'') = ?types False True True"
    "fst (parseResponseTypes ''code token id_token'') = ?types True True True" by code_simp+
  have "\<exists>c t i. fst (parseResponseTypes raw) = ?types c t i \<and> (c \<or> t \<or> i)"
  proof (cases "str_fields raw")
    case Nil
    then have "fst (parseResponseTypes raw) = ?types True False False" by (simp add: parseResponseTypes_def no_types_def)
    then show ?thesis by blast
  next
    case (Cons w ws)
    with assms obtain rt where rt: "parse_words (str_fields raw) no_types = Some rt" "fst (parseResponseTypes raw) = rt"
      by (auto simp: parseResponseTypes_def Let_def split: option.splits)
    with Cons show ?thesis unfolding parse_words_some by auto
  qed
  then obtain c t i where "fst (parseResponseTypes raw) = ?types c t i" "c \<or> t \<or> i" by blast
  then show ?thesis unfolding advertised_lists by (cases c; cases t; cases i) (simp_all add: sets)
qed

lemma challenge_methods:
  "(\<exists>e v. en_Method e = m \<and> Verify sha256 e v = None) \<longleftrightarrow> m \<in> set (advertised (discoveryDoc iss) ''code_challenge_methods_supported'')"
proof -
  have "\<exists>e v. en_Method e = ''S256'' \<and> Verify sha256 e v = None"
    by (rule exI[of _ "undefined\<lparr>en_Method := ''S256'', en_Challenge := RawURLEncode (sha256 ''v'')\<rparr>"], rule exI[of _ "''v''"]) (simp add: Verify_def MethodS256_def)
  moreover have "\<exists>e v. en_Method e = ''plain'' \<and> Verify sha256 e v = None"
    by (rule exI[of _ "undefined\<lparr>en_Method := ''plain'', en_Challenge := ''v''\<rparr>"], rule exI[of _ "''v''"]) (simp add: Verify_def MethodS256_def MethodPlain_def)
  moreover have "m = ''S256'' \<or> m = ''plain''" if "en_Method e = m" "Verify sha256 e v = None" for e v
    using that by (auto simp: Verify_def MethodS256_def MethodPlain_def split: if_splits)
  ultimately show ?thesis unfolding advertised_lists by (metis list.set_intros empty_iff list.set(1) set_ConsD)
qed

text \<open>
  C11. The discovery document tells the truth. In both issuer modes it is served for the issuer that the
  tokens of the same request carry; every endpoint it names is the issuer's base with a mounted path;
  a non-empty grant type is answered \<^verbatim>\<open>unsupported_grant_type\<close> exactly when it is not listed, or is
  \<^verbatim>\<open>implicit\<close>, which the authorization endpoint serves; the listed response types are accepted, and any
  accepted one means the same as a listed one; a PKCE verifier can be accepted exactly for the listed
  methods; and a listed response mode is the mode that is used.
\<close>
theorem discovery_honest:
  "rs_body (Discovery_ServeHTTP (NewDiscoveryHandler (cf_Issuer (ks_cfg k))) r) = JsonBody (discoveryDoc (IssuerFor k r))
   \<and> (\<forall>f v. doc_field (discoveryDoc iss) f = Some (JStr v) \<and> suffix ''_endpoint'' f \<longrightarrow>
        (\<exists>m p h. v = trim_slash iss @ p \<and> ((m, p), h) \<in> set Auth_Mount))
   \<and> (\<forall>req. parseTokenRequest A r = Inr req \<and> tr_GrantType req \<noteq> [] \<longrightarrow>
        (error_code (fst (Token_ServeHTTP A E h r st)) = Some ''unsupported_grant_type'') =
        (tr_GrantType req \<notin> set (advertised (discoveryDoc iss) ''grant_types_supported'') - {''implicit''}))
   \<and> list_all (\<lambda>t. snd (parseResponseTypes t)) (advertised (discoveryDoc iss) ''response_types_supported'')
   \<and> (snd (parseResponseTypes raw) \<longrightarrow>
        (\<exists>t \<in> set (advertised (discoveryDoc iss) ''response_types_supported''). fst (parseResponseTypes t) = fst (parseResponseTypes raw)))
   \<and> ((\<exists>e v. en_Method e = meth \<and> Verify sha256 e v = None) = (meth \<in> set (advertised (discoveryDoc iss) ''code_challenge_methods_supported'')))
   \<and> list_all (\<lambda>mode. resolveMode mode issuesToken = mode) (advertised (discoveryDoc iss) ''response_modes_supported'')"
proof (intro conjI allI impI)
  show "rs_body (Discovery_ServeHTTP (NewDiscoveryHandler (cf_Issuer (ks_cfg k))) r) = JsonBody (discoveryDoc (IssuerFor k r))"
    by (simp add: Discovery_ServeHTTP_def NewDiscoveryHandler_def IssuerFor_def ResolveIssuer_def)
  show "list_all (\<lambda>mode. resolveMode mode issuesToken = mode) (advertised (discoveryDoc iss) ''response_modes_supported'')"
    unfolding advertised_lists by (simp add: resolveMode_def mode_defs)
qed (use endpoints_mounted unsupported_grant response_types_accepted response_types_complete challenge_methods in blast)+

theorem discovery_honest_witness:
  "(\<exists>m p h. ''https://mock/oauth/token'' = trim_slash ''https://mock/'' @ p \<and> ((m, p), h) \<in> set Auth_Mount)
   \<and> (\<exists>t \<in> set (advertised (discoveryDoc ''https://mock/'') ''response_types_supported''). fst (parseResponseTypes t) = fst (parseResponseTypes ''id_token  code''))"
proof -
  have "doc_field (discoveryDoc ''https://mock/'') ''token_endpoint'' = Some (JStr ''https://mock/oauth/token'')"
    "suffix ''_endpoint'' ''token_endpoint''" "snd (parseResponseTypes ''id_token  code'')"
    by code_simp+
  with discovery_honest[where iss = "''https://mock/''" and raw = "''id_token  code''"] show ?thesis by blast
qed

end
