(* ===== verification/Api_Spec.thy ===== *)
theory Api_Spec
  imports Httperr
begin

text \<open>
  The embedded Management API specification, \<^verbatim>\<open>internal/spec\<close>: the base path, the operations, the
  resolution of a method and path to an operation, and the validation of requests, registered
  responses and request matchers; with \<^verbatim>\<open>internal/mgmtapi/error_format.go\<close>, which shortens its
  errors. The OpenAPI library is a parameter: its router and request filter are fields of
  \<open>Validator\<close>, a schema is the function that visits a decoded value, and its errors are the
  values of \<open>kin_error\<close>.
\<close>

section \<open>Errors of the library\<close>

text \<open>
  The error shapes the code distinguishes. A request error names the parameter or is about the
  body; a wrapped error is what \<^verbatim>\<open>fmt.Errorf\<close> with \<^verbatim>\<open>%w\<close> makes.
\<close>

datatype kin_error =
    MultiError "kin_error list" string
  | SchemaError (se_Field: string) (se_Reason: string) (se_Pointer: "string list") (se_text: string)
  | RequestError "string option" bool "kin_error option" string
  | Wrapped string kin_error
  | Plain string

primrec error_text :: "kin_error \<Rightarrow> string" where
  "error_text (MultiError es t) = t"
| "error_text (SchemaError f r p t) = t"
| "error_text (RequestError p b e t) = t"
| "error_text (Wrapped pre e) = pre @ error_text e"
| "error_text (Plain t) = t"

text \<open>\<^verbatim>\<open>errors.As\<close> for the three types: the first match along the chain of wrapped errors.\<close>

fun as_multi :: "kin_error \<Rightarrow> kin_error list option" where
  "as_multi (MultiError es t) = Some es"
| "as_multi (RequestError p b (Some e) t) = as_multi e"
| "as_multi (Wrapped pre e) = as_multi e"
| "as_multi _ = None"

fun as_schema :: "kin_error \<Rightarrow> kin_error option" and as_schemas :: "kin_error list \<Rightarrow> kin_error option" where
  "as_schema (SchemaError f r p t) = Some (SchemaError f r p t)"
| "as_schema (MultiError es t) = as_schemas es"
| "as_schema (RequestError p b (Some e) t) = as_schema e"
| "as_schema (Wrapped pre e) = as_schema e"
| "as_schema _ = None"
| "as_schemas [] = None"
| "as_schemas (e # es) = (case as_schema e of Some s \<Rightarrow> Some s | None \<Rightarrow> as_schemas es)"

fun as_request :: "kin_error \<Rightarrow> kin_error option" and as_requests :: "kin_error list \<Rightarrow> kin_error option" where
  "as_request (RequestError p b e t) = Some (RequestError p b e t)"
| "as_request (MultiError es t) = as_requests es"
| "as_request (Wrapped pre e) = as_request e"
| "as_request _ = None"
| "as_requests [] = None"
| "as_requests (e # es) = (case as_request e of Some s \<Rightarrow> Some s | None \<Rightarrow> as_requests es)"

lemma as_multi_size: "as_multi e = Some es \<Longrightarrow> x \<in> set es \<Longrightarrow> size x < size e"
  by (induction e rule: as_multi.induct) (auto dest: size_list_estimation'[OF _ order_refl, where f = size] simp: le_imp_less_Suc)

definition firstLine :: "string \<Rightarrow> string" where
  "firstLine s = fst (str_cut CHR 0x0A s)"

function ConciseSchemaError :: "(string \<Rightarrow> string) \<Rightarrow> kin_error \<Rightarrow> string" where
  "ConciseSchemaError quote e = (case as_multi e of
      Some es \<Rightarrow> str_join ''; '' (filter (\<lambda>s. s \<noteq> []) (map (ConciseSchemaError quote) es))
    | None \<Rightarrow> (case as_schema e of
        Some s \<Rightarrow>
          (let reason = (if se_Reason s = [] then firstLine (error_text e) else se_Reason s)
           in if se_Pointer s = [] then reason else quote (''/'' @ str_join ''/'' (se_Pointer s)) @ '': '' @ reason)
      | None \<Rightarrow> firstLine (error_text e)))"
  by pat_completeness auto
termination by (relation "measure (\<lambda>(q, e). size e)") (auto dest: as_multi_size)

declare ConciseSchemaError.simps [simp del]

text \<open>\<^verbatim>\<open>conciseValidationError\<close> of the Management API; the nil error of a request error gives the empty string.\<close>

definition conciseValidationError :: "(string \<Rightarrow> string) \<Rightarrow> kin_error \<Rightarrow> string" where
  "conciseValidationError quote e = (case as_request e of
      Some (RequestError param body inner t) \<Rightarrow>
        (let first = (case inner of Some x \<Rightarrow> ConciseSchemaError quote x | None \<Rightarrow> []);
             msg = (if first = [] then ConciseSchemaError quote e else first)
         in case param of
              Some name \<Rightarrow> ''parameter '' @ quote name @ '': '' @ msg
            | None \<Rightarrow> if body then ''request body: '' @ msg else msg)
    | _ \<Rightarrow> ConciseSchemaError quote e)"

section \<open>Operations\<close>

type_synonym schema = "json \<Rightarrow> kin_error option"

record Content =
  ct_len :: nat
  ct_Get :: "string \<Rightarrow> schema option option"

record resp_spec =
  rp_Content :: "Content option"

record op_spec =
  os_ID :: string
  os_Responses :: "(string \<rightharpoonup> resp_spec option) option"
  os_RequestBody :: "Content option"
  os_Parameters :: "(string \<times> string) list"

record Operation =
  op_Method :: string
  op_Template :: string
  op_Op :: op_spec

definition SubscribeEventsOperationID :: string where
  "SubscribeEventsOperationID = ''subscribe_events''"

record Spec =
  sp_Paths :: "(string, (string, op_spec) gomap) gomap"
  sp_BasePath :: string

fun after_host :: "string \<Rightarrow> string option" where
  "after_host (a # b # c # rest) =
     (if a = CHR '':'' \<and> b = CHR ''/'' \<and> c = CHR ''/'' then Some (dropWhile (\<lambda>x. x \<noteq> CHR ''/'') rest)
      else after_host (b # c # rest))"
| "after_host _ = None"

definition deriveBasePath :: "string list \<Rightarrow> string" where
  "deriveBasePath servers = (case servers of
      [] \<Rightarrow> []
    | url # _ \<Rightarrow> (case after_host url of Some p \<Rightarrow> p | None \<Rightarrow> url))"

text \<open>\<^verbatim>\<open>Load\<close>: the decoded document is its server URLs and its paths.\<close>

definition Load :: "(string \<Rightarrow> string + (string list \<times> (string, (string, op_spec) gomap) gomap)) \<Rightarrow> string \<Rightarrow> string + Spec" where
  "Load decode doc = (case decode doc of
      Inl err \<Rightarrow> Inl (''parse openapi: '' @ err)
    | Inr (servers, paths) \<Rightarrow> Inr \<lparr>sp_Paths = paths, sp_BasePath = deriveBasePath servers\<rparr>)"

definition Operations :: "Spec \<Rightarrow> Operation list" where
  "Operations s = concat (map (\<lambda>(path, item).
     map (\<lambda>(verb, op). \<lparr>op_Method = to_upper verb, op_Template = sp_BasePath s @ path, op_Op = op\<rparr>) item) (sp_Paths s))"

section \<open>The validator\<close>

record Route =
  ro_Method :: string
  ro_Path :: string
  ro_Op :: op_spec

record Validator =
  vl_BasePath :: string
  vl_FindRoute :: "request \<Rightarrow> kin_error + Route"
  vl_filter :: "request \<Rightarrow> Route \<Rightarrow> kin_error option"
  vl_json :: "string \<Rightarrow> string + json"
  vl_envelope :: schema
  vl_quote :: "string \<Rightarrow> string"
  vl_float :: "rat \<Rightarrow> string"

text \<open>\<^verbatim>\<open>NewValidator\<close>: \<open>build\<close> is the router of the OpenAPI library over the document.\<close>

definition NewValidator :: "(Spec \<Rightarrow> string + Validator) \<Rightarrow> Spec \<Rightarrow> string + Validator" where
  "NewValidator build s = (case build s of
      Inl err \<Rightarrow> Inl (''build openapi router: '' @ err)
    | Inr v \<Rightarrow> Inr (v\<lparr>vl_BasePath := sp_BasePath s\<rparr>))"

definition ValidateRequest :: "Validator \<Rightarrow> request \<Rightarrow> kin_error option" where
  "ValidateRequest v r = (case vl_FindRoute v r of
      Inl err \<Rightarrow> Some (Wrapped ''route: '' err)
    | Inr route \<Rightarrow> vl_filter v r route)"

definition isSupportedMethod :: "string \<Rightarrow> bool" where
  "isSupportedMethod m \<longleftrightarrow>
     m \<in> {''CONNECT'', ''DELETE'', ''GET'', ''HEAD'', ''OPTIONS'', ''PATCH'', ''POST'', ''PUT'', ''TRACE''}"

definition bare_request :: "string \<Rightarrow> string \<Rightarrow> request" where
  "bare_request m path = \<lparr>rq_Method = m, rq_Path = path, rq_Query = [], rq_Header = [], rq_Host = [], rq_TLS = False, rq_Body = None\<rparr>"

definition Resolve :: "Validator \<Rightarrow> string \<Rightarrow> string \<Rightarrow> kin_error + Operation" where
  "Resolve v m path =
     (if \<not> isSupportedMethod m then Inl (Plain (''no operation for '' @ m @ '' '' @ path @ '': unsupported HTTP method''))
      else (case vl_FindRoute v (bare_request m path) of
          Inl err \<Rightarrow> Inl (Wrapped (''no operation for '' @ m @ '' '' @ path @ '': '') err)
        | Inr route \<Rightarrow> Inr \<lparr>op_Method = ro_Method route, op_Template = vl_BasePath v @ ro_Path route, op_Op = ro_Op route\<rparr>))"

text \<open>The response declared for a status: \<^const>\<open>None\<close> is a nil reference, \<open>Some None\<close> one without a value.\<close>

definition selectResponse :: "(string \<rightharpoonup> resp_spec option) option \<Rightarrow> int \<Rightarrow> resp_spec option option" where
  "selectResponse rs status = (case rs of
      None \<Rightarrow> None
    | Some m \<Rightarrow> (case m (itoa status) of Some r \<Rightarrow> Some r | None \<Rightarrow> m ''default''))"

text \<open>The outcome of a check; a failed type assertion panics.\<close>

datatype check = Valid | Invalid kin_error | Panics

definition of_error :: "string \<Rightarrow> kin_error option \<Rightarrow> check" where
  "of_error pre e = (case e of None \<Rightarrow> Valid | Some x \<Rightarrow> Invalid (if pre = [] then x else Wrapped pre x))"

definition json_schema :: "Content \<Rightarrow> string \<Rightarrow> schema option" where
  "json_schema c mime = (case ct_Get c mime of Some s \<Rightarrow> s | None \<Rightarrow> None)"

definition validateErrorEnvelope :: "Validator \<Rightarrow> int \<Rightarrow> string \<Rightarrow> check" where
  "validateErrorEnvelope v status body = (case vl_json v body of
      Inl err \<Rightarrow> Invalid (Wrapped ''body json: '' (Plain err))
    | Inr decoded \<Rightarrow>
        (case vl_envelope v decoded of
           Some err \<Rightarrow> Invalid (Wrapped ''error envelope: '' err)
         | None \<Rightarrow>
             (case decoded of
                JObj m \<Rightarrow>
                  (case map_of m ''statusCode'' of
                     Some (JNum got) \<Rightarrow>
                       if got \<noteq> of_int status then
                         Invalid (Plain (''error envelope: statusCode '' @ vl_float v got @ '' does not match status '' @ itoa status))
                       else Valid
                   | _ \<Rightarrow> Panics)
              | _ \<Rightarrow> Panics)))"

definition ValidateRegistration :: "Validator \<Rightarrow> Operation \<Rightarrow> int \<Rightarrow> string \<Rightarrow> check" where
  "ValidateRegistration v op status body = (case selectResponse (os_Responses (op_Op op)) status of
      Some (Some resp) \<Rightarrow>
        (let empty = (case rp_Content resp of None \<Rightarrow> True | Some c \<Rightarrow> ct_len c = 0)
         in if empty then
              (if length (trim_space body) = 0 then Valid
               else if status \<ge> 400 then validateErrorEnvelope v status body
               else Invalid (Plain (''status '' @ itoa status @ '' declares no body but a body was provided'')))
            else (case json_schema (the (rp_Content resp)) ''application/json'' of
                None \<Rightarrow> Valid
              | Some visit \<Rightarrow>
                  (case vl_json v body of
                     Inl err \<Rightarrow> Invalid (Wrapped ''body json: '' (Plain err))
                   | Inr decoded \<Rightarrow> of_error ''body schema: '' (visit decoded))))
    | _ \<Rightarrow> Invalid (Plain (''status '' @ itoa status @ '' not declared for operation '' @ os_ID (op_Op op))))"

definition ValidateResponse :: "Validator \<Rightarrow> Operation \<Rightarrow> int \<Rightarrow> string \<Rightarrow> kin_error option" where
  "ValidateResponse v op status body = (case selectResponse (os_Responses (op_Op op)) status of
      Some (Some resp) \<Rightarrow>
        (case rp_Content resp of
           None \<Rightarrow> None
         | Some c \<Rightarrow> (case json_schema c ''application/json'' of
               None \<Rightarrow> None
             | Some visit \<Rightarrow> (case vl_json v body of
                   Inl err \<Rightarrow> Some (Wrapped ''body json: '' (Plain err))
                 | Inr decoded \<Rightarrow> visit decoded)))
    | _ \<Rightarrow> Some (Plain (''status '' @ itoa status @ '' not declared'')))"

definition ValidateEventStreamPayload :: "Validator \<Rightarrow> Operation \<Rightarrow> int \<Rightarrow> string \<Rightarrow> kin_error option" where
  "ValidateEventStreamPayload v op status body = (case selectResponse (os_Responses (op_Op op)) status of
      Some (Some resp) \<Rightarrow>
        (case rp_Content resp of
           None \<Rightarrow> Some (Plain (''status '' @ itoa status @ '' declares no content''))
         | Some c \<Rightarrow> (case json_schema c ''text/event-stream'' of
               None \<Rightarrow> Some (Plain (''status '' @ itoa status @ '' has no text/event-stream schema''))
             | Some visit \<Rightarrow> (case vl_json v body of
                   Inl err \<Rightarrow> Some (Wrapped ''body json: '' (Plain err))
                 | Inr decoded \<Rightarrow> visit decoded)))
    | _ \<Rightarrow> Some (Plain (''status '' @ itoa status @ '' not declared'')))"

definition required_error :: "kin_error \<Rightarrow> bool" where
  "required_error e = (case as_schema e of Some s \<Rightarrow> se_Field s = ''required'' | None \<Rightarrow> False)"

text \<open>\<open>kept_text\<close> stands for the text the library gives the remaining errors.\<close>

definition filterRequiredErrors :: "(kin_error list \<Rightarrow> string) \<Rightarrow> kin_error option \<Rightarrow> kin_error option" where
  "filterRequiredErrors kept_text err = (case err of
      None \<Rightarrow> None
    | Some e \<Rightarrow> (case as_multi e of
          None \<Rightarrow> Some e
        | Some es \<Rightarrow>
            (let kept = filter (\<lambda>x. \<not> required_error x) es
             in if length kept = 0 then None else Some (MultiError kept (kept_text kept)))))"

definition ValidateRequestMatcher :: "(kin_error list \<Rightarrow> string) \<Rightarrow> Validator \<Rightarrow> Operation \<Rightarrow> string \<Rightarrow> kin_error option" where
  "ValidateRequestMatcher kept_text v op body =
     (if trim_space body = [] \<or> trim_space body = ''null'' then None
      else (case os_RequestBody (op_Op op) of
          None \<Rightarrow> Some (Plain (''operation '' @ os_ID (op_Op op) @ '' declares no request body''))
        | Some c \<Rightarrow> (case json_schema c ''application/json'' of
              None \<Rightarrow> Some (Plain (''operation '' @ os_ID (op_Op op) @ '' has no application/json request schema''))
            | Some visit \<Rightarrow> (case vl_json v body of
                  Inl err \<Rightarrow> Some (Wrapped ''matcher body json: '' (Plain err))
                | Inr decoded \<Rightarrow> map_option (Wrapped ''matcher body schema: '') (filterRequiredErrors kept_text (visit decoded))))))"

definition ValidateQueryMatcher :: "Validator \<Rightarrow> Operation \<Rightarrow> (string, string) gomap \<Rightarrow> kin_error option" where
  "ValidateQueryMatcher v op query =
     (if length query = 0 then None
      else
        (let declared = map fst (filter (\<lambda>(name, loc). loc = ''query'') (os_Parameters (op_Op op)))
         in case find (\<lambda>(k, _). k \<notin> set declared) query of
              Some (k, _) \<Rightarrow> Some (Plain (''unknown query parameter '' @ vl_quote v k @ '' for operation '' @ os_ID (op_Op op)))
            | None \<Rightarrow> None))"

lemmas validator_defs [handler_defs] = ValidateRequest_def Resolve_def selectResponse_def validateErrorEnvelope_def
  ValidateRegistration_def ValidateResponse_def ValidateEventStreamPayload_def filterRequiredErrors_def
  ValidateRequestMatcher_def ValidateQueryMatcher_def

end
