(* ===== verification/Matches_Store.thy ===== *)
theory Matches_Store
  imports Matches
begin

text \<open>
  The expectation store, \<^verbatim>\<open>internal/matches/store.go\<close>: registration, lookup with its four-tier
  precedence, hit counters, near misses, listing and deletion. The fresh UUID of a registration is
  an argument of \<open>Put\<close>. Hit counters and the registration counter are unbounded here; in the code
  they are 64-bit.
\<close>

section \<open>The store\<close>

type_synonym bucket = "(string \<times> string, Expectation list) gomap"

record Match_Store =
  mt_exact :: bucket
  mt_template :: bucket
  mt_hits :: "string \<rightharpoonup> int"
  mt_seq :: nat

definition Match_NewStore :: Match_Store where
  "Match_NewStore = \<lparr>mt_exact = [], mt_template = [], mt_hits = Map.empty, mt_seq = 0\<rparr>"

definition bucket_of :: "Kind \<Rightarrow> Match_Store \<Rightarrow> bucket" where
  "bucket_of k s = (if k = KindTemplate then mt_template s else mt_exact s)"

definition set_bucket :: "Kind \<Rightarrow> bucket \<Rightarrow> Match_Store \<Rightarrow> Match_Store" where
  "set_bucket k b s = (if k = KindTemplate then s\<lparr>mt_template := b\<rparr> else s\<lparr>mt_exact := b\<rparr>)"

text \<open>The list under a key; ranging over a missing key ranges over nothing.\<close>

definition entries_at :: "bucket \<Rightarrow> string \<Rightarrow> string \<Rightarrow> Expectation list" where
  "entries_at b meth path = (case map_of b (meth, path) of None \<Rightarrow> [] | Some l \<Rightarrow> l)"

definition forget :: "string list \<Rightarrow> (string \<rightharpoonup> int) \<Rightarrow> (string \<rightharpoonup> int)" where
  "forget ids h = (\<lambda>i. if i \<in> set ids then None else h i)"

definition Put :: "json_codec \<Rightarrow> string \<Rightarrow> Expectation \<Rightarrow> Match_Store \<Rightarrow> Expectation \<times> Match_Store" where
  "Put C uid exp0 s =
     (let req = (if IsEmpty (ex_Request exp0) then None else ex_Request exp0);
          exp = exp0\<lparr>ex_Request := req, ex_ID := uid, ex_seq := mt_seq s + 1\<rparr>;
          m = bucket_of (ex_Kind exp) s;
          old = entries_at m (ex_Method exp) (ex_Path exp);
          kept = filter (\<lambda>e. \<not> requestMatcherEqual C (ex_Request e) req) old;
          dropped = filter (\<lambda>e. requestMatcherEqual C (ex_Request e) req) old;
          s1 = s\<lparr>mt_seq := mt_seq s + 1, mt_hits := (forget (map ex_ID dropped) (mt_hits s))(uid \<mapsto> 0)\<rparr>
      in (exp, set_bucket (ex_Kind exp) (AList.update (ex_Method exp, ex_Path exp) (kept @ [exp]) m) s1))"

fun delete_list :: "string \<Rightarrow> Expectation list \<Rightarrow> Expectation list option" where
  "delete_list i [] = None"
| "delete_list i (e # es) = (if ex_ID e = i then Some es else map_option ((#) e) (delete_list i es))"

fun delete_in :: "string \<Rightarrow> bucket \<Rightarrow> bucket option" where
  "delete_in i [] = None"
| "delete_in i ((k, l) # m) =
     (case delete_list i l of
        Some l' \<Rightarrow> Some (if l' = [] then m else (k, l') # m)
      | None \<Rightarrow> map_option ((#) (k, l)) (delete_in i m))"

definition DeleteByID :: "string \<Rightarrow> Match_Store \<Rightarrow> bool \<times> Match_Store" where
  "DeleteByID i s =
     (case delete_in i (mt_exact s) of
        Some b \<Rightarrow> (True, s\<lparr>mt_exact := b, mt_hits := (mt_hits s)(i := None)\<rparr>)
      | None \<Rightarrow> (case delete_in i (mt_template s) of
            Some b \<Rightarrow> (True, s\<lparr>mt_template := b, mt_hits := (mt_hits s)(i := None)\<rparr>)
          | None \<Rightarrow> (False, s)))"

definition all_entries :: "Match_Store \<Rightarrow> Expectation list" where
  "all_entries s = concat (map snd (mt_exact s)) @ concat (map snd (mt_template s))"

text \<open>An entry with its \<^verbatim>\<open>Hits\<close> read from its counter, when it has one.\<close>

definition with_hits :: "Match_Store \<Rightarrow> Expectation \<Rightarrow> Expectation" where
  "with_hits s e = (case mt_hits s (ex_ID e) of None \<Rightarrow> e | Some n \<Rightarrow> e\<lparr>ex_Hits := n\<rparr>)"

definition GetByID :: "string \<Rightarrow> Match_Store \<Rightarrow> Expectation option" where
  "GetByID i s = map_option (with_hits s) (find (\<lambda>e. ex_ID e = i) (all_entries s))"

definition newestMatch :: "json_codec \<Rightarrow> Expectation list \<Rightarrow> MatchableRequest \<Rightarrow> bool \<Rightarrow> Expectation option" where
  "newestMatch C l req catchAll =
     find (\<lambda>e. (ex_Request e = None) = catchAll \<and> Matches C (ex_Request e) req) (rev l)"

text \<open>\<^verbatim>\<open>cmp.Or\<close> on pointers: the first that is not nil.\<close>

definition cmp_or :: "'a option \<Rightarrow> 'a option \<Rightarrow> 'a option" where
  "cmp_or a b = (case a of None \<Rightarrow> b | Some x \<Rightarrow> Some x)"

definition Find :: "json_codec \<Rightarrow> string \<Rightarrow> string \<Rightarrow> string \<Rightarrow> MatchableRequest \<Rightarrow> Match_Store
    \<Rightarrow> Expectation option \<times> Match_Store" where
  "Find C meth concretePath opTemplate req s =
     (let exact = entries_at (mt_exact s) meth concretePath;
          tmpl = entries_at (mt_template s) meth opTemplate;
          matched = cmp_or (newestMatch C exact req False) (cmp_or (newestMatch C exact req True)
            (cmp_or (newestMatch C tmpl req False) (newestMatch C tmpl req True)))
      in case matched of
           None \<Rightarrow> (None, s)
         | Some e \<Rightarrow> (case mt_hits s (ex_ID e) of
               None \<Rightarrow> (Some e, s)
             | Some n \<Rightarrow> (Some (e\<lparr>ex_Hits := n + 1\<rparr>), s\<lparr>mt_hits := (mt_hits s)(ex_ID e \<mapsto> n + 1)\<rparr>)))"

definition List :: "Match_Store \<Rightarrow> Expectation list" where
  "List s = sort_key (\<lambda>e. (ex_Method e, ex_Path e)) (map (with_hits s) (all_entries s))"

definition ResetEndpoint :: "string \<Rightarrow> string \<Rightarrow> Kind \<Rightarrow> Match_Store \<Rightarrow> Match_Store" where
  "ResetEndpoint meth path kind s =
     (let s1 = s\<lparr>mt_hits := forget (map ex_ID (entries_at (bucket_of kind s) meth path)) (mt_hits s)\<rparr>
      in set_bucket kind (AList.delete (meth, path) (bucket_of kind s1)) s1)"

definition ResetAll :: "Match_Store \<Rightarrow> Match_Store" where
  "ResetAll s = s\<lparr>mt_exact := [], mt_template := [], mt_hits := Map.empty\<rparr>"

definition maxNearMisses :: nat where
  "maxNearMisses = 3"

text \<open>A candidate: the near miss and the registration number of its stub.\<close>

definition near_miss :: "json_codec \<Rightarrow> MatchableRequest \<Rightarrow> Difference list \<Rightarrow> Expectation \<Rightarrow> (NearMiss \<times> nat) list" where
  "near_miss C req extra e =
     (let diffs = extra @ Explain C (ex_Request e) req
      in if diffs = [] then []
         else [(\<lparr>nm_ExpectationID = ex_ID e, nm_Method = ex_Method e, nm_Path = ex_Path e, nm_Differences = diffs\<rparr>,
                ex_seq e)])"

definition NearMisses :: "json_codec \<Rightarrow> string \<Rightarrow> string \<Rightarrow> string \<Rightarrow> MatchableRequest
    \<Rightarrow> (string \<Rightarrow> string \<Rightarrow> string) \<Rightarrow> Match_Store \<Rightarrow> NearMiss list" where
  "NearMisses C meth concretePath opTemplate req templateOf s =
     (let tmpl = concat (map (near_miss C req []) (entries_at (mt_template s) meth opTemplate));
          exact = concat (map (\<lambda>((km, kp), l).
             if km \<noteq> meth \<or> templateOf meth kp \<noteq> opTemplate then []
             else concat (map (near_miss C req
                (if kp \<noteq> concretePath then [mismatch C ''path'' (JStr kp) (JStr concretePath)] else [])) l))
             (mt_exact s));
          cands = sort_key (\<lambda>(nm, q). (length (nm_Differences nm), - int q)) (tmpl @ exact)
      in map fst (take maxNearMisses cands))"

lemmas match_defs [store_defs] = Match_NewStore_def Put_def DeleteByID_def GetByID_def Find_def List_def
  ResetEndpoint_def ResetAll_def

lemma bucket_set [simp]:
  "bucket_of k (set_bucket k b s) = b"
  "k \<noteq> k' \<Longrightarrow> bucket_of k (set_bucket k' b s) = bucket_of k s"
  "mt_hits (set_bucket k b s) = mt_hits s"
  "mt_seq (set_bucket k b s) = mt_seq s"
  "bucket_of k (s\<lparr>mt_hits := h\<rparr>) = bucket_of k s"
  "bucket_of k (s\<lparr>mt_seq := q\<rparr>) = bucket_of k s"
  by (cases k; cases k'; simp add: bucket_of_def set_bucket_def)+

lemma entries_at_update [simp]:
  "entries_at (AList.update (a, b) l m) c d = (if c = a \<and> d = b then l else entries_at m c d)"
  by (simp add: entries_at_def update_conv)

lemma entries_at_delete [simp]:
  "entries_at (AList.delete (a, b) m) c d = (if c = a \<and> d = b then [] else entries_at m c d)"
  by (simp add: entries_at_def delete_conv)

section \<open>Invariant\<close>

text \<open>
  One list: every entry carries the key and the kind of its list, matchers are normalised, the list
  is in registration order and no later entry has a matcher equal to an earlier one's.
\<close>

definition list_inv :: "json_codec \<Rightarrow> Kind \<Rightarrow> nat \<Rightarrow> string \<times> string \<Rightarrow> Expectation list \<Rightarrow> bool" where
  "list_inv C kind n k l \<longleftrightarrow> l \<noteq> [] \<and>
     (\<forall>e \<in> set l. (ex_Method e, ex_Path e) = k \<and> ex_Kind e = kind \<and> ex_seq e \<le> n \<and>
        (ex_Request e \<noteq> None \<longrightarrow> \<not> IsEmpty (ex_Request e))) \<and>
     sorted_wrt (\<lambda>a b. ex_seq a < ex_seq b \<and> \<not> requestMatcherEqual C (ex_Request a) (ex_Request b)) l"

definition bucket_inv :: "json_codec \<Rightarrow> Kind \<Rightarrow> nat \<Rightarrow> bucket \<Rightarrow> bool" where
  "bucket_inv C kind n b \<longleftrightarrow> wf_map b \<and> (\<forall>(k, l) \<in> set b. list_inv C kind n k l)"

definition ids :: "Match_Store \<Rightarrow> string list" where
  "ids s = map ex_ID (all_entries s)"

definition match_inv :: "json_codec \<Rightarrow> Match_Store \<Rightarrow> bool" where
  "match_inv C s \<longleftrightarrow> bucket_inv C KindExact (mt_seq s) (mt_exact s) \<and>
     bucket_inv C KindTemplate (mt_seq s) (mt_template s) \<and>
     distinct (ids s) \<and> dom (mt_hits s) = set (ids s)"

lemma bucket_split:
  assumes "wf_map b"
  shows "\<exists>b1 b2. concat (map snd b) = concat (map snd b1) @ entries_at b m p @ concat (map snd b2) \<and>
    AList.update (m, p) v b = b1 @ [((m, p), v)] @ b2 \<and> AList.delete (m, p) b = b1 @ b2 \<and>
    set b1 \<union> set b2 \<subseteq> set b \<and> (entries_at b m p \<noteq> [] \<longrightarrow> ((m, p), entries_at b m p) \<in> set b)"
  using assms
proof (induction b)
  case Nil
  show ?case by (intro exI[of _ "[]"]) (simp add: entries_at_def)
next
  case (Cons q b)
  obtain k l where q: "q = (k, l)" by (cases q)
  show ?case
  proof (cases "k = (m, p)")
    case True
    with Cons.prems q have "AList.delete (m, p) b = b"
      by (intro delete_id) auto
    with True q show ?thesis
      by - (rule exI[of _ "[]"], rule exI[of _ b], auto simp: entries_at_def)
  next
    case False
    from Cons obtain b1 b2 where IH: "concat (map snd b) = concat (map snd b1) @ entries_at b m p @ concat (map snd b2)"
      "AList.update (m, p) v b = b1 @ [((m, p), v)] @ b2" "AList.delete (m, p) b = b1 @ b2"
      "set b1 \<union> set b2 \<subseteq> set b" "entries_at b m p \<noteq> [] \<longrightarrow> ((m, p), entries_at b m p) \<in> set b"
      by auto
    with False q show ?thesis
      by (intro exI[of _ "(k, l) # b1"] exI[of _ b2]) (auto simp: entries_at_def)
  qed
qed

lemma list_inv_mono: "list_inv C kind n k l \<Longrightarrow> n \<le> n' \<Longrightarrow> list_inv C kind n' k l"
  by (fastforce simp: list_inv_def)

lemma bucket_inv_mono: "bucket_inv C kind n b \<Longrightarrow> n \<le> n' \<Longrightarrow> bucket_inv C kind n' b"
  by (auto simp: bucket_inv_def intro: list_inv_mono)

lemma bucket_inv_delete: "bucket_inv C kind n b \<Longrightarrow> bucket_inv C kind n (AList.delete k b)"
  by (auto simp: bucket_inv_def distinct_delete dest!: subsetD[OF set_delete_subset])

lemma entries_at_inv:
  "bucket_inv C kind n b \<Longrightarrow> entries_at b m p \<noteq> [] \<Longrightarrow> list_inv C kind n (m, p) (entries_at b m p)"
  by (auto simp: bucket_inv_def entries_at_def dest: map_of_SomeD split: option.splits)

lemma bucket_inv_put:
  assumes inv: "bucket_inv C kind n b" and e: "ex_Method e = m" "ex_Path e = p" "ex_Kind e = kind" "ex_seq e = n + 1"
    "ex_Request e \<noteq> None \<longrightarrow> \<not> IsEmpty (ex_Request e)"
    and kept: "kept = filter (\<lambda>x. \<not> requestMatcherEqual C (ex_Request x) (ex_Request e)) (entries_at b m p)"
  shows "bucket_inv C kind (n + 1) (AList.update (m, p) (kept @ [e]) b)"
proof -
  have "list_inv C kind n (m, p) (entries_at b m p) \<or> entries_at b m p = []"
    using entries_at_inv[OF inv] by blast
  then have new: "list_inv C kind (n + 1) (m, p) (kept @ [e])"
    using e kept by (auto simp: list_inv_def sorted_wrt_append intro!: sorted_wrt_filter)
  from inv have wf: "wf_map b" by (simp add: bucket_inv_def)
  from bucket_split[OF wf, of m p "kept @ [e]"] obtain b1 b2 where
    "AList.update (m, p) (kept @ [e]) b = b1 @ [((m, p), kept @ [e])] @ b2" "set b1 \<union> set b2 \<subseteq> set b"
    by auto
  moreover have "\<forall>(k, l) \<in> set b. list_inv C kind (n + 1) k l"
    using inv by (auto simp: bucket_inv_def intro: list_inv_mono)
  moreover have "wf_map (AList.update (m, p) (kept @ [e]) b)"
    using wf by (rule distinct_update)
  ultimately show ?thesis
    using new by (auto simp: bucket_inv_def)
qed

lemma match_inv_buckets:
  "match_inv C s \<longleftrightarrow> (\<forall>k. bucket_inv C k (mt_seq s) (bucket_of k s)) \<and> distinct (ids s) \<and> dom (mt_hits s) = set (ids s)"
  by (auto simp: match_inv_def bucket_of_def) (metis Kind.exhaust)+

text \<open>The ids of the store split around the list of one key.\<close>

lemma ids_split:
  assumes "wf_map (bucket_of k s)"
  shows "\<exists>xs ys. ids s = xs @ map ex_ID (entries_at (bucket_of k s) m p) @ ys \<and>
    ids (set_bucket k (AList.update (m, p) v (bucket_of k s)) s) = xs @ map ex_ID v @ ys \<and>
    ids (set_bucket k (AList.delete (m, p) (bucket_of k s)) s) = xs @ ys"
proof -
  from bucket_split[OF assms, of m p v] obtain b1 b2 where b:
    "concat (map snd (bucket_of k s)) = concat (map snd b1) @ entries_at (bucket_of k s) m p @ concat (map snd b2)"
    "AList.update (m, p) v (bucket_of k s) = b1 @ [((m, p), v)] @ b2"
    "AList.delete (m, p) (bucket_of k s) = b1 @ b2"
    by auto
  show ?thesis
  proof (cases k)
    case KindExact
    with b show ?thesis
      by (intro exI[of _ "map ex_ID (concat (map snd b1))"]
          exI[of _ "map ex_ID (concat (map snd b2) @ concat (map snd (mt_template s)))"])
        (simp add: ids_def all_entries_def bucket_of_def set_bucket_def)
  next
    case KindTemplate
    with b show ?thesis
      by (intro exI[of _ "map ex_ID (concat (map snd (mt_exact s)) @ concat (map snd b1))"]
          exI[of _ "map ex_ID (concat (map snd b2))"])
        (simp add: ids_def all_entries_def bucket_of_def set_bucket_def)
  qed
qed

lemma ids_replace:
  assumes "distinct (xs @ map f old @ ys)" "u \<notin> set (xs @ map f old @ ys)"
  shows "distinct (xs @ (map f (filter P old) @ [u]) @ ys)"
    and "set (xs @ (map f (filter P old) @ [u]) @ ys) =
      insert u (set (xs @ map f old @ ys) - f ` {e \<in> set old. \<not> P e})"
proof -
  from assms show "distinct (xs @ (map f (filter P old) @ [u]) @ ys)"
    by (auto simp: distinct_map_filter)
  from assms have "inj_on f (set old)" by (simp add: distinct_map)
  then have "f ` set (filter P old) = f ` set old - f ` {e \<in> set old. \<not> P e}"
    by (auto simp: inj_on_def)
  with assms show "set (xs @ (map f (filter P old) @ [u]) @ ys) =
      insert u (set (xs @ map f old @ ys) - f ` {e \<in> set old. \<not> P e})"
    by auto
qed

lemma ids_frame [simp]: "ids (s\<lparr>mt_hits := h\<rparr>) = ids s" "ids (s\<lparr>mt_seq := n\<rparr>) = ids s"
  "ids (set_bucket k b (s\<lparr>mt_seq := n, mt_hits := h\<rparr>)) = ids (set_bucket k b s)"
  "ids (set_bucket k b (s\<lparr>mt_seq := n\<rparr>)) = ids (set_bucket k b s)"
  "ids (set_bucket k b (s\<lparr>mt_hits := h\<rparr>)) = ids (set_bucket k b s)"
  by (cases k; simp add: ids_def all_entries_def set_bucket_def)+

lemma dom_forget: "dom (forget xs h) = dom h - set xs"
  by (auto simp: forget_def split: if_splits)

lemma Put_inv:
  assumes inv: "match_inv C s" and fresh: "uid \<notin> dom (mt_hits s)"
  shows "match_inv C (snd (Put C uid exp0 s))"
proof -
  define req where "req = (if IsEmpty (ex_Request exp0) then None else ex_Request exp0)"
  define e where "e = exp0\<lparr>ex_Request := req, ex_ID := uid, ex_seq := mt_seq s + 1\<rparr>"
  define b where "b = bucket_of (ex_Kind e) s"
  define old where "old = entries_at b (ex_Method e) (ex_Path e)"
  define P where "P = (\<lambda>x :: Expectation. \<not> requestMatcherEqual C (ex_Request x) req)"
  let ?new = "AList.update (ex_Method e, ex_Path e) (filter P old @ [e]) b"
  let ?h = "(forget (map ex_ID (filter (\<lambda>x. \<not> P x) old)) (mt_hits s))(uid \<mapsto> 0)"
  have put: "snd (Put C uid exp0 s) = set_bucket (ex_Kind e) ?new (s\<lparr>mt_seq := mt_seq s + 1, mt_hits := ?h\<rparr>)"
    by (simp add: Put_def Let_def e_def req_def b_def old_def P_def)
  have binv: "bucket_inv C k (mt_seq s) (bucket_of k s)" for k
    using inv by (simp add: match_inv_buckets)
  have "bucket_inv C (ex_Kind e) (mt_seq s + 1) ?new"
    by (rule bucket_inv_put[where n = "mt_seq s"])
      (use binv in \<open>simp_all add: b_def e_def P_def old_def req_def split: if_splits\<close>)
  then have "\<forall>k. bucket_inv C k (mt_seq s + 1) (bucket_of k (snd (Put C uid exp0 s)))"
    using binv bucket_inv_mono[of C _ "mt_seq s" _ "mt_seq s + 1"] by (auto simp: put) (metis bucket_set(1) bucket_set(2) bucket_set(5) bucket_set(6) le_add1)
  moreover
  have wf: "wf_map (bucket_of (ex_Kind e) s)" using binv by (simp add: bucket_inv_def)
  have eid: "ex_ID e = uid" by (simp add: e_def)
  from ids_split[OF wf, of "ex_Method e" "ex_Path e" "filter P old @ [e]"] obtain xs ys where
    xy0: "ids s = xs @ map ex_ID (entries_at (bucket_of (ex_Kind e) s) (ex_Method e) (ex_Path e)) @ ys"
      "ids (set_bucket (ex_Kind e) (AList.update (ex_Method e, ex_Path e) (filter P old @ [e]) (bucket_of (ex_Kind e) s)) s)
        = xs @ map ex_ID (filter P old @ [e]) @ ys"
    by blast
  have xy: "ids s = xs @ map ex_ID old @ ys"
    "ids (snd (Put C uid exp0 s)) = xs @ (map ex_ID (filter P old) @ [uid]) @ ys"
    using xy0 eid by (simp_all add: put old_def b_def)
  have di: "distinct (xs @ map ex_ID old @ ys)" "uid \<notin> set (xs @ map ex_ID old @ ys)"
    using inv fresh by (auto simp: match_inv_def simp flip: xy(1))
  have "distinct (ids (snd (Put C uid exp0 s)))"
    unfolding xy(2) by (rule ids_replace(1)[OF di])
  moreover have "dom (mt_hits (snd (Put C uid exp0 s))) = set (ids (snd (Put C uid exp0 s)))"
    using inv by (simp only: xy(2) ids_replace(2)[OF di]) (auto simp: put dom_forget match_inv_def simp flip: xy(1))
  ultimately show ?thesis
    by (simp add: match_inv_buckets put)
qed

lemma ResetEndpoint_inv:
  assumes inv: "match_inv C s"
  shows "match_inv C (ResetEndpoint m p k s)"
proof -
  have binv: "bucket_inv C j (mt_seq s) (bucket_of j s)" for j
    using inv by (simp add: match_inv_buckets)
  let ?old = "map ex_ID (entries_at (bucket_of k s) m p)"
  have eq: "ResetEndpoint m p k s =
      set_bucket k (AList.delete (m, p) (bucket_of k s)) (s\<lparr>mt_hits := forget ?old (mt_hits s)\<rparr>)"
    by (simp add: ResetEndpoint_def Let_def)
  have "bucket_inv C j (mt_seq s) (bucket_of j (ResetEndpoint m p k s))" for j
    using binv bucket_inv_delete by (cases "j = k") (simp_all add: eq)
  moreover have wf: "wf_map (bucket_of k s)" using binv by (simp add: bucket_inv_def)
  from ids_split[OF wf, of m p] obtain xs ys where xy: "ids s = xs @ ?old @ ys"
    "ids (ResetEndpoint m p k s) = xs @ ys"
    by (fastforce simp: eq)
  have "distinct (xs @ ?old @ ys)" "dom (mt_hits s) = set (xs @ ?old @ ys)"
    using inv by (auto simp: match_inv_def simp flip: xy(1))
  then have "distinct (xs @ ys) \<and> dom (forget ?old (mt_hits s)) = set (xs @ ys)"
    by (auto simp: dom_forget)
  moreover have "mt_seq (ResetEndpoint m p k s) = mt_seq s"
    "mt_hits (ResetEndpoint m p k s) = forget ?old (mt_hits s)"
    by (simp_all add: eq)
  ultimately show ?thesis by (simp add: match_inv_buckets xy)
qed

lemma delete_list_Some:
  "delete_list i l = Some l' \<Longrightarrow> \<exists>xs e ys. l = xs @ e # ys \<and> ex_ID e = i \<and> l' = xs @ ys"
proof (induction l arbitrary: l')
  case Nil
  then show ?case by simp
next
  case (Cons a l)
  show ?case
  proof (cases "ex_ID a = i")
    case True
    with Cons.prems show ?thesis by (intro exI[of _ "[]"]) simp
  next
    case False
    with Cons.prems obtain l2 where "delete_list i l = Some l2" "l' = a # l2" by auto
    with Cons.IH[of l2] obtain xs e ys where "l = xs @ e # ys" "ex_ID e = i" "l' = (a # xs) @ ys" by auto
    then show ?thesis by (intro exI[of _ "a # xs"]) auto
  qed
qed

lemma delete_list_None: "delete_list i l = None \<longleftrightarrow> i \<notin> ex_ID ` set l"
  by (induction l) auto

lemma list_inv_delete: "list_inv C kind n k (xs @ e # ys) \<Longrightarrow> xs @ ys \<noteq> [] \<Longrightarrow> list_inv C kind n k (xs @ ys)"
  by (auto simp: list_inv_def sorted_wrt_append)

lemma delete_in_Some:
  "delete_in i b = Some b' \<Longrightarrow> bucket_inv C kind n b \<Longrightarrow>
   (\<exists>xs e ys. concat (map snd b) = xs @ e # ys \<and> ex_ID e = i \<and> concat (map snd b') = xs @ ys) \<and>
   bucket_inv C kind n b' \<and> fst ` set b' \<subseteq> fst ` set b"
proof (induction b arbitrary: b')
  case Nil
  then show ?case by simp
next
  case (Cons q b)
  obtain k l where q: "q = (k, l)" by (cases q)
  from Cons.prems(2) q have l: "list_inv C kind n k l" "bucket_inv C kind n b" "k \<notin> fst ` set b"
    by (auto simp: bucket_inv_def)
  show ?case
  proof (cases "delete_list i l")
    case (Some l')
    from delete_list_Some[OF Some] obtain xs e ys where s: "l = xs @ e # ys" "ex_ID e = i" "l' = xs @ ys" by blast
    with Cons.prems(1) q Some have b': "b' = (if xs @ ys = [] then b else (k, xs @ ys) # b)" by simp
    then have "concat (map snd (q # b)) = xs @ e # (ys @ concat (map snd b))"
      "concat (map snd b') = xs @ (ys @ concat (map snd b))"
      using q s by simp_all
    moreover have "bucket_inv C kind n b' \<and> fst ` set b' \<subseteq> fst ` set (q # b)"
      using b' l q s list_inv_delete[of C kind n k xs e ys] by (auto simp: bucket_inv_def)
    ultimately show ?thesis using s(2) by blast
  next
    case None
    with Cons.prems(1) q obtain b2 where b2: "delete_in i b = Some b2" "b' = (k, l) # b2" by auto
    from Cons.IH[OF b2(1) l(2)] obtain xs e ys where
      IH: "concat (map snd b) = xs @ e # ys" "ex_ID e = i" "concat (map snd b2) = xs @ ys"
        "bucket_inv C kind n b2" "fst ` set b2 \<subseteq> fst ` set b"
      by blast
    then have "concat (map snd (q # b)) = (l @ xs) @ e # ys" "concat (map snd b') = (l @ xs) @ ys"
      using q b2 by simp_all
    moreover have "bucket_inv C kind n b' \<and> fst ` set b' \<subseteq> fst ` set (q # b)"
      using IH l q b2 by (auto simp: bucket_inv_def)
    ultimately show ?thesis using IH(2) by blast
  qed
qed

lemma delete_in_None: "delete_in i b = None \<longleftrightarrow> i \<notin> ex_ID ` set (concat (map snd b))"
proof (induction i b rule: delete_in.induct)
  case (2 i k l m)
  then show ?case
    by (cases "delete_list i l") (use delete_list_None[of i l] in \<open>auto simp: image_Un\<close>)
qed simp

text \<open>Replacing one bucket by the result of deleting in it removes one entry of the store.\<close>

lemma delete_in_bucket:
  assumes inv: "match_inv C s" and del: "delete_in i (bucket_of k s) = Some b"
    and s': "s' = (case k of KindExact \<Rightarrow> s\<lparr>mt_exact := b, mt_hits := (mt_hits s)(i := None)\<rparr>
      | KindTemplate \<Rightarrow> s\<lparr>mt_template := b, mt_hits := (mt_hits s)(i := None)\<rparr>)"
  shows "\<exists>xs e ys. all_entries s = xs @ e # ys \<and> ex_ID e = i \<and> all_entries s' = xs @ ys \<and>
    mt_hits s' = (mt_hits s)(i := None) \<and> mt_seq s' = mt_seq s \<and>
    (\<forall>j. bucket_inv C j (mt_seq s) (bucket_of j s'))"
proof -
  from inv have e: "bucket_inv C j (mt_seq s) (bucket_of j s)" for j by (simp add: match_inv_buckets)
  from delete_in_Some[OF del e] obtain xs x ys where
    d: "concat (map snd (bucket_of k s)) = xs @ x # ys" "ex_ID x = i" "concat (map snd b) = xs @ ys"
      "bucket_inv C k (mt_seq s) b"
    by blast
  have "bucket_inv C j (mt_seq s) (bucket_of j s')" for j
    using d(4) e[of j] s' by (cases k; cases j) (simp_all add: bucket_of_def)
  moreover have "mt_hits s' = (mt_hits s)(i := None)" "mt_seq s' = mt_seq s" using s' by (cases k; simp)+
  moreover have "\<exists>us vs. all_entries s = us @ x # vs \<and> all_entries s' = us @ vs"
  proof (cases k)
    case KindExact
    with d s' show ?thesis
      by (intro exI[of _ xs] exI[of _ "ys @ concat (map snd (mt_template s))"]) (simp add: all_entries_def bucket_of_def)
  next
    case KindTemplate
    with d s' show ?thesis
      by (intro exI[of _ "concat (map snd (mt_exact s)) @ xs"] exI[of _ ys]) (simp add: all_entries_def bucket_of_def)
  qed
  ultimately show ?thesis using d(2) by blast
qed

text \<open>Deletion removes exactly one entry, the one with the id, or finds none.\<close>

lemma DeleteByID_cases:
  assumes inv: "match_inv C s"
  shows "(i \<notin> set (ids s) \<and> DeleteByID i s = (False, s)) \<or>
    (\<exists>xs e ys s'. DeleteByID i s = (True, s') \<and> all_entries s = xs @ e # ys \<and> ex_ID e = i \<and>
       all_entries s' = xs @ ys \<and> mt_hits s' = (mt_hits s)(i := None) \<and> mt_seq s' = mt_seq s \<and>
       (\<forall>k. bucket_inv C k (mt_seq s) (bucket_of k s')))"
proof (cases "delete_in i (mt_exact s)")
  case (Some b)
  then have "DeleteByID i s = (True, s\<lparr>mt_exact := b, mt_hits := (mt_hits s)(i := None)\<rparr>)" by (simp add: DeleteByID_def)
  with delete_in_bucket[OF inv, of i KindExact b] Some show ?thesis by (simp add: bucket_of_def)
next
  case n1: None
  show ?thesis
  proof (cases "delete_in i (mt_template s)")
    case None
    with n1 have "DeleteByID i s = (False, s)" by (simp add: DeleteByID_def)
    moreover have "i \<notin> set (ids s)"
      using None n1 unfolding delete_in_None by (auto simp: ids_def all_entries_def)
    ultimately show ?thesis by blast
  next
    case (Some b)
    with n1 have "DeleteByID i s = (True, s\<lparr>mt_template := b, mt_hits := (mt_hits s)(i := None)\<rparr>)" by (simp add: DeleteByID_def)
    with delete_in_bucket[OF inv, of i KindTemplate b] Some show ?thesis by (simp add: bucket_of_def)
  qed
qed

lemma DeleteByID_inv:
  assumes inv: "match_inv C s"
  shows "match_inv C (snd (DeleteByID i s))"
  using DeleteByID_cases[OF inv, of i]
proof (elim disjE exE conjE)
  assume "DeleteByID i s = (False, s)"
  with inv show ?thesis by simp
next
  fix xs e ys s'
  assume d: "DeleteByID i s = (True, s')" "all_entries s = xs @ e # ys" "ex_ID e = i" "all_entries s' = xs @ ys"
    "mt_hits s' = (mt_hits s)(i := None)" "mt_seq s' = mt_seq s" "\<forall>k. bucket_inv C k (mt_seq s) (bucket_of k s')"
  have "distinct (ids s)" "dom (mt_hits s) = set (ids s)" using inv by (simp_all add: match_inv_def)
  with d(2,3) have "distinct (map ex_ID (xs @ ys))" "dom (mt_hits s) - {i} = set (map ex_ID (xs @ ys))"
    by (auto simp: ids_def)
  with d show ?thesis by (simp add: match_inv_buckets ids_def)
qed

lemma Find_frame [simp]:
  "mt_exact (snd (Find C m p t req s)) = mt_exact s" "mt_template (snd (Find C m p t req s)) = mt_template s"
  "mt_seq (snd (Find C m p t req s)) = mt_seq s" "all_entries (snd (Find C m p t req s)) = all_entries s"
  "dom (mt_hits (snd (Find C m p t req s))) = dom (mt_hits s)"
  by (auto simp: Find_def all_entries_def Let_def split: option.splits)

lemma Find_inv: "match_inv C s \<Longrightarrow> match_inv C (snd (Find C' m p t req s))"
  by (simp add: match_inv_def ids_def)

lemma ResetAll_inv: "match_inv C (ResetAll s)"
  by (simp add: match_inv_def ResetAll_def bucket_inv_def ids_def all_entries_def)

section \<open>Executions\<close>

inductive match_step :: "json_codec \<Rightarrow> Match_Store \<Rightarrow> Match_Store \<Rightarrow> bool" for C where
  put: "uid \<notin> dom (mt_hits s) \<Longrightarrow> match_step C s (snd (Put C uid e s))"
| delete: "match_step C s (snd (DeleteByID i s))"
| find: "match_step C s (snd (Find C m p t req s))"
| reset_endpoint: "match_step C s (ResetEndpoint m p k s)"
| reset_all: "match_step C s (ResetAll s)"

inductive match_reachable :: "json_codec \<Rightarrow> Match_Store \<Rightarrow> bool" for C where
  init: "match_reachable C Match_NewStore"
| step: "match_reachable C s \<Longrightarrow> match_step C s s' \<Longrightarrow> match_reachable C s'"

lemma match_inv_new: "match_inv C Match_NewStore"
  by (simp add: match_inv_def Match_NewStore_def bucket_inv_def ids_def all_entries_def)

lemma match_step_inv: "match_step C s s' \<Longrightarrow> match_inv C s \<Longrightarrow> match_inv C s'"
  by (induction rule: match_step.induct)
    (simp_all add: Put_inv DeleteByID_inv Find_inv ResetEndpoint_inv ResetAll_inv)

lemma match_reachable_inv: "match_reachable C s \<Longrightarrow> match_inv C s"
  by (induction rule: match_reachable.induct) (auto intro: match_inv_new match_step_inv)

section \<open>Lookup\<close>

definition candidates :: "Match_Store \<Rightarrow> string \<Rightarrow> string \<Rightarrow> string \<Rightarrow> Expectation set" where
  "candidates s meth path tmpl =
     set (entries_at (mt_exact s) meth path) \<union> set (entries_at (mt_template s) meth tmpl)"

text \<open>The precedence tier (3 is the highest) and, within a tier, the registration number.\<close>

definition tier :: "Expectation \<Rightarrow> nat" where
  "tier e = (if ex_Kind e = KindExact then 2 else 0) + (if ex_Request e \<noteq> None then 1 else 0)"

definition rank :: "Expectation \<Rightarrow> nat \<times> nat" where
  "rank e = (tier e, ex_seq e)"

definition matched_entry :: "json_codec \<Rightarrow> string \<Rightarrow> string \<Rightarrow> string \<Rightarrow> MatchableRequest \<Rightarrow> Match_Store
    \<Rightarrow> Expectation option" where
  "matched_entry C meth path tmpl req s =
     (let exact = entries_at (mt_exact s) meth path; t = entries_at (mt_template s) meth tmpl
      in cmp_or (newestMatch C exact req False) (cmp_or (newestMatch C exact req True)
           (cmp_or (newestMatch C t req False) (newestMatch C t req True))))"

lemma newestMatch_None:
  "newestMatch C l req ca = None \<Longrightarrow> e \<in> set l \<Longrightarrow> (ex_Request e = None) = ca \<Longrightarrow> \<not> Matches C (ex_Request e) req"
  by (auto simp: newestMatch_def find_None_iff)

lemma newestMatch_Some:
  assumes "newestMatch C l req ca = Some e" and "sorted_wrt (\<lambda>a b. ex_seq a < ex_seq b) l"
  shows "e \<in> set l \<and> (ex_Request e = None) = ca \<and> Matches C (ex_Request e) req \<and>
    (\<forall>c \<in> set l. (ex_Request c = None) = ca \<longrightarrow> Matches C (ex_Request c) req \<longrightarrow> ex_seq c \<le> ex_seq e)"
proof -
  let ?P = "\<lambda>e. (ex_Request e = None) = ca \<and> Matches C (ex_Request e) req"
  from assms(1) obtain xs ys where "rev l = xs @ e # ys" and P: "?P e" and no: "\<forall>x \<in> set xs. \<not> ?P x"
    unfolding newestMatch_def using find_split[of ?P "rev l" e] by blast
  then have l: "l = rev ys @ e # rev xs" by (simp add: rev_swap)
  with assms(2) have "\<forall>y \<in> set ys. ex_seq y < ex_seq e" by (simp add: sorted_wrt_append)
  with l P no show ?thesis by force
qed

lemma Find_matched_entry:
  "Find C meth path tmpl req s =
     (case matched_entry C meth path tmpl req s of
        None \<Rightarrow> (None, s)
      | Some e \<Rightarrow> (case mt_hits s (ex_ID e) of
            None \<Rightarrow> (Some e, s)
          | Some n \<Rightarrow> (Some (e\<lparr>ex_Hits := n + 1\<rparr>), s\<lparr>mt_hits := (mt_hits s)(ex_ID e \<mapsto> n + 1)\<rparr>)))"
  by (simp add: Find_def matched_entry_def Let_def)

lemma entries_at_facts:
  assumes "bucket_inv C kind n b"
  shows "sorted_wrt (\<lambda>a b. ex_seq a < ex_seq b) (entries_at b m p)"
    and "e \<in> set (entries_at b m p) \<Longrightarrow> ex_Kind e = kind \<and> ex_Method e = m \<and> ex_Path e = p \<and> ex_seq e \<le> n"
proof -
  have l: "entries_at b m p = [] \<or> list_inv C kind n (m, p) (entries_at b m p)"
    using entries_at_inv[OF assms] by blast
  then show "sorted_wrt (\<lambda>a b. ex_seq a < ex_seq b) (entries_at b m p)"
    by (auto simp: list_inv_def elim: sorted_wrt_mono_rel[rotated])
  show "e \<in> set (entries_at b m p) \<Longrightarrow> ex_Kind e = kind \<and> ex_Method e = m \<and> ex_Path e = p \<and> ex_seq e \<le> n"
    using l by (auto simp: list_inv_def)
qed

lemma entries_at_subset: "set (entries_at (bucket_of k s) m p) \<subseteq> set (all_entries s)"
proof -
  have "set (entries_at b m p) \<subseteq> set (concat (map snd b))" for b
    by (cases "map_of b (m, p)") (auto simp: entries_at_def dest!: map_of_SomeD intro: bexI)
  then show ?thesis by (cases k) (auto simp: all_entries_def bucket_of_def)
qed

lemma matched_entry_None:
  assumes "matched_entry C meth path tmpl req s = None" "c \<in> candidates s meth path tmpl"
  shows "\<not> Matches C (ex_Request c) req"
  using assms
  by (cases "ex_Request c = None")
    (auto simp: matched_entry_def candidates_def Let_def cmp_or_def dest: newestMatch_None split: option.splits)

lemma matched_entry_Some:
  assumes inv: "match_inv C s" and m: "matched_entry C meth path tmpl req s = Some e"
  shows "e \<in> candidates s meth path tmpl \<and> Matches C (ex_Request e) req \<and>
    (\<forall>c \<in> candidates s meth path tmpl. Matches C (ex_Request c) req \<longrightarrow> rank c \<le> rank e)"
proof -
  let ?x = "entries_at (mt_exact s) meth path" and ?t = "entries_at (mt_template s) meth tmpl"
  have bx: "bucket_inv C KindExact (mt_seq s) (mt_exact s)" and bt: "bucket_inv C KindTemplate (mt_seq s) (mt_template s)"
    using inv by (simp_all add: match_inv_def)
  note sx = entries_at_facts[OF bx, where m = meth and p = path]
    and st = entries_at_facts[OF bt, where m = meth and p = tmpl]
  note Some_x = newestMatch_Some[OF _ sx(1)] and Some_t = newestMatch_Some[OF _ st(1)]
  consider (1) "newestMatch C ?x req False = Some e"
    | (2) "newestMatch C ?x req False = None" "newestMatch C ?x req True = Some e"
    | (3) "newestMatch C ?x req False = None" "newestMatch C ?x req True = None" "newestMatch C ?t req False = Some e"
    | (4) "newestMatch C ?x req False = None" "newestMatch C ?x req True = None" "newestMatch C ?t req False = None"
        "newestMatch C ?t req True = Some e"
    using m by (auto simp: matched_entry_def Let_def cmp_or_def split: option.splits)
  note cases = this
  have tx: "tier c = (if ex_Request c = None then 2 else 3)" if "c \<in> set ?x" for c
    using sx(2)[OF that] by (simp add: tier_def)
  have tt: "tier c = (if ex_Request c = None then 0 else 1)" if "c \<in> set ?t" for c
    using st(2)[OF that] by (simp add: tier_def)
  from cases show ?thesis
  proof cases
    case 1
    from Some_x[OF 1] show ?thesis
      by (auto simp: candidates_def rank_def tx tt split: if_splits)
  next
    case 2
    from Some_x[OF 2(2)] newestMatch_None[OF 2(1)] show ?thesis
      by (auto simp: candidates_def rank_def tx tt split: if_splits)
  next
    case 3
    have "\<not> Matches C (ex_Request c) req" if "c \<in> set ?x" for c
      using newestMatch_None[OF 3(1) that] newestMatch_None[OF 3(2) that] by blast
    with Some_t[OF 3(3)] show ?thesis
      by (auto simp: candidates_def rank_def tt split: if_splits)
  next
    case 4
    have "\<not> Matches C (ex_Request c) req" if "c \<in> set ?x" for c
      using newestMatch_None[OF 4(1) that] newestMatch_None[OF 4(2) that] by blast
    moreover have "ex_Request c = None" if "c \<in> set ?t" "Matches C (ex_Request c) req" for c
      using newestMatch_None[OF 4(3) that(1)] that(2) by blast
    ultimately show ?thesis
      using Some_t[OF 4(4)] by (auto simp: candidates_def rank_def tt)
  qed
qed

lemma candidates_hits:
  assumes "match_inv C s" "e \<in> candidates s meth path tmpl"
  shows "\<exists>n. mt_hits s (ex_ID e) = Some n"
proof -
  have "e \<in> set (all_entries s)"
    using assms(2) entries_at_subset[of KindExact s meth path] entries_at_subset[of KindTemplate s meth tmpl]
    by (auto simp: candidates_def bucket_of_def)
  then have "ex_ID e \<in> dom (mt_hits s)" using assms(1) by (auto simp: match_inv_def ids_def)
  then show ?thesis by auto
qed

text \<open>Registration, seen from the outside: the stored expectation and the list it ends.\<close>

definition stored_of :: "string \<Rightarrow> Expectation \<Rightarrow> Match_Store \<Rightarrow> Expectation" where
  "stored_of uid e s = e\<lparr>ex_Request := (if IsEmpty (ex_Request e) then None else ex_Request e),
     ex_ID := uid, ex_seq := mt_seq s + 1\<rparr>"

lemma Put_fst: "fst (Put C uid e s) = stored_of uid e s"
  by (simp add: Put_def stored_of_def Let_def)

lemma Put_entry:
  "stored_of uid e s \<in> set (entries_at (bucket_of (ex_Kind e) (snd (Put C uid e s))) (ex_Method e) (ex_Path e))"
  "mt_hits (snd (Put C uid e s)) uid = Some 0" "mt_seq (snd (Put C uid e s)) = mt_seq s + 1"
  by (simp_all add: Put_def stored_of_def Let_def)

lemma matched_entry_after_Put:
  assumes inv: "match_inv C s" and fresh: "uid \<notin> dom (mt_hits s)"
    and key: "ex_Method e = meth" "ex_Path e = (if ex_Kind e = KindExact then path else tmpl)"
    and m: "Matches C (ex_Request (stored_of uid e s)) req"
    and top: "\<And>c. c \<in> candidates (snd (Put C uid e s)) meth path tmpl \<Longrightarrow> Matches C (ex_Request c) req \<Longrightarrow>
      tier c \<le> tier (stored_of uid e s)"
  shows "matched_entry C meth path tmpl req (snd (Put C uid e s)) = Some (stored_of uid e s)"
proof -
  let ?s = "snd (Put C uid e s)" and ?e = "stored_of uid e s"
  have inv': "match_inv C ?s" using inv fresh by (rule Put_inv)
  have e: "?e \<in> candidates ?s meth path tmpl"
    using Put_entry(1)[of uid e s C] key by (cases "ex_Kind e") (simp_all add: candidates_def bucket_of_def)
  obtain f where f: "matched_entry C meth path tmpl req ?s = Some f"
    using matched_entry_None[OF _ e] m by (cases "matched_entry C meth path tmpl req ?s") auto
  note f' = matched_entry_Some[OF inv' f]
  then have "tier ?e \<le> tier f" "tier f \<le> tier ?e"
    using e m top by (auto simp: rank_def)
  with f' e m have seq: "ex_seq ?e \<le> ex_seq f" "tier f = tier ?e" by (auto simp: rank_def)
  have binv: "bucket_inv C k (mt_seq ?s) (bucket_of k ?s)" for k using inv' by (simp add: match_inv_buckets)
  define p where "p = (\<lambda>k. if k = KindExact then path else tmpl)"
  have in_bucket: "c \<in> set (entries_at (bucket_of (ex_Kind c) ?s) meth (p (ex_Kind c)))"
    if "c \<in> candidates ?s meth path tmpl" for c
    using that entries_at_facts(2)[OF binv[of KindExact]] entries_at_facts(2)[OF binv[of KindTemplate]]
    by (auto simp: candidates_def bucket_of_def p_def)
  have kind: "ex_Kind f = ex_Kind ?e"
    using seq(2) by (cases "ex_Kind f"; cases "ex_Kind ?e") (auto simp: tier_def split: if_splits)
  let ?l = "entries_at (bucket_of (ex_Kind f) ?s) meth (p (ex_Kind f))"
  have fl: "f \<in> set ?l" "?e \<in> set ?l"
    using in_bucket[of f] in_bucket[OF e] f' kind by auto
  have "ex_seq f \<le> mt_seq ?s" using entries_at_facts(2)[OF binv fl(1)] by blast
  then have "ex_seq f = ex_seq ?e"
    using seq(1) by (simp add: Put_entry(3) stored_of_def)
  moreover have "sorted_wrt (\<lambda>a b. ex_seq a < ex_seq b) ?l" by (rule entries_at_facts(1)[OF binv])
  then have "sorted_wrt (<) (map ex_seq ?l)" by (simp add: sorted_wrt_map)
  then have "inj_on ex_seq (set ?l)" by (simp add: strict_sorted_iff distinct_map)
  ultimately show ?thesis using f fl by (auto dest: inj_onD)
qed

text \<open>Asking for the same request again and again, as a client that retries does.\<close>

fun calls :: "json_codec \<Rightarrow> string \<Rightarrow> string \<Rightarrow> string \<Rightarrow> MatchableRequest \<Rightarrow> nat \<Rightarrow> Match_Store
    \<Rightarrow> Expectation option list" where
  "calls C meth path tmpl req 0 s = []"
| "calls C meth path tmpl req (Suc n) s =
     (case Find C meth path tmpl req s of (r, s') \<Rightarrow> r # calls C meth path tmpl req n s')"

lemma matched_entry_hits: "matched_entry C meth path tmpl req (s\<lparr>mt_hits := h\<rparr>) = matched_entry C meth path tmpl req s"
  by (simp add: matched_entry_def)

lemma calls_count:
  assumes "matched_entry C meth path tmpl req s = Some e" "mt_hits s (ex_ID e) = Some n" "i < k"
  shows "calls C meth path tmpl req k s ! i = Some (e\<lparr>ex_Hits := n + 1 + int i\<rparr>)"
  using assms
proof (induction k arbitrary: s n i)
  case 0
  then show ?case by simp
next
  case (Suc k)
  let ?s = "s\<lparr>mt_hits := (mt_hits s)(ex_ID e \<mapsto> n + 1)\<rparr>"
  have f: "Find C meth path tmpl req s = (Some (e\<lparr>ex_Hits := n + 1\<rparr>), ?s)"
    using Suc.prems by (simp add: Find_matched_entry)
  show ?case
  proof (cases i)
    case 0
    with f show ?thesis by simp
  next
    case (Suc j)
    have "calls C meth path tmpl req k ?s ! j = Some (e\<lparr>ex_Hits := n + 1 + 1 + int j\<rparr>)"
      using Suc.prems Suc by (intro Suc.IH) (simp_all add: matched_entry_hits)
    with f Suc show ?thesis by (simp add: add.assoc)
  qed
qed

section \<open>Properties\<close>

text \<open>
  C25. In every reachable store: ids are unique and are exactly the ids that have a hit counter;
  each list is not empty, sits under the key and kind of its entries, is in registration order,
  holds normalised matchers, and holds no two entries whose matchers the store considers equal.
\<close>
theorem match_store_invariant:
  assumes "match_reachable C s"
  shows "match_inv C s"
  using assms by (rule match_reachable_inv)

text \<open>
  C5. Lookup precedence. \<^verbatim>\<open>Find\<close> answers nothing exactly when no stub on the concrete path or
  on the operation's template matches; otherwise it answers the matching stub of the highest tier
  (exact path before template, request matcher before catch-all), the newest within the tier, with
  its hit counter increased by one, and changes nothing else in the store.
\<close>
theorem find_precedence:
  assumes "match_reachable C s"
  shows "case Find C meth path tmpl req s of
      (None, s') \<Rightarrow> s' = s \<and> (\<forall>c \<in> candidates s meth path tmpl. \<not> Matches C (ex_Request c) req)
    | (Some r, s') \<Rightarrow> \<exists>e \<in> candidates s meth path tmpl. \<exists>n.
        mt_hits s (ex_ID e) = Some n \<and> r = e\<lparr>ex_Hits := n + 1\<rparr> \<and>
        s' = s\<lparr>mt_hits := (mt_hits s)(ex_ID e \<mapsto> n + 1)\<rparr> \<and> Matches C (ex_Request e) req \<and>
        (\<forall>c \<in> candidates s meth path tmpl. Matches C (ex_Request c) req \<longrightarrow> rank c \<le> rank e)"
proof -
  have inv: "match_inv C s" using assms by (rule match_reachable_inv)
  show ?thesis
  proof (cases "matched_entry C meth path tmpl req s")
    case None
    then show ?thesis using matched_entry_None[OF None] by (simp add: Find_matched_entry)
  next
    case (Some e)
    note e = matched_entry_Some[OF inv Some]
    with candidates_hits[OF inv] obtain n where "mt_hits s (ex_ID e) = Some n" by blast
    with Some e show ?thesis by (auto simp: Find_matched_entry)
  qed
qed

definition demo_expectation :: Expectation where
  "demo_expectation = \<lparr>ex_ID = [], ex_Method = ''GET'', ex_Path = ''/api/v2/users/1'', ex_Kind = KindExact,
     ex_Request = None, ex_Response = \<lparr>rd_Status = 200, rd_Headers = [], rd_Body = ''a''\<rparr>,
     ex_Then = [\<lparr>rd_Status = 500, rd_Headers = [], rd_Body = ''b''\<rparr>], ex_Hits = 0, ex_seq = 0\<rparr>"

lemma demo_reachable: "match_reachable demo_codec (snd (Put demo_codec ''id'' demo_expectation Match_NewStore))"
  by (rule match_reachable.step[OF match_reachable.init], rule match_step.put) (simp add: Match_NewStore_def)

theorem match_store_invariant_witness:
  "match_inv demo_codec (snd (Put demo_codec ''id'' demo_expectation Match_NewStore))"
  by (rule match_store_invariant[OF demo_reachable])

theorem find_precedence_witness:
  "\<exists>e \<in> candidates (snd (Put demo_codec ''id'' demo_expectation Match_NewStore)) ''GET'' ''/api/v2/users/1'' ''/api/v2/users/{id}''.
     fst (Find demo_codec ''GET'' ''/api/v2/users/1'' ''/api/v2/users/{id}'' demo_request
       (snd (Put demo_codec ''id'' demo_expectation Match_NewStore))) = Some (e\<lparr>ex_Hits := 1\<rparr>)"
proof -
  let ?s = "snd (Put demo_codec ''id'' demo_expectation Match_NewStore)"
  let ?e = "stored_of ''id'' demo_expectation Match_NewStore"
  have s: "?s = \<lparr>mt_exact = [((''GET'', ''/api/v2/users/1''), [?e])], mt_template = [], mt_hits = [''id'' \<mapsto> 0], mt_seq = 1\<rparr>"
    by (simp add: Put_def stored_of_def Let_def demo_expectation_def Match_NewStore_def bucket_of_def set_bucket_def
        entries_at_def forget_def fun_eq_iff)
  have "Matches demo_codec (ex_Request ?e) demo_request"
    by (simp add: stored_of_def IsEmpty_def demo_expectation_def)
  moreover have "candidates ?s ''GET'' ''/api/v2/users/1'' ''/api/v2/users/{id}'' = {?e}"
    by (simp add: s candidates_def entries_at_def)
  moreover have "mt_hits ?s (ex_ID ?e) = Some 0" by (simp add: s stored_of_def)
  ultimately show ?thesis
    using find_precedence[OF demo_reachable, of "''GET''" "''/api/v2/users/1''" "''/api/v2/users/{id}''" demo_request]
    by (auto split: prod.splits option.splits)
qed



section \<open>Near misses, listing and deletion\<close>

text \<open>Every stub registered for an operation: on its template, or on a concrete path that routes to it.\<close>

definition op_stubs :: "Match_Store \<Rightarrow> string \<Rightarrow> string \<Rightarrow> (string \<Rightarrow> string \<Rightarrow> string) \<Rightarrow> Expectation list" where
  "op_stubs s meth tmpl templateOf = entries_at (mt_template s) meth tmpl @
     concat (map snd (filter (\<lambda>((km, kp), l). km = meth \<and> templateOf meth kp = tmpl) (mt_exact s)))"

definition candidate_list :: "json_codec \<Rightarrow> string \<Rightarrow> string \<Rightarrow> string \<Rightarrow> MatchableRequest
    \<Rightarrow> (string \<Rightarrow> string \<Rightarrow> string) \<Rightarrow> Match_Store \<Rightarrow> (NearMiss \<times> nat) list" where
  "candidate_list C meth path tmpl req templateOf s =
     concat (map (near_miss C req []) (entries_at (mt_template s) meth tmpl)) @
     concat (map (\<lambda>((km, kp), l).
       if km \<noteq> meth \<or> templateOf meth kp \<noteq> tmpl then []
       else concat (map (near_miss C req
          (if kp \<noteq> path then [mismatch C ''path'' (JStr kp) (JStr path)] else [])) l)) (mt_exact s))"

definition nm_key :: "NearMiss \<times> nat \<Rightarrow> nat \<times> int" where
  "nm_key = (\<lambda>(nm, q). (length (nm_Differences nm), - int q))"

lemma NearMisses_list:
  "NearMisses C meth path tmpl req templateOf s =
     map fst (take maxNearMisses (sort_key nm_key (candidate_list C meth path tmpl req templateOf s)))"
  by (simp add: NearMisses_def candidate_list_def nm_key_def Let_def)

lemma length_near_miss: "extra \<noteq> [] \<or> \<not> Matches C (ex_Request e) req \<Longrightarrow> length (near_miss C req extra e) = 1"
  by (auto simp: near_miss_def Matches_def Let_def)

lemma near_miss_from:
  "x \<in> set (near_miss C req extra e) \<Longrightarrow> nm_Differences (fst x) \<noteq> [] \<and> nm_ExpectationID (fst x) = ex_ID e \<and>
     nm_Method (fst x) = ex_Method e \<and> nm_Path (fst x) = ex_Path e"
  by (auto simp: near_miss_def Let_def split: if_splits)

lemma length_concat_ones: "(\<And>x. x \<in> set xs \<Longrightarrow> length (f x) = 1) \<Longrightarrow> length (concat (map f xs)) = length xs"
  by (induction xs) auto

lemma length_candidate_list:
  assumes wf: "wf_map (mt_exact s)"
    and no: "\<And>c. c \<in> candidates s meth path tmpl \<Longrightarrow> \<not> Matches C (ex_Request c) req"
  shows "length (candidate_list C meth path tmpl req templateOf s) = length (op_stubs s meth tmpl templateOf)"
proof -
  let ?g = "\<lambda>((km, kp), l). if km \<noteq> meth \<or> templateOf meth kp \<noteq> tmpl then []
       else concat (map (near_miss C req (if kp \<noteq> path then [mismatch C ''path'' (JStr kp) (JStr path)] else [])) l)"
  have t: "length (concat (map (near_miss C req []) (entries_at (mt_template s) meth tmpl))) =
      length (entries_at (mt_template s) meth tmpl)"
    using no by (intro length_concat_ones length_near_miss) (simp add: candidates_def)
  have x: "length (?g q) = (if (\<lambda>((km, kp), l). km = meth \<and> templateOf meth kp = tmpl) q then length (snd q) else 0)"
    if q: "q \<in> set (mt_exact s)" for q
  proof -
    obtain km kp l where qq: "q = ((km, kp), l)" by (metis prod.exhaust)
    have "\<not> Matches C (ex_Request e) req" if "e \<in> set l" "km = meth" "kp = path" for e
      using q qq that wf no[of e] by (simp add: candidates_def entries_at_def)
    then show ?thesis
      by (auto simp: qq intro!: length_concat_ones length_near_miss)
  qed
  have "length (concat (map ?g xs)) = length (concat (map snd (filter (\<lambda>((km, kp), l). km = meth \<and> templateOf meth kp = tmpl) xs)))"
    if "set xs \<subseteq> set (mt_exact s)" for xs
    using that
  proof (induction xs)
    case (Cons q xs)
    then show ?case using x[of q] by auto
  qed simp
  with t show ?thesis by (simp add: candidate_list_def op_stubs_def)
qed

text \<open>
  The explanation of a 404. When no stub matches, \<^verbatim>\<open>NearMisses\<close> reports the stubs of the
  operation, all of them up to the limit of three, fewest differences first; each report has at
  least one difference and names a stub of the operation. So the report is empty exactly when
  nothing is registered for the operation.
\<close>
theorem near_misses_report:
  fixes templateOf :: "string \<Rightarrow> string \<Rightarrow> string"
  assumes reach: "match_reachable C s" and none: "fst (Find C meth path tmpl req s) = None"
  defines "nms \<equiv> NearMisses C meth path tmpl req templateOf s"
  shows "length nms = min 3 (length (op_stubs s meth tmpl templateOf))
    \<and> sorted (map (length \<circ> nm_Differences) nms)
    \<and> (\<forall>nm \<in> set nms. nm_Differences nm \<noteq> [] \<and>
        (\<exists>e \<in> set (op_stubs s meth tmpl templateOf).
           nm_ExpectationID nm = ex_ID e \<and> nm_Method nm = ex_Method e \<and> nm_Path nm = ex_Path e))"
proof -
  let ?c = "candidate_list C meth path tmpl req templateOf s"
  have inv: "match_inv C s" using reach by (rule match_reachable_inv)
  have no: "\<not> Matches C (ex_Request c) req" if "c \<in> candidates s meth path tmpl" for c
    using none that by (intro matched_entry_None[of C meth path tmpl req s])
      (auto simp: Find_matched_entry split: option.splits)
  have "wf_map (mt_exact s)" using inv by (simp add: match_inv_def bucket_inv_def)
  then have len: "length nms = min 3 (length (op_stubs s meth tmpl templateOf))"
    using length_candidate_list[OF _ no] by (simp add: nms_def NearMisses_list maxNearMisses_def)
  have "sorted (map nm_key (take maxNearMisses (sort_key nm_key ?c)))"
    by (simp add: take_map[symmetric] sorted_wrt_take)
  then have "sorted (map fst (map nm_key (take maxNearMisses (sort_key nm_key ?c))))"
    unfolding sorted_map sorted_wrt_map
    by (rule sorted_wrt_mono_rel[rotated]) (auto simp: less_eq_prod_def)
  moreover have "fst (nm_key x) = length (nm_Differences (fst x))" for x
    by (cases x) (simp add: nm_key_def)
  ultimately have sort: "sorted (map (length \<circ> nm_Differences) nms)"
    by (simp add: nms_def NearMisses_list comp_def)
  have "\<exists>e \<in> set (op_stubs s meth tmpl templateOf). nm_Differences (fst x) \<noteq> [] \<and> nm_ExpectationID (fst x) = ex_ID e \<and>
      nm_Method (fst x) = ex_Method e \<and> nm_Path (fst x) = ex_Path e" if "x \<in> set ?c" for x
    using that unfolding candidate_list_def op_stubs_def
    by (auto split: if_splits dest!: near_miss_from)
  then have "\<forall>nm \<in> set nms. nm_Differences nm \<noteq> [] \<and>
        (\<exists>e \<in> set (op_stubs s meth tmpl templateOf).
           nm_ExpectationID nm = ex_ID e \<and> nm_Method nm = ex_Method e \<and> nm_Path nm = ex_Path e)"
    by (auto simp: nms_def NearMisses_list dest!: in_set_takeD)
  with len sort show ?thesis by blast
qed

theorem near_misses_report_witness:
  "length (NearMisses demo_codec ''GET'' ''/api/v2/users/2'' ''t'' demo_request (\<lambda>_ _. ''t'')
     (snd (Put demo_codec ''id'' demo_expectation Match_NewStore))) = 1"
proof -
  let ?s = "snd (Put demo_codec ''id'' demo_expectation Match_NewStore)"
  have none: "fst (Find demo_codec ''GET'' ''/api/v2/users/2'' ''t'' demo_request ?s) = None"
    by (simp add: Find_def newestMatch_def cmp_or_def entries_at_def Put_def Let_def demo_expectation_def
        Match_NewStore_def bucket_of_def set_bucket_def)
  have "length (op_stubs ?s ''GET'' ''t'' (\<lambda>_ _. ''t'')) = 1"
    by (simp add: op_stubs_def entries_at_def Put_def Let_def demo_expectation_def
        Match_NewStore_def bucket_of_def set_bucket_def)
  with near_misses_report[OF demo_reachable none, of "\<lambda>_ _. ''t''"] show ?thesis by simp
qed

text \<open>
  Deleting by id is exact: it reports whether the id was registered, afterwards the id is
  unknown, every other stub is still found with the same hit count, and the store invariant holds.
\<close>
theorem delete_by_id_exact:
  assumes reach: "match_reachable C s" and del: "DeleteByID i s = (found, s')"
  shows "(found \<longleftrightarrow> i \<in> set (ids s)) \<and> GetByID i s' = None \<and> match_inv C s' \<and>
    (\<forall>j. j \<noteq> i \<longrightarrow> GetByID j s' = GetByID j s)"
proof -
  have inv: "match_inv C s" using reach by (rule match_reachable_inv)
  have inv': "match_inv C s'" using DeleteByID_inv[OF inv, of i] del by simp
  from DeleteByID_cases[OF inv, of i] show ?thesis
  proof (elim disjE exE conjE)
    assume "i \<notin> set (ids s)" "DeleteByID i s = (False, s)"
    with del inv show ?thesis by (auto simp: GetByID_def find_None_iff ids_def)
  next
    fix xs e ys s''
    assume d: "DeleteByID i s = (True, s'')" "all_entries s = xs @ e # ys" "ex_ID e = i" "all_entries s'' = xs @ ys"
      "mt_hits s'' = (mt_hits s)(i := None)"
    have "distinct (ids s)" using inv by (simp add: match_inv_def)
    with d(2,3) have out: "i \<notin> ex_ID ` set (xs @ ys)" by (auto simp: ids_def)
    have "find (\<lambda>e. ex_ID e = j) (xs @ e # ys) = find (\<lambda>e. ex_ID e = j) (xs @ ys)" if "j \<noteq> i" for j
      using that d(3) by (induction xs) auto
    moreover have "with_hits s' x = with_hits s x" if "find (\<lambda>e. ex_ID e = j) (xs @ ys) = Some x" "j \<noteq> i" for j x
      using find_SomeD[OF that(1)] that(2) d(1,5) del by (simp add: with_hits_def)
    ultimately have "GetByID j s' = GetByID j s" if "j \<noteq> i" for j
      using that d del by (cases "find (\<lambda>e. ex_ID e = j) (xs @ ys)") (auto simp: GetByID_def)
    moreover have "GetByID i s' = None"
    proof -
      have "s' = s''" using d(1) del by simp
      then have "find (\<lambda>e. ex_ID e = i) (all_entries s') = None"
        unfolding find_None_iff using out d(4) by (auto simp: image_iff)
      then show ?thesis by (simp add: GetByID_def)
    qed
    ultimately show ?thesis using d del inv' by (auto simp: ids_def)
  qed
qed

theorem delete_by_id_exact_witness:
  "GetByID ''id'' (snd (DeleteByID ''id'' (snd (Put demo_codec ''id'' demo_expectation Match_NewStore)))) = None
   \<and> fst (DeleteByID ''id'' (snd (Put demo_codec ''id'' demo_expectation Match_NewStore)))"
proof -
  let ?s = "snd (Put demo_codec ''id'' demo_expectation Match_NewStore)"
  have "''id'' \<in> set (ids ?s)"
    by (simp add: ids_def all_entries_def entries_at_def Put_def Let_def demo_expectation_def Match_NewStore_def
        bucket_of_def set_bucket_def)
  moreover obtain found s' where d: "DeleteByID ''id'' ?s = (found, s')" by fastforce
  ultimately show ?thesis using delete_by_id_exact[OF demo_reachable d] by simp
qed

text \<open>
  The listing is the store: \<^verbatim>\<open>List\<close> holds every registered stub exactly once, ordered by
  method and path, and each with the hit count that \<^verbatim>\<open>GetByID\<close> reports for it.
\<close>
theorem list_complete:
  assumes reach: "match_reachable C s"
  shows "mset (map ex_ID (List s)) = mset (ids s) \<and> distinct (map ex_ID (List s)) \<and>
    sorted (map (\<lambda>e. (ex_Method e, ex_Path e)) (List s)) \<and>
    (\<forall>e \<in> set (List s). GetByID (ex_ID e) s = Some e \<and> mt_hits s (ex_ID e) = Some (ex_Hits e))"
proof -
  have inv: "match_inv C s" using reach by (rule match_reachable_inv)
  have id: "ex_ID (with_hits s e) = ex_ID e" for e
    by (simp add: with_hits_def split: option.splits)
  have m: "mset (map ex_ID (List s)) = mset (ids s)"
  proof -
    have "mset (List s) = mset (map (with_hits s) (all_entries s))" by (simp add: List_def)
    then have "image_mset ex_ID (mset (List s)) = image_mset ex_ID (mset (map (with_hits s) (all_entries s)))" by simp
    then show ?thesis by (simp add: ids_def id image_mset.compositionality comp_def)
  qed
  have d: "distinct (ids s)" using inv by (simp add: match_inv_def)
  have "GetByID (ex_ID e) s = Some e \<and> mt_hits s (ex_ID e) = Some (ex_Hits e)" if "e \<in> set (List s)" for e
  proof -
    from that obtain x where x: "x \<in> set (all_entries s)" "e = with_hits s x" by (auto simp: List_def)
    have "ex_ID x \<in> dom (mt_hits s)" using inv x by (auto simp: match_inv_def ids_def)
    then obtain n where n: "mt_hits s (ex_ID x) = Some n" by auto
    obtain y where y: "find (\<lambda>e. ex_ID e = ex_ID x) (all_entries s) = Some y"
      using x(1) by (cases "find (\<lambda>e. ex_ID e = ex_ID x) (all_entries s)") (auto simp: find_None_iff)
    have "y = x"
      using find_SomeD[OF y] d x(1) by (auto simp: ids_def distinct_map dest: inj_onD)
    with y n x(2) show ?thesis by (simp add: GetByID_def id) (simp add: with_hits_def)
  qed
  moreover have "distinct (map ex_ID (List s))" using m d mset_eq_imp_distinct_iff by metis
  moreover have "sorted (map (\<lambda>e. (ex_Method e, ex_Path e)) (List s))" by (simp add: List_def)
  ultimately show ?thesis using m by blast
qed

theorem list_complete_witness:
  "map ex_ID (List (snd (Put demo_codec ''id'' demo_expectation Match_NewStore))) = [''id'']"
proof -
  let ?s = "snd (Put demo_codec ''id'' demo_expectation Match_NewStore)"
  have "mset (ids ?s) = {#''id''#}"
    by (simp add: ids_def all_entries_def entries_at_def Put_def Let_def demo_expectation_def Match_NewStore_def
        bucket_of_def set_bucket_def)
  with list_complete[OF demo_reachable] have "mset (map ex_ID (List ?s)) = {#''id''#}" by metis
  then show ?thesis by (rule mset_single_iff[THEN iffD1])
qed

end
