(* ===== verification/Mgmt.thy ===== *)
theory Mgmt
  imports Api_Spec Matches_Store Journal
begin

text \<open>
  The Management API: the generic handler of an operation and the handler of the event stream,
  \<^verbatim>\<open>internal/mgmtapi/handler.go\<close>, their registration, \<^verbatim>\<open>mount.go\<close>, and the control plane of the
  expectations, \<^verbatim>\<open>internal/admin0/expectations.go\<close>. A handler returns what it does with the journal
  slot, its response and the store. \<open>hdr\<close> is the header map of the writer when the handler is
  called, which the CORS middleware may have written to.
\<close>

section \<open>Headers of a response\<close>

definition header_set :: "string \<Rightarrow> string \<Rightarrow> http_header \<Rightarrow> http_header" where
  "header_set k v h = AList.update (CanonicalHeaderKey k) [v] h"

definition header_add :: "string \<Rightarrow> string \<Rightarrow> http_header \<Rightarrow> http_header" where
  "header_add k v h = AList.update (CanonicalHeaderKey k) (header_values h k @ [v]) h"

definition over_header :: "http_header \<Rightarrow> response \<Rightarrow> response" where
  "over_header hdr resp = resp\<lparr>rs_headers := maps_copy hdr (rs_headers resp)\<rparr>"

section \<open>The generic handler\<close>

record GenericHandler =
  gh_Op :: Operation
  gh_Validator :: Validator
  gh_Strict :: bool

definition ellipsis :: string where
  "ellipsis = [CHR 0xE2, CHR 0x80, CHR 0xA6]"

definition noMatchMessage :: "string \<Rightarrow> string \<Rightarrow> string \<Rightarrow> NearMiss list \<Rightarrow> string" where
  "noMatchMessage m path opTemplate nm =
     (let msg = ''no registered match for '' @ m @ '' '' @ path
      in case nm of
           [] \<Rightarrow> msg @ ''; no stubs registered for '' @ m @ '' '' @ opTemplate
         | n # _ \<Rightarrow>
             (let diffs = nm_Differences n;
                  fields = map df_Field (take (min (length diffs) 3) diffs);
                  msg' = msg @ ''; closest stub differed on '' @ str_join '', '' fields
              in if length diffs > 3 then msg' @ '', '' @ ellipsis else msg'))"

definition write_headers :: "(string, string) gomap \<Rightarrow> http_header \<Rightarrow> http_header" where
  "write_headers hs hdr =
     (let h1 = fold (\<lambda>(k, v) h. if CanonicalHeaderKey k = ''Vary'' then header_add k v h else header_set k v h) hs hdr
      in if header_get h1 ''Content-Type'' = [] then header_set ''Content-Type'' ''application/json'' h1 else h1)"

definition respond :: "GenericHandler \<Rightarrow> http_header \<Rightarrow> Expectation \<Rightarrow> handler_act list \<times> response" where
  "respond h hdr e =
     (let res = Served e
      in ([Matched (ex_ID e)],
          case ValidateResponse (gh_Validator h) (gh_Op h) (rd_Status res) (rd_Body res) of
            Some err \<Rightarrow>
              if gh_Strict h then
                over_header hdr (WriteMgmt 500 ''Internal Server Error'' (''registered match violates schema: '' @ error_text err) ''invalid_match'')
              else \<lparr>rs_status = rd_Status res, rs_headers = write_headers (rd_Headers res) hdr, rs_body = TextBody (rd_Body res)\<rparr>
          | None \<Rightarrow> \<lparr>rs_status = rd_Status res, rs_headers = write_headers (rd_Headers res) hdr, rs_body = TextBody (rd_Body res)\<rparr>))"

definition template_of :: "Validator \<Rightarrow> string \<Rightarrow> string \<Rightarrow> string" where
  "template_of v m path = (case Resolve v m path of Inl _ \<Rightarrow> [] | Inr op \<Rightarrow> op_Template op)"

definition Generic_ServeHTTP :: "json_codec \<Rightarrow> GenericHandler \<Rightarrow> http_header \<Rightarrow> int \<Rightarrow> request \<Rightarrow> Match_Store
    \<Rightarrow> handler_act list \<times> response \<times> Match_Store" where
  "Generic_ServeHTTP C h hdr contentLength r s =
     (case (if contentLength \<noteq> 0 then (case rq_Body r of None \<Rightarrow> ([], None) | Some b \<Rightarrow> b) else ([], None)) of
        (_, Some err) \<Rightarrow> ([], over_header hdr (WriteMgmt 400 ''Bad Request'' (''read body: '' @ err) ''invalid_request''), s)
      | (body, None) \<Rightarrow>
          (case ValidateRequest (gh_Validator h) r of
             Some err \<Rightarrow> ([], over_header hdr (WriteMgmt 400 ''Bad Request''
                 (conciseValidationError (vl_quote (gh_Validator h)) err) ''invalid_request''), s)
           | None \<Rightarrow>
               (let req = \<lparr>mq_Query = rq_Query r, mq_Headers = rq_Header r, mq_Body = body\<rparr>;
                    tmpl = op_Template (gh_Op h)
                in case Find C (rq_Method r) (rq_Path r) tmpl req s of
                     (Some e, s') \<Rightarrow> (case respond h hdr e of (acts, resp) \<Rightarrow> (acts, resp, s'))
                   | (None, s') \<Rightarrow>
                       (let nm = NearMisses C (rq_Method r) (rq_Path r) tmpl req (template_of (gh_Validator h)) s'
                        in ([NoMatch nm], over_header hdr (WriteMgmt 404 ''Not Found''
                             (noMatchMessage (rq_Method r) (rq_Path r) tmpl nm) ''no_match''), s')))))"

section \<open>The event stream\<close>

text \<open>The writer that marks the call when the stream answers 2xx: what it does for each call it gets.\<close>

fun markOn2xx_call :: "writer_call \<Rightarrow> bool \<Rightarrow> handler_act list \<times> bool" where
  "markOn2xx_call (WriteHeader code) wrote =
     ((if \<not> wrote \<and> 200 \<le> code \<and> code < 300 then [Matched []] else []) @ [Respond (WriteHeader code)], True)"
| "markOn2xx_call (WriteBytes b) wrote =
     ((if wrote then [] else [Matched [], Respond (WriteHeader 200)]) @ [Respond (WriteBytes b)], True)"
| "markOn2xx_call Flush wrote =
     ((if wrote then [] else [Matched [], Respond (WriteHeader 200)]) @ [Respond Flush], True)"

fun markOn2xx :: "bool \<Rightarrow> writer_call list \<Rightarrow> handler_act list" where
  "markOn2xx wrote [] = []"
| "markOn2xx wrote (c # cs) = (case markOn2xx_call c wrote of (acts, wrote') \<Rightarrow> acts @ markOn2xx wrote' cs)"

text \<open>Either the answer of a stub, or what the stream does with the wrapped writer.\<close>

definition Events_ServeHTTP :: "json_codec \<Rightarrow> GenericHandler \<Rightarrow> http_header \<Rightarrow> (request \<Rightarrow> writer_call list) \<Rightarrow> request \<Rightarrow> Match_Store
    \<Rightarrow> (handler_act list \<times> response + handler_act list) \<times> Match_Store" where
  "Events_ServeHTTP C h hdr stream r s =
     (case Find C (rq_Method r) (rq_Path r) (op_Template (gh_Op h)) \<lparr>mq_Query = rq_Query r, mq_Headers = rq_Header r, mq_Body = []\<rparr> s of
        (None, s') \<Rightarrow> (Inr (markOn2xx False (stream r)), s')
      | (Some e, s') \<Rightarrow> (Inl (respond h hdr e), s'))"

section \<open>Mounting\<close>

fun str_contains :: "string \<Rightarrow> string \<Rightarrow> bool" where
  "str_contains [] sub = (sub = [])"
| "str_contains (c # cs) sub = (has_prefix (c # cs) sub \<or> str_contains cs sub)"

definition isRouteConflict :: "string \<Rightarrow> bool" where
  "isRouteConflict msg \<longleftrightarrow> str_contains msg ''conflict'' \<or> str_contains msg ''existing pattern'' \<or> str_contains msg ''duplicate''"

text \<open>
  What is registered for an operation: the handler of its stubs, or for the event stream the one that
  looks at them first, behind the bearer check for an audience. \<open>router\<close> is the registration with the
  chi router: the routes afterwards, or the value it panics with.
\<close>

record MountOpts =
  mn_Spec :: Spec
  mn_Validator :: Validator
  mn_Strict :: bool
  mn_RequireAudience :: string
  mn_EventsHandler :: bool

datatype inner_handler = Generic GenericHandler | EventsStubs GenericHandler

record mounted =
  mh_RequireAudience :: string
  mh_inner :: inner_handler

type_synonym 'r routing = "'r \<Rightarrow> string \<Rightarrow> string \<Rightarrow> mounted \<Rightarrow> string + 'r"

definition mount_handler :: "MountOpts \<Rightarrow> Operation \<Rightarrow> mounted" where
  "mount_handler opts op =
     (let generic = \<lparr>gh_Op = op, gh_Validator = mn_Validator opts, gh_Strict = mn_Strict opts\<rparr>
      in \<lparr>mh_RequireAudience = mn_RequireAudience opts,
          mh_inner = (if mn_EventsHandler opts \<and> os_ID (op_Op op) = SubscribeEventsOperationID then EventsStubs generic else Generic generic)\<rparr>)"

definition safeHandle :: "'r routing \<Rightarrow> string \<Rightarrow> string \<Rightarrow> mounted \<Rightarrow> 'r \<Rightarrow> string option \<times> 'r" where
  "safeHandle router m path h rt = (case router rt m path h of
      Inl rec \<Rightarrow> (Some (''route conflict '' @ m @ '' '' @ path @ '': '' @ rec), rt)
    | Inr rt' \<Rightarrow> (None, rt'))"

fun mount_all :: "'r routing \<Rightarrow> MountOpts \<Rightarrow> Operation list \<Rightarrow> 'r \<Rightarrow> string + 'r" where
  "mount_all router opts [] rt = Inr rt"
| "mount_all router opts (op # ops) rt = (case safeHandle router (op_Method op) (op_Template op) (mount_handler opts op) rt of
      (Some err, rt') \<Rightarrow> if \<not> isRouteConflict err then Inl err else mount_all router opts ops rt'
    | (None, rt') \<Rightarrow> mount_all router opts ops rt')"

definition Mgmt_Mount :: "'r routing \<Rightarrow> MountOpts \<Rightarrow> 'r \<Rightarrow> string + 'r" where
  "Mgmt_Mount router opts rt = mount_all router opts (Operations (mn_Spec opts)) rt"

definition Mgmt_NotFound :: "(request \<Rightarrow> response) \<Rightarrow> request \<Rightarrow> response" where
  "Mgmt_NotFound prev r =
     (if \<not> has_prefix (rq_Path r) ''/api/v2/'' then prev r
      else WriteMgmt 404 ''Not Found'' (''no Management API operation for '' @ rq_Method r @ '' '' @ rq_Path r) ''unknown_operation'')"

definition Mgmt_MethodNotAllowed :: "request \<Rightarrow> response" where
  "Mgmt_MethodNotAllowed r =
     (if \<not> has_prefix (rq_Path r) ''/api/v2/'' then
        \<lparr>rs_status = 405, rs_headers = [(''Content-Type'', [''text/plain; charset=utf-8'']), (''X-Content-Type-Options'', [''nosniff''])],
         rs_body = TextBody (''405 method not allowed'' @ [CHR 0x0A])\<rparr>
      else WriteMgmt 405 ''Method Not Allowed'' (rq_Method r @ '' not supported for '' @ rq_Path r) ''method_not_allowed'')"

section \<open>The control plane of the expectations\<close>

record expectationBody =
  eb_Method :: string
  eb_Path :: string
  eb_Request :: "RequestMatcher option"
  eb_Response :: ResponseDef
  eb_Then :: "ResponseDef list"

text \<open>What an admin handler ends with: a response, or the panic of a validator.\<close>

type_synonym 's handled = "(unit + response) \<times> 's"

definition invalid_body :: "string \<Rightarrow> response" where
  "invalid_body msg = WriteMgmt 400 ''Bad Request'' msg ''invalid_body''"

text \<open>The first problem of the later answers: its message and code. \<open>Inl ()\<close> is a panic.\<close>

fun validateThen :: "Validator \<Rightarrow> Operation \<Rightarrow> nat \<Rightarrow> ResponseDef list \<Rightarrow> unit + (string \<times> string) option" where
  "validateThen v op i [] = Inr None"
| "validateThen v op i (t # ts) =
     (let ix = ''then['' @ nat_str i @ '']''
      in if rd_Status t = 0 then Inr (Some (ix @ ''.status is required'', ''invalid_body''))
         else if os_ID (op_Op op) = SubscribeEventsOperationID \<and> rd_Status t < 400 then
           Inr (Some (''GET /api/v2/events accepts only error stubs (status >= 400); '' @ ix @ '' has status '' @ itoa (rd_Status t), ''invalid_match''))
         else (case ValidateRegistration v op (rd_Status t) (rd_Body t) of
             Panics \<Rightarrow> Inl ()
           | Invalid err \<Rightarrow> Inr (Some (''registered '' @ ix @ '' violates schema for status '' @ itoa (rd_Status t) @ '': '' @ error_text err, ''invalid_match''))
           | Valid \<Rightarrow> validateThen v op (Suc i) ts))"

text \<open>The checks of the optional request matcher, in order.\<close>

definition matcher_problem :: "(kin_error list \<Rightarrow> string) \<Rightarrow> Validator \<Rightarrow> Operation \<Rightarrow> RequestMatcher option \<Rightarrow> response option" where
  "matcher_problem kept v op req = (case req of
      None \<Rightarrow> None
    | Some m \<Rightarrow>
        (case ValidateRequestMatcher kept v op (rm_Body m) of
           Some err \<Rightarrow> Some (WriteMgmt 400 ''Bad Request'' (''request matcher body violates request schema: '' @ error_text err) ''invalid_request_match'')
         | None \<Rightarrow> (case ValidateQueryMatcher v op (range_map (rm_Query m)) of
               Some err \<Rightarrow> Some (WriteMgmt 400 ''Bad Request'' (''request matcher query is invalid: '' @ error_text err) ''invalid_request_match'')
             | None \<Rightarrow> None)))"

text \<open>The expectation that a checked registration stores.\<close>

definition registration :: "Operation \<Rightarrow> string \<Rightarrow> expectationBody \<Rightarrow> Expectation" where
  "registration op m p =
     \<lparr>ex_ID = [], ex_Method = m, ex_Path = (if KindOf (eb_Path p) = KindTemplate then op_Template op else eb_Path p),
      ex_Kind = KindOf (eb_Path p), ex_Request = (if IsEmpty (eb_Request p) then None else eb_Request p),
      ex_Response = eb_Response p, ex_Then = eb_Then p, ex_Hits = 0, ex_seq = 0\<rparr>"

text \<open>The checks of a decoded registration: the refusal (or panic), or the operation it is for.\<close>

definition check_expectation :: "(kin_error list \<Rightarrow> string) \<Rightarrow> Validator \<Rightarrow> expectationBody \<Rightarrow> (unit + response) + Operation" where
  "check_expectation kept v p =
     (let m = to_upper (eb_Method p); status = rd_Status (eb_Response p)
      in if m = [] \<or> eb_Path p = [] then Inl (Inr (invalid_body ''method and path are required''))
         else if status = 0 then Inl (Inr (invalid_body ''response.status is required''))
         else (case Resolve v m (eb_Path p) of
             Inl _ \<Rightarrow> Inl (Inr (WriteMgmt 400 ''Bad Request'' (''no Management API operation for '' @ m @ '' '' @ eb_Path p) ''unknown_operation''))
           | Inr op \<Rightarrow>
               if os_ID (op_Op op) = SubscribeEventsOperationID \<and> status < 400 then
                 Inl (Inr (WriteMgmt 400 ''Bad Request''
                    ''GET /api/v2/events accepts only error stubs (status >= 400); push events with POST /admin0/events instead''
                    ''invalid_match''))
               else (case ValidateRegistration v op status (rd_Body (eb_Response p)) of
                   Panics \<Rightarrow> Inl (Inl ())
                 | Invalid err \<Rightarrow> Inl (Inr (WriteMgmt 400 ''Bad Request''
                     (''registered response violates schema for status '' @ itoa status @ '': '' @ error_text err) ''invalid_match''))
                 | Valid \<Rightarrow>
                     (case validateThen v op 0 (eb_Then p) of
                        Inl u \<Rightarrow> Inl (Inl u)
                      | Inr (Some (msg, code)) \<Rightarrow> Inl (Inr (WriteMgmt 400 ''Bad Request'' msg code))
                      | Inr None \<Rightarrow>
                          (case matcher_problem kept v op (ex_Request (registration op m p)) of
                             Some resp \<Rightarrow> Inl (Inr resp)
                           | None \<Rightarrow> Inr op)))))"

definition PostExpectationHandler :: "json_codec \<Rightarrow> (string \<Rightarrow> string + expectationBody) \<Rightarrow> (kin_error list \<Rightarrow> string) \<Rightarrow> Validator
    \<Rightarrow> string \<Rightarrow> string \<Rightarrow> Match_Store \<Rightarrow> Match_Store handled" where
  "PostExpectationHandler C decode kept v uid body s = (case decode body of
      Inl err \<Rightarrow> (Inr (invalid_body (''decode body: '' @ err)), s)
    | Inr p \<Rightarrow>
        (case check_expectation kept v p of
           Inl refusal \<Rightarrow> (refusal, s)
         | Inr op \<Rightarrow>
             (case Put C uid (registration op (to_upper (eb_Method p)) p) s of (stored, s') \<Rightarrow>
               (Inr \<lparr>rs_status = 201, rs_headers = [(''Content-Type'', [''application/json''])],
                  rs_body = JsonBody (JObj [(''id'', JStr (ex_ID stored))])\<rparr>, s'))))"

definition ListExpectationsHandler :: "(Expectation \<Rightarrow> json) \<Rightarrow> Match_Store \<Rightarrow> response" where
  "ListExpectationsHandler enc s = render_json 200 (JObj [(''expectations'', JArr (map enc (List s)))])"

record deleteExpectationBody =
  db_Method :: string
  db_Path :: string

text \<open>What can be read of the body; a read error is ignored.\<close>

definition DeleteExpectationsHandler :: "(string \<Rightarrow> string + deleteExpectationBody) \<Rightarrow> string \<Rightarrow> Match_Store \<Rightarrow> response \<times> Match_Store" where
  "DeleteExpectationsHandler decode raw s =
     (if length (trim_space raw) = 0 then (no_content 204, ResetAll s)
      else (case decode raw of
          Inl err \<Rightarrow> (invalid_body (''decode body: '' @ err), s)
        | Inr p \<Rightarrow>
            (let m = to_upper (db_Method p)
             in if m = [] \<or> db_Path p = [] then
                  (invalid_body (''method and path are required to clear one operation'' @ [CHR 0x27] @ ''s expectations''), s)
                else (no_content 204, ResetEndpoint m (db_Path p) (KindOf (db_Path p)) s))))"

definition DeleteExpectationByIDHandler :: "string \<Rightarrow> Match_Store \<Rightarrow> response \<times> Match_Store" where
  "DeleteExpectationByIDHandler i s =
     (if i = [] then (invalid_body ''expectation id is required'', s) else (no_content 204, snd (DeleteByID i s)))"

definition GetExpectationByIDHandler :: "(Expectation \<Rightarrow> json) \<Rightarrow> string \<Rightarrow> Match_Store \<Rightarrow> response" where
  "GetExpectationByIDHandler enc i s =
     (if i = [] then invalid_body ''expectation id is required''
      else (case GetByID i s of
          None \<Rightarrow> WriteMgmt 404 ''Not Found'' (''no expectation with id '' @ i) ''unknown_id''
        | Some e \<Rightarrow> render_json 200 (enc e)))"

end
