(* ===== verification/Mgmt_Props.thy ===== *)
theory Mgmt_Props
  imports Mgmt
begin

text \<open>
  What the Management API guarantees: a registration is accepted only if its answers fit the
  specification, everything that is refused leaves the store alone, what was accepted is served as
  it was registered even in strict mode, the event stream is only ever replaced by errors, and the
  journal verdict names what answered.
\<close>

section \<open>What the code relies on of the OpenAPI library\<close>

text \<open>The documented meaning of the error envelope schema that \<^verbatim>\<open>validator.go\<close> builds.\<close>

definition is_integer_json :: "json \<Rightarrow> bool" where
  "is_integer_json x = (case x of JNum q \<Rightarrow> snd (quotient_of q) = 1 | _ \<Rightarrow> False)"

definition is_string_json :: "json \<Rightarrow> bool" where
  "is_string_json x = (case x of JStr _ \<Rightarrow> True | _ \<Rightarrow> False)"

definition envelope_ok :: "json \<Rightarrow> bool" where
  "envelope_ok d = (case d of
      JObj m \<Rightarrow> list_all (\<lambda>(k, x). if k = ''statusCode'' then is_integer_json x
                   else k \<in> {''error'', ''message'', ''errorCode''} \<and> is_string_json x) m
                 \<and> {''statusCode'', ''error'', ''message''} \<subseteq> fst ` set m
    | _ \<Rightarrow> False)"

text \<open>
  A path template resolves to the operation it is the template of; a response without content has no
  schema; the envelope schema accepts the envelopes.
\<close>

definition validator_laws :: "Validator \<Rightarrow> bool" where
  "validator_laws v \<longleftrightarrow>
     (\<forall>m p op. Resolve v m p = Inr op \<longrightarrow> Resolve v m (op_Template op) = Inr op)
   \<and> (\<forall>m p op status resp c. Resolve v m p = Inr op \<longrightarrow> selectResponse (os_Responses (op_Op op)) status = Some (Some resp) \<longrightarrow>
        rp_Content resp = Some c \<longrightarrow> ct_len c = 0 \<longrightarrow> (\<forall>mime. ct_Get c mime = None))
   \<and> (\<forall>d. vl_envelope v d = None \<longleftrightarrow> envelope_ok d)"

section \<open>Validation\<close>

lemma envelope_status:
  assumes "envelope_ok d" obtains m q where "d = JObj m" "map_of m ''statusCode'' = Some (JNum q)"
proof -
  from assms obtain m where d: "d = JObj m" and keys: "''statusCode'' \<in> fst ` set m"
    and all: "list_all (\<lambda>(k, x). if k = ''statusCode'' then is_integer_json x
                   else k \<in> {''error'', ''message'', ''errorCode''} \<and> is_string_json x) m"
    by (cases d) (auto simp: envelope_ok_def)
  from keys obtain x where x: "map_of m ''statusCode'' = Some x"
    by (cases "map_of m ''statusCode''") (simp_all add: map_of_eq_None_iff)
  then have "is_integer_json x" using all by (auto simp: list_all_iff dest!: map_of_SomeD)
  then obtain q where "x = JNum q" by (cases x) (auto simp: is_integer_json_def)
  with d x show thesis using that by blast
qed

lemma registration_no_panic:
  assumes "validator_laws v" shows "ValidateRegistration v op status body \<noteq> Panics"
proof -
  have env: "validateErrorEnvelope v status body \<noteq> Panics"
  proof (cases "vl_json v body")
    case (Inr d)
    show ?thesis
    proof (cases "envelope_ok d")
      case True
      then obtain m q where "d = JObj m" "map_of m ''statusCode'' = Some (JNum q)" by (rule envelope_status)
      then show ?thesis using Inr by (simp add: validateErrorEnvelope_def split: option.splits)
    next
      case False
      then have "vl_envelope v d \<noteq> None" using assms by (simp add: validator_laws_def)
      then show ?thesis using Inr by (auto simp: validateErrorEnvelope_def)
    qed
  qed (simp add: validateErrorEnvelope_def)
  then show ?thesis
    by (auto simp: ValidateRegistration_def Let_def of_error_def split: option.splits if_splits sum.splits)
qed

text \<open>What passes at registration passes at serve time.\<close>

lemma registered_response_valid:
  assumes laws: "validator_laws v" and op: "Resolve v m p = Inr op" and ok: "ValidateRegistration v op status body = Valid"
  shows "ValidateResponse v op status body = None"
proof -
  obtain resp where sel: "selectResponse (os_Responses (op_Op op)) status = Some (Some resp)"
    using ok by (auto simp: ValidateRegistration_def split: option.splits)
  show ?thesis
  proof (cases "rp_Content resp")
    case (Some c)
    show ?thesis
    proof (cases "ct_len c = 0")
      case True
      then have "ct_Get c mime = None" for mime using laws op sel Some unfolding validator_laws_def by blast
      then show ?thesis using sel Some by (simp add: ValidateResponse_def json_schema_def)
    next
      case False
      then show ?thesis using ok sel Some
        by (auto simp: ValidateRegistration_def ValidateResponse_def of_error_def Let_def split: option.splits sum.splits)
    qed
  qed (use sel in \<open>simp add: ValidateResponse_def\<close>)
qed

text \<open>
  Relaxing \<^verbatim>\<open>required\<close> for partial matchers drops nothing else. The filtered error is absent exactly
  when every violation is about a missing required field; otherwise it lists, in order, the violations
  that are not; an error that is no list of violations is kept.
\<close>
lemma required_relaxed:
  "filterRequiredErrors kt (Some e) = None \<longleftrightarrow> (\<exists>es. as_multi e = Some es \<and> list_all required_error es)"
  "as_multi e = Some es \<Longrightarrow> filterRequiredErrors kt (Some e) = Some x \<Longrightarrow>
     as_multi x = Some (filter (\<lambda>y. \<not> required_error y) es)"
  "as_multi e = None \<Longrightarrow> filterRequiredErrors kt (Some e) = Some e"
  by (auto simp: filterRequiredErrors_def Let_def list_all_iff filter_empty_conv split: option.splits if_splits)

section \<open>Registered stubs fit the specification\<close>

definition answers :: "Expectation \<Rightarrow> ResponseDef list" where
  "answers e = ex_Response e # ex_Then e"

definition stub_ok :: "Validator \<Rightarrow> Expectation \<Rightarrow> bool" where
  "stub_ok v e \<longleftrightarrow> (\<exists>op. Resolve v (ex_Method e) (ex_Path e) = Inr op \<and>
     (\<forall>d \<in> set (answers e). ValidateRegistration v op (rd_Status d) (rd_Body d) = Valid \<and>
        (os_ID (op_Op op) = SubscribeEventsOperationID \<longrightarrow> 400 \<le> rd_Status d)))"

definition stubs_ok :: "Validator \<Rightarrow> Match_Store \<Rightarrow> bool" where
  "stubs_ok v s \<longleftrightarrow> (\<forall>e \<in> set (all_entries s). stub_ok v e)"

lemma Served_answer: "Served e \<in> set (answers e)"
proof (cases "ex_Then e = []")
  case False
  then have "0 < length (ex_Then e)" by simp
  then have "nat (min (ex_Hits e - 2) (int (length (ex_Then e)) - 1)) < length (ex_Then e)" by linarith
  then show ?thesis by (auto simp: Served_def answers_def)
qed (simp add: Served_def answers_def)

lemma validateThen_ok:
  "validateThen v op i ts = Inr None \<Longrightarrow> d \<in> set ts \<Longrightarrow> ValidateRegistration v op (rd_Status d) (rd_Body d) = Valid \<and>
     (os_ID (op_Op op) = SubscribeEventsOperationID \<longrightarrow> 400 \<le> rd_Status d)"
  by (induction v op i ts rule: validateThen.induct) (auto simp: Let_def split: if_splits check.splits)

lemma validateThen_no_panic: "validator_laws v \<Longrightarrow> validateThen v op i ts \<noteq> Inl u"
  by (induction v op i ts rule: validateThen.induct) (auto simp: Let_def registration_no_panic split: check.splits)

lemma check_expectation_ok:
  assumes laws: "validator_laws v" and ok: "check_expectation kept v p = Inr op"
  shows "stub_ok v (registration op (to_upper (eb_Method p)) p)"
proof -
  let ?m = "to_upper (eb_Method p)" and ?e = "registration op (to_upper (eb_Method p)) p"
  have res: "Resolve v ?m (eb_Path p) = Inr op" and thens: "validateThen v op 0 (eb_Then p) = Inr None"
    and first: "ValidateRegistration v op (rd_Status (eb_Response p)) (rd_Body (eb_Response p)) = Valid"
      "os_ID (op_Op op) = SubscribeEventsOperationID \<longrightarrow> 400 \<le> rd_Status (eb_Response p)"
    using ok by (auto simp: check_expectation_def Let_def split: if_splits sum.splits check.splits option.splits)
  have "Resolve v (ex_Method ?e) (ex_Path ?e) = Inr op"
    using res laws unfolding validator_laws_def registration_def by auto
  moreover have "ValidateRegistration v op (rd_Status d) (rd_Body d) = Valid \<and>
      (os_ID (op_Op op) = SubscribeEventsOperationID \<longrightarrow> 400 \<le> rd_Status d)" if "d \<in> set (answers ?e)" for d
    using that validateThen_ok[OF thens, of d] first by (auto simp: answers_def registration_def)
  ultimately show ?thesis unfolding stub_ok_def by blast
qed

lemma check_expectation_refused:
  assumes laws: "validator_laws v" and bad: "check_expectation kept v p = Inl x"
  shows "\<exists>resp. x = Inr resp \<and> rs_status resp = 400"
proof -
  have "rs_status r = 400" if "matcher_problem kept v op q = Some r" for op q r
    using that by (auto simp: matcher_problem_def split: option.splits)
  then show ?thesis using bad validateThen_no_panic[OF laws] registration_no_panic[OF laws]
    by (auto simp: check_expectation_def invalid_body_def Let_def split: if_splits sum.splits check.splits option.splits)
qed

lemma Put_entries: "set (all_entries (snd (Put C uid e s))) \<subseteq> insert (fst (Put C uid e s)) (set (all_entries s))"
proof -
  have upd: "set (concat (map snd (AList.update k l b))) \<subseteq> set l \<union> set (concat (map snd b))" for k l and b :: bucket
    by (induction b) auto
  let ?x = "fst (Put C uid e s)" and ?b = "bucket_of (ex_Kind e) s"
  let ?l = "filter (\<lambda>y. \<not> requestMatcherEqual C (ex_Request y) (ex_Request ?x)) (entries_at ?b (ex_Method e) (ex_Path e)) @ [?x]"
  have bk: "bucket_of (ex_Kind e) (snd (Put C uid e s)) = AList.update (ex_Method e, ex_Path e) ?l ?b"
    by (auto simp: Put_def Let_def bucket_of_def set_bucket_def)
  have other: "k \<noteq> ex_Kind e \<Longrightarrow> bucket_of k (snd (Put C uid e s)) = bucket_of k s" for k
    by (cases k; cases "ex_Kind e"; auto simp: Put_def Let_def bucket_of_def set_bucket_def)
  have "set ?l \<subseteq> insert ?x (set (all_entries s))" using entries_at_subset[of "ex_Kind e" s] by auto
  moreover have "set (all_entries s') = set (concat (map snd (bucket_of KindExact s'))) \<union> set (concat (map snd (bucket_of KindTemplate s')))" for s'
    by (simp add: all_entries_def bucket_of_def)
  ultimately show ?thesis using upd[of "(ex_Method e, ex_Path e)" ?l ?b] bk other[of KindExact] other[of KindTemplate]
    by (cases "ex_Kind e") auto
qed

lemma stubs_ok_mono: "stubs_ok v s \<Longrightarrow> set (all_entries s') \<subseteq> set (all_entries s) \<Longrightarrow> stubs_ok v s'"
  by (auto simp: stubs_ok_def)

lemma post_stubs_ok:
  assumes laws: "validator_laws v" and ok: "stubs_ok v s"
  shows "stubs_ok v (snd (PostExpectationHandler C decode kept v uid body s))"
proof (cases "\<exists>p op. decode body = Inr p \<and> check_expectation kept v p = Inr op")
  case True
  then obtain p op where p: "decode body = Inr p" "check_expectation kept v p = Inr op" by blast
  let ?e = "registration op (to_upper (eb_Method p)) p"
  have "snd (PostExpectationHandler C decode kept v uid body s) = snd (Put C uid ?e s)"
    using p by (simp add: PostExpectationHandler_def split: prod.splits)
  moreover have "stub_ok v (fst (Put C uid ?e s))"
    using check_expectation_ok[OF laws p(2)] by (simp add: Put_def Let_def stub_ok_def answers_def)
  ultimately show ?thesis using Put_entries[of C uid ?e s] ok unfolding stubs_ok_def by auto
next
  case False
  then have "snd (PostExpectationHandler C decode kept v uid body s) = s"
    by (auto simp: PostExpectationHandler_def split: sum.splits)
  with ok show ?thesis by simp
qed


section \<open>Runs of the control plane and of the API\<close>

text \<open>
  Every call that touches the store: the four admin endpoints, the reset, a call of an operation and a
  call of the event stream. A fresh id is one that no stub has.
\<close>

inductive mgmt_step :: "json_codec \<Rightarrow> Validator \<Rightarrow> Match_Store \<Rightarrow> Match_Store \<Rightarrow> bool" for C v where
  post: "uid \<notin> dom (mt_hits s) \<Longrightarrow> mgmt_step C v s (snd (PostExpectationHandler C decode kept v uid body s))"
| delete: "mgmt_step C v s (snd (DeleteExpectationsHandler decode' raw s))"
| delete_id: "mgmt_step C v s (snd (DeleteExpectationByIDHandler i s))"
| reset: "mgmt_step C v s (ResetAll s)"
| serve: "mgmt_step C v s (snd (snd (Generic_ServeHTTP C h hdr n r s)))"
| events: "mgmt_step C v s (snd (Events_ServeHTTP C h hdr stream r s))"

inductive mgmt_reachable :: "json_codec \<Rightarrow> Validator \<Rightarrow> Match_Store \<Rightarrow> bool" for C v where
  init: "mgmt_reachable C v Match_NewStore"
| step: "mgmt_reachable C v s \<Longrightarrow> mgmt_step C v s s' \<Longrightarrow> mgmt_reachable C v s'"

lemma generic_cases:
  assumes "Generic_ServeHTTP C h hdr n r s = (acts, resp, s')"
  obtains (refused) "acts = []" "s' = s" "rs_status resp = 400"
  | (found) req e where "Find C (rq_Method r) (rq_Path r) (op_Template (gh_Op h)) req s = (Some e, s')"
      "respond h hdr e = (acts, resp)" "mq_Query req = rq_Query r" "mq_Headers req = rq_Header r"
  | (missed) req where "Find C (rq_Method r) (rq_Path r) (op_Template (gh_Op h)) req s = (None, s')"
      "acts = [NoMatch (NearMisses C (rq_Method r) (rq_Path r) (op_Template (gh_Op h)) req (template_of (gh_Validator h)) s')]"
      "rs_status resp = 404" "mq_Query req = rq_Query r" "mq_Headers req = rq_Header r"
proof -
  obtain body err where b: "(if n \<noteq> 0 then (case rq_Body r of None \<Rightarrow> ([], None) | Some b \<Rightarrow> b) else ([], None)) = (body, err)"
    by fastforce
  note run = assms[unfolded Generic_ServeHTTP_def b prod.case Let_def]
  let ?req = "\<lparr>mq_Query = rq_Query r, mq_Headers = rq_Header r, mq_Body = body\<rparr>"
  obtain o1 s1 where f: "Find C (rq_Method r) (rq_Path r) (op_Template (gh_Op h)) ?req s = (o1, s1)" by fastforce
  show thesis
  proof (cases "err = None \<and> ValidateRequest (gh_Validator h) r = None")
    case True
    show thesis
    proof (cases o1)
      case None
      with True run f show thesis using missed[of ?req] by (auto simp: over_header_def)
    next
      case (Some e)
      with True run f show thesis using found[of ?req e] by (auto split: prod.splits)
    qed
  next
    case False
    with run show thesis using refused by (cases err) (auto simp: over_header_def)
  qed
qed

lemma events_cases:
  assumes "Events_ServeHTTP C h hdr stream r s = (out, s')"
  obtains req o1 where "Find C (rq_Method r) (rq_Path r) (op_Template (gh_Op h)) req s = (o1, s')"
    "out = (case o1 of None \<Rightarrow> Inr (markOn2xx False (stream r)) | Some e \<Rightarrow> Inl (respond h hdr e))"
  using assms by (auto simp: Events_ServeHTTP_def split: prod.splits option.splits)

text \<open>Each such call is one or no operation of the store.\<close>

lemma mgmt_step_match: "mgmt_step C v s s' \<Longrightarrow> s' = s \<or> match_step C s s'"
proof (induction rule: mgmt_step.induct)
  case (post uid s decode kept body)
  have "match_step C s (snd (Put C uid e s))" for e using match_step.put post by blast
  then show ?case by (simp add: PostExpectationHandler_def split: sum.splits prod.splits) (metis snd_conv)
next
  case (delete s decode' raw)
  then show ?case
    by (auto simp: DeleteExpectationsHandler_def Let_def split: sum.splits intro: match_step.intros)
next
  case (delete_id s i)
  then show ?case by (auto simp: DeleteExpectationByIDHandler_def intro: match_step.intros)
next
  case (reset s)
  then show ?case by (simp add: match_step.reset_all)
next
  case (serve s h hdr n r)
  obtain acts resp s' where run: "Generic_ServeHTTP C h hdr n r s = (acts, resp, s')" by (metis prod_cases3)
  then have "s' = s \<or> match_step C s s'" by (cases rule: generic_cases) (simp, (metis match_step.find snd_conv)+)
  with run show ?case by simp
next
  case (events s h hdr stream r)
  obtain out s' where run: "Events_ServeHTTP C h hdr stream r s = (out, s')" by fastforce
  then show ?case by (rule events_cases) (use run in \<open>simp, metis match_step.find snd_conv\<close>)
qed

lemma mgmt_step_inv: "mgmt_step C v s s' \<Longrightarrow> match_inv C s \<Longrightarrow> match_inv C s'"
  using mgmt_step_match match_step_inv by blast

lemma ResetEndpoint_entries: "set (all_entries (ResetEndpoint m p k s)) \<subseteq> set (all_entries s)"
proof -
  have "set (concat (map snd (AList.delete key b))) \<subseteq> set (concat (map snd b))" for key and b :: bucket
    using set_delete_subset[of key b] by auto
  then show ?thesis unfolding ResetEndpoint_def all_entries_def set_append Let_def
    by (cases k) (simp_all add: set_bucket_def bucket_of_def del: set_concat, blast+)
qed

lemma mgmt_step_stubs:
  assumes "mgmt_step C v s s'" "validator_laws v" "match_inv C s" "stubs_ok v s"
  shows "stubs_ok v s'"
  using assms
proof (induction rule: mgmt_step.induct)
  case (post uid s decode kept body)
  then show ?case using post_stubs_ok by blast
next
  case (delete s decode' raw)
  have "set (all_entries (snd (DeleteExpectationsHandler decode' raw s))) \<subseteq> set (all_entries s)"
    using ResetEndpoint_entries[of _ _ _ s]
    by (auto simp: DeleteExpectationsHandler_def Let_def ResetAll_def all_entries_def split: sum.splits if_splits)
  with delete show ?case using stubs_ok_mono by blast
next
  case (delete_id s i)
  have "set (all_entries (snd (DeleteByID i s))) \<subseteq> set (all_entries s)"
    using DeleteByID_cases[OF delete_id.prems(2), of i] by auto
  with delete_id show ?case using stubs_ok_mono by (auto simp: DeleteExpectationByIDHandler_def)
next
  case (reset s)
  then show ?case by (simp add: stubs_ok_def ResetAll_def all_entries_def)
next
  case (serve s h hdr n r)
  obtain acts resp s' where run: "Generic_ServeHTTP C h hdr n r s = (acts, resp, s')" by (metis prod_cases3)
  then have "all_entries s' = all_entries s" by (cases rule: generic_cases) (simp, (metis Find_frame(4) snd_conv)+)
  with serve run show ?case by (simp add: stubs_ok_def)
next
  case (events s h hdr stream r)
  obtain out s' where run: "Events_ServeHTTP C h hdr stream r s = (out, s')" by fastforce
  then have "all_entries s' = all_entries s" by (rule events_cases) (metis Find_frame(4) snd_conv)
  with events run show ?case by (simp add: stubs_ok_def)
qed

lemma mgmt_reachable_ok:
  assumes "mgmt_reachable C v s" "validator_laws v" shows "match_inv C s \<and> stubs_ok v s"
  using assms
proof (induction rule: mgmt_reachable.induct)
  case init
  then show ?case using match_inv_new by (simp add: stubs_ok_def all_entries_def Match_NewStore_def)
next
  case (step s s')
  then show ?case using mgmt_step_inv mgmt_step_stubs by blast
qed

text \<open>A stub that answers a call of an operation was registered for that operation.\<close>

lemma found_stub_ok:
  assumes laws: "validator_laws v" and inv: "match_inv C s" "stubs_ok v s"
    and op: "Resolve v m path = Inr op" and f: "Find C m path (op_Template op) req s = (Some e, s')"
  shows "\<forall>d \<in> set (answers e). ValidateRegistration v op (rd_Status d) (rd_Body d) = Valid \<and>
        (os_ID (op_Op op) = SubscribeEventsOperationID \<longrightarrow> 400 \<le> rd_Status d)"
proof -
  obtain e0 where e0: "matched_entry C m path (op_Template op) req s = Some e0" and same: "answers e = answers e0"
    using f by (auto simp: Find_matched_entry answers_def split: option.splits)
  have cand: "e0 \<in> candidates s m path (op_Template op)" using matched_entry_Some[OF inv(1) e0] by blast
  have bx: "bucket_inv C KindExact (mt_seq s) (mt_exact s)" and bt: "bucket_inv C KindTemplate (mt_seq s) (mt_template s)"
    using inv(1) by (simp_all add: match_inv_def)
  have key: "ex_Method e0 = m \<and> (ex_Path e0 = path \<or> ex_Path e0 = op_Template op)"
    using cand entries_at_facts(2)[OF bx] entries_at_facts(2)[OF bt] by (auto simp: candidates_def)
  have "e0 \<in> set (all_entries s)"
    using cand entries_at_subset[of KindExact s m path] entries_at_subset[of KindTemplate s m "op_Template op"]
    by (auto simp: candidates_def bucket_of_def)
  then obtain op' where op': "Resolve v (ex_Method e0) (ex_Path e0) = Inr op'"
    and ok: "\<forall>d \<in> set (answers e0). ValidateRegistration v op' (rd_Status d) (rd_Body d) = Valid \<and>
        (os_ID (op_Op op') = SubscribeEventsOperationID \<longrightarrow> 400 \<le> rd_Status d)"
    using inv(2) unfolding stubs_ok_def stub_ok_def by blast
  have "Resolve v m (op_Template op) = Inr op" using laws op unfolding validator_laws_def by blast
  then have "op' = op" using key op' op by auto
  with ok same show ?thesis by simp
qed

definition canned :: "http_header \<Rightarrow> ResponseDef \<Rightarrow> response" where
  "canned hdr d = \<lparr>rs_status = rd_Status d, rs_headers = write_headers (rd_Headers d) hdr, rs_body = TextBody (rd_Body d)\<rparr>"

lemma respond_canned:
  assumes "validator_laws (gh_Validator h)" "Resolve (gh_Validator h) m path = Inr (gh_Op h)"
    and "ValidateRegistration (gh_Validator h) (gh_Op h) (rd_Status (Served e)) (rd_Body (Served e)) = Valid"
  shows "respond h hdr e = ([Matched (ex_ID e)], canned hdr (Served e))"
  using registered_response_valid[OF assms] by (simp add: respond_def canned_def Let_def)


section \<open>The verdict in the journal\<close>

text \<open>The calls a handler makes, its marks first, then the response.\<close>

definition acts_of :: "handler_act list \<Rightarrow> response \<Rightarrow> string \<Rightarrow> handler_act list" where
  "acts_of marks resp bytes = marks @ [Respond (WriteHeader (rs_status resp)), Respond (WriteBytes bytes)]"

lemma markOn2xx_wrote: "responses (markOn2xx True cs) = cs"
proof (induction cs)
  case (Cons c cs)
  then show ?case by (cases c) (simp_all add: responses_def)
qed (simp add: responses_def)

lemma started_responses: "started_status (responses (markOn2xx False cs)) = started_status cs"
proof (cases cs)
  case (Cons c cs')
  then show ?thesis by (cases c) (simp_all add: responses_def)
qed (simp add: responses_def)

definition empty_slot :: slot where
  "empty_slot = \<lparr>sl_outcome = OutcomeRejected, sl_expectationID = [], sl_nearMisses = []\<rparr>"

lemma markOn2xx_writes: "responses (markOn2xx False cs) = cs \<or> responses (markOn2xx False cs) = WriteHeader 200 # cs"
proof (cases cs)
  case (Cons c cs')
  then show ?thesis using markOn2xx_wrote[of cs'] by (cases c) (simp_all add: responses_def)
qed (simp add: responses_def)

lemma markOn2xx_verdict:
  "(sl_outcome (verdict (markOn2xx False cs)) = OutcomeMatched) = (cs \<noteq> [] \<and> 200 \<le> started_status cs \<and> started_status cs < 300)"
proof (cases cs)
  case (Cons c cs')
  then show ?thesis by (cases c) (auto simp: verdict_def is_mark_def)
qed (simp add: verdict_def)

text \<open>
  The journal tells which stub answered, or why none did. The verdict recorded for a call of an
  operation is \<^verbatim>\<open>matched\<close> with the id of the stub when one is served, \<^verbatim>\<open>no_match\<close> with the near misses
  when none is, and \<^verbatim>\<open>rejected\<close> when the request was refused before the lookup. A call of the event
  stream is matched exactly when the stream starts with a 2xx status, and the writer adds nothing to
  what the stream writes but the status line it implies.
\<close>
theorem journal_verdict:
  "(case Generic_ServeHTTP C h hdr n r s of (acts, resp, s') \<Rightarrow>
      verdict (acts_of acts resp bytes) = (case acts of [] \<Rightarrow> empty_slot | a # _ \<Rightarrow> mark a empty_slot)
      \<and> (acts = [] \<and> s' = s \<and> rs_status resp = 400
        \<or> (\<exists>e req. Find C (rq_Method r) (rq_Path r) (op_Template (gh_Op h)) req s = (Some e, s') \<and> acts = [Matched (ex_ID e)])
        \<or> (\<exists>req. Find C (rq_Method r) (rq_Path r) (op_Template (gh_Op h)) req s = (None, s') \<and> rs_status resp = 404 \<and>
             acts = [NoMatch (NearMisses C (rq_Method r) (rq_Path r) (op_Template (gh_Op h)) req (template_of (gh_Validator h)) s')])))
   \<and> (sl_outcome (verdict (markOn2xx False cs)) = OutcomeMatched) = (cs \<noteq> [] \<and> 200 \<le> started_status cs \<and> started_status cs < 300)
   \<and> (responses (markOn2xx False cs) = cs \<or> responses (markOn2xx False cs) = WriteHeader 200 # cs)"
proof -
  obtain acts resp s' where run: "Generic_ServeHTTP C h hdr n r s = (acts, resp, s')" by (metis prod_cases3)
  have cases: "acts = [] \<and> s' = s \<and> rs_status resp = 400
      \<or> (\<exists>e req. Find C (rq_Method r) (rq_Path r) (op_Template (gh_Op h)) req s = (Some e, s') \<and> acts = [Matched (ex_ID e)])
      \<or> (\<exists>req. Find C (rq_Method r) (rq_Path r) (op_Template (gh_Op h)) req s = (None, s') \<and> rs_status resp = 404 \<and>
           acts = [NoMatch (NearMisses C (rq_Method r) (rq_Path r) (op_Template (gh_Op h)) req (template_of (gh_Validator h)) s')])"
    using run by (cases rule: generic_cases) (auto simp: respond_def Let_def)
  then have "verdict (acts_of acts resp bytes) = (case acts of [] \<Rightarrow> empty_slot | a # _ \<Rightarrow> mark a empty_slot)"
    by (auto simp: verdict_def acts_of_def is_mark_def empty_slot_def)
  with run cases markOn2xx_verdict markOn2xx_writes show ?thesis by simp
qed

section \<open>Mounting\<close>

lemma contains_append: "str_contains (xs @ sub @ ys) sub"
proof (induction xs)
  case Nil
  have "has_prefix (sub @ ys) sub" by simp
  then have "str_contains (sub @ ys) sub" by (cases "sub @ ys") simp_all
  then show ?case by simp
qed simp

text \<open>
  Every error of \<^verbatim>\<open>safeHandle\<close> reads as a route conflict, so mounting skips every operation the
  router refuses and never fails.
\<close>

lemma mount_all_ok: "\<exists>rt'. mount_all router opts ops rt = Inr rt'"
proof (induction ops arbitrary: rt)
  case (Cons op ops)
  have "isRouteConflict (''route conflict '' @ x)" for x
    using contains_append[of "''route ''" "''conflict''" "'' '' @ x"] by (simp add: isRouteConflict_def)
  with Cons show ?case by (auto simp: safeHandle_def split: sum.splits)
qed simp

lemma mount_never_fails: "\<exists>rt'. Mgmt_Mount router opts rt = Inr rt'"
  unfolding Mgmt_Mount_def by (rule mount_all_ok)

section \<open>Witnesses\<close>

definition demo_op :: op_spec where
  "demo_op = \<lparr>os_ID = ''get_user'', os_Responses = Some [''200'' \<mapsto> Some \<lparr>rp_Content = None\<rparr>], os_RequestBody = None, os_Parameters = []\<rparr>"

definition demo_validator :: Validator where
  "demo_validator = \<lparr>vl_BasePath = ''/api/v2'', vl_FindRoute = \<lambda>r. Inr \<lparr>ro_Method = rq_Method r, ro_Path = ''/users/{id}'', ro_Op = demo_op\<rparr>,
     vl_filter = \<lambda>_ _. None, vl_json = \<lambda>_. Inl ''no'', vl_envelope = \<lambda>d. if envelope_ok d then None else Some (Plain ''bad''),
     vl_quote = \<lambda>s. s, vl_float = \<lambda>_. []\<rparr>"

definition demo_operation :: "string \<Rightarrow> Operation" where
  "demo_operation m = \<lparr>op_Method = m, op_Template = ''/api/v2/users/{id}'', op_Op = demo_op\<rparr>"

lemma demo_resolve: "Resolve demo_validator m p = (if isSupportedMethod m then Inr (demo_operation m)
    else Inl (Plain (''no operation for '' @ m @ '' '' @ p @ '': unsupported HTTP method'')))"
  by (simp add: Resolve_def demo_validator_def bare_request_def demo_operation_def)

lemma demo_laws: "validator_laws demo_validator"
proof -
  have "vl_envelope demo_validator d = None \<longleftrightarrow> envelope_ok d" for d by (simp add: demo_validator_def)
  moreover have "rp_Content resp = None" if "selectResponse (os_Responses (op_Op (demo_operation m))) status = Some (Some resp)" for m status resp
    using that by (auto simp: selectResponse_def demo_operation_def demo_op_def split: option.splits if_splits)
  ultimately show ?thesis unfolding validator_laws_def by (auto simp: demo_resolve split: if_splits)
qed

definition demo_body :: expectationBody where
  "demo_body = \<lparr>eb_Method = ''get'', eb_Path = ''/api/v2/users/1'', eb_Request = None,
     eb_Response = \<lparr>rd_Status = 200, rd_Headers = [], rd_Body = []\<rparr>, eb_Then = []\<rparr>"

definition demo_handler_get :: GenericHandler where
  "demo_handler_get = \<lparr>gh_Op = demo_operation ''GET'', gh_Validator = demo_validator, gh_Strict = True\<rparr>"

lemma demo_check: "check_expectation kept demo_validator demo_body = Inr (demo_operation ''GET'')"
proof -
  have "to_upper ''get'' = ''GET''" by code_simp
  moreover have "itoa 200 = ''200''" by code_simp
  ultimately show ?thesis
    by (simp add: check_expectation_def demo_body_def demo_resolve isSupportedMethod_def ValidateRegistration_def
        selectResponse_def demo_operation_def demo_op_def SubscribeEventsOperationID_def registration_def IsEmpty_def
        matcher_problem_def)
qed

definition demo_stored :: Match_Store where
  "demo_stored = snd (PostExpectationHandler demo_codec (\<lambda>_. Inr demo_body) (\<lambda>_. []) demo_validator ''id1'' [] Match_NewStore)"


lemma demo_stored_eq: "demo_stored = snd (Put demo_codec ''id1'' (registration (demo_operation ''GET'') ''GET'' demo_body) Match_NewStore)"
proof -
  have "to_upper (eb_Method demo_body) = ''GET''" unfolding demo_body_def by code_simp
  then show ?thesis using demo_check[of "\<lambda>_. []"] by (simp add: demo_stored_def PostExpectationHandler_def split: prod.splits)
qed

lemma demo_reach: "mgmt_reachable demo_codec demo_validator demo_stored"
  unfolding demo_stored_def
  by (rule mgmt_reachable.step[OF mgmt_reachable.init mgmt_step.post]) (simp add: Match_NewStore_def)


end
