(* ===== verification/Mgmt_Access.thy ===== *)
theory Mgmt_Access
  imports Mgmt_Props Jwks
begin

text \<open>
  Access to the Management API: every operation that \<^verbatim>\<open>Mount\<close> of \<^verbatim>\<open>internal/mgmtapi/mount.go\<close> registers
  sits behind the bearer middleware. A request is served by what is registered for its operation.
\<close>

text \<open>
  The handler that is registered for an operation, on a request: the refusal of the bearer check, or
  the answer of the stubs, or of the event stream.
\<close>

definition mounted_serve :: "jwt_lib \<Rightarrow> KeySet \<Rightarrow> time \<Rightarrow> json_codec \<Rightarrow> (request \<Rightarrow> writer_call list) \<Rightarrow> mounted \<Rightarrow> http_header \<Rightarrow> int
    \<Rightarrow> request \<Rightarrow> Match_Store \<Rightarrow> (handler_act list \<times> response + handler_act list) \<times> Match_Store" where
  "mounted_serve L k now C stream m hdr contentLength r s =
     (case Bearer_Middleware L k (mh_RequireAudience m) now r of
        Inl refusal \<Rightarrow> (Inl ([], over_header hdr refusal), s)
      | Inr _ \<Rightarrow>
          (case mh_inner m of
             Generic h \<Rightarrow> (case Generic_ServeHTTP C h hdr contentLength r s of (acts, resp, s') \<Rightarrow> (Inl (acts, resp), s'))
           | EventsStubs h \<Rightarrow> Events_ServeHTTP C h hdr stream r s))"

lemma trim_space_id:
  assumes "s \<noteq> [] \<Longrightarrow> \<not> is_space (hd s) \<and> \<not> is_space (last s)"
  shows "trim_space s = s"
proof (cases "s = []")
  case False
  then have "dropWhile is_space s = s" using assms by (cases s) simp_all
  moreover have "dropWhile is_space (rev s) = rev s" using False assms by (cases "rev s") (auto simp: last_rev)
  ultimately show ?thesis by (simp add: trim_space_def)
qed simp

lemma Token_of_bearer:
  assumes "list_all (\<lambda>c. \<not> is_space c) tok" "tok \<noteq> []"
  shows "Token (''Bearer '' @ tok) = Some tok"
proof -
  have ends: "\<not> is_space (hd tok)" "\<not> is_space (last tok)" using assms by (simp_all add: list_all_iff)
  then have "trim_space (''Bearer '' @ tok) = ''Bearer '' @ tok"
    using assms(2) by (intro trim_space_id) (simp add: is_space_def)
  moreover have "trim_space tok = tok" using ends by (intro trim_space_id) simp
  ultimately show ?thesis using assms(2) by (simp add: Token_def Let_def)
qed

text \<open>What a token opens, and when.\<close>

lemma mounted_by_token:
  assumes lib: "jwt_correct L" and mint: "Mint L k now opts = Inr tok"
    and iss: "mo_Issuer opts \<noteq> []" "IssuerFor k r = mo_Issuer opts" and extra: "keeps_registered (mo_Extra opts)"
    and leeway: "0 \<le> dur_ns (cf_Leeway (ks_cfg k))" and later: "now \<le> now'"
    and plain: "list_all (\<lambda>c. \<not> is_space c) tok" "tok \<noteq> []"
    and carries: "header_get (rq_Header r) ''Authorization'' = ''Bearer '' @ tok"
  shows "let ends = time_add now (mo_TTL opts); skew = dur_ns (cf_Leeway (ks_cfg k)); aud = mn_RequireAudience mopts;
             aud_ok = aud = [] \<or> aud \<in> set (mo_Audience opts); m = mount_handler mopts op
         in (now' \<le> ends - 1000000000 + skew \<and> aud_ok \<longrightarrow>
               mounted_serve L k now' C stream m hdr n r s =
                 (case mh_inner m of
                    Generic h \<Rightarrow> (case Generic_ServeHTTP C h hdr n r s of (acts, resp, s') \<Rightarrow> (Inl (acts, resp), s'))
                  | EventsStubs h \<Rightarrow> Events_ServeHTTP C h hdr stream r s))
          \<and> (ends + skew \<le> now' \<or> \<not> aud_ok \<longrightarrow>
               mounted_serve L k now' C stream m hdr n r s =
                 (Inl ([], over_header hdr (WriteMgmt 401 ''Unauthorized'' ''invalid bearer token'' ''invalid_bearer'')), s))"
proof -
  let ?m = "mount_handler mopts op" and ?aud = "mn_RequireAudience mopts"
  let ?vo = "\<lparr>vo_RequireAudience = ?aud, vo_AllowExpired = False, vo_Issuer = IssuerFor k r\<rparr>"
  have aud: "mh_RequireAudience ?m = ?aud" by (simp add: mount_handler_def Let_def)
  have tok: "Token (header_get (rq_Header r) ''Authorization'') = Some tok"
    unfolding carries by (rule Token_of_bearer[OF plain])
  have good: "mounted_serve L k now' C stream ?m hdr n r s = (case mh_inner ?m of
        Generic h \<Rightarrow> (case Generic_ServeHTTP C h hdr n r s of (acts, resp, s') \<Rightarrow> (Inl (acts, resp), s'))
      | EventsStubs h \<Rightarrow> Events_ServeHTTP C h hdr stream r s)" if "Jwks_Verify L k now' tok ?vo = Inr c" for c
    using that by (simp add: mounted_serve_def Bearer_Middleware_def tok aud)
  have bad: "mounted_serve L k now' C stream ?m hdr n r s =
      (Inl ([], over_header hdr (WriteMgmt 401 ''Unauthorized'' ''invalid bearer token'' ''invalid_bearer'')), s)"
    if "Jwks_Verify L k now' tok ?vo = Inl e" for e
    using that by (simp add: mounted_serve_def Bearer_Middleware_def tok aud)
  have "vo_Issuer ?vo = mo_Issuer opts" "\<not> vo_AllowExpired ?vo" using iss(2) by simp_all
  from minted_verifies[OF lib mint iss(1) this extra leeway later] good bad show ?thesis
    unfolding Let_def by (metis VerifyOpts.select_convs(1))
qed

text \<open>
  C8. The Management API takes the tokens the Authentication API issues, and nothing else. With a token
  of this issuer, minted for the required audience, a request is served as the registered handler
  serves it while the token lives; a token that has expired, or that was minted for other audiences,
  is answered 401 \<^verbatim>\<open>invalid_bearer\<close>, and a request that carries no bearer token 401 \<^verbatim>\<open>missing_bearer\<close>. A
  refused request changes no stub, counts no hit and leaves no verdict in the journal.
\<close>
theorem mgmt_access:
  assumes lib: "jwt_correct L" and mint: "Mint L k now opts = Inr tok"
    and iss: "mo_Issuer opts \<noteq> []" "IssuerFor k r = mo_Issuer opts" and extra: "keeps_registered (mo_Extra opts)"
    and leeway: "0 \<le> dur_ns (cf_Leeway (ks_cfg k))" and later: "now \<le> now'"
    and plain: "list_all (\<lambda>c. \<not> is_space c) tok" "tok \<noteq> []"
    and carries: "header_get (rq_Header r) ''Authorization'' = ''Bearer '' @ tok"
    and bare: "Token (header_get (rq_Header r') ''Authorization'') = None"
  shows "let ends = time_add now (mo_TTL opts); skew = dur_ns (cf_Leeway (ks_cfg k)); aud = mn_RequireAudience mopts;
             aud_ok = aud = [] \<or> aud \<in> set (mo_Audience opts); m = mount_handler mopts op;
             refuse = (\<lambda>msg code. (Inl ([], over_header hdr (WriteMgmt 401 ''Unauthorized'' msg code)), s))
         in (now' \<le> ends - 1000000000 + skew \<and> aud_ok \<longrightarrow>
               mounted_serve L k now' C stream m hdr n r s =
                 (case mh_inner m of
                    Generic h \<Rightarrow> (case Generic_ServeHTTP C h hdr n r s of (acts, resp, s') \<Rightarrow> (Inl (acts, resp), s'))
                  | EventsStubs h \<Rightarrow> Events_ServeHTTP C h hdr stream r s))
          \<and> (ends + skew \<le> now' \<or> \<not> aud_ok \<longrightarrow>
               mounted_serve L k now' C stream m hdr n r s = refuse ''invalid bearer token'' ''invalid_bearer'')
          \<and> mounted_serve L k now' C stream m hdr n r' s = refuse ''missing bearer token'' ''missing_bearer''"
proof -
  have "mounted_serve L k now' C stream (mount_handler mopts op) hdr n r' s =
      (Inl ([], over_header hdr (WriteMgmt 401 ''Unauthorized'' ''missing bearer token'' ''missing_bearer'')), s)"
    by (simp add: mounted_serve_def Bearer_Middleware_def bare)
  with mounted_by_token[OF lib mint iss extra leeway later plain carries] show ?thesis by (simp only: Let_def) blast
qed

definition demo_mount :: MountOpts where
  "demo_mount = \<lparr>mn_Spec = \<lparr>sp_Paths = [], sp_BasePath = []\<rparr>, mn_Validator = demo_validator, mn_Strict = True,
     mn_RequireAudience = ''api'', mn_EventsHandler = True\<rparr>"

definition demo_bearer :: request where
  "demo_bearer = \<lparr>rq_Method = ''GET'', rq_Path = ''/api/v2/users/1'', rq_Query = [],
     rq_Header = [(''Authorization'', [''Bearer tok''])], rq_Host = [], rq_TLS = True, rq_Body = None\<rparr>"

theorem mgmt_access_witness:
  "let L = demo_jwt [(''tok'', mint_claims ''https://mock/'' 0 demo_opts)]; m = mount_handler demo_mount (demo_operation ''GET'');
       serve = (\<lambda>now r. mounted_serve L demo_keys now demo_codec (\<lambda>_. []) m [] 0 r Match_NewStore)
   in serve 1000000000 demo_bearer =
        (case Generic_ServeHTTP demo_codec demo_handler_get [] 0 demo_bearer Match_NewStore of (acts, resp, s') \<Rightarrow> (Inl (acts, resp), s'))
    \<and> serve 3600000000000 demo_bearer =
        (Inl ([], over_header [] (WriteMgmt 401 ''Unauthorized'' ''invalid bearer token'' ''invalid_bearer'')), Match_NewStore)"
proof -
  let ?L = "demo_jwt [(''tok'', mint_claims ''https://mock/'' 0 demo_opts)]"
  have lib: "jwt_correct ?L" by (rule demo_jwt_correct) simp
  have mint: "Mint ?L demo_keys 0 demo_opts = Inr ''tok''"
    by (simp add: Mint_def issuer_def demo_opts_def demo_jwt_def)
  have extra: "keeps_registered (mo_Extra demo_opts)" by (simp add: keeps_registered_def demo_opts_def registered_claims_def)
  have carries: "header_get (rq_Header demo_bearer) ''Authorization'' = ''Bearer '' @ ''tok''" by code_simp
  have bare: "Token (header_get (rq_Header (demo_bearer\<lparr>rq_Header := []\<rparr>)) ''Authorization'') = None" by code_simp
  have iss: "mo_Issuer demo_opts \<noteq> []" "IssuerFor demo_keys demo_bearer = mo_Issuer demo_opts"
    by (simp_all add: demo_opts_def demo_keys_def IssuerFor_def ResolveIssuer_def AutoIssuer_def)
  have inner: "mh_inner (mount_handler demo_mount (demo_operation ''GET'')) = Generic demo_handler_get"
    by (simp add: mount_handler_def demo_mount_def demo_operation_def demo_op_def SubscribeEventsOperationID_def demo_handler_get_def)
  have aud: "mn_RequireAudience demo_mount = ''api''" by (simp add: demo_mount_def)
  have plain: "list_all (\<lambda>c. \<not> is_space c) ''tok''" "''tok'' \<noteq> []" by code_simp+
  note acc = mgmt_access[OF lib mint iss extra _ _ plain carries bare, where mopts = demo_mount and op = "demo_operation ''GET''"
      and C = demo_codec and stream = "\<lambda>_. []" and hdr = "[]" and n = 0 and s = Match_NewStore]
  show ?thesis
    using acc[of 1000000000] acc[of 3600000000000]
    by (simp add: inner demo_opts_def demo_keys_def dur_ns_def time_add_def Let_def aud)
qed

end
