(* ===== verification/Middleware.thy ===== *)
theory Middleware
  imports Mgmt
begin

text \<open>
  The shared middleware of \<^verbatim>\<open>internal/middleware/middleware.go\<close>. A handler maps the request id in the
  context, the request, the response headers so far and the state of the server to a reply and the new
  state. The reply is what it does with the writer, the headers it leaves, whether it panics, and the
  lines it logs. The writer accepts every byte. Latencies and the stack trace are not part of the lines.
\<close>

section \<open>Handlers\<close>

datatype log_line =
    PanicLine string string
  | SummaryLine int string string int
  | RequestLine int string string string string
  | ResponseLine int string string string int
  | BodyBlock string
  | BlankLine

record reply =
  re_acts :: "handler_act list"
  re_header :: http_header
  re_panic :: bool
  re_log :: "log_line list"

type_synonym 's handler = "string option \<Rightarrow> request \<Rightarrow> http_header \<Rightarrow> 's \<Rightarrow> reply \<times> 's"

definition RequestIDFromContext :: "string option \<Rightarrow> string" where
  "RequestIDFromContext ctx = (case ctx of Some v \<Rightarrow> v | None \<Rightarrow> [])"

definition RequestID :: "string \<Rightarrow> 's handler \<Rightarrow> 's handler" where
  "RequestID uid next ctx r hdr s =
     (let rid = header_get (rq_Header r) ''X-Request-Id'';
          rid' = (if rid = [] then uid else rid)
      in next (Some rid') r (header_set ''X-Request-Id'' rid' hdr) s)"

definition panic_body :: string where
  "panic_body = ''{\"statusCode\":500,\"error\":\"Internal Server Error\",\"message\":\"unexpected panic\"}''"

definition Recovery :: "'s handler \<Rightarrow> 's handler" where
  "Recovery next ctx r hdr s =
     (let (re, s') = next ctx r hdr s
      in if \<not> re_panic re then (re, s')
         else (\<lparr>re_acts = re_acts re @ [Respond (WriteHeader 500), Respond (WriteBytes panic_body)],
               re_header = header_set ''Content-Type'' ''application/json'' (re_header re), re_panic = False,
               re_log = re_log re @ [PanicLine (rq_Method r) (rq_Path r)]\<rparr>, s'))"

text \<open>\<^verbatim>\<open>http.MaxBytesReader\<close>: the bytes up to the limit, then its error if there are more.\<close>

definition MaxBodyBytes :: "int \<Rightarrow> 's handler \<Rightarrow> 's handler" where
  "MaxBodyBytes limit next =
     (if limit \<le> 0 then next
      else (\<lambda>ctx r hdr. next ctx
        (case rq_Body r of
           None \<Rightarrow> r
         | Some (b, err) \<Rightarrow>
             r\<lparr>rq_Body := Some (if int (length b) > limit then (take (nat limit) b, Some ''http: request body too large'') else (b, err))\<rparr>)
        hdr))"

section \<open>Recorders\<close>

record statusRecorder =
  sr_status :: int
  sr_bytes :: int

fun sr_call :: "writer_call \<Rightarrow> statusRecorder \<Rightarrow> statusRecorder" where
  "sr_call (WriteHeader code) sr = sr\<lparr>sr_status := code\<rparr>"
| "sr_call (WriteBytes b) sr =
     (let sr1 = (if sr_status sr = 0 then sr\<lparr>sr_status := 200\<rparr> else sr) in sr1\<lparr>sr_bytes := sr_bytes sr1 + int (length b)\<rparr>)"
| "sr_call Flush sr = sr"

definition Logging :: "bool \<Rightarrow> 's handler \<Rightarrow> 's handler" where
  "Logging enabled next ctx r hdr s =
     (let (re, s') = next ctx r hdr s
      in if \<not> enabled \<or> re_panic re then (re, s')
         else (let sr = fold sr_call (responses (re_acts re)) \<lparr>sr_status = 0, sr_bytes = 0\<rparr>
               in (re\<lparr>re_log := re_log re @ [SummaryLine (sr_bytes sr) (rq_Method r) (rq_Path r) (sr_status sr)]\<rparr>, s')))"

definition debugBodyCap :: nat where
  "debugBodyCap = 8 * 1024"

definition debugCaptureCap :: nat where
  "debugCaptureCap = 2 ^ 20"

record debugRecorder =
  dr_status :: int
  dr_body :: string
  dr_totalLen :: nat

fun dr_call :: "writer_call \<Rightarrow> debugRecorder \<Rightarrow> debugRecorder" where
  "dr_call (WriteHeader code) d = d\<lparr>dr_status := code\<rparr>"
| "dr_call (WriteBytes b) d =
     (let d1 = (if dr_status d = 0 then d\<lparr>dr_status := 200\<rparr> else d);
          d2 = d1\<lparr>dr_totalLen := dr_totalLen d1 + length b\<rparr>;
          remaining = int debugCaptureCap - int (length (dr_body d2))
      in if remaining > 0 then
           (if int (length b) > remaining then d2\<lparr>dr_body := dr_body d2 @ take (nat remaining) b\<rparr>
            else d2\<lparr>dr_body := dr_body d2 @ b\<rparr>)
         else d2)"
| "dr_call Flush d = d"

definition new_debugRecorder :: debugRecorder where
  "new_debugRecorder = \<lparr>dr_status = 0, dr_body = [], dr_totalLen = 0\<rparr>"

definition statusOrOK :: "debugRecorder \<Rightarrow> int" where
  "statusOrOK d = (if dr_status d = 0 then 200 else dr_status d)"

section \<open>Redaction\<close>

definition noisyHeaders :: "string list" where
  "noisyHeaders = [''accept'', ''accept-encoding'', ''accept-language'', ''cache-control'', ''connection'', ''content-length'',
     ''host'', ''origin'', ''referer'', ''user-agent'', ''te'', ''upgrade-insecure-requests'', ''via'', ''dnt'', ''sec-gpc'', ''priority'',
     ''pragma'', ''x-request-id'', ''x-forwarded-for'', ''x-forwarded-host'', ''x-forwarded-proto'', ''x-real-ip'', ''date'', ''server'',
     ''x-powered-by'']"

definition isNoisyHeader :: "string \<Rightarrow> bool" where
  "isNoisyHeader k = (let lk = to_lower k in lk \<in> set noisyHeaders \<or> has_prefix lk ''sec-fetch-'' \<or> has_prefix lk ''sec-ch-ua'')"

definition isSensitiveHeader :: "string \<Rightarrow> bool" where
  "isSensitiveHeader k \<longleftrightarrow> to_lower k \<in> {''authorization'', ''cookie'', ''set-cookie'', ''proxy-authorization''}"

definition redact :: "string \<Rightarrow> string" where
  "redact v = (if length v \<le> 8 then ''<redacted>'' else take 8 v @ ellipsis @ ''<redacted>'')"

definition flatHeaders :: "http_header \<Rightarrow> string" where
  "flatHeaders h = str_join ''; '' (map (\<lambda>k.
     let v = str_join '','' (case map_of h k of Some vs \<Rightarrow> vs | None \<Rightarrow> [])
     in k @ ''='' @ (if isSensitiveHeader k then redact v else v)) (sort (map fst h)))"

definition interestingHeaders :: "http_header \<Rightarrow> string" where
  "interestingHeaders h = flatHeaders (filter (\<lambda>(k, v). \<not> isNoisyHeader k) h)"

definition sensitiveBodyFields :: "string list" where
  "sensitiveBodyFields = [''access_token'', ''id_token'', ''refresh_token'', ''mfa_token'',
     ''client_secret'', ''password'', ''code_verifier'', ''client_assertion'']"

text \<open>The first of the field names that the text starts with, and what follows it.\<close>

definition field_at :: "string \<Rightarrow> (string \<times> string) option" where
  "field_at s = map_option (\<lambda>f. (f, drop (length f) s)) (find (has_prefix s) sensitiveBodyFields)"

text \<open>
  \<^verbatim>\<open>formSensitiveRE.ReplaceAll\<close>. A match starts at the start of the text or at an ampersand; its value
  is the longest run of other characters, of at least one.
\<close>

definition form_at :: "string \<Rightarrow> (string \<times> string) option" where
  "form_at s = (case field_at s of
      Some (f, c # rest) \<Rightarrow>
        if c = CHR ''='' \<and> takeWhile (\<lambda>x. x \<noteq> CHR ''&'') rest \<noteq> [] then Some (f, dropWhile (\<lambda>x. x \<noteq> CHR ''&'') rest) else None
    | _ \<Rightarrow> None)"

lemma field_at_length: "field_at s = Some (f, rest) \<Longrightarrow> length rest \<le> length s"
  by (auto simp: field_at_def)

lemma form_at_length [termination_simp]:
  assumes "form_at s = Some (f, rest)" shows "length rest \<le> length s"
proof -
  obtain c r where "field_at s = Some (f, c # r)" "rest = dropWhile (\<lambda>x. x \<noteq> CHR ''&'') r"
    using assms by (auto simp: form_at_def split: option.splits list.splits if_splits)
  then show ?thesis using field_at_length[of s f "c # r"] length_dropWhile_le[of "\<lambda>x. x \<noteq> CHR ''&''" r] by simp
qed

definition redacted_value :: string where
  "redacted_value = ''<redacted>''"

fun form_tail :: "string \<Rightarrow> string" where
  "form_tail [] = []"
| "form_tail (c # s) =
     (if c = CHR ''&'' then
        (case form_at s of
           Some (f, rest) \<Rightarrow> c # f @ ''='' @ redacted_value @ form_tail rest
         | None \<Rightarrow> c # form_tail s)
      else c # form_tail s)"

definition form_redact :: "string \<Rightarrow> string" where
  "form_redact s = (case form_at s of
      Some (f, rest) \<Rightarrow> f @ ''='' @ redacted_value @ form_tail rest
    | None \<Rightarrow> form_tail s)"

text \<open>\<^verbatim>\<open>jsonSensitiveRE.ReplaceAll\<close>: a quoted name, a colon among blanks and a quoted value with escapes.\<close>

definition is_blank :: "char \<Rightarrow> bool" where
  "is_blank c \<longleftrightarrow> c \<in> {CHR 0x09, CHR 0x0A, CHR 0x0C, CHR 0x0D, CHR 0x20}"

fun json_value_end :: "string \<Rightarrow> string option" where
  "json_value_end [] = None"
| "json_value_end (c # s) =
     (if c = CHR 0x22 then Some s
      else if c = CHR 0x5C then (case s of [] \<Rightarrow> None | d # s' \<Rightarrow> if d = CHR 0x0A then None else json_value_end s')
      else json_value_end s)"

lemma json_value_end_length: "json_value_end s = Some rest \<Longrightarrow> length rest < length s"
  by (induction s rule: json_value_end.induct) (auto split: if_splits list.splits)

definition json_at :: "string \<Rightarrow> (string \<times> string) option" where
  "json_at s = (case s of
      [] \<Rightarrow> None
    | c # s1 \<Rightarrow> if c \<noteq> CHR 0x22 then None else (case field_at s1 of
        Some (f, q # s2) \<Rightarrow> if q \<noteq> CHR 0x22 then None else (case dropWhile is_blank s2 of
            d # s3 \<Rightarrow> if d \<noteq> CHR '':'' then None else (case dropWhile is_blank s3 of
                e # s4 \<Rightarrow> if e \<noteq> CHR 0x22 then None else map_option (Pair f) (json_value_end s4)
              | [] \<Rightarrow> None)
          | [] \<Rightarrow> None)
      | _ \<Rightarrow> None))"

lemma json_at_length [termination_simp]:
  assumes "json_at s = Some (f, rest)" shows "length rest < length s"
proof -
  obtain c s1 q s2 d s3 e s4 where s: "s = c # s1" "field_at s1 = Some (f, q # s2)" "dropWhile is_blank s2 = d # s3"
    "dropWhile is_blank s3 = e # s4" "json_value_end s4 = Some rest"
    using assms by (auto simp: json_at_def split: option.splits list.splits if_splits)
  have "length (q # s2) \<le> length s1" using field_at_length[OF s(2)] .
  moreover have "length (d # s3) \<le> length s2" using length_dropWhile_le[of is_blank s2] s(3) by simp
  moreover have "length (e # s4) \<le> length s3" using length_dropWhile_le[of is_blank s3] s(4) by simp
  ultimately show ?thesis using json_value_end_length[OF s(5)] s(1) by simp
qed

function json_redact :: "string \<Rightarrow> string" where
  "json_redact s = (case json_at s of
      Some (f, rest) \<Rightarrow> [CHR 0x22] @ f @ [CHR 0x22, CHR '':'', CHR 0x22] @ redacted_value @ [CHR 0x22] @ json_redact rest
    | None \<Rightarrow> (case s of [] \<Rightarrow> [] | c # s' \<Rightarrow> c # json_redact s'))"
  by auto
termination by (relation "measure length") (auto simp: json_at_length)

declare json_redact.simps [simp del]

definition redactSensitiveInBody :: "string \<Rightarrow> string" where
  "redactSensitiveInBody b = (if length b = 0 then b else form_redact (json_redact b))"

definition scrubSensitiveQuery :: "string \<Rightarrow> string" where
  "scrubSensitiveQuery q = (if q = [] then [] else form_redact q)"

section \<open>The debug dump\<close>

definition isNoisyDumpPath :: "string \<Rightarrow> bool" where
  "isNoisyDumpPath path \<longleftrightarrow> path \<in> {''/healthz'', ''/readyz'', ''/openapi.json'', ''/openapi.yaml''} \<or> has_prefix path ''/docs''"

definition isNoisyDumpContentType :: "string \<Rightarrow> bool" where
  "isNoisyDumpContentType ct0 = (let ct = to_lower ct0 in
     list_ex (has_prefix ct) [''text/html'', ''text/css'', ''application/javascript'', ''application/octet-stream'',
       ''image/'', ''font/'', ''audio/'', ''video/''])"

fun looksLikeJSON :: "string \<Rightarrow> bool" where
  "looksLikeJSON [] = False"
| "looksLikeJSON (c # s) =
     (if c \<in> {CHR '' '', CHR 0x09, CHR 0x0A, CHR 0x0D} then looksLikeJSON s else c \<in> {CHR ''{'', CHR ''[''})"

text \<open>\<open>indent\<close> is \<^verbatim>\<open>json.Indent\<close> with two blanks: the text, or nothing when the input is not JSON.\<close>

definition prettyBody :: "(string \<Rightarrow> string option) \<Rightarrow> string \<Rightarrow> string \<Rightarrow> string" where
  "prettyBody indent body contentType =
     (let ct = to_lower contentType;
          raw = (if str_contains ct ''x-www-form-urlencoded'' then map (\<lambda>c. if c = CHR ''&'' then CHR 0x0A else c) body else body)
      in if str_contains ct ''json'' \<or> looksLikeJSON body then (case indent body of Some t \<Rightarrow> t | None \<Rightarrow> raw) else raw)"

fun split_on :: "char \<Rightarrow> string \<Rightarrow> string list" where
  "split_on x [] = [[]]"
| "split_on x (c # s) =
     (if c = x then [] # split_on x s
      else (case split_on x s of [] \<Rightarrow> [[c]] | l # ls \<Rightarrow> (c # l) # ls))"

definition indentLines :: "string \<Rightarrow> string \<Rightarrow> string" where
  "indentLines s ind = str_join [CHR 0x0A] (map ((@) ind) (split_on CHR 0x0A s))"

definition bodyIndent :: string where
  "bodyIndent = ''    ''"

definition trim_newlines :: "string \<Rightarrow> string" where
  "trim_newlines s = rev (dropWhile (\<lambda>c. c = CHR 0x0A) (rev s))"

definition display :: "(string \<Rightarrow> string option) \<Rightarrow> string \<Rightarrow> string \<Rightarrow> string" where
  "display indent captured contentType = trim_newlines (prettyBody indent (redactSensitiveInBody captured) contentType)"

definition writeBodyBlock :: "(string \<Rightarrow> string option) \<Rightarrow> string \<Rightarrow> nat \<Rightarrow> string \<Rightarrow> log_line list" where
  "writeBodyBlock indent captured totalLen contentType =
     (if length captured = 0 then []
      else
        (let pretty = display indent captured contentType;
             displayTruncated = (length pretty > debugBodyCap);
             shown = (if displayTruncated then take debugBodyCap pretty else pretty);
             suffix = (if totalLen > length captured \<or> displayTruncated
                       then [CHR 0x0A] @ ellipsis @ ''(truncated, '' @ itoa (int totalLen) @ '' bytes total)'' else [])
         in [BodyBlock (indentLines (shown @ suffix) bodyIndent)]))"

text \<open>
  The body is read ahead and replayed with its read error. The response is dumped after the handler,
  whether it returns or panics. \<open>rawQuery\<close> is the query of the URL as it was sent.
\<close>

definition DebugDump :: "(string \<Rightarrow> string option) \<Rightarrow> (request \<Rightarrow> string) \<Rightarrow> bool \<Rightarrow> 's handler \<Rightarrow> 's handler" where
  "DebugDump indent rawQuery enabled next ctx r hdr s =
     (if \<not> enabled \<or> isNoisyDumpPath (rq_Path r) then next ctx r hdr s
      else (case rq_Body r of
          None \<Rightarrow> (\<lparr>re_acts = [], re_header = hdr, re_panic = True, re_log = []\<rparr>, s)
        | Some (reqBody, readErr) \<Rightarrow>
            (let before = [RequestLine (int (length reqBody)) (interestingHeaders (rq_Header r)) (scrubSensitiveQuery (rawQuery r))
                             (rq_Method r) (rq_Path r)]
                          @ writeBodyBlock indent reqBody (length reqBody) (header_get (rq_Header r) ''Content-Type'');
                 (re, s') = next ctx (r\<lparr>rq_Body := Some (reqBody, readErr)\<rparr>) hdr s;
                 rec = fold dr_call (responses (re_acts re)) new_debugRecorder;
                 respCT = header_get (re_header re) ''Content-Type'';
                 after = [ResponseLine (int (dr_totalLen rec)) (interestingHeaders (re_header re)) (rq_Method r) (rq_Path r) (statusOrOK rec)]
                         @ (if isNoisyDumpContentType respCT then [] else writeBodyBlock indent (dr_body rec) (dr_totalLen rec) respCT)
                         @ [BlankLine]
             in (re\<lparr>re_log := before @ re_log re @ after\<rparr>, s'))))"

end
