(* ===== verification/Cors.thy ===== *)
theory Cors
  imports Middleware Authorize
begin

text \<open>
  Cross-origin requests, \<^verbatim>\<open>internal/middleware/cors.go\<close>: the allow-list, its parser and the middleware.
  \<^verbatim>\<open>url.Parse\<close> is \<^const>\<open>url_Parse\<close>; the user part of an authority is empty when there is none, and
  otherwise includes the at sign.
\<close>

section \<open>Host and port\<close>

definition trim_suffix :: "string \<Rightarrow> string \<Rightarrow> string" where
  "trim_suffix s suf = (if suf \<noteq> [] \<and> length suf \<le> length s \<and> drop (length s - length suf) s = suf then take (length s - length suf) s else s)"

definition has_suffix :: "string \<Rightarrow> string \<Rightarrow> bool" where
  "has_suffix s suf \<longleftrightarrow> length suf \<le> length s \<and> drop (length s - length suf) s = suf"

definition cut_suffix :: "string \<Rightarrow> string \<Rightarrow> string \<times> bool" where
  "cut_suffix s suf = (if has_suffix s suf then (take (length s - length suf) s, True) else (s, False))"

definition is_digit :: "char \<Rightarrow> bool" where
  "is_digit c \<longleftrightarrow> (let n = (of_char c :: nat) in 48 \<le> n \<and> n \<le> 57)"

text \<open>\<^verbatim>\<open>splitHostPort\<close> of \<^verbatim>\<open>net/url\<close>: the port is what follows the last colon, if it is digits only.\<close>

definition url_splitHostPort :: "string \<Rightarrow> string \<times> string" where
  "url_splitHostPort hp =
     (let (host, port) = (case str_last_index CHR '':'' hp of
            Some i \<Rightarrow> if list_all is_digit (drop (Suc i) hp) then (take i hp, drop (Suc i) hp) else (hp, [])
          | None \<Rightarrow> (hp, []))
      in (if has_prefix host ''['' \<and> has_suffix host '']'' then take (length host - 2) (drop 1 host) else host, port))"

definition Hostname :: "url \<Rightarrow> string" where
  "Hostname u = fst (url_splitHostPort (u_Host u))"

definition Port :: "url \<Rightarrow> string" where
  "Port u = snd (url_splitHostPort (u_Host u))"

section \<open>The allow-list\<close>

record corsWildcard =
  cw_scheme :: string
  cw_suffix :: string
  cw_port :: string

record corsMatcher =
  cm_anyOrigin :: bool
  cm_exact :: "string list"
  cm_wildcards :: "corsWildcard list"

definition corsDefaultPorts :: "string \<Rightarrow> string" where
  "corsDefaultPorts scheme = (if scheme = ''http'' then ''80'' else if scheme = ''https'' then ''443'' else [])"

definition parseCORSEntry :: "url_lib \<Rightarrow> (string \<Rightarrow> string) \<Rightarrow> string \<Rightarrow> string + url" where
  "parseCORSEntry U quote e = (case url_Parse U e of
      None \<Rightarrow> Inl (''invalid origin '' @ quote e)
    | Some u \<Rightarrow>
        if u_Scheme u = [] \<or> Hostname u = [] \<or> u_Path u \<noteq> [] \<or> u_User u \<noteq> [] \<or> u_RawQuery u \<noteq> [] \<or> u_Fragment u \<noteq> []
           \<or> contains_char e CHR ''?'' \<or> contains_char e CHR ''#'' \<or> has_suffix (u_Host u) '':''
        then Inl (''invalid origin '' @ quote e) else Inr u)"

definition normal_port :: "url \<Rightarrow> string" where
  "normal_port u = (if Port u = corsDefaultPorts (u_Scheme u) then [] else Port u)"

definition exact_key :: "url \<Rightarrow> string" where
  "exact_key u = u_Scheme u @ ''://'' @ trim_suffix (u_Host u) ('':'' @ Port u)
     @ (if normal_port u \<noteq> [] then '':'' @ normal_port u else [])"

definition cors_entry :: "string \<Rightarrow> string" where
  "cors_entry raw = to_lower (trim_suffix (trim_space raw) ''/'')"

definition add_entry :: "url_lib \<Rightarrow> (string \<Rightarrow> string) \<Rightarrow> string \<Rightarrow> corsMatcher \<Rightarrow> string + corsMatcher" where
  "add_entry U quote raw m =
     (let e = cors_entry raw
      in if e = ''*'' then Inr (m\<lparr>cm_anyOrigin := True\<rparr>)
         else (case parseCORSEntry U quote e of
             Inl _ \<Rightarrow> Inl (''invalid CORS origin '' @ quote raw @ '': want scheme://host[:port]'')
           | Inr u \<Rightarrow>
               (let host = Hostname u
                in if \<not> contains_char host CHR ''*'' then Inr (m\<lparr>cm_exact := exact_key u # cm_exact m\<rparr>)
                   else if \<not> has_prefix host ''*.'' \<or> drop 2 host = [] \<or> contains_char (drop 2 host) CHR ''*'' then
                     Inl (''invalid CORS origin '' @ quote raw @ '': * must be the whole first host label'')
                   else Inr (m\<lparr>cm_wildcards := cm_wildcards m @
                          [\<lparr>cw_scheme = u_Scheme u, cw_suffix = drop 2 host, cw_port = normal_port u\<rparr>]\<rparr>))))"

fun add_entries :: "url_lib \<Rightarrow> (string \<Rightarrow> string) \<Rightarrow> string list \<Rightarrow> corsMatcher \<Rightarrow> string + corsMatcher" where
  "add_entries U quote [] m = Inr m"
| "add_entries U quote (raw # rest) m = (case add_entry U quote raw m of Inl err \<Rightarrow> Inl err | Inr m' \<Rightarrow> add_entries U quote rest m')"

definition newCORSMatcher :: "url_lib \<Rightarrow> (string \<Rightarrow> string) \<Rightarrow> string list \<Rightarrow> string + corsMatcher" where
  "newCORSMatcher U quote entries =
     add_entries U quote entries \<lparr>cm_anyOrigin = (length entries = 0), cm_exact = [], cm_wildcards = []\<rparr>"

definition wildcard_allows :: "url \<Rightarrow> corsWildcard \<Rightarrow> bool" where
  "wildcard_allows u w =
     (case cut_suffix (Hostname u) (''.'' @ cw_suffix w) of (label, ok) \<Rightarrow>
        ok \<and> u_Scheme u = cw_scheme w \<and> Port u = cw_port w \<and> label \<noteq> [] \<and> \<not> contains_char label CHR ''.'')"

definition cors_allowed :: "url_lib \<Rightarrow> corsMatcher \<Rightarrow> string \<Rightarrow> bool" where
  "cors_allowed U m origin =
     (if cm_anyOrigin m then True
      else if to_lower origin \<in> set (cm_exact m) then True
      else (case url_Parse U (to_lower origin) of
          None \<Rightarrow> False
        | Some u \<Rightarrow> if u_Host u = [] then False else list_ex (wildcard_allows u) (cm_wildcards m)))"

section \<open>The middleware\<close>

definition no_body_reply :: "int \<Rightarrow> http_header \<Rightarrow> reply" where
  "no_body_reply status hdr = \<lparr>re_acts = [Respond (WriteHeader status)], re_header = hdr, re_panic = False, re_log = []\<rparr>"

definition preflight_headers :: "request \<Rightarrow> http_header \<Rightarrow> http_header" where
  "preflight_headers r h =
     (let h1 = header_add ''Vary'' ''Access-Control-Request-Method'' h;
          h2 = header_add ''Vary'' ''Access-Control-Request-Headers'' h1;
          h3 = header_set ''Access-Control-Allow-Methods'' ''GET, POST, PUT, PATCH, DELETE, OPTIONS'' h2;
          rh = header_get (rq_Header r) ''Access-Control-Request-Headers'';
          h4 = (if rh \<noteq> [] then header_set ''Access-Control-Allow-Headers'' rh h3 else h3)
      in header_set ''Access-Control-Max-Age'' ''86400'' h4)"

definition cors_handler :: "url_lib \<Rightarrow> corsMatcher \<Rightarrow> 's handler \<Rightarrow> 's handler" where
  "cors_handler U m next ctx r hdr0 s =
     (let hdr = header_add ''Vary'' ''Origin'' hdr0;
          origin = header_get (rq_Header r) ''Origin'';
          preflight = (rq_Method r = ''OPTIONS'' \<and> header_get (rq_Header r) ''Access-Control-Request-Method'' \<noteq> [])
      in if origin = [] then next ctx r hdr s
         else if \<not> cors_allowed U m origin then (if preflight then (no_body_reply 403 hdr, s) else next ctx r hdr s)
         else
           (let h = header_set ''Access-Control-Allow-Credentials'' ''true'' (header_set ''Access-Control-Allow-Origin'' origin hdr)
            in if \<not> preflight then next ctx r h s else (no_body_reply 204 (preflight_headers r h), s)))"

definition CORS :: "url_lib \<Rightarrow> (string \<Rightarrow> string) \<Rightarrow> string list \<Rightarrow> string + ('s handler \<Rightarrow> 's handler)" where
  "CORS U quote allowedOrigins = (case newCORSMatcher U quote allowedOrigins of
      Inl err \<Rightarrow> Inl err
    | Inr m \<Rightarrow> Inr (cors_handler U m))"

section \<open>Who is let in\<close>

lemma add_entries_sound:
  assumes "add_entries U quote es m = Inr m'"
  shows "(cm_anyOrigin m' \<longrightarrow> cm_anyOrigin m \<or> (\<exists>raw \<in> set es. cors_entry raw = ''*''))
    \<and> (\<forall>k \<in> set (cm_exact m'). k \<in> set (cm_exact m) \<or>
        (\<exists>raw \<in> set es. \<exists>u. parseCORSEntry U quote (cors_entry raw) = Inr u \<and> \<not> contains_char (Hostname u) CHR ''*'' \<and> k = exact_key u))
    \<and> (\<forall>w \<in> set (cm_wildcards m'). w \<in> set (cm_wildcards m) \<or>
        (\<exists>raw \<in> set es. \<exists>u. parseCORSEntry U quote (cors_entry raw) = Inr u \<and> Hostname u = ''*.'' @ cw_suffix w \<and> cw_suffix w \<noteq> []
           \<and> \<not> contains_char (cw_suffix w) CHR ''*'' \<and> cw_scheme w = u_Scheme u \<and> cw_port w = normal_port u))"
  using assms
proof (induction U quote es m rule: add_entries.induct)
  case (2 U quote raw rest m)
  obtain m1 where m1: "add_entry U quote raw m = Inr m1" and r: "add_entries U quote rest m1 = Inr m'"
    using 2(2) by (auto split: sum.splits)
  have pre: "h = CHR ''*'' # CHR ''.'' # drop 2 h" if "has_prefix h ''*.''" for h
    using that append_take_drop_id[of 2 h] by (simp add: has_prefix_def numeral_2_eq_2)
  from m1 have "(cm_anyOrigin m1 \<longrightarrow> cm_anyOrigin m \<or> cors_entry raw = ''*'')
    \<and> (\<forall>k \<in> set (cm_exact m1). k \<in> set (cm_exact m) \<or>
        (\<exists>u. parseCORSEntry U quote (cors_entry raw) = Inr u \<and> \<not> contains_char (Hostname u) CHR ''*'' \<and> k = exact_key u))
    \<and> (\<forall>w \<in> set (cm_wildcards m1). w \<in> set (cm_wildcards m) \<or>
        (\<exists>u. parseCORSEntry U quote (cors_entry raw) = Inr u \<and> Hostname u = ''*.'' @ cw_suffix w \<and> cw_suffix w \<noteq> []
           \<and> \<not> contains_char (cw_suffix w) CHR ''*'' \<and> cw_scheme w = u_Scheme u \<and> cw_port w = normal_port u))"
    by (auto simp: add_entry_def Let_def intro: pre split: if_splits sum.splits)
  with 2(1)[OF m1 r] show ?case by simp blast
qed simp


lemma cut_suffix_Some: "cut_suffix s suf = (label, True) \<Longrightarrow> s = label @ suf"
  by (auto simp: cut_suffix_def has_suffix_def split: if_splits) (metis append_take_drop_id)


section \<open>What the middleware does\<close>

lemma canonical_cors: "CanonicalHeaderKey ''Vary'' = ''Vary''" "CanonicalHeaderKey ''Access-Control-Allow-Origin'' = ''Access-Control-Allow-Origin''"
  "CanonicalHeaderKey ''Access-Control-Allow-Credentials'' = ''Access-Control-Allow-Credentials''"
  "CanonicalHeaderKey ''Access-Control-Allow-Methods'' = ''Access-Control-Allow-Methods''"
  "CanonicalHeaderKey ''Access-Control-Allow-Headers'' = ''Access-Control-Allow-Headers''"
  "CanonicalHeaderKey ''Access-Control-Max-Age'' = ''Access-Control-Max-Age''"
  by code_simp+

definition allow_origin :: "http_header \<Rightarrow> string list option" where
  "allow_origin h = map_of h ''Access-Control-Allow-Origin''"

lemma allow_origin_kept:
  "allow_origin (header_add ''Vary'' v h) = allow_origin h"
  "allow_origin (header_set ''Access-Control-Allow-Origin'' v h) = Some [v]"
  "allow_origin (header_set ''Access-Control-Allow-Credentials'' v h) = allow_origin h"
  "allow_origin (header_set ''Access-Control-Allow-Methods'' v h) = allow_origin h"
  "allow_origin (header_set ''Access-Control-Allow-Headers'' v h) = allow_origin h"
  "allow_origin (header_set ''Access-Control-Max-Age'' v h) = allow_origin h"
  by (simp_all add: allow_origin_def header_add_def header_set_def canonical_cors update_conv')

text \<open>The handler behind the middleware that answers the headers it is given.\<close>

definition echo :: "unit handler" where
  "echo ctx r hdr s = (\<lparr>re_acts = [], re_header = hdr, re_panic = False, re_log = []\<rparr>, s)"

text \<open>
  A preflight never reaches the handler: it is answered 204 to an allowed origin and 403 to any
  other, whatever is behind. Every other request reaches it once, unchanged. In both cases the
  response names the origin as allowed if and only if the request has an origin that the list allows.
\<close>
theorem cors_answers:
  assumes fresh: "allow_origin hdr = None"
  shows "(let origin = header_get (rq_Header r) ''Origin'';
             preflight = (rq_Method r = ''OPTIONS'' \<and> header_get (rq_Header r) ''Access-Control-Request-Method'' \<noteq> []);
             ok = (origin \<noteq> [] \<and> cors_allowed U m origin);
             re = fst (cors_handler U m echo ctx r hdr ())
         in allow_origin (re_header re) = (if ok then Some [origin] else None)
          \<and> (if origin \<noteq> [] \<and> preflight then
               cors_handler U m next ctx r hdr s = (re, s) \<and> re_acts re = [Respond (WriteHeader (if ok then 204 else 403))]
             else cors_handler U m next ctx r hdr s = next ctx r (re_header re) s))"
  using fresh
  by (auto simp: cors_handler_def echo_def no_body_reply_def preflight_headers_def Let_def allow_origin_kept)

section \<open>Witnesses\<close>

definition cors_url :: url_lib where
  "cors_url = \<lparr>ul_authority = \<lambda>s. Some ([], s), ul_unescape_path = Some, ul_unescape_fragment = Some, ul_string = u_Path,
     ul_query = \<lambda>_. [], ul_encode = \<lambda>_. [], ul_escape = \<lambda>s. s, ul_form_post = \<lambda>_ _. [], ul_web_message = \<lambda>_ _. [],
     ul_cookie = \<lambda>_ _. None, ul_form = \<lambda>r. Inr (rq_Query r)\<rparr>"

definition cors_list :: corsMatcher where
  "cors_list = \<lparr>cm_anyOrigin = False, cm_exact = [],
     cm_wildcards = [\<lparr>cw_scheme = ''https'', cw_suffix = ''example.com'', cw_port = []\<rparr>]\<rparr>"

lemma cors_list_built: "newCORSMatcher cors_url (\<lambda>s. s) [''https://*.example.com:443/''] = Inr cors_list"
  by code_simp

lemma cors_list_allows: "cors_allowed cors_url cors_list ''https://App.example.com'' \<and> \<not> cors_allowed cors_url cors_list ''https://a.b.example.com''
    \<and> \<not> cors_allowed cors_url cors_list ''https://evilexample.com''"
  by code_simp


definition cors_preflight :: request where
  "cors_preflight = \<lparr>rq_Method = ''OPTIONS'', rq_Path = ''/userinfo'', rq_Query = [], rq_Header = [(''Origin'', [''https://app.example.com'']),
     (''Access-Control-Request-Method'', [''GET''])], rq_Host = [], rq_TLS = True, rq_Body = None\<rparr>"

theorem cors_answers_witness:
  "\<forall>next ctx (s :: nat). re_acts (fst (cors_handler cors_url cors_list next ctx cors_preflight [] s)) = [Respond (WriteHeader 204)]
     \<and> allow_origin (re_header (fst (cors_handler cors_url cors_list next ctx cors_preflight [] s))) = Some [''https://app.example.com'']"
proof (intro allI)
  fix "next" :: "nat handler" and ctx s
  have o: "header_get (rq_Header cors_preflight) ''Origin'' = ''https://app.example.com''"
    and p: "rq_Method cors_preflight = ''OPTIONS''" "header_get (rq_Header cors_preflight) ''Access-Control-Request-Method'' \<noteq> []"
    and ok: "cors_allowed cors_url cors_list ''https://app.example.com''" by code_simp+
  have "allow_origin [] = None" by (simp add: allow_origin_def)
  from cors_answers[OF this, of cors_preflight cors_url cors_list ctx "next" s] o p ok
  show "re_acts (fst (cors_handler cors_url cors_list next ctx cors_preflight [] s)) = [Respond (WriteHeader 204)]
     \<and> allow_origin (re_header (fst (cors_handler cors_url cors_list next ctx cors_preflight [] s))) = Some [''https://app.example.com'']"
    by (simp add: Let_def)
qed

end
