(* ===== verification/Middleware_Props.thy ===== *)
theory Middleware_Props
  imports Middleware
begin

text \<open>
  What the shared middleware guarantees: the redaction of form bodies and queries acts pair by pair,
  the dump of a response is bounded, and watching a handler does not change what it does.
\<close>

section \<open>Redaction of forms\<close>

abbreviation amp :: char where
  "amp \<equiv> CHR ''&''"

abbreviation up_to_amp :: "string \<Rightarrow> string" where
  "up_to_amp s \<equiv> takeWhile (\<lambda>c. c \<noteq> amp) s"

abbreviation from_amp :: "string \<Rightarrow> string" where
  "from_amp s \<equiv> dropWhile (\<lambda>c. c \<noteq> amp) s"

text \<open>A pair whose key is a sensitive field and whose value is not empty keeps its key only.\<close>

definition secret_key :: "string \<Rightarrow> string option" where
  "secret_key p = find (\<lambda>f. has_prefix p (f @ ''='') \<and> length p > Suc (length f)) sensitiveBodyFields"

definition redact_pair :: "string \<Rightarrow> string" where
  "redact_pair p = (case secret_key p of Some f \<Rightarrow> f @ ''='' @ redacted_value | None \<Rightarrow> p)"

lemma fields_clean: "f \<in> set sensitiveBodyFields \<Longrightarrow> amp \<notin> set f"
  by (auto simp: sensitiveBodyFields_def)

lemma fields_prefix_free:
  "f \<in> set sensitiveBodyFields \<Longrightarrow> g \<in> set sensitiveBodyFields \<Longrightarrow> has_prefix f g \<Longrightarrow> f = g"
proof -
  have "list_all (\<lambda>f. list_all (\<lambda>g. has_prefix f g \<longrightarrow> f = g) sensitiveBodyFields) sensitiveBodyFields" by code_simp
  then show "f \<in> set sensitiveBodyFields \<Longrightarrow> g \<in> set sensitiveBodyFields \<Longrightarrow> has_prefix f g \<Longrightarrow> f = g"
    by (simp add: list_all_iff)
qed

lemma amp_run: "amp \<notin> set v \<Longrightarrow> t = [] \<or> hd t = amp \<Longrightarrow> up_to_amp (v @ t) = v \<and> from_amp (v @ t) = t"
proof (induction v)
  case Nil
  then show ?case by (cases t) simp_all
qed auto

lemma amp_stop: "from_amp (from_amp s) = from_amp s" "up_to_amp (from_amp s) = []"
  by (induction s) auto

lemma has_prefix_iff: "has_prefix s p \<longleftrightarrow> (\<exists>t. s = p @ t)"
  by (metis append_eq_conv_conj append_take_drop_id has_prefix_def)

lemma field_unique:
  assumes "f \<in> set sensitiveBodyFields" "g \<in> set sensitiveBodyFields" "has_prefix s f" "has_prefix s g" shows "f = g"
proof -
  from assms(3,4) obtain t u where "s = f @ t" "s = g @ u" unfolding has_prefix_iff by blast
  then have "f @ t = g @ u" by simp
  then have "has_prefix f g \<or> has_prefix g f" unfolding has_prefix_iff append_eq_append_conv2 by blast
  with fields_prefix_free assms(1,2) show ?thesis by blast
qed

lemma field_at_Some:
  "field_at s = Some (f, rest) \<longleftrightarrow> f \<in> set sensitiveBodyFields \<and> s = f @ rest"
proof
  assume "field_at s = Some (f, rest)"
  then have "find (has_prefix s) sensitiveBodyFields = Some f" "rest = drop (length f) s" by (auto simp: field_at_def)
  then show "f \<in> set sensitiveBodyFields \<and> s = f @ rest" by (auto simp: find_Some_iff has_prefix_iff)
next
  assume a: "f \<in> set sensitiveBodyFields \<and> s = f @ rest"
  then have "find (has_prefix s) sensitiveBodyFields \<noteq> None" by (auto simp: find_None_iff has_prefix_iff)
  then obtain g where g: "find (has_prefix s) sensitiveBodyFields = Some g" by blast
  then have "g = f" using a field_unique[of g f s] by (auto simp: find_Some_iff has_prefix_iff)
  with g a show "field_at s = Some (f, rest)" by (simp add: field_at_def)
qed

lemma form_at_Some:
  "form_at s = Some (f, rest) \<longleftrightarrow> f \<in> set sensitiveBodyFields \<and> (\<exists>r. s = f @ ''='' @ r \<and> up_to_amp r \<noteq> [] \<and> rest = from_amp r)"
proof -
  have "form_at s = Some (f, rest) \<longleftrightarrow> (\<exists>r. field_at s = Some (f, CHR ''='' # r) \<and> up_to_amp r \<noteq> [] \<and> rest = from_amp r)"
    by (auto simp: form_at_def split: option.splits list.splits)
  then show ?thesis by (auto simp: field_at_Some)
qed

lemma secret_key_Some: "secret_key p = Some f \<longleftrightarrow> f \<in> set sensitiveBodyFields \<and> (\<exists>v. p = f @ ''='' @ v \<and> v \<noteq> [])"
proof
  assume "secret_key p = Some f"
  then have "f \<in> set sensitiveBodyFields" "has_prefix p (f @ ''='')" "length p > Suc (length f)"
    by (auto simp: secret_key_def find_Some_iff)
  then show "f \<in> set sensitiveBodyFields \<and> (\<exists>v. p = f @ ''='' @ v \<and> v \<noteq> [])" by (auto simp: has_prefix_iff)
next
  assume a: "f \<in> set sensitiveBodyFields \<and> (\<exists>v. p = f @ ''='' @ v \<and> v \<noteq> [])"
  then have "secret_key p \<noteq> None" by (auto simp: secret_key_def find_None_iff has_prefix_iff)
  then obtain g where g: "secret_key p = Some g" by blast
  then have "g \<in> set sensitiveBodyFields" "has_prefix p g"
    by (auto simp: secret_key_def find_Some_iff has_prefix_iff)
  then show "secret_key p = Some f" using g a field_unique[of g f p] by (auto simp: has_prefix_iff)
qed

lemma form_at_first_pair: "form_at s = map_option (\<lambda>f. (f, from_amp s)) (secret_key (up_to_amp s))"
proof (cases "secret_key (up_to_amp s)")
  case (Some f)
  then obtain v where f: "f \<in> set sensitiveBodyFields" and v: "up_to_amp s = f @ ''='' @ v" "v \<noteq> []" unfolding secret_key_Some by blast
  have "amp \<notin> set (up_to_amp s)" by (auto dest: set_takeWhileD)
  then have "amp \<notin> set v" unfolding v(1) by simp
  moreover have s: "s = f @ ''='' @ (v @ from_amp s)" using v(1) takeWhile_dropWhile_id[of "\<lambda>c. c \<noteq> amp" s] by simp
  moreover have "from_amp s = [] \<or> hd (from_amp s) = amp" using hd_dropWhile[of "\<lambda>c. c \<noteq> amp" s] by blast
  ultimately have "up_to_amp (v @ from_amp s) = v" "from_amp (v @ from_amp s) = from_amp s"
    using amp_run[of v "from_amp s"] by simp_all
  with f s v(2) have "form_at s = Some (f, from_amp s)" unfolding form_at_Some by metis
  with Some show ?thesis by simp
next
  case None
  have "form_at s = None"
  proof (rule ccontr)
    assume "form_at s \<noteq> None"
    then obtain f r where f: "f \<in> set sensitiveBodyFields" "s = f @ ''='' @ r" "up_to_amp r \<noteq> []"
      by (auto simp: form_at_Some)
    then have "up_to_amp s = f @ ''='' @ up_to_amp r" using fields_clean[OF f(1)] by (auto simp: takeWhile_append)
    then have "secret_key (up_to_amp s) = Some f" using f unfolding secret_key_Some by blast
    with None show False by simp
  qed
  with None show ?thesis by simp
qed

lemma form_tail_pair: "form_tail s = up_to_amp s @ (case from_amp s of [] \<Rightarrow> [] | _ # r \<Rightarrow> amp # form_redact r)"
  by (induction s rule: form_tail.induct) (auto simp: form_redact_def split: option.splits)

lemma form_redact_pair: "form_redact s = redact_pair (up_to_amp s) @ (case from_amp s of [] \<Rightarrow> [] | _ # r \<Rightarrow> amp # form_redact r)"
proof (cases "secret_key (up_to_amp s)")
  case (Some f)
  have "form_redact s = f @ ''='' @ redacted_value @ form_tail (from_amp s)"
    using Some by (simp add: form_redact_def form_at_first_pair)
  then show ?thesis unfolding form_tail_pair[of "from_amp s"] amp_stop using Some by (simp add: redact_pair_def)
next
  case None
  then have "form_redact s = form_tail s" by (simp add: form_redact_def form_at_first_pair)
  with None show ?thesis using form_tail_pair[of s] by (simp add: redact_pair_def)
qed

lemma split_on_pair:
  "split_on x s = takeWhile (\<lambda>c. c \<noteq> x) s # (case dropWhile (\<lambda>c. c \<noteq> x) s of [] \<Rightarrow> [] | _ # r \<Rightarrow> split_on x r)"
  by (induction s) (auto split: list.splits)

text \<open>
  C28. The redaction of a form body or of a query works pair by pair. The text produced by replacing
  the matches of the regular expression from left to right is the text whose \<^verbatim>\<open>&\<close>-separated pairs are
  those of the input, each pair of a sensitive field with a value reduced to its key and the marker
  and every other pair kept: no value of such a field survives and nothing else is touched.
\<close>
theorem form_redact_pairs: "form_redact s = str_join ''&'' (map redact_pair (split_on CHR ''&'' s))"
proof (induction "length s" arbitrary: s rule: less_induct)
  case less
  show ?case
  proof (cases "from_amp s")
    case Nil
    show ?thesis unfolding form_redact_pair[of s] split_on_pair[of _ s] Nil by simp
  next
    case (Cons c r)
    have "length (c # r) \<le> length s" using length_dropWhile_le[of "\<lambda>c. c \<noteq> amp" s] Cons by simp
    then have "form_redact r = str_join ''&'' (map redact_pair (split_on CHR ''&'' r))" using less by simp
    moreover have "split_on CHR ''&'' r \<noteq> []" using split_on_pair[of amp r] by simp
    ultimately show ?thesis using Cons unfolding form_redact_pair[of s] split_on_pair[of _ s]
      by (cases "split_on CHR ''&'' r") simp_all
  qed
qed

section \<open>The dump is bounded\<close>

fun written :: "writer_call list \<Rightarrow> string" where
  "written [] = []"
| "written (WriteBytes b # cs) = b @ written cs"
| "written (c # cs) = written cs"

lemma dr_fold:
  "dr_body d = take debugCaptureCap w \<Longrightarrow> dr_totalLen d = length w \<Longrightarrow>
     dr_body (fold dr_call cs d) = take debugCaptureCap (w @ written cs) \<and> dr_totalLen (fold dr_call cs d) = length (w @ written cs)"
proof (induction cs arbitrary: d w rule: written.induct)
  case (2 b cs)
  have "dr_body (dr_call (WriteBytes b) d) = take debugCaptureCap (w @ b) \<and> dr_totalLen (dr_call (WriteBytes b) d) = length (w @ b)"
    using 2(2,3) by (auto simp: Let_def min_def nat_diff_distrib)
  then show ?case using 2(1)[of "dr_call (WriteBytes b) d" "w @ b"] by simp
qed simp_all

text \<open>
  C29. What the debug dump keeps and shows of a response is bounded, and it says so when it drops
  something. Whatever the handler writes, the recorder holds the first mebibyte of it and counts all of
  it; the block that is printed is the first 8 KiB of the redacted rendering, followed by the notice
  with the true size exactly when the capture or the display was cut.
\<close>
theorem dump_bounds:
  "(let rec = fold dr_call cs new_debugRecorder;
        text = display indent (dr_body rec) ct;
        cut = (length (written cs) > debugCaptureCap \<or> length text > debugBodyCap);
        notice = [CHR 0x0A] @ ellipsis @ ''(truncated, '' @ itoa (int (length (written cs))) @ '' bytes total)''
    in dr_body rec = take debugCaptureCap (written cs) \<and> dr_totalLen rec = length (written cs)
     \<and> writeBodyBlock indent (dr_body rec) (dr_totalLen rec) ct =
        (if written cs = [] then [] else [BodyBlock (indentLines (take debugBodyCap text @ (if cut then notice else [])) bodyIndent)]))"
proof -
  have rec: "dr_body (fold dr_call cs new_debugRecorder) = take debugCaptureCap (written cs)"
    "dr_totalLen (fold dr_call cs new_debugRecorder) = length (written cs)"
    using dr_fold[of new_debugRecorder "[]" cs] by (simp_all add: new_debugRecorder_def)
  have cap: "debugCaptureCap > 0" by (simp add: debugCaptureCap_def)
  show ?thesis unfolding Let_def rec writeBodyBlock_def using cap by (cases "written cs") auto
qed

section \<open>Watching does not interfere\<close>

text \<open>
  The interface of a middleware that only watches: whatever handler it wraps, a request with a body
  gets the handler's reply and leaves the handler's state, but for the lines that are logged.
\<close>

locale observer =
  fixes mw :: "'s handler \<Rightarrow> 's handler"
  assumes observes: "rq_Body r = Some body \<Longrightarrow> next ctx r hdr s = (re, s') \<Longrightarrow> \<exists>log. mw next ctx r hdr s = (re\<lparr>re_log := log\<rparr>, s')"
begin

lemma reply_same:
  assumes "rq_Body r = Some body"
  shows "re_acts (fst (mw next ctx r hdr s)) = re_acts (fst (next ctx r hdr s))"
    "re_header (fst (mw next ctx r hdr s)) = re_header (fst (next ctx r hdr s))"
    "re_panic (fst (mw next ctx r hdr s)) = re_panic (fst (next ctx r hdr s))" "snd (mw next ctx r hdr s) = snd (next ctx r hdr s)"
proof -
  obtain re s' where run: "next ctx r hdr s = (re, s')" by fastforce
  then obtain log where "mw next ctx r hdr s = (re\<lparr>re_log := log\<rparr>, s')" using observes[of r body "next" ctx hdr s, OF assms run] by blast
  with run show "re_acts (fst (mw next ctx r hdr s)) = re_acts (fst (next ctx r hdr s))"
    "re_header (fst (mw next ctx r hdr s)) = re_header (fst (next ctx r hdr s))"
    "re_panic (fst (mw next ctx r hdr s)) = re_panic (fst (next ctx r hdr s))" "snd (mw next ctx r hdr s) = snd (next ctx r hdr s)" by simp_all
qed

end

lemma same_log: "\<exists>log. re = re\<lparr>re_log := log\<rparr>" for re :: reply
  by (rule exI[of _ "re_log re"]) simp

lemma body_again: "rq_Body r = Some (b, err) \<Longrightarrow> r\<lparr>rq_Body := Some (b, err)\<rparr> = r"
  by simp

interpretation logging: observer "Logging enabled" for enabled
proof
  fix r :: request and "next" :: "'a handler" and ctx hdr s re s'
  assume "next ctx r hdr s = (re, s')"
  then show "\<exists>log. Logging enabled next ctx r hdr s = (re\<lparr>re_log := log\<rparr>, s')"
    by (auto simp: Logging_def Let_def same_log)
qed

interpretation dump: observer "DebugDump indent rawQuery enabled" for indent rawQuery enabled
proof
  fix r :: request and body and "next" :: "'a handler" and ctx hdr s re s'
  assume "rq_Body r = Some body" "next ctx r hdr s = (re, s')"
  then show "\<exists>log. DebugDump indent rawQuery enabled next ctx r hdr s = (re\<lparr>re_log := log\<rparr>, s')"
    by (cases body) (auto simp: DebugDump_def Let_def body_again same_log)
qed

text \<open>
  The logging middleware and the debug dump only watch. For a request with a body they hand the
  handler the same request, with the same bytes and read error, and pass on its calls of the
  writer, its headers, its panic and its new state; the recovery middleware turns a panic into a 500
  and lets everything else through; and the body limit hands on at most the limit, with an error in
  place of the rest.
\<close>
theorem watching_transparent:
  assumes "rq_Body r = Some (b, err)"
  shows "(let (re, s') = next ctx r hdr s;
             (re1, s1) = DebugDump indent rawQuery enabled next ctx r hdr s;
             (re2, s2) = Logging enabled next ctx r hdr s
         in re1\<lparr>re_log := []\<rparr> = re\<lparr>re_log := []\<rparr> \<and> s1 = s' \<and> re2\<lparr>re_log := []\<rparr> = re\<lparr>re_log := []\<rparr> \<and> s2 = s')
   \<and> \<not> re_panic (fst (Recovery next ctx r hdr s))
   \<and> (\<exists>b' err'. MaxBodyBytes limit next ctx r hdr s = next ctx (r\<lparr>rq_Body := Some (b', err')\<rparr>) hdr s
        \<and> b' = (if limit \<le> 0 then b else take (nat limit) b) \<and> (b' = b \<and> err' = err \<or> length b' < length b \<and> err' \<noteq> None))"
proof (intro conjI)
  have same: "r\<lparr>rq_Body := Some (b, err)\<rparr> = r" using assms by simp
  show "(let (re, s') = next ctx r hdr s;
             (re1, s1) = DebugDump indent rawQuery enabled next ctx r hdr s;
             (re2, s2) = Logging enabled next ctx r hdr s
         in re1\<lparr>re_log := []\<rparr> = re\<lparr>re_log := []\<rparr> \<and> s1 = s' \<and> re2\<lparr>re_log := []\<rparr> = re\<lparr>re_log := []\<rparr> \<and> s2 = s')"
    using assms by (auto simp: DebugDump_def Logging_def same Let_def split: prod.splits)
  show "\<not> re_panic (fst (Recovery next ctx r hdr s))" by (auto simp: Recovery_def split: prod.splits)
  show "\<exists>b' err'. MaxBodyBytes limit next ctx r hdr s = next ctx (r\<lparr>rq_Body := Some (b', err')\<rparr>) hdr s
        \<and> b' = (if limit \<le> 0 then b else take (nat limit) b) \<and> (b' = b \<and> err' = err \<or> length b' < length b \<and> err' \<noteq> None)"
    using assms by (cases "limit \<le> 0 \<or> int (length b) \<le> limit") (auto simp: MaxBodyBytes_def same)
qed

end
