(* ===== verification/Clock.thy ===== *)
theory Clock
  imports Httperr
begin

text \<open>
  The controllable clock, \<^verbatim>\<open>internal/clock/clock.go\<close>, and the \<^verbatim>\<open>/admin0/clock\<close> handlers that
  drive it, \<^verbatim>\<open>internal/admin0/clock.go\<close>. Every operation of \<^verbatim>\<open>Controlled\<close> runs under one
  lock, so an execution is a sequence of operations. The wall clock is an argument; the decoders
  and the RFC 3339 and duration parsers of the standard library are the fields of \<open>clock_lib\<close>.
  The clock is shown to implement the three-state specification \<open>clock_spec\<close>.
\<close>

section \<open>The clock\<close>

datatype Mode = ModeReal | ModeFrozen | ModeOffset

record Controlled =
  ck_mode :: Mode
  ck_pinned :: time
  ck_offset :: duration

datatype clock_error = ErrAdvanceInRealMode

definition NewControlled :: Controlled where
  "NewControlled = \<lparr>ck_mode = ModeReal, ck_pinned = zero_time, ck_offset = 0\<rparr>"

definition Now :: "time \<Rightarrow> Controlled \<Rightarrow> time" where
  "Now wall c = (case ck_mode c of
      ModeFrozen \<Rightarrow> ck_pinned c
    | ModeOffset \<Rightarrow> time_add wall (ck_offset c)
    | ModeReal \<Rightarrow> wall)"

definition State :: "time \<Rightarrow> Controlled \<Rightarrow> Mode \<times> time" where
  "State wall c = (case ck_mode c of
      ModeFrozen \<Rightarrow> (ck_mode c, ck_pinned c)
    | ModeOffset \<Rightarrow> (ck_mode c, time_add wall (ck_offset c))
    | ModeReal \<Rightarrow> (ck_mode c, wall))"

definition ConfiguredOffset :: "Controlled \<Rightarrow> duration \<times> bool" where
  "ConfiguredOffset c = (if ck_mode c \<noteq> ModeOffset then (0, False) else (ck_offset c, True))"

definition Snapshot :: "time \<Rightarrow> Controlled \<Rightarrow> Mode \<times> time \<times> duration \<times> bool" where
  "Snapshot wall c = (case ck_mode c of
      ModeFrozen \<Rightarrow> (ck_mode c, ck_pinned c, 0, False)
    | ModeOffset \<Rightarrow> (ck_mode c, time_add wall (ck_offset c), ck_offset c, True)
    | ModeReal \<Rightarrow> (ck_mode c, wall, 0, False))"

definition Freeze :: "time \<Rightarrow> Controlled \<Rightarrow> Controlled" where
  "Freeze t c = c\<lparr>ck_mode := ModeFrozen, ck_pinned := t, ck_offset := 0\<rparr>"

definition Offset :: "duration \<Rightarrow> Controlled \<Rightarrow> Controlled" where
  "Offset d c = c\<lparr>ck_mode := ModeOffset, ck_offset := d, ck_pinned := zero_time\<rparr>"

definition Advance :: "duration \<Rightarrow> Controlled \<Rightarrow> clock_error option \<times> Controlled" where
  "Advance d c = (case ck_mode c of
      ModeFrozen \<Rightarrow> (None, c\<lparr>ck_pinned := time_add (ck_pinned c) d\<rparr>)
    | ModeOffset \<Rightarrow> (None, c\<lparr>ck_offset := ck_offset c + d\<rparr>)
    | ModeReal \<Rightarrow> (Some ErrAdvanceInRealMode, c))"

definition Reset :: "Controlled \<Rightarrow> Controlled" where
  "Reset c = c\<lparr>ck_mode := ModeReal, ck_pinned := zero_time, ck_offset := 0\<rparr>"

lemmas clock_defs [store_defs] = NewControlled_def Now_def State_def ConfiguredOffset_def
  Snapshot_def Freeze_def Offset_def Advance_def Reset_def

section \<open>The handlers\<close>

record clock_lib =
  cl_decode_put :: "string \<Rightarrow> string + (string option \<times> string option)"
  cl_decode_advance :: "string \<Rightarrow> string + string"
  cl_parse_time :: "string \<Rightarrow> string + time"
  cl_parse_duration :: "string \<Rightarrow> string + duration"
  cl_format_time :: "time \<Rightarrow> string"
  cl_format_duration :: "duration \<Rightarrow> string"

definition mode_string :: "Mode \<Rightarrow> string" where
  "mode_string m = (case m of ModeReal \<Rightarrow> ''real'' | ModeFrozen \<Rightarrow> ''frozen'' | ModeOffset \<Rightarrow> ''offset'')"

text \<open>\<^verbatim>\<open>decodeClockBody\<close>: the error code for a decoding failure with the given message.\<close>

definition decodeClockBody :: "(string \<Rightarrow> string + 'b) \<Rightarrow> string \<Rightarrow> (string \<times> string) + 'b" where
  "decodeClockBody decode body = (case decode body of
      Inl err \<Rightarrow> Inl (if has_prefix err ''json: unknown field '' then ''invalid_clock_field''
                     else ''invalid_clock_request'', err)
    | Inr b \<Rightarrow> Inr b)"

definition GetClockHandler :: "clock_lib \<Rightarrow> time \<Rightarrow> Controlled \<Rightarrow> response" where
  "GetClockHandler L wall c =
     (case Snapshot wall c of (mode, now, off, has_offset) \<Rightarrow>
        render_json 200 (JObj
          ([(''mode'', JStr (mode_string mode)), (''now'', JStr (cl_format_time L now))] @
           (if has_offset \<and> cl_format_duration L off \<noteq> [] then [(''offset'', JStr (cl_format_duration L off))]
            else []))))"

definition PutClockHandler :: "clock_lib \<Rightarrow> string \<Rightarrow> Controlled \<Rightarrow> response \<times> Controlled" where
  "PutClockHandler L body c =
     (case decodeClockBody (cl_decode_put L) body of
        Inl (code, err) \<Rightarrow> (WriteMgmt 400 ''Bad Request'' (''decode body: '' @ err) code, c)
      | Inr (now, off) \<Rightarrow>
          if (now \<noteq> None) = (off \<noteq> None) then
            (WriteMgmt 400 ''Bad Request'' ''specify exactly one of \"now\" or \"offset\"'' ''invalid_clock_request'', c)
          else (case now of
              Some n \<Rightarrow> (case cl_parse_time L n of
                  Inl err \<Rightarrow> (WriteMgmt 400 ''Bad Request'' (''\"now\" is not RFC 3339: '' @ err) ''invalid_clock_time'', c)
                | Inr t \<Rightarrow> (no_content 204, Freeze t c))
            | None \<Rightarrow> (case cl_parse_duration L (the off) of
                  Inl err \<Rightarrow> (WriteMgmt 400 ''Bad Request'' (''\"offset\" is not a Go duration: '' @ err) ''invalid_clock_duration'', c)
                | Inr d \<Rightarrow> (no_content 204, Offset d c))))"

definition AdvanceClockHandler :: "clock_lib \<Rightarrow> string \<Rightarrow> Controlled \<Rightarrow> response \<times> Controlled" where
  "AdvanceClockHandler L body c =
     (case decodeClockBody (cl_decode_advance L) body of
        Inl (code, err) \<Rightarrow> (WriteMgmt 400 ''Bad Request'' (''decode body: '' @ err) code, c)
      | Inr b \<Rightarrow> (case cl_parse_duration L b of
            Inl err \<Rightarrow> (WriteMgmt 400 ''Bad Request'' (''\"by\" is not a Go duration: '' @ err) ''invalid_clock_duration'', c)
          | Inr d \<Rightarrow> (case Advance d c of
                (Some ErrAdvanceInRealMode, c') \<Rightarrow>
                  (WriteMgmt 400 ''Bad Request''
                     ''clock: cannot advance while in real mode (Freeze or Offset first)'' ''invalid_clock_state'', c')
              | (None, c') \<Rightarrow> (no_content 204, c'))))"

definition DeleteClockHandler :: "Controlled \<Rightarrow> response \<times> Controlled" where
  "DeleteClockHandler c = (no_content 204, Reset c)"

datatype clock_request = GetClock | PutClock string | AdvanceClock string | DeleteClock

fun clock_serve :: "clock_lib \<Rightarrow> time \<Rightarrow> clock_request \<Rightarrow> Controlled \<Rightarrow> response \<times> Controlled" where
  "clock_serve L wall GetClock c = (GetClockHandler L wall c, c)"
| "clock_serve L wall (PutClock b) c = PutClockHandler L b c"
| "clock_serve L wall (AdvanceClock b) c = AdvanceClockHandler L b c"
| "clock_serve L wall DeleteClock c = DeleteClockHandler c"

lemmas clock_handler_defs [handler_defs] = decodeClockBody_def GetClockHandler_def PutClockHandler_def
  AdvanceClockHandler_def DeleteClockHandler_def

section \<open>Specification and refinement\<close>

text \<open>What the clock promises: it is real, pinned to an instant, or skewed by a duration.\<close>

datatype clock_spec = Real | Pinned time | Skewed duration

datatype clock_op = OpFreeze time | OpOffset duration | OpAdvance duration | OpReset

fun spec_now :: "time \<Rightarrow> clock_spec \<Rightarrow> time" where
  "spec_now wall Real = wall"
| "spec_now wall (Pinned t) = t"
| "spec_now wall (Skewed d) = time_add wall d"

fun spec_step :: "clock_op \<Rightarrow> clock_spec \<Rightarrow> clock_error option \<times> clock_spec" where
  "spec_step (OpFreeze t) s = (None, Pinned t)"
| "spec_step (OpOffset d) s = (None, Skewed d)"
| "spec_step (OpAdvance d) Real = (Some ErrAdvanceInRealMode, Real)"
| "spec_step (OpAdvance d) (Pinned t) = (None, Pinned (time_add t d))"
| "spec_step (OpAdvance d) (Skewed e) = (None, Skewed (e + d))"
| "spec_step OpReset s = (None, Real)"

fun clock_step :: "clock_op \<Rightarrow> Controlled \<Rightarrow> clock_error option \<times> Controlled" where
  "clock_step (OpFreeze t) c = (None, Freeze t c)"
| "clock_step (OpOffset d) c = (None, Offset d c)"
| "clock_step (OpAdvance d) c = Advance d c"
| "clock_step OpReset c = (None, Reset c)"

definition clock_abs :: "Controlled \<Rightarrow> clock_spec" where
  "clock_abs c = (case ck_mode c of
      ModeReal \<Rightarrow> Real | ModeFrozen \<Rightarrow> Pinned (ck_pinned c) | ModeOffset \<Rightarrow> Skewed (ck_offset c))"

text \<open>The field that the mode does not use is zero, as the comments of the source promise.\<close>

definition clock_inv :: "Controlled \<Rightarrow> bool" where
  "clock_inv c \<longleftrightarrow> (ck_mode c \<noteq> ModeFrozen \<longrightarrow> ck_pinned c = zero_time) \<and>
     (ck_mode c \<noteq> ModeOffset \<longrightarrow> ck_offset c = 0)"

interpretation clk: simulation clock_step spec_step clock_abs clock_inv
proof
  fix c x
  assume inv: "clock_inv c"
  show "fst (clock_step x c) = fst (spec_step x (clock_abs c))"
    by (cases x; cases "ck_mode c") (simp_all add: clock_defs clock_abs_def)
  show "clock_abs (snd (clock_step x c)) = snd (spec_step x (clock_abs c))"
    by (cases x; cases "ck_mode c") (simp_all add: clock_defs clock_abs_def)
  show "clock_inv (snd (clock_step x c))"
    using inv by (cases x; cases "ck_mode c") (simp_all add: clock_defs clock_inv_def)
qed

lemma clock_inv_new: "clock_inv NewControlled"
  by (simp add: clock_inv_def NewControlled_def)

lemma Now_spec: "Now wall c = spec_now wall (clock_abs c)"
  by (simp add: Now_def clock_abs_def split: Mode.split)

lemma Snapshot_spec:
  "Snapshot wall c = (ck_mode c, Now wall c, fst (ConfiguredOffset c), snd (ConfiguredOffset c))"
  by (simp add: clock_defs split: Mode.split)

text \<open>A run of advances from a pinned or a skewed clock.\<close>

lemma spec_run_advance_pinned:
  "snd (run_ops spec_step (map OpAdvance ds) (Pinned t)) = Pinned (t + sum_list (map dur_ns ds))"
  by (induction ds arbitrary: t) (simp_all add: time_add_def add.assoc)

lemma spec_run_advance_skewed:
  "snd (run_ops spec_step (map OpAdvance ds) (Skewed d)) = Skewed (d + sum_list ds)"
  by (induction ds arbitrary: d) (simp_all add: add.assoc)

section \<open>Properties\<close>

text \<open>
  From a new clock, any sequence of Freeze, Offset, Advance and Reset returns the errors of
  the specification and ends in the state of the specification (real, pinned or skewed); in
  particular \<^verbatim>\<open>Now\<close>, \<^verbatim>\<open>State\<close> and \<^verbatim>\<open>Snapshot\<close> read the specified instant, and the fields
  the mode does not use are zero.
\<close>
theorem clock_refines_spec:
  fixes ops :: "clock_op list" and wall :: time
  defines "c \<equiv> snd (run_ops clock_step ops NewControlled)"
    and "s \<equiv> snd (run_ops spec_step ops Real)"
  shows "fst (run_ops clock_step ops NewControlled) = fst (run_ops spec_step ops Real)
    \<and> clock_abs c = s \<and> clock_inv c
    \<and> Now wall c = spec_now wall s \<and> State wall c = (ck_mode c, spec_now wall s)
    \<and> Snapshot wall c = (ck_mode c, spec_now wall s, fst (ConfiguredOffset c), ck_mode c = ModeOffset)"
proof -
  have abs0: "clock_abs NewControlled = Real"
    by (simp add: clock_abs_def NewControlled_def)
  have ref: "fst (run_ops clock_step ops NewControlled) = fst (run_ops spec_step ops Real)"
    "clock_abs c = s"
    using clk.run_refines[OF clock_inv_new, of ops] unfolding c_def s_def abs0 by auto
  have inv: "clock_inv c"
    unfolding c_def by (rule clk.run_inv[OF clock_inv_new])
  have now: "Now wall c = spec_now wall s"
    using ref(2) by (simp add: Now_spec)
  have "State wall c = (ck_mode c, Now wall c)"
    by (simp add: State_def Now_def split: Mode.split)
  moreover have "snd (ConfiguredOffset c) = (ck_mode c = ModeOffset)"
    by (simp add: ConfiguredOffset_def)
  ultimately show ?thesis
    using ref inv now Snapshot_spec[of wall c] by simp
qed

text \<open>
  The clock endpoints are all or nothing: a request answered with an error status leaves the
  clock as it was, every other request answers 200 or 204, and the invariant is kept.
\<close>
theorem clock_serve_atomic:
  assumes "clock_inv c" and "clock_serve L wall r c = (resp, c')"
  shows "(rs_status resp = 400 \<and> c' = c) \<or> (rs_status resp \<in> {200, 204} \<and> clock_inv c')"
proof (cases r)
  case GetClock
  with assms show ?thesis
    by (auto simp: GetClockHandler_def split: prod.splits)
next
  case (PutClock b)
  with assms show ?thesis
    by (auto simp: PutClockHandler_def decodeClockBody_def Freeze_def Offset_def clock_inv_def
        split: sum.splits prod.splits option.splits if_splits)
next
  case (AdvanceClock b)
  with assms show ?thesis
    by (cases "ck_mode c")
      (auto simp: AdvanceClockHandler_def decodeClockBody_def Advance_def clock_inv_def
        split: sum.splits prod.splits option.splits if_splits clock_error.splits)
next
  case DeleteClock
  with assms show ?thesis
    by (auto simp: DeleteClockHandler_def Reset_def clock_inv_def)
qed

definition demo_clock_lib :: clock_lib where
  "demo_clock_lib = \<lparr>
     cl_decode_put = (\<lambda>b. if b = ''pin'' then Inr (Some ''t'', None) else Inl ''json: unknown field''),
     cl_decode_advance = (\<lambda>b. Inr b),
     cl_parse_time = (\<lambda>_. Inr 7),
     cl_parse_duration = (\<lambda>_. Inr 5),
     cl_format_time = (\<lambda>_. ''t''),
     cl_format_duration = (\<lambda>_. ''d'')\<rparr>"

theorem clock_serve_atomic_witness:
  "clock_serve demo_clock_lib 0 (PutClock ''pin'') NewControlled = (no_content 204, Freeze 7 NewControlled)
   \<and> clock_inv (Freeze 7 NewControlled)"
proof -
  have run: "clock_serve demo_clock_lib 0 (PutClock ''pin'') NewControlled = (no_content 204, Freeze 7 NewControlled)"
    by (simp add: demo_clock_lib_def PutClockHandler_def decodeClockBody_def)
  have "clock_inv NewControlled" by (rule clock_inv_new)
  from clock_serve_atomic[OF this run] run show ?thesis by simp
qed

text \<open>
  Time travel is exact. After a freeze at \<^term>\<open>t\<close>, any sequence of advances moves \<^verbatim>\<open>Now\<close> to
  \<^term>\<open>t\<close> plus their sum, whatever the wall clock shows; after an offset \<^term>\<open>d\<close>, \<^verbatim>\<open>Now\<close> is
  the wall clock plus \<^term>\<open>d\<close> plus their sum, provided that every partial sum fits the 64 bits
  of a duration.
\<close>
theorem clock_time_travel:
  assumes fits: "\<And>n. n \<le> length ds \<Longrightarrow>
      - (2 ^ 63) \<le> dur_ns d + sum_list (map dur_ns (take n ds)) \<and>
      dur_ns d + sum_list (map dur_ns (take n ds)) < 2 ^ 63"
  shows "Now wall (snd (run_ops clock_step (OpFreeze t # map OpAdvance ds) c)) = t + sum_list (map dur_ns ds)
    \<and> Now wall (snd (run_ops clock_step (OpOffset d # map OpAdvance ds) c)) = wall + dur_ns d + sum_list (map dur_ns ds)"
proof -
  have inv: "clock_inv (Freeze t c)" "clock_inv (Offset d c)"
    by (simp_all add: clock_inv_def Freeze_def Offset_def)
  have abs: "clock_abs (Freeze t c) = Pinned t" "clock_abs (Offset d c) = Skewed d"
    by (simp_all add: clock_abs_def Freeze_def Offset_def)
  have sum: "dur_ns (d + sum_list ds) = dur_ns d + sum_list (map dur_ns ds)"
    using fits
  proof (induction ds arbitrary: d)
    case Nil
    then show ?case by simp
  next
    case (Cons x xs)
    from Cons.prems[of 1] have x: "dur_ns (d + x) = dur_ns d + dur_ns x"
      by (intro dur_ns_add) auto
    have "dur_ns (d + x + sum_list xs) = dur_ns (d + x) + sum_list (map dur_ns xs)"
    proof (rule Cons.IH)
      fix n assume "n \<le> length xs"
      with Cons.prems[of "Suc n"] x
      show "- (2 ^ 63) \<le> dur_ns (d + x) + sum_list (map dur_ns (take n xs)) \<and>
        dur_ns (d + x) + sum_list (map dur_ns (take n xs)) < 2 ^ 63"
        by (simp add: add.assoc)
    qed
    with x show ?case by (simp add: add.assoc)
  qed
  have "Now wall (snd (run_ops clock_step (map OpAdvance ds) (Freeze t c))) = t + sum_list (map dur_ns ds)"
    using clk.run_refines[OF inv(1), of "map OpAdvance ds"]
    by (simp add: Now_spec abs spec_run_advance_pinned)
  moreover have "Now wall (snd (run_ops clock_step (map OpAdvance ds) (Offset d c)))
      = wall + dur_ns d + sum_list (map dur_ns ds)"
    using clk.run_refines[OF inv(2), of "map OpAdvance ds"] sum
    by (simp add: Now_spec abs spec_run_advance_skewed time_add_def)
  ultimately show ?thesis by simp
qed

theorem clock_time_travel_witness:
  "Now 100 (snd (run_ops clock_step (OpFreeze 7 # map OpAdvance [3, 2]) NewControlled)) = 12
   \<and> Now 100 (snd (run_ops clock_step (OpOffset 1 # map OpAdvance [3, 2]) NewControlled)) = 106"
proof -
  have ns: "dur_ns 1 = 1" "dur_ns 2 = 2" "dur_ns 3 = 3"
    using dur_ns_of_int[of 1] dur_ns_of_int[of 2] dur_ns_of_int[of 3] by simp_all
  have fits: "- (2 ^ 63) \<le> dur_ns 1 + sum_list (map dur_ns (take n [3, 2])) \<and>
      dur_ns 1 + sum_list (map dur_ns (take n [3, 2])) < 2 ^ 63" if "n \<le> length [3, 2 :: duration]" for n
  proof -
    from that consider "n = 0" | "n = 1" | "n = 2" by fastforce
    then show ?thesis by cases (simp_all add: ns numeral_2_eq_2)
  qed
  show ?thesis
    using clock_time_travel[where d = 1 and ds = "[3, 2]" and wall = 100 and t = 7 and c = NewControlled, OF fits]
    by (simp add: ns)
qed

text \<open>
  The bound of the previous theorem is needed: the offset is an \<^verbatim>\<open>int64\<close> and \<^verbatim>\<open>Advance\<close> adds to it
  without a check, so two skews of 200 years put the clock in the past of the wall clock.
\<close>

lemma clock_offset_overflow:
  "Now 0 (snd (Advance (word_of_int 6307200000000000000) (Offset (word_of_int 6307200000000000000) NewControlled))) < 0"
  by (simp add: clock_defs time_add_def dur_ns_def)

end
