(* ===== verification/Admin0.thy ===== *)
theory Admin0
  imports Mgmt Events_Hub Endpoints Clock
begin

text \<open>
  The control plane of \<^verbatim>\<open>internal/admin0\<close>: the stores it governs, the handlers of \<^verbatim>\<open>admin0.go\<close> and
  \<^verbatim>\<open>authorizeerrors.go\<close>, the route table and the reset. A store that is nil is \<^const>\<open>None\<close>, and a
  handler over a nil store panics, which is the outcome \<open>Inl ()\<close>.
\<close>

section \<open>The stores\<close>

record Admin0_Deps =
  ad_Matches :: "Match_Store option"
  ad_Claims :: "Claims_Store option"
  ad_ClaimMappings :: "MappingStore option"
  ad_Sessions :: "Store option"
  ad_AuthorizeErrors :: "Rule_Store option"
  ad_Permissions :: "Perm_Store option"
  ad_MFA :: "Mfa_Store option"
  ad_Clock :: "Controlled option"
  ad_Events :: "(Hub \<times> conns) option"
  ad_Journal :: "Journal option"

section \<open>Reset\<close>

text \<open>The handler wipes each store that is there; the error of the hub is ignored.\<close>

definition ResetHandler :: "(nat \<Rightarrow> shutdown_error option) \<Rightarrow> Admin0_Deps \<Rightarrow> response \<times> Admin0_Deps" where
  "ResetHandler down d =
     (no_content 204,
      d\<lparr>ad_Matches := map_option ResetAll (ad_Matches d),
        ad_Claims := map_option Claims_Clear (ad_Claims d),
        ad_ClaimMappings := map_option Mapping_Clear (ad_ClaimMappings d),
        ad_Sessions := map_option Clear (ad_Sessions d),
        ad_AuthorizeErrors := map_option Rules_Clear (ad_AuthorizeErrors d),
        ad_Permissions := map_option Perm_Clear (ad_Permissions d),
        ad_MFA := map_option Mfa_Reset (ad_MFA d),
        ad_Journal := map_option Journal_Clear (ad_Journal d),
        ad_Clock := map_option Reset (ad_Clock d),
        ad_Events := map_option (\<lambda>(h, cs). snd (Hub_Reset down h cs)) (ad_Events d)\<rparr>)"

section \<open>Handlers\<close>

text \<open>
  The decoders are what \<^verbatim>\<open>json.NewDecoder(r.Body).Decode\<close> makes of the body: its error or the value.
  A nil map or slice is empty.
\<close>

definition decode_error :: "string \<Rightarrow> response" where
  "decode_error err = WriteMgmt 400 ''Bad Request'' (''decode body: '' @ err) ''invalid_body''"

record mfaRequiredBody =
  mr_Required :: bool

definition GetMFARequiredHandler :: "Mfa_Store \<Rightarrow> response" where
  "GetMFARequiredHandler s = render_json 200 (JObj [(''required'', JBool (IsRequired s))])"

definition PutMFARequiredHandler :: "string + mfaRequiredBody \<Rightarrow> Mfa_Store \<Rightarrow> response \<times> Mfa_Store" where
  "PutMFARequiredHandler body s = (case body of
      Inl err \<Rightarrow> (decode_error err, s)
    | Inr b \<Rightarrow> (no_content 204, SetRequired (mr_Required b) s))"

definition GetClaimsHandler :: "Claims_Store \<Rightarrow> response" where
  "GetClaimsHandler s = render_json 200 (JObj (Claims_Get s))"

definition PutClaimsHandler :: "string + (string, json) gomap \<Rightarrow> Claims_Store \<Rightarrow> response \<times> Claims_Store" where
  "PutClaimsHandler body s = (case body of
      Inl err \<Rightarrow> (decode_error err, s)
    | Inr b \<Rightarrow> (no_content 204, Claims_Set b s))"

definition DeleteClaimsHandler :: "Claims_Store \<Rightarrow> response \<times> Claims_Store" where
  "DeleteClaimsHandler s = (no_content 204, Claims_Clear s)"

definition GetClaimMappingsHandler :: "MappingStore \<Rightarrow> response" where
  "GetClaimMappingsHandler s = render_json 200 (JObj (map (\<lambda>(k, v). (k, JStr v)) (Mapping_Get s)))"

definition PutClaimMappingsHandler :: "string + (string, string) gomap \<Rightarrow> MappingStore \<Rightarrow> response \<times> MappingStore" where
  "PutClaimMappingsHandler body s = (case body of
      Inl err \<Rightarrow> (decode_error err, s)
    | Inr b \<Rightarrow> (no_content 204, Mapping_Set b s))"

definition DeleteClaimMappingsHandler :: "MappingStore \<Rightarrow> response \<times> MappingStore" where
  "DeleteClaimMappingsHandler s = (no_content 204, Mapping_Clear s)"

definition strings_json :: "string list \<Rightarrow> json" where
  "strings_json ss = JArr (map JStr ss)"

definition GetAllPermissionsHandler :: "Perm_Store \<Rightarrow> response" where
  "GetAllPermissionsHandler s = render_json 200 (JObj (map (\<lambda>(k, v). (k, strings_json v)) (Perm_All s)))"

definition DeleteAllPermissionsHandler :: "Perm_Store \<Rightarrow> response \<times> Perm_Store" where
  "DeleteAllPermissionsHandler s = (no_content 204, Perm_Clear s)"

definition GetPermissionsHandler :: "string \<Rightarrow> Perm_Store \<Rightarrow> response" where
  "GetPermissionsHandler audience s =
     render_json 200 (strings_json (case Perm_Get audience s of None \<Rightarrow> [] | Some perms \<Rightarrow> perms))"

definition PutPermissionsHandler :: "string \<Rightarrow> string + string list \<Rightarrow> Perm_Store \<Rightarrow> response \<times> Perm_Store" where
  "PutPermissionsHandler audience body s = (case body of
      Inl err \<Rightarrow> (decode_error err, s)
    | Inr perms \<Rightarrow> (no_content 204, Perm_Set audience perms s))"

definition DeletePermissionsHandler :: "string \<Rightarrow> Perm_Store \<Rightarrow> response \<times> Perm_Store" where
  "DeletePermissionsHandler audience s = (no_content 204, Perm_Delete audience s)"

text \<open>The JSON form of a rule; \<^verbatim>\<open>match\<close> and \<^verbatim>\<open>error_description\<close> are left out when they are empty.\<close>

definition rule_json :: "Rule \<Rightarrow> json" where
  "rule_json r = JObj ([(''id'', JStr (ru_ID r))]
     @ (if range_map (ru_Match r) = [] then [] else [(''match'', JObj (map (\<lambda>(k, v). (k, JStr v)) (range_map (ru_Match r))))])
     @ [(''error'', JStr (ru_Error r))] @ omitempty ''error_description'' (ru_ErrorDescription r))"

definition PostAuthorizeErrorHandler :: "(string \<Rightarrow> string) \<Rightarrow> string \<Rightarrow> string + Rule \<Rightarrow> Rule_Store \<Rightarrow> response \<times> Rule_Store" where
  "PostAuthorizeErrorHandler quote uid body s = (case body of
      Inl err \<Rightarrow> (decode_error err, s)
    | Inr rule \<Rightarrow> (case Rules_Validate quote rule of
          Some err \<Rightarrow> (WriteMgmt 400 ''Bad Request'' err ''invalid_body'', s)
        | None \<Rightarrow> (case Rules_Add uid rule s of (stored, s') \<Rightarrow> (render_json 201 (rule_json stored), s'))))"

definition ListAuthorizeErrorsHandler :: "Rule_Store \<Rightarrow> response" where
  "ListAuthorizeErrorsHandler s = render_json 200 (JObj [(''rules'', JArr (map rule_json (Rules_List s)))])"

definition DeleteAuthorizeErrorsHandler :: "Rule_Store \<Rightarrow> response \<times> Rule_Store" where
  "DeleteAuthorizeErrorsHandler s = (no_content 204, Rules_Clear s)"

definition DeleteAuthorizeErrorByIDHandler :: "string \<Rightarrow> Rule_Store \<Rightarrow> response \<times> Rule_Store" where
  "DeleteAuthorizeErrorByIDHandler i s = (no_content 204, snd (Rules_Delete i s))"

section \<open>Routes\<close>

datatype admin_handler =
    HListJournal | HListUnmatchedJournal | HDeleteJournal | HReset
  | HPostExpectation | HListExpectations | HDeleteExpectations | HGetExpectation | HDeleteExpectation
  | HGetClaims | HPutClaims | HDeleteClaims
  | HGetClaimMappings | HPutClaimMappings | HDeleteClaimMappings
  | HPostAuthorizeError | HListAuthorizeErrors | HDeleteAuthorizeErrors | HDeleteAuthorizeError
  | HGetAllPermissions | HDeleteAllPermissions | HGetPermissions | HPutPermissions | HDeletePermissions
  | HGetMFARequired | HPutMFARequired
  | HGetClock | HPutClock | HAdvanceClock | HDeleteClock
  | HGetEventSubscribers | HExpireEvents | HPostEvents

text \<open>The stores the handlers close over, with the defaults of \<^verbatim>\<open>Mount\<close>, and the routes it registers.\<close>

definition or_new :: "'a \<Rightarrow> 'a option \<Rightarrow> 'a option" where
  "or_new x o1 = (case o1 of None \<Rightarrow> Some x | Some y \<Rightarrow> Some y)"

definition Admin0_defaults :: "Admin0_Deps \<Rightarrow> Admin0_Deps" where
  "Admin0_defaults d = d\<lparr>ad_Journal := or_new (Journal_New 0) (ad_Journal d),
     ad_ClaimMappings := or_new NewMappingStore (ad_ClaimMappings d),
     ad_AuthorizeErrors := or_new Rules_NewStore (ad_AuthorizeErrors d)\<rparr>"

definition Admin0_Mount :: "bool \<Rightarrow> bool \<Rightarrow> ((string \<times> string) \<times> admin_handler) list" where
  "Admin0_Mount events validator =
    [((''GET'', ''/admin0/journal''), HListJournal),
     ((''GET'', ''/admin0/journal/unmatched''), HListUnmatchedJournal),
     ((''DELETE'', ''/admin0/journal''), HDeleteJournal),
     ((''POST'', ''/admin0/reset''), HReset),
     ((''POST'', ''/admin0/expectations''), HPostExpectation),
     ((''GET'', ''/admin0/expectations''), HListExpectations),
     ((''DELETE'', ''/admin0/expectations''), HDeleteExpectations),
     ((''GET'', ''/admin0/expectations/{id}''), HGetExpectation),
     ((''DELETE'', ''/admin0/expectations/{id}''), HDeleteExpectation),
     ((''GET'', ''/admin0/claims''), HGetClaims),
     ((''PUT'', ''/admin0/claims''), HPutClaims),
     ((''DELETE'', ''/admin0/claims''), HDeleteClaims),
     ((''GET'', ''/admin0/claims/mappings''), HGetClaimMappings),
     ((''PUT'', ''/admin0/claims/mappings''), HPutClaimMappings),
     ((''DELETE'', ''/admin0/claims/mappings''), HDeleteClaimMappings),
     ((''POST'', ''/admin0/authorize-errors''), HPostAuthorizeError),
     ((''GET'', ''/admin0/authorize-errors''), HListAuthorizeErrors),
     ((''DELETE'', ''/admin0/authorize-errors''), HDeleteAuthorizeErrors),
     ((''DELETE'', ''/admin0/authorize-errors/{id}''), HDeleteAuthorizeError),
     ((''GET'', ''/admin0/permissions''), HGetAllPermissions),
     ((''DELETE'', ''/admin0/permissions''), HDeleteAllPermissions),
     ((''GET'', ''/admin0/permissions/*''), HGetPermissions),
     ((''PUT'', ''/admin0/permissions/*''), HPutPermissions),
     ((''DELETE'', ''/admin0/permissions/*''), HDeletePermissions),
     ((''GET'', ''/admin0/mfa-required''), HGetMFARequired),
     ((''PUT'', ''/admin0/mfa-required''), HPutMFARequired),
     ((''GET'', ''/admin0/clock''), HGetClock),
     ((''PUT'', ''/admin0/clock''), HPutClock),
     ((''POST'', ''/admin0/clock/advance''), HAdvanceClock),
     ((''DELETE'', ''/admin0/clock''), HDeleteClock)]
    @ (if events then
         [((''GET'', ''/admin0/events/subscribers''), HGetEventSubscribers),
          ((''POST'', ''/admin0/events/expire''), HExpireEvents)]
       else [])
    @ (if events \<and> validator then [((''POST'', ''/admin0/events''), HPostEvents)] else [])"

text \<open>
  A call: what the route captured, the body, the wall clock, the id that is drawn, and what the
  decoders and encoders of the libraries make of it.
\<close>

record admin_call =
  ca_param :: string
  ca_body :: "string \<times> string option"
  ca_request :: request
  ca_query :: "string + url_values"
  ca_wall :: time
  ca_uid :: string
  ca_ptr :: nat
  ca_bptr :: nat
  ca_quote :: "string \<Rightarrow> string"
  ca_codec :: json_codec
  ca_clock :: clock_lib
  ca_event :: event_lib
  ca_server :: "message \<Rightarrow> string list \<Rightarrow> string option"
  ca_down :: "nat \<Rightarrow> shutdown_error option"
  ca_entry :: "JEntry \<Rightarrow> json"
  ca_stub :: "Expectation \<Rightarrow> json"
  ca_kept :: "kin_error list \<Rightarrow> string"
  ca_dec_expectation :: "string \<Rightarrow> string + expectationBody"
  ca_dec_endpoint :: "string \<Rightarrow> string + deleteExpectationBody"
  ca_dec_mfa :: "string + mfaRequiredBody"
  ca_dec_claims :: "string + (string, json) gomap"
  ca_dec_mappings :: "string + (string, string) gomap"
  ca_dec_perms :: "string + string list"
  ca_dec_rule :: "string + Rule"

text \<open>Applying a handler to a store that may be nil: one that reads, and one that writes.\<close>

definition reads :: "'s option \<Rightarrow> ('s \<Rightarrow> response) \<Rightarrow> Admin0_Deps \<Rightarrow> Admin0_Deps handled" where
  "reads st f d = (case st of None \<Rightarrow> (Inl (), d) | Some s \<Rightarrow> (Inr (f s), d))"

definition writes :: "'s option \<Rightarrow> ('s \<Rightarrow> response \<times> 's) \<Rightarrow> ('s option \<Rightarrow> Admin0_Deps) \<Rightarrow> Admin0_Deps handled" where
  "writes st f put = (case st of None \<Rightarrow> (Inl (), put None) | Some s \<Rightarrow> (case f s of (resp, s') \<Rightarrow> (Inr resp, put (Some s'))))"

fun admin_serve :: "Validator \<Rightarrow> admin_handler \<Rightarrow> admin_call \<Rightarrow> Admin0_Deps \<Rightarrow> Admin0_Deps handled" where
  "admin_serve v HListJournal c d = reads (ad_Journal d) (ListJournalHandler (ca_entry c) (ca_request c)) d"
| "admin_serve v HListUnmatchedJournal c d = reads (ad_Journal d) (ListUnmatchedJournalHandler (ca_entry c) (ca_request c)) d"
| "admin_serve v HDeleteJournal c d = writes (ad_Journal d) DeleteJournalHandler (\<lambda>s. d\<lparr>ad_Journal := s\<rparr>)"
| "admin_serve v HReset c d = (case ResetHandler (ca_down c) d of (resp, d') \<Rightarrow> (Inr resp, d'))"
| "admin_serve v HPostExpectation c d = (case ad_Matches d of
      None \<Rightarrow> (Inl (), d)
    | Some s \<Rightarrow> (case PostExpectationHandler (ca_codec c) (ca_dec_expectation c) (ca_kept c) v (ca_uid c) (fst (ca_body c)) s of
        (out, s') \<Rightarrow> (out, d\<lparr>ad_Matches := Some s'\<rparr>)))"
| "admin_serve v HListExpectations c d = reads (ad_Matches d) (ListExpectationsHandler (ca_stub c)) d"
| "admin_serve v HDeleteExpectations c d =
     writes (ad_Matches d) (DeleteExpectationsHandler (ca_dec_endpoint c) (fst (ca_body c))) (\<lambda>s. d\<lparr>ad_Matches := s\<rparr>)"
| "admin_serve v HGetExpectation c d = reads (ad_Matches d) (GetExpectationByIDHandler (ca_stub c) (ca_param c)) d"
| "admin_serve v HDeleteExpectation c d = writes (ad_Matches d) (DeleteExpectationByIDHandler (ca_param c)) (\<lambda>s. d\<lparr>ad_Matches := s\<rparr>)"
| "admin_serve v HGetClaims c d = reads (ad_Claims d) GetClaimsHandler d"
| "admin_serve v HPutClaims c d = writes (ad_Claims d) (PutClaimsHandler (ca_dec_claims c)) (\<lambda>s. d\<lparr>ad_Claims := s\<rparr>)"
| "admin_serve v HDeleteClaims c d = writes (ad_Claims d) DeleteClaimsHandler (\<lambda>s. d\<lparr>ad_Claims := s\<rparr>)"
| "admin_serve v HGetClaimMappings c d = reads (ad_ClaimMappings d) GetClaimMappingsHandler d"
| "admin_serve v HPutClaimMappings c d =
     writes (ad_ClaimMappings d) (PutClaimMappingsHandler (ca_dec_mappings c)) (\<lambda>s. d\<lparr>ad_ClaimMappings := s\<rparr>)"
| "admin_serve v HDeleteClaimMappings c d = writes (ad_ClaimMappings d) DeleteClaimMappingsHandler (\<lambda>s. d\<lparr>ad_ClaimMappings := s\<rparr>)"
| "admin_serve v HPostAuthorizeError c d =
     writes (ad_AuthorizeErrors d) (PostAuthorizeErrorHandler (ca_quote c) (ca_uid c) (ca_dec_rule c)) (\<lambda>s. d\<lparr>ad_AuthorizeErrors := s\<rparr>)"
| "admin_serve v HListAuthorizeErrors c d = reads (ad_AuthorizeErrors d) ListAuthorizeErrorsHandler d"
| "admin_serve v HDeleteAuthorizeErrors c d = writes (ad_AuthorizeErrors d) DeleteAuthorizeErrorsHandler (\<lambda>s. d\<lparr>ad_AuthorizeErrors := s\<rparr>)"
| "admin_serve v HDeleteAuthorizeError c d =
     writes (ad_AuthorizeErrors d) (DeleteAuthorizeErrorByIDHandler (ca_param c)) (\<lambda>s. d\<lparr>ad_AuthorizeErrors := s\<rparr>)"
| "admin_serve v HGetAllPermissions c d = reads (ad_Permissions d) GetAllPermissionsHandler d"
| "admin_serve v HDeleteAllPermissions c d = writes (ad_Permissions d) DeleteAllPermissionsHandler (\<lambda>s. d\<lparr>ad_Permissions := s\<rparr>)"
| "admin_serve v HGetPermissions c d = reads (ad_Permissions d) (GetPermissionsHandler (ca_param c)) d"
| "admin_serve v HPutPermissions c d =
     writes (ad_Permissions d) (PutPermissionsHandler (ca_param c) (ca_dec_perms c)) (\<lambda>s. d\<lparr>ad_Permissions := s\<rparr>)"
| "admin_serve v HDeletePermissions c d = writes (ad_Permissions d) (DeletePermissionsHandler (ca_param c)) (\<lambda>s. d\<lparr>ad_Permissions := s\<rparr>)"
| "admin_serve v HGetMFARequired c d = reads (ad_MFA d) GetMFARequiredHandler d"
| "admin_serve v HPutMFARequired c d = writes (ad_MFA d) (PutMFARequiredHandler (ca_dec_mfa c)) (\<lambda>s. d\<lparr>ad_MFA := s\<rparr>)"
| "admin_serve v HGetClock c d = reads (ad_Clock d) (GetClockHandler (ca_clock c) (ca_wall c)) d"
| "admin_serve v HPutClock c d = writes (ad_Clock d) (PutClockHandler (ca_clock c) (fst (ca_body c))) (\<lambda>s. d\<lparr>ad_Clock := s\<rparr>)"
| "admin_serve v HAdvanceClock c d = writes (ad_Clock d) (AdvanceClockHandler (ca_clock c) (fst (ca_body c))) (\<lambda>s. d\<lparr>ad_Clock := s\<rparr>)"
| "admin_serve v HDeleteClock c d = writes (ad_Clock d) DeleteClockHandler (\<lambda>s. d\<lparr>ad_Clock := s\<rparr>)"
| "admin_serve v HGetEventSubscribers c d = reads (ad_Events d) (\<lambda>(h, cs). GetEventSubscribersHandler h) d"
| "admin_serve v HExpireEvents c d = writes (ad_Events d)
     (\<lambda>(h, cs). case ExpireEventsHandler (ca_quote c) (ca_query c) h of (resp, h') \<Rightarrow> (resp, (h', cs))) (\<lambda>s. d\<lparr>ad_Events := s\<rparr>)"
| "admin_serve v HPostEvents c d = writes (ad_Events d)
     (\<lambda>(h, cs). case PostEventsHandler (ca_event c) (ca_server c) (ca_ptr c) (ca_bptr c) (ca_body c) h cs of
         (resp, pub, cs') \<Rightarrow> (resp, (h, cs'))) (\<lambda>s. d\<lparr>ad_Events := s\<rparr>)"

end
