(* ===== verification/Admin_Props.thy ===== *)
theory Admin_Props
  imports Admin0 Mgmt_Props Auth_Runs
begin

text \<open>
  What the control plane guarantees: a reset returns every store it governs to its initial state, so
  that the calls after it answer as on a fresh server, and a request that is refused changes nothing.
\<close>

section \<open>Reset\<close>

lemma reset_stores:
  "ResetAll s = Match_NewStore\<lparr>mt_seq := mt_seq s\<rparr>"
  "Claims_Clear c = Claims_NewStore" "Mapping_Clear m = NewMappingStore" "Clear ss = NewStore"
  "Rules_Clear r = Rules_NewStore" "Perm_Clear p = Perm_NewStore"
  "Mfa_Reset f = Mfa_NewStore\<lparr>mf_ttl := mf_ttl f\<rparr>"
  "Journal_Clear j = Journal_New (int (length (jn_buf j)))" "Reset ck = NewControlled"
  by (simp_all add: store_defs ResetAll_def Match_NewStore_def Rules_Clear_def Rules_NewStore_def Clear_def NewStore_def map_replicate_const)

lemma reset_funs: "Claims_Clear = (\<lambda>_. Claims_NewStore)" "Mapping_Clear = (\<lambda>_. NewMappingStore)" "Clear = (\<lambda>_. NewStore)"
  "Rules_Clear = (\<lambda>_. Rules_NewStore)" "Perm_Clear = (\<lambda>_. Perm_NewStore)" "Reset = (\<lambda>_. NewControlled)"
  by (intro ext; rule reset_stores)+

lemma hub_reset:
  "(case Hub_Reset down h cs of (res, h', cs') \<Rightarrow>
     hb_closed h \<and> h' = h \<and> cs' = cs
   \<or> hb_active h' = [] \<and> TotalSubscribers h' = 0 \<and> hb_closed h' = hb_closed h \<and> hb_server h' = Some (hb_allocated h)
     \<and> hb_replayer h' = (if hb_bufferSize h > 0 then Some \<lparr>rr_idx = newRingIndex (hb_bufferSize h)\<rparr> else None)
     \<and> (\<forall>a. cancelled cs' a \<longleftrightarrow> a \<in> snd ` set (hb_active h) \<or> cancelled cs a))"
proof (cases "hb_closed h")
  case False
  obtain h' where "hub_build (h\<lparr>hb_active := [], hb_totalSubs := 0\<rparr>) = Inr h'" "hb_active h' = []" "hb_closed h' = hb_closed h"
    "hb_server h' = Some (hb_allocated h)" "hb_totalSubs h' = 0"
    "hb_replayer h' = (if hb_bufferSize h > 0 then Some \<lparr>rr_idx = newRingIndex (hb_bufferSize h)\<rparr> else None)"
    using hub_build_ok[of "h\<lparr>hb_active := [], hb_totalSubs := 0\<rparr>"] by auto
  with False show ?thesis by (simp add: Hub_Reset_def takeActiveLocked_def TotalSubscribers_def cancelled_fold)
qed (simp add: Hub_Reset_def)

text \<open>
  A reset restores the initial state. Whatever the server has been through, \<^verbatim>\<open>POST /admin0/reset\<close>
  answers 204 and leaves each store it governs as a new store: no claim, mapping, permission,
  session or failure rule, MFA off and no MFA token outstanding, the clock in real mode, the journal
  empty with its capacity, and no stub that could answer (the registration counter and the MFA
  lifetime, which no request can see, are kept). Unless it was shut down, the hub has no subscriber
  and a fresh replay buffer, and each subscriber it had is cancelled and drained.
\<close>
theorem reset_restores:
  "ResetHandler down d =
     (no_content 204,
      d\<lparr>ad_Matches := map_option (\<lambda>s. Match_NewStore\<lparr>mt_seq := mt_seq s\<rparr>) (ad_Matches d),
        ad_Claims := map_option (\<lambda>_. Claims_NewStore) (ad_Claims d),
        ad_ClaimMappings := map_option (\<lambda>_. NewMappingStore) (ad_ClaimMappings d),
        ad_Sessions := map_option (\<lambda>_. NewStore) (ad_Sessions d),
        ad_AuthorizeErrors := map_option (\<lambda>_. Rules_NewStore) (ad_AuthorizeErrors d),
        ad_Permissions := map_option (\<lambda>_. Perm_NewStore) (ad_Permissions d),
        ad_MFA := map_option (\<lambda>s. Mfa_NewStore\<lparr>mf_ttl := mf_ttl s\<rparr>) (ad_MFA d),
        ad_Clock := map_option (\<lambda>_. NewControlled) (ad_Clock d),
        ad_Journal := map_option (\<lambda>j. Journal_New (int (length (jn_buf j)))) (ad_Journal d),
        ad_Events := map_option (\<lambda>(h, cs). snd (Hub_Reset down h cs)) (ad_Events d)\<rparr>)
   \<and> Find C m path tmpl req (Match_NewStore\<lparr>mt_seq := n\<rparr>) = (None, Match_NewStore\<lparr>mt_seq := n\<rparr>)
   \<and> (case ad_Events d of None \<Rightarrow> True | Some (h, cs) \<Rightarrow>
       (case Hub_Reset down h cs of (res, h', cs') \<Rightarrow>
          hb_closed h \<and> h' = h \<and> cs' = cs
        \<or> hb_active h' = [] \<and> TotalSubscribers h' = 0 \<and> hb_closed h' = hb_closed h \<and> hb_server h' = Some (hb_allocated h)
          \<and> hb_replayer h' = (if hb_bufferSize h > 0 then Some \<lparr>rr_idx = newRingIndex (hb_bufferSize h)\<rparr> else None)
          \<and> (\<forall>a. cancelled cs' a \<longleftrightarrow> a \<in> snd ` set (hb_active h) \<or> cancelled cs a)))"
proof (intro conjI)
  show "ResetHandler down d = (no_content 204,
      d\<lparr>ad_Matches := map_option (\<lambda>s. Match_NewStore\<lparr>mt_seq := mt_seq s\<rparr>) (ad_Matches d),
        ad_Claims := map_option (\<lambda>_. Claims_NewStore) (ad_Claims d),
        ad_ClaimMappings := map_option (\<lambda>_. NewMappingStore) (ad_ClaimMappings d),
        ad_Sessions := map_option (\<lambda>_. NewStore) (ad_Sessions d),
        ad_AuthorizeErrors := map_option (\<lambda>_. Rules_NewStore) (ad_AuthorizeErrors d),
        ad_Permissions := map_option (\<lambda>_. Perm_NewStore) (ad_Permissions d),
        ad_MFA := map_option (\<lambda>s. Mfa_NewStore\<lparr>mf_ttl := mf_ttl s\<rparr>) (ad_MFA d),
        ad_Clock := map_option (\<lambda>_. NewControlled) (ad_Clock d),
        ad_Journal := map_option (\<lambda>j. Journal_New (int (length (jn_buf j)))) (ad_Journal d),
        ad_Events := map_option (\<lambda>(h, cs). snd (Hub_Reset down h cs)) (ad_Events d)\<rparr>)"
    by (cases "ad_Matches d"; cases "ad_MFA d"; cases "ad_Journal d"; cases "ad_Claims d")
      (simp_all add: ResetHandler_def reset_funs reset_stores)
qed (auto simp: Find_def Match_NewStore_def entries_at_def newestMatch_def cmp_or_def hub_reset split: option.split)

section \<open>A server and its Authentication API\<close>

text \<open>
  The server as \<^verbatim>\<open>router.New\<close> wires it: the stores of the control plane and the PKCE store, which only
  the Authentication API holds.
\<close>

record server =
  sv_deps :: Admin0_Deps
  sv_PKCE :: "Pkce_Store option"

definition auth_of :: "server \<Rightarrow> auth_state" where
  "auth_of sv = (let d = sv_deps sv in \<lparr>as_Claims = ad_Claims d, as_Mappings = ad_ClaimMappings d,
     as_Permissions = ad_Permissions d, as_PKCE = sv_PKCE sv, as_MFA = ad_MFA d, as_Sessions = ad_Sessions d\<rparr>)"

definition reset :: "(nat \<Rightarrow> shutdown_error option) \<Rightarrow> server \<Rightarrow> server" where
  "reset down sv = sv\<lparr>sv_deps := snd (ResetHandler down (sv_deps sv))\<rparr>"

text \<open>The Authentication API over the server, with the failure rules it shares with the control plane.\<close>

definition auth_run :: "auth_config \<Rightarrow> auth_call list \<Rightarrow> server \<Rightarrow> response list \<times> auth_state" where
  "auth_run D cs sv = run_ops (auth_serve (D\<lparr>ac_rules := ad_AuthorizeErrors (sv_deps sv)\<rparr>)) cs (auth_of sv)"

text \<open>A server as it starts, with the given journal size and hub.\<close>

definition new_deps :: "int \<Rightarrow> Hub \<times> conns \<Rightarrow> Admin0_Deps" where
  "new_deps n hub = \<lparr>ad_Matches = Some Match_NewStore, ad_Claims = Some Claims_NewStore, ad_ClaimMappings = Some NewMappingStore,
     ad_Sessions = Some NewStore, ad_AuthorizeErrors = Some Rules_NewStore, ad_Permissions = Some Perm_NewStore,
     ad_MFA = Some Mfa_NewStore, ad_Clock = Some NewControlled, ad_Events = Some hub, ad_Journal = Some (Journal_New n)\<rparr>"

text \<open>Every store is there, and the lifetime of MFA tokens is the default one.\<close>

definition wired :: "Admin0_Deps \<Rightarrow> bool" where
  "wired d \<longleftrightarrow> ad_Matches d \<noteq> None \<and> ad_Claims d \<noteq> None \<and> ad_ClaimMappings d \<noteq> None \<and> ad_Permissions d \<noteq> None
     \<and> ad_Sessions d \<noteq> None \<and> ad_AuthorizeErrors d \<noteq> None \<and> map_option mf_ttl (ad_MFA d) = Some DefaultTokenTTL
     \<and> ad_Clock d \<noteq> None \<and> ad_Events d \<noteq> None \<and> ad_Journal d \<noteq> None"



section \<open>Refusals\<close>

text \<open>A handler that keeps its store when it answers an error.\<close>

definition refuses_cleanly :: "('s \<Rightarrow> response \<times> 's) \<Rightarrow> bool" where
  "refuses_cleanly f \<longleftrightarrow> (\<forall>s resp s'. f s = (resp, s') \<and> 400 \<le> rs_status resp \<longrightarrow> s' = s)"

lemma put_clean: "refuses_cleanly (PutMFARequiredHandler b1)" "refuses_cleanly (PutClaimsHandler b2)"
  "refuses_cleanly (PutClaimMappingsHandler b3)" "refuses_cleanly (PutPermissionsHandler aud b4)"
  by (auto simp: refuses_cleanly_def PutMFARequiredHandler_def PutClaimsHandler_def PutClaimMappingsHandler_def PutPermissionsHandler_def
      split: sum.splits)

lemma delete_clean: "refuses_cleanly DeleteJournalHandler" "refuses_cleanly DeleteClaimsHandler" "refuses_cleanly DeleteClaimMappingsHandler"
  "refuses_cleanly DeleteAllPermissionsHandler" "refuses_cleanly (DeletePermissionsHandler aud)" "refuses_cleanly DeleteAuthorizeErrorsHandler"
  "refuses_cleanly (DeleteAuthorizeErrorByIDHandler i)" "refuses_cleanly DeleteClockHandler" "refuses_cleanly (DeleteExpectationByIDHandler i)"
  by (auto simp: refuses_cleanly_def DeleteJournalHandler_def DeleteClaimsHandler_def DeleteClaimMappingsHandler_def DeleteAllPermissionsHandler_def
      DeletePermissionsHandler_def DeleteAuthorizeErrorsHandler_def DeleteAuthorizeErrorByIDHandler_def DeleteClockHandler_def
      DeleteExpectationByIDHandler_def split: if_splits)

lemma rule_clean: "refuses_cleanly (PostAuthorizeErrorHandler quote uid body)"
  by (auto simp: refuses_cleanly_def PostAuthorizeErrorHandler_def split: sum.splits option.splits prod.splits)

lemma clock_clean: "refuses_cleanly (PutClockHandler L body)" "refuses_cleanly (AdvanceClockHandler L body)"
  by (auto simp: refuses_cleanly_def PutClockHandler_def AdvanceClockHandler_def Advance_def
      split: sum.splits prod.splits option.splits if_splits Mode.splits clock_error.splits)

lemma endpoint_clean: "refuses_cleanly (DeleteExpectationsHandler decode raw)"
  by (auto simp: refuses_cleanly_def DeleteExpectationsHandler_def Let_def split: sum.splits if_splits)

lemmas clean_handlers = put_clean delete_clean rule_clean clock_clean endpoint_clean

end
