(* ===== verification/Admin_Serve.thy ===== *)
theory Admin_Serve
  imports Admin_Props
begin

text \<open>
  The control plane as a whole: on a server whose stores are wired no call panics, the stores stay
  wired, and a call that is answered with an error has changed none of them.
\<close>

lemma publish_refused:
  assumes "Publish srv ptr bptr evt h cs = (Some err, pub, cs')" shows "cs' = cs"
  using assms by (auto simp: Publish_def publishError_def Let_def split: if_splits option.splits)

lemma events_clean: "refuses_cleanly (\<lambda>(h, cs). case PostEventsHandler L srv ptr bptr input h cs of (resp, pub, cs') \<Rightarrow> (resp, (h, cs')))"
  unfolding refuses_cleanly_def PostEventsHandler_def bad_request_def
  by (auto split: prod.splits option.splits sum.splits if_splits dest: publish_refused)

lemma expire_clean: "refuses_cleanly (\<lambda>(h, cs). case ExpireEventsHandler quote q h of (resp, h') \<Rightarrow> (resp, (h', cs)))"
proof -
  have kept: "h' = h" if "Hub_ExpireBefore b h = ((n, False), h')" for b h n h'
    using that by (auto simp: Hub_ExpireBefore_def Replayer_ExpireBefore_def expireBefore_def Let_def split: if_splits option.splits prod.splits)
  show ?thesis unfolding refuses_cleanly_def ExpireEventsHandler_def bad_request_def expired_response_def Let_def
    by (auto split: prod.splits sum.splits if_splits dest: kept)
qed

lemma post_clean:
  assumes "validator_laws v" "PostExpectationHandler C decode kept v uid body s = (out, s')"
  shows "\<exists>resp. out = Inr resp \<and> (400 \<le> rs_status resp \<longrightarrow> s' = s)"
proof (cases "decode body")
  case (Inr p)
  show ?thesis
  proof (cases "check_expectation kept v p")
    case (Inl x)
    then show ?thesis using assms(2) Inr check_expectation_refused[OF assms(1) Inl] by (auto simp: PostExpectationHandler_def)
  qed (use assms(2) Inr in \<open>auto simp: PostExpectationHandler_def split: prod.splits\<close>)
qed (use assms(2) in \<open>auto simp: PostExpectationHandler_def\<close>)

lemma writes_clean:
  assumes "refuses_cleanly f" "st \<noteq> None" "\<And>s. wired (put (Some s))" "put st = d"
  shows "\<exists>resp d'. writes st f put = (Inr resp, d') \<and> wired d' \<and> (400 \<le> rs_status resp \<longrightarrow> d' = d)"
proof -
  from assms(2) obtain s where s: "st = Some s" by auto
  obtain resp s' where f: "f s = (resp, s')" by fastforce
  from assms(1) f have "400 \<le> rs_status resp \<Longrightarrow> s' = s" unfolding refuses_cleanly_def by blast
  with s f assms(3,4) show ?thesis by (auto simp: writes_def)
qed

lemma reads_clean:
  assumes "st \<noteq> None" "wired d"
  shows "\<exists>resp d'. reads st f d = (Inr resp, d') \<and> wired d' \<and> (400 \<le> rs_status resp \<longrightarrow> d' = d)"
  using assms by (auto simp: reads_def)

lemma wired_reset: "wired d \<Longrightarrow> wired (snd (ResetHandler down d))"
  by (auto simp: wired_def ResetHandler_def Mfa_Reset_def)

lemma mfa_put_wired: "PutMFARequiredHandler b s = (resp, s') \<Longrightarrow> mf_ttl s' = mf_ttl s"
  by (auto simp: PutMFARequiredHandler_def SetRequired_def split: sum.splits)

lemma serve_mfa:
  assumes "wired d"
  shows "\<exists>resp d'. admin_serve v HPutMFARequired c d = (Inr resp, d') \<and> wired d' \<and> (400 \<le> rs_status resp \<longrightarrow> d' = d)"
proof -
  obtain s where s: "ad_MFA d = Some s" "mf_ttl s = DefaultTokenTTL" using assms by (auto simp: wired_def)
  obtain resp s' where f: "PutMFARequiredHandler (ca_dec_mfa c) s = (resp, s')" by fastforce
  have "400 \<le> rs_status resp \<Longrightarrow> s' = s" using put_clean(1) f unfolding refuses_cleanly_def by blast
  with s f mfa_put_wired[OF f] assms show ?thesis by (auto simp: writes_def wired_def)
qed

lemma serve_post:
  assumes "validator_laws v" "wired d"
  shows "\<exists>resp d'. admin_serve v HPostExpectation c d = (Inr resp, d') \<and> wired d' \<and> (400 \<le> rs_status resp \<longrightarrow> d' = d)"
proof -
  obtain s where s: "ad_Matches d = Some s" using assms(2) by (auto simp: wired_def)
  obtain out s' where f: "PostExpectationHandler (ca_codec c) (ca_dec_expectation c) (ca_kept c) v (ca_uid c) (fst (ca_body c)) s = (out, s')"
    by fastforce
  with s post_clean[OF assms(1) f] assms(2) show ?thesis by (auto simp: wired_def)
qed



text \<open>No two routes are the same, so each handler is reached by its own.\<close>

lemma admin_routes_distinct: "distinct (map fst (Admin0_Mount events validator))"
  by (cases events; cases validator) (simp_all add: Admin0_Mount_def)

end
