(* ===== verification/Router.thy ===== *)
theory Router
  imports Cors Middleware_Props Admin_Serve
begin

text \<open>
  The composition root \<^verbatim>\<open>internal/router\<close>: the defaults for stores that are not wired, the middleware
  around every route, and the routes that the router serves itself: the probes, the keys, the API
  description and the documentation page. The files that the build embeds are parameters.
\<close>

section \<open>Construction\<close>

record Router_Deps =
  rt_Store :: "Match_Store option"
  rt_Claims :: "Claims_Store option"
  rt_ClaimMappings :: "MappingStore option"
  rt_Sessions :: "Store option"
  rt_AuthorizeErrors :: "Rule_Store option"
  rt_Permissions :: "Perm_Store option"
  rt_PKCE :: "Pkce_Store option"
  rt_MFA :: "Mfa_Store option"
  rt_Keys :: KeySet
  rt_Spec :: Spec
  rt_Validator :: Validator
  rt_Issuer :: string
  rt_DefaultAudience :: string
  rt_SpecValidationStrict :: bool
  rt_BearerRequireAudience :: string
  rt_MaxRequestBodyBytes :: int
  rt_LogoutAllowedURLs :: "string list"
  rt_AuthorizeAllowedRedirectURIs :: "string list"
  rt_CORSAllowedOrigins :: "string list"
  rt_Debug :: bool
  rt_Clock :: "Controlled option"
  rt_EventsReplayBuffer :: int
  rt_EventsReconnectHint :: duration
  rt_Journal :: "Journal option"

text \<open>
  What \<^verbatim>\<open>New\<close> returns: the stores, the settings of the Authentication API, the parsed CORS list, and the
  router with the Management API's routes.
  \<open>register\<close> is the router's registration of a route, \<open>errtext\<close> the text of an error of the replay
  buffer, and \<open>cs\<close> the heap of connections.
\<close>

record auth_settings =
  au_Token :: TokenHandler
  au_Issuer :: string
  au_LogoutAllowedURLs :: "string list"
  au_AuthorizeAllowedRedirectURIs :: "string list"

record 'r app =
  ap_server :: server
  ap_auth :: auth_settings
  ap_cors :: corsMatcher
  ap_routes :: 'r

definition router_stores :: "Hub \<times> conns \<Rightarrow> Router_Deps \<Rightarrow> server" where
  "router_stores hub d =
     \<lparr>sv_deps = Admin0_defaults \<lparr>ad_Matches = rt_Store d, ad_Claims = rt_Claims d, ad_ClaimMappings = or_new NewMappingStore (rt_ClaimMappings d),
        ad_Sessions = or_new NewStore (rt_Sessions d), ad_AuthorizeErrors = or_new Rules_NewStore (rt_AuthorizeErrors d),
        ad_Permissions = rt_Permissions d, ad_MFA = rt_MFA d, ad_Clock = rt_Clock d, ad_Events = Some hub,
        ad_Journal = or_new (Journal_New 0) (rt_Journal d)\<rparr>,
      sv_PKCE = rt_PKCE d\<rparr>"

definition auth_deps :: "Router_Deps \<Rightarrow> auth_settings" where
  "auth_deps d = \<lparr>au_Token = \<lparr>th_Keys = rt_Keys d, th_DefaultAudience = rt_DefaultAudience d\<rparr>, au_Issuer = rt_Issuer d,
     au_LogoutAllowedURLs = rt_LogoutAllowedURLs d, au_AuthorizeAllowedRedirectURIs = rt_AuthorizeAllowedRedirectURIs d\<rparr>"

definition mount_opts :: "Router_Deps \<Rightarrow> MountOpts" where
  "mount_opts d = \<lparr>mn_Spec = rt_Spec d, mn_Validator = rt_Validator d, mn_Strict = rt_SpecValidationStrict d,
     mn_RequireAudience = rt_BearerRequireAudience d, mn_EventsHandler = True\<rparr>"

definition Router_New :: "url_lib \<Rightarrow> (string \<Rightarrow> string) \<Rightarrow> (replay_error \<Rightarrow> string) \<Rightarrow> 'r routing \<Rightarrow> conns
    \<Rightarrow> Router_Deps \<Rightarrow> 'r \<Rightarrow> string + 'r app" where
  "Router_New U quote errtext register cs d rt =
     (case newCORSMatcher U quote (rt_CORSAllowedOrigins d) of
        Inl err \<Rightarrow> Inl (''cors: '' @ err)
      | Inr m \<Rightarrow>
          (case NewHub (rt_EventsReplayBuffer d) (Some (rt_EventsReconnectHint d)) of
             Inl err \<Rightarrow> Inl (''events hub: '' @ errtext err)
           | Inr hub \<Rightarrow>
               (case Mgmt_Mount register (mount_opts d) rt of
                  Inl err \<Rightarrow> Inl (''mount mgmtapi: '' @ err)
                | Inr rt' \<Rightarrow> Inr \<lparr>ap_server = router_stores (hub, cs) d, ap_auth = auth_deps d, ap_cors = m, ap_routes = rt'\<rparr>)))"

section \<open>The middleware of every route\<close>

definition journal_handler :: "json_codec \<Rightarrow> string \<Rightarrow> string option \<Rightarrow> time \<Rightarrow> 's handler \<Rightarrow> ('s \<times> Journal) handler" where
  "journal_handler C uid pattern received next ctx r hdr sj = (case sj of (s, j) \<Rightarrow>
     (case Journal_Middleware C uid pattern received (\<lambda>r'. re_acts (fst (next ctx r' hdr s))) r j of (out, j') \<Rightarrow>
       ((fst (next ctx r hdr s))\<lparr>re_acts := map Respond out\<rparr>, (snd (next ctx r hdr s), j'))))"

text \<open>What a request is given on its way: the ids that are drawn, the route's pattern and the time.\<close>

record passage =
  ps_rid :: string
  ps_jid :: string
  ps_pattern :: "string option"
  ps_received :: time
  ps_codec :: json_codec
  ps_indent :: "string \<Rightarrow> string option"
  ps_query :: "request \<Rightarrow> string"
  ps_info :: bool

definition watch :: "passage \<Rightarrow> bool \<Rightarrow> 's handler \<Rightarrow> 's handler" where
  "watch p debug next = (if debug then DebugDump (ps_indent p) (ps_query p) (ps_info p) next else Logging (ps_info p) next)"

definition middleware_stack :: "url_lib \<Rightarrow> corsMatcher \<Rightarrow> Router_Deps \<Rightarrow> passage \<Rightarrow> 's handler \<Rightarrow> ('s \<times> Journal) handler" where
  "middleware_stack U m d p next =
     RequestID (ps_rid p)
      (MaxBodyBytes (rt_MaxRequestBodyBytes d)
        (cors_handler U m
          (journal_handler (ps_codec p) (ps_jid p) (ps_pattern p) (ps_received p)
            (Recovery (watch p (rt_Debug d) next)))))"

section \<open>The router's own routes\<close>

definition raw_reply :: "int \<Rightarrow> http_header \<Rightarrow> string \<Rightarrow> response" where
  "raw_reply status hdr body = \<lparr>rs_status = status, rs_headers = hdr, rs_body = TextBody body\<rparr>"

definition mountJWKS :: "string \<Rightarrow> response" where
  "mountJWKS keys_json = raw_reply 200 [(''Content-Type'', [''application/json''])] keys_json"

definition mountHealthz :: response where
  "mountHealthz = raw_reply 200 [(''Content-Type'', [''application/json''])] ''{\"status\":\"ok\"}''"

text \<open>The id of the key set's key, if there is a key set.\<close>

definition mountReadyz :: "string option \<Rightarrow> response" where
  "mountReadyz kid =
     (if kid = None \<or> kid = Some [] then
        raw_reply 503 [(''Content-Type'', [''application/json''])] ''{\"status\":\"not_ready\",\"reason\":\"jwks key not initialised\"}''
      else raw_reply 200 [(''Content-Type'', [''application/json''])] ''{\"status\":\"ready\"}'')"

definition mountDocs :: "(string \<times> string) list" where
  "mountDocs = [(''GET'', ''/docs''), (''GET'', ''/docs/docs.css''), (''GET'', ''/docs/fonts/{file}'')]"

definition MountOpenAPI :: "(string \<times> string) list" where
  "MountOpenAPI = [(''GET'', ''/openapi.json''), (''GET'', ''/openapi.yaml'')] @ mountDocs"

definition serveOpenAPIJSON :: "string \<Rightarrow> response" where
  "serveOpenAPIJSON doc = raw_reply 200 [(''Content-Type'', [''application/json''])] doc"

text \<open>
  The description as YAML: the loader and the printer are the libraries'; the result is computed on
  the first request and kept.
\<close>

definition openapiYAML :: "(string \<Rightarrow> string + 'd) \<Rightarrow> ('d \<Rightarrow> string + string) \<Rightarrow> string \<Rightarrow> string + string" where
  "openapiYAML load to_yaml doc = (case load doc of
      Inl err \<Rightarrow> Inl (''parse embedded spec: '' @ err)
    | Inr d \<Rightarrow> (case to_yaml d of Inl err \<Rightarrow> Inl (''marshal yaml: '' @ err) | Inr body \<Rightarrow> Inr body))"

definition once_value :: "'a \<Rightarrow> 'a option \<Rightarrow> 'a \<times> 'a option" where
  "once_value x cache = (case cache of Some y \<Rightarrow> (y, cache) | None \<Rightarrow> (x, Some x))"

definition serveOpenAPIYAML :: "string + string \<Rightarrow> (string + string) option \<Rightarrow> response \<times> (string + string) option" where
  "serveOpenAPIYAML fresh cache = (case once_value fresh cache of
      (Inl err, cache') \<Rightarrow> (raw_reply 500 [(''Content-Type'', [''text/plain; charset=utf-8'']), (''X-Content-Type-Options'', [''nosniff''])]
          (err @ [CHR 0x0A]), cache')
    | (Inr body, cache') \<Rightarrow> (raw_reply 200 [(''Content-Type'', [''application/yaml''])] body, cache'))"

text \<open>An embedded file, or the panic of a build that lacks it.\<close>

definition mustReadDocs :: "(string \<rightharpoonup> string) \<Rightarrow> string \<Rightarrow> string + string" where
  "mustReadDocs fs name = (case fs name of
      Some b \<Rightarrow> Inr b
    | None \<Rightarrow> Inl (''router: embedded docs asset missing: '' @ name @ '': open '' @ name @ '': file does not exist''))"

definition serveDocs :: "string \<Rightarrow> response" where
  "serveDocs docsIndexHTML = raw_reply 200 [(''Content-Type'', [''text/html; charset=utf-8''])] docsIndexHTML"

definition serveDocsCSS :: "string \<Rightarrow> response" where
  "serveDocsCSS docsCSS = raw_reply 200 [(''Content-Type'', [''text/css; charset=utf-8'']), (''Cache-Control'', [''public, max-age=86400''])] docsCSS"

text \<open>\<^verbatim>\<open>path.Base\<close>: the last element of a slash-separated path.\<close>

definition path_Base :: "string \<Rightarrow> string" where
  "path_Base path =
     (if path = [] then ''.''
      else
        (let p = rev (dropWhile (\<lambda>c. c = CHR ''/'') (rev path));
             q = (case str_last_index CHR ''/'' p of Some i \<Rightarrow> drop (i + 1) p | None \<Rightarrow> p)
         in if q = [] then ''/'' else q))"

definition serveDocsFont :: "(string \<rightharpoonup> string) \<Rightarrow> string \<Rightarrow> response" where
  "serveDocsFont fs file = (case fs (''docs/fonts/'' @ path_Base file) of
      None \<Rightarrow> raw_reply 404 [(''Content-Type'', [''text/plain; charset=utf-8'']), (''X-Content-Type-Options'', [''nosniff''])] (''404 page not found'' @ [CHR 0x0A])
    | Some b \<Rightarrow> raw_reply 200 [(''Content-Type'', [''font/woff2'']), (''Cache-Control'', [''public, max-age=604800''])] b)"

section \<open>Construction fails only on a bad CORS list\<close>

lemma or_new_Some: "or_new x o1 \<noteq> None" "or_new x (or_new y o1) = or_new y o1"
  by (simp_all add: or_new_def split: option.splits)

lemma NewHub_ok: "\<exists>h. NewHub n hint = Inr h \<and> \<not> hb_closed h \<and> hb_active h = []"
  unfolding NewHub_def using hub_build_ok by fastforce

text \<open>
  The server always comes up wired, or reports its CORS list. Construction fails exactly when an
  entry of the allow-list is invalid, with that error; a route that the router refuses never
  stops it. When it succeeds every store that was handed over is used as it is, the optional ones
  that were not are fresh, and if the others were handed over the control plane is fully wired.
\<close>
theorem router_wired:
  "(case newCORSMatcher U quote (rt_CORSAllowedOrigins d) of
      Inl err \<Rightarrow> Router_New U quote errtext register cs d rt = Inl (''cors: '' @ err)
    | Inr m \<Rightarrow> (\<exists>hub rt'. Router_New U quote errtext register cs d rt =
          Inr \<lparr>ap_server = router_stores (hub, cs) d, ap_auth = auth_deps d, ap_cors = m, ap_routes = rt'\<rparr> \<and> \<not> hb_closed hub \<and> hb_active hub = []
        \<and> (rt_Store d \<noteq> None \<and> rt_Claims d \<noteq> None \<and> rt_Permissions d \<noteq> None \<and> map_option mf_ttl (rt_MFA d) = Some DefaultTokenTTL
             \<and> rt_Clock d \<noteq> None \<longrightarrow> wired (sv_deps (router_stores (hub, cs) d)))))"
proof (cases "newCORSMatcher U quote (rt_CORSAllowedOrigins d)")
  case (Inr m)
  obtain hub where hub: "NewHub (rt_EventsReplayBuffer d) (Some (rt_EventsReconnectHint d)) = Inr hub" "\<not> hb_closed hub" "hb_active hub = []"
    using NewHub_ok by blast
  obtain rt' where rt': "Mgmt_Mount register (mount_opts d) rt = Inr rt'" using mount_never_fails[of register "mount_opts d" rt] by auto
  have "wired (sv_deps (router_stores (hub, cs) d))"
    if "rt_Store d \<noteq> None \<and> rt_Claims d \<noteq> None \<and> rt_Permissions d \<noteq> None \<and> map_option mf_ttl (rt_MFA d) = Some DefaultTokenTTL \<and> rt_Clock d \<noteq> None"
    using that by (simp add: wired_def router_stores_def Admin0_defaults_def or_new_Some)
  with Inr hub rt' show ?thesis by (auto simp: Router_New_def)
qed (simp add: Router_New_def)

section \<open>What every request goes through\<close>

lemma responses_map: "responses (map Respond cs) = cs"
  by (induction cs) (simp_all add: responses_def)

lemma responses_append: "responses (as @ bs) = responses as @ responses bs"
  by (simp add: responses_def)

lemma watch_same:
  assumes "rq_Body r = Some (b, err)"
  shows "re_acts (fst (watch p debug next ctx r hdr s)) = re_acts (fst (next ctx r hdr s))
    \<and> re_panic (fst (watch p debug next ctx r hdr s)) = re_panic (fst (next ctx r hdr s))
    \<and> snd (watch p debug next ctx r hdr s) = snd (next ctx r hdr s)"
  by (simp add: watch_def logging.reply_same[OF assms] dump.reply_same[OF assms])

definition recovered_acts :: "reply \<Rightarrow> handler_act list" where
  "recovered_acts re = re_acts re @ (if re_panic re then [Respond (WriteHeader 500), Respond (WriteBytes panic_body)] else [])"

lemma recovery_acts: "re_acts (fst (Recovery next ctx r hdr s)) = recovered_acts (fst (next ctx r hdr s))"
  "snd (Recovery next ctx r hdr s) = snd (next ctx r hdr s)" "\<not> re_panic (fst (Recovery next ctx r hdr s))"
  by (auto simp: Recovery_def recovered_acts_def split: prod.splits)

definition limited :: "int \<Rightarrow> request \<Rightarrow> request" where
  "limited n r = (case rq_Body r of
      Some (b, err) \<Rightarrow> if n > 0 \<and> int (length b) > n then r\<lparr>rq_Body := Some (take (nat n) b, Some ''http: request body too large'')\<rparr> else r
    | None \<Rightarrow> r)"

lemma limited_eq: "MaxBodyBytes n next ctx r hdr s = next ctx (limited n r) hdr s"
proof (cases "rq_Body r")
  case (Some p)
  then obtain b err where b: "rq_Body r = Some (b, err)" by (cases p) simp
  then have same: "r\<lparr>rq_Body := Some (b, err)\<rparr> = r" by simp
  show ?thesis by (simp add: MaxBodyBytes_def limited_def b same)
qed (simp add: MaxBodyBytes_def limited_def)

lemma limited_parts: "rq_Method (limited n r) = rq_Method r" "rq_Header (limited n r) = rq_Header r" "rq_Path (limited n r) = rq_Path r"
  "rq_Body (limited n r) = None \<longleftrightarrow> rq_Body r = None"
  by (auto simp: limited_def split: option.splits)

lemma cors_passes:
  assumes "\<not> (header_get (rq_Header r) ''Origin'' \<noteq> [] \<and> rq_Method r = ''OPTIONS''
      \<and> header_get (rq_Header r) ''Access-Control-Request-Method'' \<noteq> [])"
  shows "\<exists>hdr'. cors_handler U m next ctx r hdr s = next ctx r hdr' s"
  using assms unfolding cors_handler_def Let_def by (auto intro: exI)

text \<open>
  C16. Every API call is recorded once, a panic included. A request that is no CORS preflight reaches
  the handler exactly once, with its body cut at the limit; the client receives what the
  handler wrote, followed by a 500 if it panicked; the handler's state is what the handler left; and
  the journal, when it is on and the path is an API path, has one more entry, whose status is the one the
  response started with: 500 for a handler that panics before it writes.
\<close>
theorem stack_records_every_call:
  assumes body: "rq_Body r = Some (b, err)"
    and call: "\<not> (header_get (rq_Header r) ''Origin'' \<noteq> [] \<and> rq_Method r = ''OPTIONS'' \<and> header_get (rq_Header r) ''Access-Control-Request-Method'' \<noteq> [])"
  shows "\<exists>rid hdr'. let r' = limited (rt_MaxRequestBodyBytes d) r;
      (re, s') = next (Some rid) r' hdr' s;
      acts = recovered_acts re;
      (out, s1, j1) = middleware_stack U m d p next ctx r hdr (s, j)
    in responses (re_acts out) = responses acts \<and> \<not> re_panic out \<and> s1 = s'
     \<and> j1 = (if 0 < length (jn_buf j) \<and> has_prefix (rq_Path r) apiPrefix then
          journal_add (buildEntry (ps_codec p) (ps_jid p) (ps_pattern p) r' (ps_received p) (case rq_Body r' of None \<Rightarrow> [] | Some (b, _) \<Rightarrow> b)
            (started_status (responses acts)) (verdict acts)) j
        else j)
     \<and> (re_panic re \<and> responses (re_acts re) = [] \<longrightarrow> started_status (responses acts) = 500)"
proof -
  let ?r = "limited (rt_MaxRequestBodyBytes d) r"
  let ?rid = "if header_get (rq_Header r) ''X-Request-Id'' = [] then ps_rid p else header_get (rq_Header r) ''X-Request-Id''"
  let ?inner = "Recovery (watch p (rt_Debug d) next)"
  obtain b' err' where body': "rq_Body ?r = Some (b', err')"
    using limited_parts(4)[of "rt_MaxRequestBodyBytes d" r] body by (cases "rq_Body ?r") auto
  have "\<not> (header_get (rq_Header ?r) ''Origin'' \<noteq> [] \<and> rq_Method ?r = ''OPTIONS'' \<and> header_get (rq_Header ?r) ''Access-Control-Request-Method'' \<noteq> [])"
    using call by (simp add: limited_parts)
  from cors_passes[OF this] obtain hdr' where stack: "middleware_stack U m d p next ctx r hdr (s, j) =
      journal_handler (ps_codec p) (ps_jid p) (ps_pattern p) (ps_received p) ?inner (Some ?rid) ?r hdr' (s, j)"
    unfolding middleware_stack_def RequestID_def limited_eq Let_def by metis
  obtain re s' where run: "next (Some ?rid) ?r hdr' s = (re, s')" by fastforce
  have inner: "re_acts (fst (?inner (Some ?rid) ?r hdr' s)) = recovered_acts re" "snd (?inner (Some ?rid) ?r hdr' s) = s'"
    "\<not> re_panic (fst (?inner (Some ?rid) ?r hdr' s))"
    using watch_same[OF body', of p "rt_Debug d" "next" "Some ?rid" hdr' s] run by (simp_all add: recovery_acts recovered_acts_def)
  have "started_status (responses (recovered_acts re)) = 500" if "re_panic re" "responses (re_acts re) = []"
    using that responses_append[of "re_acts re"] by (simp add: recovered_acts_def responses_def[of "[Respond _, Respond _]"])
  with inner run stack show ?thesis
    by (intro exI[of _ ?rid] exI[of _ hdr'])
      (simp add: journal_handler_def Journal_Middleware_eq responses_map limited_parts(3))
qed

section \<open>Fonts\<close>

text \<open>The name of a font has no slash, so nothing outside the directory is read.\<close>

lemma last_index_Some: "str_last_index c s = Some i \<Longrightarrow> c \<notin> set (drop (i + 1) s)"
proof -
  have idx: "str_index c t = Some k \<Longrightarrow> k < length t \<and> c \<notin> set (take k t)" for t k
    by (induction c t arbitrary: k rule: str_index.induct) (auto split: if_splits option.splits)
  assume "str_last_index c s = Some i"
  then obtain k where k: "str_index c (rev s) = Some k" "i = length s - 1 - k" by (auto simp: str_last_index_def)
  moreover have "i + 1 = length s - k" using idx[OF k(1)] k(2) by (simp add: Suc_diff_Suc)
  ultimately have "drop (i + 1) s = rev (take k (rev s))" by (simp only: take_rev rev_rev_ident)
  with idx[OF k(1)] show ?thesis by simp
qed

lemma last_index_None: "str_last_index c s = None \<Longrightarrow> c \<notin> set s"
proof -
  have "str_index c t = None \<Longrightarrow> c \<notin> set t" for t
    by (induction c t rule: str_index.induct) (auto split: if_splits option.splits)
  from this[of "rev s"] show "str_last_index c s = None \<Longrightarrow> c \<notin> set s" by (simp add: str_last_index_def)
qed

lemma path_Base_no_slash: "CHR ''/'' \<in> set (path_Base path) \<Longrightarrow> path_Base path = ''/''"
proof (rule ccontr)
  let ?p = "rev (dropWhile (\<lambda>c. c = CHR ''/'') (rev path))"
  let ?q = "case str_last_index CHR ''/'' ?p of Some i \<Rightarrow> drop (i + 1) ?p | None \<Rightarrow> ?p"
  assume "CHR ''/'' \<in> set (path_Base path)" "path_Base path \<noteq> ''/''"
  then have "CHR ''/'' \<in> set ?q" unfolding path_Base_def Let_def by (auto simp del: set_rev rev_is_Nil_conv split: if_splits)
  then show False using last_index_Some[of _ ?p] last_index_None[of _ ?p] by (cases "str_last_index CHR ''/'' ?p") (simp_all del: set_rev)
qed

section \<open>Witnesses\<close>

definition demo_router :: Router_Deps where
  "demo_router = \<lparr>rt_Store = Some Match_NewStore, rt_Claims = Some [], rt_ClaimMappings = None, rt_Sessions = None, rt_AuthorizeErrors = None,
     rt_Permissions = Some [], rt_PKCE = None, rt_MFA = Some Mfa_NewStore, rt_Keys = demo_keys, rt_Spec = \<lparr>sp_Paths = [], sp_BasePath = []\<rparr>, rt_Validator = demo_validator,
     rt_Issuer = ''https://mock/'', rt_DefaultAudience = [],
     rt_SpecValidationStrict = True, rt_BearerRequireAudience = [], rt_MaxRequestBodyBytes = 4, rt_LogoutAllowedURLs = [], rt_AuthorizeAllowedRedirectURIs = [],
     rt_CORSAllowedOrigins = [''https://*.example.com:443/''], rt_Debug = False, rt_Clock = Some NewControlled, rt_EventsReplayBuffer = 0,
     rt_EventsReconnectHint = 0, rt_Journal = Some (Journal_New 2)\<rparr>"

theorem router_wired_witness:
  "\<forall>cs. \<exists>hub rt'. Router_New cors_url (\<lambda>s. s) (\<lambda>_. []) (\<lambda>(rt :: nat) _ _ _. Inr (rt + 1)) cs demo_router 0 =
      Inr \<lparr>ap_server = router_stores (hub, cs) demo_router, ap_auth = auth_deps demo_router, ap_cors = cors_list, ap_routes = rt'\<rparr> \<and> wired (sv_deps (router_stores (hub, cs) demo_router))"
proof
  fix cs
  have "newCORSMatcher cors_url (\<lambda>s. s) (rt_CORSAllowedOrigins demo_router) = Inr cors_list"
    using cors_list_built by (simp add: demo_router_def)
  moreover have "rt_Store demo_router \<noteq> None \<and> rt_Claims demo_router \<noteq> None \<and> rt_Permissions demo_router \<noteq> None
      \<and> map_option mf_ttl (rt_MFA demo_router) = Some DefaultTokenTTL \<and> rt_Clock demo_router \<noteq> None"
    by (simp add: demo_router_def Mfa_NewStore_def)
  moreover note router_wired[where U = cors_url and quote = "\<lambda>s. s" and d = demo_router and errtext = "\<lambda>_. []"
      and register = "\<lambda>(rt :: nat) _ _ _. Inr (rt + 1)" and cs = cs and rt = 0]
  ultimately show "\<exists>hub rt'. Router_New cors_url (\<lambda>s. s) (\<lambda>_. []) (\<lambda>(rt :: nat) _ _ _. Inr (rt + 1)) cs demo_router 0 =
      Inr \<lparr>ap_server = router_stores (hub, cs) demo_router, ap_auth = auth_deps demo_router, ap_cors = cors_list, ap_routes = rt'\<rparr> \<and> wired (sv_deps (router_stores (hub, cs) demo_router))"
    by auto
qed

definition demo_call :: request where
  "demo_call = \<lparr>rq_Method = ''POST'', rq_Path = ''/api/v2/users'', rq_Query = [], rq_Header = [], rq_Host = [], rq_TLS = True, rq_Body = Some (''hello'', None)\<rparr>"

definition demo_passage :: passage where
  "demo_passage = \<lparr>ps_rid = ''rid'', ps_jid = ''jid'', ps_pattern = None, ps_received = 0,
     ps_codec = \<lparr>marshal = \<lambda>_. [], marshal_raw = \<lambda>_. None, unmarshal = \<lambda>_. None\<rparr>, ps_indent = \<lambda>_. None, ps_query = \<lambda>_. [], ps_info = False\<rparr>"

text \<open>A handler that panics when the body it reads was cut.\<close>

definition boom :: "nat handler" where
  "boom ctx r hdr n = (\<lparr>re_acts = [], re_header = hdr, re_panic = (rq_Body r = Some (''hell'', Some ''http: request body too large'')), re_log = []\<rparr>, n + 1)"

theorem stack_records_every_call_witness:
  "\<exists>out e. middleware_stack cors_url cors_list demo_router demo_passage boom None demo_call [] (7, Journal_New 2) = (out, 8, journal_add e (Journal_New 2))
     \<and> je_Status e = 500 \<and> responses (re_acts out) = [WriteHeader 500, WriteBytes panic_body]"
proof -
  let ?r = "limited 4 demo_call"
  have b: "rq_Body demo_call = Some (''hello'', None)" "rq_Method demo_call \<noteq> ''OPTIONS''" by (simp_all add: demo_call_def)
  have lim: "rt_MaxRequestBodyBytes demo_router = 4" by (simp add: demo_router_def)
  have run: "boom (Some rid) ?r hdr' 7 = (\<lparr>re_acts = [], re_header = hdr', re_panic = True, re_log = []\<rparr>, 8)" for rid hdr'
    by (simp add: boom_def limited_def demo_call_def)
  have path: "has_prefix (rq_Path demo_call) apiPrefix" by code_simp
  obtain out s1 j1 where stack: "middleware_stack cors_url cors_list demo_router demo_passage boom None demo_call [] (7, Journal_New 2) = (out, s1, j1)"
    by (metis prod_cases3)
  have status: "je_Status (buildEntry C u pt r0 t bd st sl) = st" for C u pt r0 t bd st sl
    by (simp add: buildEntry_def Let_def split: prod.splits)
  have cap: "0 < length (jn_buf (Journal_New 2))" by (simp add: Journal_New_def)
  from stack_records_every_call[OF b(1), where d = demo_router and ?next = boom and s = 7 and U = cors_url and m = cors_list
      and p = demo_passage and ctx = None and hdr = "[]" and j = "Journal_New 2"] b(2) lim path cap
  obtain e where "j1 = journal_add e (Journal_New 2)" "je_Status e = 500" "s1 = 8"
    "responses (re_acts out) = [WriteHeader 500, WriteBytes panic_body]"
    by (auto simp: run stack recovered_acts_def responses_def[of "[Respond _, Respond _]"] status Let_def)
  with stack show ?thesis by blast
qed

theorem watching_transparent_witness:
  "\<not> re_panic (fst (Recovery boom None (limited 4 demo_call) [] 7)) \<and> snd (Logging True boom None (limited 4 demo_call) [] 7) = 8"
proof -
  have "rq_Body (limited 4 demo_call) = Some (''hell'', Some ''http: request body too large'')" by (simp add: limited_def demo_call_def)
  from watching_transparent[OF this, of boom None "[]" 7 "\<lambda>_. None" "\<lambda>_. []" True 0]
  show ?thesis by (auto simp: boom_def split: prod.splits)
qed

end
