(* ===== verification/Startup.thy ===== *)
theory Startup
  imports Prelude
begin

text \<open>
  Starting the process: the settings and their sanity checks, \<^verbatim>\<open>internal/config/config.go\<close>, the TLS
  certificate, \<^verbatim>\<open>internal/tlscert/tlscert.go\<close>, and the listeners and the orchestrator that runs them,
  \<^verbatim>\<open>internal/server\<close>. The environment parser, the parser of IP addresses and the X.509 library are
  parameters; the file system is a map from paths to contents.
\<close>

section \<open>Configuration\<close>

record tls_Config =
  tc_CertFile :: string
  tc_KeyFile :: string
  tc_CacheDir :: string
  tc_Hostnames :: "string list"

record Specification =
  sp_HTTPAddress :: string
  sp_HTTPSAddress :: string
  sp_TLS :: tls_Config
  sp_SigningKeyFile :: string
  sp_IssuerURL :: string
  sp_DefaultAudience :: string
  sp_AccessTokenTTL :: duration
  sp_IDTokenTTL :: duration
  sp_AdminAllowRemote :: bool
  sp_TokenLeeway :: duration
  sp_LogLevel :: string
  sp_Debug :: bool
  sp_SpecValidationStrict :: bool
  sp_ReadHeaderTimeout :: duration
  sp_WriteTimeout :: duration
  sp_IdleTimeout :: duration
  sp_MaxRequestBodyBytes :: "64 word"
  sp_ShutdownTimeout :: duration
  sp_EventsReplayBuffer :: "64 word"
  sp_RequestJournalSize :: "64 word"
  sp_EventsReconnectHint :: duration
  sp_LogoutAllowedURLs :: "string list"
  sp_AuthorizeAllowedCallbacks :: "string list"
  sp_CORSAllowedOrigins :: "string list"
  sp_BearerRequireAudience :: string

text \<open>\<^verbatim>\<open>net.SplitHostPort\<close>, without the text of its errors.\<close>

definition SplitHostPort :: "string \<Rightarrow> (string \<times> string) option" where
  "SplitHostPort hostport = (case str_last_index CHR '':'' hostport of
      None \<Rightarrow> None
    | Some i \<Rightarrow>
        if has_prefix hostport ''['' then
          (case str_index CHR '']'' hostport of
             None \<Rightarrow> None
           | Some e \<Rightarrow>
               if e + 1 \<noteq> i then None
               else if CHR ''['' \<in> set (drop 1 hostport) \<or> CHR '']'' \<in> set (drop (e + 1) hostport) then None
               else Some (take (e - 1) (drop 1 hostport), drop (i + 1) hostport))
        else if CHR '':'' \<in> set (take i hostport) then None
        else if CHR ''['' \<in> set hostport \<or> CHR '']'' \<in> set hostport then None
        else Some (take i hostport, drop (i + 1) hostport))"

definition listenerOff :: "string \<Rightarrow> bool" where
  "listenerOff addr \<longleftrightarrow> addr = [] \<or> addr = ''off''"

text \<open>\<open>loopback\<close> is \<^verbatim>\<open>net.ParseIP\<close> with \<^verbatim>\<open>IsLoopback\<close>: nothing when the host is not an IP address.\<close>

definition without_zone :: "string \<Rightarrow> string" where
  "without_zone host = (case str_index CHR ''%'' host of Some i \<Rightarrow> take i host | None \<Rightarrow> host)"

definition isRemoteAddr :: "(string \<Rightarrow> bool option) \<Rightarrow> string \<Rightarrow> bool" where
  "isRemoteAddr loopback addr = (case SplitHostPort addr of
      None \<Rightarrow> False
    | Some (host0, _) \<Rightarrow>
        (let host = without_zone host0
         in if host = [] then True
            else if equal_fold host ''localhost'' then False
            else (case loopback host of Some lo \<Rightarrow> \<not> lo | None \<Rightarrow> True)))"

definition RemoteListeners :: "(string \<Rightarrow> bool option) \<Rightarrow> Specification \<Rightarrow> string list" where
  "RemoteListeners loopback s =
     (if \<not> listenerOff (sp_HTTPAddress s) \<and> isRemoteAddr loopback (sp_HTTPAddress s) then [''HTTP_ADDR='' @ sp_HTTPAddress s] else [])
     @ (if \<not> listenerOff (sp_HTTPSAddress s) \<and> isRemoteAddr loopback (sp_HTTPSAddress s) then [''HTTPS_ADDR='' @ sp_HTTPSAddress s] else [])"

definition em_dash :: string where
  "em_dash = [CHR 0xE2, CHR 0x80, CHR 0x94]"

definition Config_Validate :: "(string \<Rightarrow> bool option) \<Rightarrow> (duration \<Rightarrow> string) \<Rightarrow> Specification \<Rightarrow> string option" where
  "Config_Validate loopback show_duration s =
     (if listenerOff (sp_HTTPAddress s) \<and> listenerOff (sp_HTTPSAddress s) then
        Some (''HTTP_ADDR and HTTPS_ADDR are both disabled '' @ em_dash @
          '' at least one must be a bind address (use \"off\" on only one to run single-protocol)'')
      else if dur_ns (sp_TokenLeeway s) < 0 then
        Some (''TOKEN_LEEWAY must not be negative, got '' @ show_duration (sp_TokenLeeway s))
      else if length (RemoteListeners loopback s) > 0 \<and> \<not> sp_AdminAllowRemote s then
        Some (str_join '' and '' (RemoteListeners loopback s) @ '' can be reached from other machines, but /admin0 is unauthenticated and can mint tokens; bind to 127.0.0.1, or set ADMIN_ALLOW_REMOTE=true to accept the risk (Docker needs this)'')
      else None)"

text \<open>\<open>parsed\<close> is what \<^verbatim>\<open>env.Parse\<close> gives, \<open>audience\<close> the variable \<^verbatim>\<open>DEFAULT_AUDIENCE\<close> as it is set.\<close>

definition Config_Load :: "(string \<Rightarrow> bool option) \<Rightarrow> (duration \<Rightarrow> string) \<Rightarrow> string + Specification \<Rightarrow> string option \<Rightarrow> string + Specification" where
  "Config_Load loopback show_duration parsed audience = (case parsed of
      Inl err \<Rightarrow> Inl (''env parse: '' @ err)
    | Inr spec0 \<Rightarrow>
        (let spec = (case audience of
               Some v \<Rightarrow> if trim_space v = [] then spec0\<lparr>sp_DefaultAudience := []\<rparr> else spec0
             | None \<Rightarrow> spec0)
         in case Config_Validate loopback show_duration spec of Some err \<Rightarrow> Inl err | None \<Rightarrow> Inr spec))"

lemma load_accepts:
  assumes "Config_Load loopback show_duration parsed audience = Inr s"
  shows "(\<not> listenerOff (sp_HTTPAddress s) \<or> \<not> listenerOff (sp_HTTPSAddress s)) \<and> 0 \<le> dur_ns (sp_TokenLeeway s)
    \<and> (sp_AdminAllowRemote s \<or> (\<forall>addr \<in> {sp_HTTPAddress s, sp_HTTPSAddress s}. \<forall>host port.
        \<not> listenerOff addr \<and> SplitHostPort addr = Some (host, port) \<longrightarrow>
        without_zone host \<noteq> [] \<and> (equal_fold (without_zone host) ''localhost'' \<or> loopback (without_zone host) = Some True)))"
proof -
  have v: "Config_Validate loopback show_duration s = None"
    using assms by (auto simp: Config_Load_def Let_def split: sum.splits option.splits)
  have local: "without_zone host \<noteq> [] \<and> (equal_fold (without_zone host) ''localhost'' \<or> loopback (without_zone host) = Some True)"
    if "\<not> isRemoteAddr loopback addr" "SplitHostPort addr = Some (host, port)" for addr host port
    using that by (auto simp: isRemoteAddr_def Let_def split: if_splits option.splits)
  show ?thesis using v local
    by (auto simp: Config_Validate_def RemoteListeners_def split: if_splits)
qed

text \<open>
  The unauthenticated control plane is not exposed by accident. Settings that \<^verbatim>\<open>Load\<close> accepts have at
  least one listener and no negative leeway, and unless \<^verbatim>\<open>ADMIN_ALLOW_REMOTE\<close> is set, every address
  that is listened on has a host, and the host is \<^verbatim>\<open>localhost\<close> or a loopback address: never the empty
  host, an unspecified or public address or another name.
\<close>
theorem no_accidental_exposure:
  assumes "Config_Load loopback show_duration parsed audience = Inr s"
  shows "(\<not> listenerOff (sp_HTTPAddress s) \<or> \<not> listenerOff (sp_HTTPSAddress s)) \<and> 0 \<le> dur_ns (sp_TokenLeeway s)
    \<and> (sp_AdminAllowRemote s \<or> (\<forall>addr \<in> {sp_HTTPAddress s, sp_HTTPSAddress s}. \<forall>host port.
        \<not> listenerOff addr \<and> SplitHostPort addr = Some (host, port) \<longrightarrow>
        without_zone host \<noteq> [] \<and> (equal_fold (without_zone host) ''localhost'' \<or> loopback (without_zone host) = Some True)))"
  by (rule load_accepts[OF assms])

section \<open>The TLS certificate\<close>

record generated =
  ge_certPEM :: string
  ge_keyPEM :: string

record cert_template =
  cp_SerialNumber :: int
  cp_CommonName :: string
  cp_NotBefore :: time
  cp_NotAfter :: time
  cp_IPAddresses :: "string list"
  cp_DNSNames :: "string list"

text \<open>
  \<open>x_pair\<close> is \<^verbatim>\<open>tls.X509KeyPair\<close>; \<open>x_key\<close> and \<open>x_serial\<close> are the key and the serial number drawn at that
  moment, \<open>x_sign\<close> is \<^verbatim>\<open>x509.CreateCertificate\<close> with the server usages of the template, \<open>x_marshal\<close> encodes the
  key and \<open>x_pem\<close> a PEM block; \<open>x_is_ip\<close> says whether \<^verbatim>\<open>net.ParseIP\<close> takes a name. \<open>x_mkdir\<close> gives the
  error of making the directory, \<open>x_write\<close> that of writing a file, with what is left of the file.
\<close>

record 'cert tls_lib =
  x_pair :: "string \<Rightarrow> string \<Rightarrow> string + 'cert"
  x_key :: "string + string"
  x_serial :: "string + int"
  x_sign :: "cert_template \<Rightarrow> string \<Rightarrow> string + string"
  x_marshal :: "string \<Rightarrow> string + string"
  x_pem :: "string \<Rightarrow> string \<Rightarrow> string"
  x_is_ip :: "string \<Rightarrow> bool"
  x_mkdir :: "string \<Rightarrow> string option"
  x_write :: "string \<Rightarrow> (string \<times> string option) option"

text \<open>The TLS settings of a listener: its certificates and the lowest version it speaks, 0x0304 for TLS 1.3.\<close>

record 'cert tls_settings =
  ts_Certificates :: "'cert list"
  ts_MinVersion :: "16 word"

definition tlsConfig :: "'cert \<Rightarrow> 'cert tls_settings" where
  "tlsConfig cert = \<lparr>ts_Certificates = [cert], ts_MinVersion = 0x0304\<rparr>"

text \<open>A path is the key of a file; \<open>path_join\<close> is \<^verbatim>\<open>filepath.Join\<close> of a clean directory and a name.\<close>

definition path_join :: "string \<Rightarrow> string \<Rightarrow> string" where
  "path_join dir name = dir @ ''/'' @ name"

definition LoadX509KeyPair :: "'cert tls_lib \<Rightarrow> file_system \<Rightarrow> string \<Rightarrow> string \<Rightarrow> string + 'cert" where
  "LoadX509KeyPair X fs certFile keyFile = (case fs certFile of
      None \<Rightarrow> Inl (''open '' @ certFile @ '': no such file or directory'')
    | Some c \<Rightarrow> (case fs keyFile of
        None \<Rightarrow> Inl (''open '' @ keyFile @ '': no such file or directory'')
      | Some k \<Rightarrow> x_pair X c k))"

definition loadFromCache :: "'cert tls_lib \<Rightarrow> file_system \<Rightarrow> string \<Rightarrow> string + 'cert option" where
  "loadFromCache X fs dir =
     (let certPath = path_join dir ''tls.crt''; keyPath = path_join dir ''tls.key''
      in if fs certPath = None then Inr None
         else if fs keyPath = None then Inr None
         else (case LoadX509KeyPair X fs certPath keyPath of
             Inl err \<Rightarrow> Inl (''load cached cert/key: '' @ err)
           | Inr cert \<Rightarrow> Inr (Some cert)))"

definition persistToCache :: "'cert tls_lib \<Rightarrow> string \<Rightarrow> generated \<Rightarrow> file_system \<Rightarrow> string option \<times> file_system" where
  "persistToCache X dir gen fs = (case x_mkdir X dir of
      Some err \<Rightarrow> (Some (''create cache dir '' @ dir @ '': '' @ err), fs)
    | None \<Rightarrow> (case x_write X (path_join dir ''tls.crt'') of
        Some (err, left) \<Rightarrow> (Some (''write cert: '' @ err), fs(path_join dir ''tls.crt'' := left))
      | None \<Rightarrow>
          (let fs1 = fs(path_join dir ''tls.crt'' \<mapsto> ge_certPEM gen)
           in case x_write X (path_join dir ''tls.key'') of
                Some (err, left) \<Rightarrow> (Some (''write key: '' @ err), fs1(path_join dir ''tls.key'' := left))
              | None \<Rightarrow> (None, fs1(path_join dir ''tls.key'' \<mapsto> ge_keyPEM gen)))))"

definition hour_ns :: int where
  "hour_ns = 3600 * 1000000000"

definition cert_for :: "'cert tls_lib \<Rightarrow> int \<Rightarrow> time \<Rightarrow> time \<Rightarrow> string list \<Rightarrow> cert_template" where
  "cert_for X serial now1 now2 hostnames =
     \<lparr>cp_SerialNumber = serial, cp_CommonName = ''auth0-mock'', cp_NotBefore = now1 - hour_ns, cp_NotAfter = now2 + 365 * 24 * hour_ns,
      cp_IPAddresses = filter (x_is_ip X) hostnames, cp_DNSNames = filter (\<lambda>h. \<not> x_is_ip X h) hostnames\<rparr>"

definition generateSelfSigned :: "'cert tls_lib \<Rightarrow> time \<Rightarrow> time \<Rightarrow> string list \<Rightarrow> string + generated" where
  "generateSelfSigned X now1 now2 hostnames = (case x_key X of
      Inl err \<Rightarrow> Inl (''generate key: '' @ err)
    | Inr priv \<Rightarrow> (case x_serial X of
        Inl err \<Rightarrow> Inl (''generate serial: '' @ err)
      | Inr serial \<Rightarrow> (case x_sign X (cert_for X serial now1 now2 hostnames) priv of
          Inl err \<Rightarrow> Inl (''create cert: '' @ err)
        | Inr der \<Rightarrow> (case x_marshal X priv of
            Inl err \<Rightarrow> Inl (''marshal key: '' @ err)
          | Inr keyDER \<Rightarrow> Inr \<lparr>ge_certPEM = x_pem X ''CERTIFICATE'' der, ge_keyPEM = x_pem X ''EC PRIVATE KEY'' keyDER\<rparr>))))"

definition Tls_Load :: "'cert tls_lib \<Rightarrow> time \<Rightarrow> time \<Rightarrow> tls_Config \<Rightarrow> file_system \<Rightarrow> (string + 'cert tls_settings) \<times> file_system" where
  "Tls_Load X now1 now2 cfg fs =
     (if tc_CertFile cfg \<noteq> [] \<and> tc_KeyFile cfg \<noteq> [] then
        (case LoadX509KeyPair X fs (tc_CertFile cfg) (tc_KeyFile cfg) of
           Inl err \<Rightarrow> (Inl (''load cert/key: '' @ err), fs)
         | Inr cert \<Rightarrow> (Inr (tlsConfig cert), fs))
      else
        (case (if tc_CacheDir cfg \<noteq> [] then loadFromCache X fs (tc_CacheDir cfg) else Inr None) of
           Inl err \<Rightarrow> (Inl err, fs)
         | Inr (Some cert) \<Rightarrow> (Inr (tlsConfig cert), fs)
         | Inr None \<Rightarrow>
             (case generateSelfSigned X now1 now2 (tc_Hostnames cfg) of
                Inl err \<Rightarrow> (Inl err, fs)
              | Inr gen \<Rightarrow>
                  (case (if tc_CacheDir cfg \<noteq> [] then persistToCache X (tc_CacheDir cfg) gen fs else (None, fs)) of
                     (Some err, fs') \<Rightarrow> (Inl err, fs')
                   | (None, fs') \<Rightarrow>
                       (case x_pair X (ge_certPEM gen) (ge_keyPEM gen) of
                          Inl err \<Rightarrow> (Inl (''parse generated cert: '' @ err), fs')
                        | Inr cert \<Rightarrow> (Inr (tlsConfig cert), fs'))))))"

lemma load_pair_cached:
  "LoadX509KeyPair X fs c k = Inr cert \<Longrightarrow> fs (path_join dir ''tls.crt'') = fs c \<Longrightarrow> fs (path_join dir ''tls.key'') = fs k \<Longrightarrow>
     loadFromCache X fs dir = Inr (Some cert)"
  by (auto simp: loadFromCache_def LoadX509KeyPair_def Let_def split: option.splits)

text \<open>
  A cached certificate survives a restart. When a boot with a cache directory ends with a
  certificate, the next boot on the files it left, at any later time and whatever the random source
  and the file system would do then, loads the same certificate and writes nothing.
\<close>
theorem tls_cache_roundtrip:
  assumes boot: "Tls_Load X now1 now2 cfg fs = (Inr cert, fs')" and cache: "tc_CacheDir cfg \<noteq> []"
    and same: "x_pair Y = x_pair X"
  shows "Tls_Load Y now3 now4 cfg fs' = (Inr cert, fs')"
proof (cases "tc_CertFile cfg \<noteq> [] \<and> tc_KeyFile cfg \<noteq> []")
  case True
  then show ?thesis using boot same by (auto simp: Tls_Load_def LoadX509KeyPair_def split: sum.splits option.splits)
next
  case False
  let ?c = "path_join (tc_CacheDir cfg) ''tls.crt''" and ?k = "path_join (tc_CacheDir cfg) ''tls.key''"
  have diff: "?c \<noteq> ?k" by (simp add: path_join_def)
  have "\<exists>c k pair. fs' ?c = Some c \<and> fs' ?k = Some k \<and> x_pair X c k = Inr pair \<and> cert = tlsConfig pair"
  proof (cases "loadFromCache X fs (tc_CacheDir cfg)")
    case (Inr o1)
    then show ?thesis
    proof (cases o1)
      case None
      with boot False cache Inr diff show ?thesis
        by (auto simp: Tls_Load_def persistToCache_def Let_def split: sum.splits option.splits prod.splits)
    next
      case (Some c1)
      with boot False cache Inr have "cert = tlsConfig c1" "fs' = fs" by (auto simp: Tls_Load_def)
      with Inr Some show ?thesis
        by (auto simp: loadFromCache_def LoadX509KeyPair_def Let_def split: if_splits option.splits sum.splits)
    qed
  qed (use boot False cache in \<open>auto simp: Tls_Load_def\<close>)
  then obtain pair where "loadFromCache Y fs' (tc_CacheDir cfg) = Inr (Some pair)" "cert = tlsConfig pair"
    using same by (auto simp: loadFromCache_def LoadX509KeyPair_def Let_def)
  then show ?thesis using False cache by (auto simp: Tls_Load_def)
qed

section \<open>Listeners\<close>

text \<open>
  A listener of \<^verbatim>\<open>internal/server/server.go\<close>: its address, the handler behind it, its timeouts, and the
  certificate for the one that speaks TLS.
\<close>

record Timeouts =
  to_ReadHeader :: duration
  to_Write :: duration
  to_Idle :: duration

record ('h, 'cert) stdServer =
  ss_Addr :: string
  ss_Handler :: 'h
  ss_Timeouts :: Timeouts
  ss_TLSConfig :: "'cert tls_settings option"
  ss_tls :: bool

definition NewHTTP :: "string \<Rightarrow> 'h \<Rightarrow> Timeouts \<Rightarrow> ('h, 'cert) stdServer" where
  "NewHTTP addr handler t = \<lparr>ss_Addr = addr, ss_Handler = handler, ss_Timeouts = t, ss_TLSConfig = None, ss_tls = False\<rparr>"

definition NewHTTPS :: "string \<Rightarrow> 'h \<Rightarrow> 'cert tls_settings \<Rightarrow> Timeouts \<Rightarrow> ('h, 'cert) stdServer" where
  "NewHTTPS addr handler tlsCfg t = \<lparr>ss_Addr = addr, ss_Handler = handler, ss_Timeouts = t, ss_TLSConfig = Some tlsCfg, ss_tls = True\<rparr>"

text \<open>
  What the orchestrator asks of a listener. \<open>plain\<close> and \<open>tls\<close> are the two ways in which \<^verbatim>\<open>net/http\<close> serves, with the
  error they return; an error is its text.
\<close>

definition ListenAndServe :: "(('h, 'cert) stdServer \<Rightarrow> string) \<Rightarrow> (('h, 'cert) stdServer \<Rightarrow> string) \<Rightarrow> ('h, 'cert) stdServer \<Rightarrow> string" where
  "ListenAndServe plain tls s = (if ss_tls s then tls s else plain s)"

definition ErrServerClosed :: string where
  "ErrServerClosed = ''http: Server closed''"

definition IsExpectedStopErr :: "string \<Rightarrow> bool" where
  "IsExpectedStopErr err \<longleftrightarrow> err = ErrServerClosed"

text \<open>The orchestrator over any type of servers; nil servers are dropped.\<close>

record 's Orchestrator =
  oc_servers :: "'s list"
  oc_shutdownTimeout :: duration

definition NewOrchestrator :: "'s option list \<Rightarrow> 's Orchestrator" where
  "NewOrchestrator servers = \<lparr>oc_servers = List.map_filter (\<lambda>s. s) servers, oc_shutdownTimeout = 5 * 1000000000\<rparr>"

definition WithShutdownTimeout :: "duration \<Rightarrow> 's Orchestrator \<Rightarrow> 's Orchestrator" where
  "WithShutdownTimeout d oc = oc\<lparr>oc_shutdownTimeout := d\<rparr>"

text \<open>
  What happens while the listeners run, in the order the orchestrator sees it: the context is
  cancelled, or the \<^verbatim>\<open>ListenAndServe\<close> of a server returns. A goroutine ends when its server returns or
  the context is cancelled, which the first error also does; the group has ended when each has.
\<close>

datatype 's run_event = Interrupt | Returned 's "string option"

fun group_wait :: "(string \<Rightarrow> bool) \<Rightarrow> 's list \<Rightarrow> 's run_event list \<Rightarrow> string option option" where
  "group_wait expected [] evs = Some None"
| "group_wait expected running [] = None"
| "group_wait expected running (Interrupt # evs) = Some None"
| "group_wait expected running (Returned i e # evs) =
     (if i \<notin> set running then group_wait expected running evs
      else (case e of
          Some err \<Rightarrow> if expected err then group_wait expected (removeAll i running) evs else Some (Some err)
        | None \<Rightarrow> group_wait expected (removeAll i running) evs))"

text \<open>\<^verbatim>\<open>errors.Join\<close> keeps the errors that are there; \<open>down\<close> is the error of a server's shutdown.\<close>

definition orch_stop :: "('s \<Rightarrow> duration \<Rightarrow> string option) \<Rightarrow> 's Orchestrator \<Rightarrow> string list" where
  "orch_stop down oc = List.map_filter (\<lambda>srv. down srv (oc_shutdownTimeout oc)) (oc_servers oc)"

definition Orch_Start :: "(string \<Rightarrow> bool) \<Rightarrow> ('s \<Rightarrow> duration \<Rightarrow> string option) \<Rightarrow> 's Orchestrator \<Rightarrow> 's run_event list \<Rightarrow> string list option" where
  "Orch_Start expected down oc evs =
     map_option (\<lambda>err. (case err of Some e \<Rightarrow> [e] | None \<Rightarrow> []) @ orch_stop down oc) (group_wait expected (oc_servers oc) evs)"

lemma wait_interrupted: "Interrupt \<in> set evs \<Longrightarrow> group_wait expected running evs \<noteq> None"
  by (induction expected running evs rule: group_wait.induct) (auto split: option.splits)

lemma wait_all_returned: "\<forall>i \<in> set running. \<exists>e. Returned i e \<in> set evs \<Longrightarrow> group_wait expected running evs \<noteq> None"
proof (induction expected running evs rule: group_wait.induct)
  case (4 expected r rs i e evs)
  let ?run = "r # rs"
  show ?case
  proof (cases "i \<in> set ?run")
    case True
    have rest: "\<forall>j \<in> set (removeAll i ?run). \<exists>e'. Returned j e' \<in> set evs" using 4(4) by auto
    have "group_wait expected (removeAll i ?run) evs \<noteq> None" if "e = None \<or> (\<exists>err. e = Some err \<and> expected err)"
      using that True 4(2,3) rest by (cases e) (simp_all del: removeAll.simps)
    with True show ?thesis by (cases e) (simp_all del: removeAll.simps)
  next
    case False
    have "\<forall>j \<in> set ?run. \<exists>e'. Returned j e' \<in> set evs" using 4(4) False by auto
    with 4(1) False show ?thesis by simp
  qed
qed auto

lemma wait_running:
  "j \<in> set running \<Longrightarrow> \<forall>e. Returned j e \<notin> set evs \<Longrightarrow> Interrupt \<notin> set evs \<Longrightarrow> \<forall>i e. Returned i (Some e) \<in> set evs \<longrightarrow> expected e \<Longrightarrow>
     group_wait expected running evs = None"
proof (induction expected running evs rule: group_wait.induct)
  case (4 expected r rs i e evs)
  then have "i \<noteq> j" by auto
  with 4 show ?case by (cases e) (auto split: if_splits)
qed auto

lemma wait_failed: "group_wait expected running evs = Some (Some e) \<Longrightarrow> \<exists>i \<in> set running. Returned i (Some e) \<in> set evs \<and> \<not> expected e"
  by (induction expected running evs rule: group_wait.induct) (auto split: option.splits if_splits)


section \<open>Witnesses\<close>

definition demo_spec :: Specification where
  "demo_spec = \<lparr>sp_HTTPAddress = ''127.0.0.1:8080'', sp_HTTPSAddress = ''off'',
     sp_TLS = \<lparr>tc_CertFile = [], tc_KeyFile = [], tc_CacheDir = ''/cache'', tc_Hostnames = [''localhost'', ''127.0.0.1'']\<rparr>,
     sp_SigningKeyFile = [], sp_IssuerURL = ''https://localhost:8443/'', sp_DefaultAudience = ''https://localhost:8443/api/v2/'',
     sp_AccessTokenTTL = 86400, sp_IDTokenTTL = 86400, sp_AdminAllowRemote = False, sp_TokenLeeway = 0, sp_LogLevel = ''info'',
     sp_Debug = False, sp_SpecValidationStrict = True, sp_ReadHeaderTimeout = 5, sp_WriteTimeout = 30, sp_IdleTimeout = 120,
     sp_MaxRequestBodyBytes = 1048576, sp_ShutdownTimeout = 5, sp_EventsReplayBuffer = 100, sp_RequestJournalSize = 1000,
     sp_EventsReconnectHint = 3, sp_LogoutAllowedURLs = [], sp_AuthorizeAllowedCallbacks = [], sp_CORSAllowedOrigins = [],
     sp_BearerRequireAudience = []\<rparr>"

definition demo_loopback :: "string \<Rightarrow> bool option" where
  "demo_loopback h = (if has_prefix h ''127.'' then Some True else None)"

lemma demo_spec_loads: "Config_Load demo_loopback (\<lambda>_. []) (Inr demo_spec) None = Inr demo_spec"
proof -
  have "Config_Validate demo_loopback (\<lambda>_. []) demo_spec = None" by code_simp
  then show ?thesis by (simp add: Config_Load_def)
qed

theorem no_accidental_exposure_witness: "demo_loopback ''127.0.0.1'' = Some True"
proof -
  have "SplitHostPort (sp_HTTPAddress demo_spec) = Some (''127.0.0.1'', ''8080'') \<and> \<not> listenerOff (sp_HTTPAddress demo_spec)
      \<and> \<not> sp_AdminAllowRemote demo_spec \<and> without_zone ''127.0.0.1'' = ''127.0.0.1'' \<and> \<not> equal_fold ''127.0.0.1'' ''localhost''"
    by code_simp
  with no_accidental_exposure[OF demo_spec_loads] show ?thesis by (metis insertI1)
qed

definition demo_tls :: "string tls_lib" where
  "demo_tls = \<lparr>x_pair = \<lambda>c k. Inr (c @ k), x_key = Inr ''k'', x_serial = Inr 7, x_sign = \<lambda>t k. Inr (cp_CommonName t), x_marshal = Inr,
     x_pem = \<lambda>t b. b, x_is_ip = has_prefix ''127'', x_mkdir = \<lambda>_. None, x_write = \<lambda>_. None\<rparr>"

theorem tls_cache_roundtrip_witness:
  "\<exists>fs'. Tls_Load demo_tls 0 0 (sp_TLS demo_spec) Map.empty = (Inr (tlsConfig ''auth0-mockk''), fs') \<and>
     Tls_Load (demo_tls\<lparr>x_key := Inl ''no entropy''\<rparr>) 9 9 (sp_TLS demo_spec) fs' = (Inr (tlsConfig ''auth0-mockk''), fs')"
proof -
  have cache: "tc_CacheDir (sp_TLS demo_spec) \<noteq> []" by (simp add: demo_spec_def)
  obtain fs' where boot: "Tls_Load demo_tls 0 0 (sp_TLS demo_spec) Map.empty = (Inr (tlsConfig ''auth0-mockk''), fs')"
    by (simp add: Tls_Load_def demo_spec_def demo_tls_def loadFromCache_def generateSelfSigned_def persistToCache_def cert_for_def Let_def)
  from boot tls_cache_roundtrip[OF boot cache, of "demo_tls\<lparr>x_key := Inl ''no entropy''\<rparr>" 9 9] show ?thesis by simp
qed


end
