(* ===== verification/Keyset.thy ===== *)
theory Keyset
  imports Jwks
begin

text \<open>
  The signing key of the program, \<^verbatim>\<open>internal/jwks/keyset.go\<close>: loading it from the configured file,
  generating and persisting it on the first run, and the key set built from it. The type \<open>'key\<close> stands
  for \<^verbatim>\<open>rsa.PrivateKey\<close>; PEM, PKCS#1, PKCS#8, SHA-256 and the random source are the fields of
  \<open>key_lib\<close>, and \<open>key_laws\<close> states the documented round trips of the encodings.
\<close>

section \<open>Loading and generating\<close>

text \<open>
  \<open>kl_generate\<close> is \<^verbatim>\<open>rsa.GenerateKey\<close> with the random source at that moment; \<open>kl_decode\<close> gives the type
  and the bytes of the first PEM block; \<open>kl_pkcs8\<close> gives \<open>None\<close> for a key that is not an RSA key;
  \<open>kl_unreadable\<close> is an error of \<^verbatim>\<open>os.ReadFile\<close> other than a missing file; \<open>kl_write\<close> is an error of
  \<^verbatim>\<open>os.WriteFile\<close> with what it leaves of the file.
\<close>

record 'key key_lib =
  kl_generate :: "string + 'key"
  kl_decode :: "string \<Rightarrow> (string \<times> string) option"
  kl_encode :: "string \<Rightarrow> string \<Rightarrow> string"
  kl_pkcs1 :: "string \<Rightarrow> string + 'key"
  kl_marshal1 :: "'key \<Rightarrow> string"
  kl_pkcs8 :: "string \<Rightarrow> string + 'key option"
  kl_N :: "'key \<Rightarrow> string"
  kl_E :: "'key \<Rightarrow> int"
  kl_sha256 :: "string \<Rightarrow> string"
  kl_quote :: "string \<Rightarrow> string"
  kl_unreadable :: "string \<Rightarrow> string option"
  kl_write :: "string \<Rightarrow> (string \<times> string option) option"

definition generateAndPersist :: "'key key_lib \<Rightarrow> string \<Rightarrow> file_system \<Rightarrow> (string + 'key) \<times> file_system" where
  "generateAndPersist K path fs = (case kl_generate K of
      Inl err \<Rightarrow> (Inl (''generate signing key: '' @ err), fs)
    | Inr priv \<Rightarrow>
        (let pemBytes = kl_encode K ''RSA PRIVATE KEY'' (kl_marshal1 K priv)
         in case kl_write K path of
              Some (err, left) \<Rightarrow> (Inl (''persist signing key to '' @ path @ '': '' @ err), fs(path := left))
            | None \<Rightarrow> (Inr priv, fs(path \<mapsto> pemBytes))))"

text \<open>The key of the bytes of an existing key file.\<close>

definition parse_key :: "'key key_lib \<Rightarrow> string \<Rightarrow> string \<Rightarrow> string + 'key" where
  "parse_key K path pemBytes = (case kl_decode K pemBytes of
      None \<Rightarrow> Inl (''signing key '' @ path @ '': not PEM-encoded'')
    | Some (typ, bytes) \<Rightarrow>
        if typ = ''RSA PRIVATE KEY'' then kl_pkcs1 K bytes
        else if typ = ''PRIVATE KEY'' then
          (case kl_pkcs8 K bytes of
             Inl err \<Rightarrow> Inl (''parse PKCS8: '' @ err)
           | Inr None \<Rightarrow> Inl (''signing key '' @ path @ '': not an RSA key'')
           | Inr (Some rk) \<Rightarrow> Inr rk)
        else Inl (''signing key '' @ path @ '': unsupported PEM type '' @ kl_quote K typ))"

definition loadOrGenerate :: "'key key_lib \<Rightarrow> string \<Rightarrow> file_system \<Rightarrow> (string + 'key) \<times> file_system" where
  "loadOrGenerate K path fs =
     (if path = [] then (kl_generate K, fs)
      else case kl_unreadable K path of
          Some err \<Rightarrow> (Inl (''read signing key '' @ path @ '': '' @ err), fs)
        | None \<Rightarrow> (case fs path of
            None \<Rightarrow> generateAndPersist K path fs
          | Some pemBytes \<Rightarrow> (parse_key K path pemBytes, fs)))"

text \<open>The first eight bytes of the hash of the modulus, encoded.\<close>

definition keyIDFromKey :: "'key key_lib \<Rightarrow> 'key \<Rightarrow> string" where
  "keyIDFromKey K priv = RawURLEncode (take 8 (kl_sha256 K (kl_N K priv)))"

text \<open>
  \<^verbatim>\<open>NewKeySet\<close>. The private key is returned beside the key set; the published document is
  \<open>buildJWKSJSON\<close> of the key set, which has no other inputs.
\<close>

definition NewKeySet :: "'key key_lib \<Rightarrow> Config \<Rightarrow> file_system \<Rightarrow> (string + KeySet \<times> 'key) \<times> file_system" where
  "NewKeySet K cfg fs = (case loadOrGenerate K (cf_KeyFile cfg) fs of
      (Inl err, fs') \<Rightarrow> (Inl err, fs')
    | (Inr priv, fs') \<Rightarrow>
        (Inr (\<lparr>ks_cfg = cfg, ks_keyID = keyIDFromKey K priv, ks_N = kl_N K priv, ks_E = kl_E K priv\<rparr>, priv), fs'))"

lemma keyset_cfg: "NewKeySet K cfg fs = (Inr kp, fs') \<Longrightarrow> ks_cfg (fst kp) = cfg"
  by (cases kp) (auto simp: NewKeySet_def split: prod.splits sum.splits)

section \<open>Restarts\<close>

definition key_laws :: "'key key_lib \<Rightarrow> bool" where
  "key_laws K \<longleftrightarrow> (\<forall>bytes. kl_decode K (kl_encode K ''RSA PRIVATE KEY'' bytes) = Some (''RSA PRIVATE KEY'', bytes)) \<and> (\<forall>priv. kl_pkcs1 K (kl_marshal1 K priv) = Inr priv)"

text \<open>The same machine at a later boot: another key would be drawn, and writing may fail.\<close>

definition same_parser :: "'key key_lib \<Rightarrow> 'key key_lib \<Rightarrow> bool" where
  "same_parser K K' \<longleftrightarrow> (\<exists>g w. K' = K\<lparr>kl_generate := g, kl_write := w\<rparr>)"

lemma same_parser_lib:
  assumes "same_parser K K'"
  shows "kl_decode K' = kl_decode K" "kl_pkcs1 K' = kl_pkcs1 K" "kl_pkcs8 K' = kl_pkcs8 K" "kl_quote K' = kl_quote K"
    "kl_sha256 K' = kl_sha256 K" "kl_N K' = kl_N K" "kl_E K' = kl_E K" "kl_unreadable K' = kl_unreadable K"
  using assms by (auto simp: same_parser_def)

lemma same_parser_fields:
  assumes "same_parser K K'"
  shows "parse_key K' path pem = parse_key K path pem" "keyIDFromKey K' priv = keyIDFromKey K priv"
  unfolding parse_key_def keyIDFromKey_def same_parser_lib[OF assms] by (rule refl)+

lemma persisted_parses: "key_laws K \<Longrightarrow> parse_key K path (kl_encode K ''RSA PRIVATE KEY'' (kl_marshal1 K priv)) = Inr priv"
  by (simp add: key_laws_def parse_key_def)

lemma load_again:
  assumes laws: "key_laws K" and same: "same_parser K K'" and path: "path \<noteq> []" and load: "loadOrGenerate K path fs = (Inr priv, fs')"
  shows "loadOrGenerate K' path fs' = (Inr priv, fs')"
proof -
  note fields = same_parser_fields[OF same] same_parser_lib[OF same]
  from load path have read: "kl_unreadable K path = None" by (auto simp: loadOrGenerate_def split: option.splits)
  have "\<exists>pem. fs' path = Some pem \<and> parse_key K path pem = Inr priv"
  proof (cases "fs path")
    case None
    with load path read have "generateAndPersist K path fs = (Inr priv, fs')" by (simp add: loadOrGenerate_def)
    then show ?thesis using persisted_parses[OF laws] by (auto simp: generateAndPersist_def Let_def split: sum.splits option.splits prod.splits)
  next
    case (Some pem)
    with load path read show ?thesis by (auto simp: loadOrGenerate_def)
  qed
  then show ?thesis using path read by (auto simp: loadOrGenerate_def fields)
qed

lemma keyset_again:
  assumes laws: "key_laws K" and same: "same_parser K K'" and path: "cf_KeyFile cfg \<noteq> []" and boot: "NewKeySet K cfg fs = (Inr kp, fs')"
  shows "NewKeySet K' cfg fs' = (Inr kp, fs')"
proof -
  obtain r f where l: "loadOrGenerate K (cf_KeyFile cfg) fs = (r, f)" by fastforce
  with boot obtain priv where priv: "r = Inr priv" "f = fs'" by (cases r) (simp_all add: NewKeySet_def)
  with load_again[OF laws same path] l boot show ?thesis by (simp add: NewKeySet_def same_parser_fields[OF same] same_parser_lib[OF same])
qed

text \<open>
  C10. Tokens survive a restart with a key file. When a boot with a key file configured ends with a key
  set, whether it loaded the file or created it, the next boot on the files it left, whatever the
  random source and the file system would do then, has the same key set, publishes the same
  document and writes nothing; a token minted before the restart verifies after it with the claims
  it was minted with, until its lifetime ends, and is refused from then on.
\<close>
theorem tokens_survive_restart:
  assumes laws: "key_laws K" and same: "same_parser K K'" and path: "cf_KeyFile cfg \<noteq> []"
    and boot: "NewKeySet K cfg fs = (Inr (k, priv), fs')"
    and lib: "jwt_correct (lib priv)" and mint: "Mint (lib priv) k now opts = Inr tok"
    and iss: "mo_Issuer opts \<noteq> []" "vo_Issuer vo = mo_Issuer opts" and live: "\<not> vo_AllowExpired vo" "vo_RequireAudience vo = []"
    and extra: "keeps_registered (mo_Extra opts)" and leeway: "0 \<le> dur_ns (cf_Leeway cfg)" and later: "now \<le> now'"
  shows "\<exists>k' priv'. NewKeySet K' cfg fs' = (Inr (k', priv'), fs') \<and> buildJWKSJSON k' = buildJWKSJSON k
    \<and> (now' \<le> time_add now (mo_TTL opts) - 1000000000 + dur_ns (cf_Leeway cfg) \<longrightarrow>
         Jwks_Verify (lib priv') k' now' tok vo = Inr \<lparr>tc_Issuer = mo_Issuer opts, tc_Subject = mo_Subject opts,
           tc_Audience = mo_Audience opts, tc_Scope = mo_Scope opts, tc_Extra = mo_Extra opts\<rparr>)
    \<and> (time_add now (mo_TTL opts) + dur_ns (cf_Leeway cfg) \<le> now' \<longrightarrow> (\<exists>err. Jwks_Verify (lib priv') k' now' tok vo = Inl err))"
proof -
  have cfg: "ks_cfg k = cfg" using keyset_cfg[OF boot] by simp
  have again: "NewKeySet K' cfg fs' = (Inr (k, priv), fs')" by (rule keyset_again[OF laws same path boot])
  note minted = minted_verifies[OF lib mint iss live(1) extra _ later]
  show ?thesis using again minted leeway live(2) unfolding cfg by (auto simp: Let_def)
qed

text \<open>Keys for witnesses are numbers; a PEM block is its type, a colon and its bytes.\<close>

definition demo_keylib :: "nat \<Rightarrow> nat key_lib" where
  "demo_keylib n = \<lparr>kl_generate = Inr n,
     kl_decode = (\<lambda>s. if CHR '':'' \<in> set s then Some (takeWhile (\<lambda>c. c \<noteq> CHR '':'') s, tl (dropWhile (\<lambda>c. c \<noteq> CHR '':'') s)) else None),
     kl_encode = (\<lambda>t b. t @ '':'' @ b), kl_pkcs1 = (\<lambda>b. Inr (length b)), kl_marshal1 = (\<lambda>n. replicate n CHR ''k''),
     kl_pkcs8 = (\<lambda>b. Inr None), kl_N = (\<lambda>n. replicate n CHR ''n''), kl_E = (\<lambda>_. 65537), kl_sha256 = (\<lambda>s. s), kl_quote = (\<lambda>s. s),
     kl_unreadable = (\<lambda>_. None), kl_write = (\<lambda>_. None)\<rparr>"

lemma demo_key_laws: "key_laws (demo_keylib n)"
  by (simp add: key_laws_def demo_keylib_def)

definition demo_key_cfg :: Config where
  "demo_key_cfg = (ks_cfg demo_keys)\<lparr>cf_KeyFile := ''key.pem''\<rparr>"

theorem tokens_survive_restart_witness:
  "\<exists>k priv fs' k' priv'. NewKeySet (demo_keylib 9) demo_key_cfg Map.empty = (Inr (k, priv), fs')
     \<and> NewKeySet (demo_keylib 7) demo_key_cfg fs' = (Inr (k', priv'), fs') \<and> priv' = 9
     \<and> Jwks_Verify (demo_jwt [(''tok'', mint_claims ''https://mock/'' 0 demo_opts)]) k' 1000000000 ''tok''
          \<lparr>vo_RequireAudience = [], vo_AllowExpired = False, vo_Issuer = ''https://mock/''\<rparr> =
        Inr \<lparr>tc_Issuer = ''https://mock/'', tc_Subject = ''sub'', tc_Audience = [''api''], tc_Scope = ''read'',
          tc_Extra = [''gty'' \<mapsto> JStr ''password'']\<rparr>"
proof -
  let ?L = "\<lambda>n :: nat. demo_jwt [(''tok'', mint_claims ''https://mock/'' 0 demo_opts)]"
  let ?vo = "\<lparr>vo_RequireAudience = [], vo_AllowExpired = False, vo_Issuer = ''https://mock/''\<rparr>"
  obtain k fs' where boot: "NewKeySet (demo_keylib 9) demo_key_cfg Map.empty = (Inr (k, 9), fs')" and pem: "fs' ''key.pem'' = Some (''RSA PRIVATE KEY:'' @ replicate 9 CHR ''k'')"
    by (simp add: NewKeySet_def loadOrGenerate_def generateAndPersist_def demo_keylib_def demo_key_cfg_def)
  have next_boot: "\<exists>k'. NewKeySet (demo_keylib 7) demo_key_cfg fs' = (Inr (k', 9), fs')"
    using pem by (simp add: NewKeySet_def loadOrGenerate_def parse_key_def demo_keylib_def demo_key_cfg_def)
  have same: "same_parser (demo_keylib 9) (demo_keylib 7)"
    unfolding same_parser_def by (rule exI[of _ "Inr 7"], rule exI[of _ "\<lambda>_. None"]) (simp add: demo_keylib_def)
  have mint: "Mint (?L 9) k 0 demo_opts = Inr ''tok''" by (simp add: Mint_def issuer_def demo_opts_def demo_jwt_def)
  have extra: "keeps_registered (mo_Extra demo_opts)" by (simp add: keeps_registered_def demo_opts_def registered_claims_def)
  have path: "cf_KeyFile demo_key_cfg \<noteq> []" and leeway: "0 \<le> dur_ns (cf_Leeway demo_key_cfg)"
    by (simp_all add: demo_key_cfg_def demo_keys_def dur_ns_def)
  have lib: "jwt_correct (?L 9)" by (rule demo_jwt_correct) simp
  from next_boot obtain k' where k': "NewKeySet (demo_keylib 7) demo_key_cfg fs' = (Inr (k', 9), fs')" by blast
  have live: "1000000000 \<le> time_add 0 (mo_TTL demo_opts) - 1000000000 + dur_ns (cf_Leeway demo_key_cfg)"
    by (simp add: demo_opts_def demo_key_cfg_def demo_keys_def dur_ns_def time_add_def)
  have iss: "mo_Issuer demo_opts \<noteq> []" "vo_Issuer ?vo = mo_Issuer demo_opts" by (simp_all add: demo_opts_def)
  from tokens_survive_restart[OF demo_key_laws same path boot, of ?L, OF lib mint iss _ _ extra leeway, of 1000000000] k' live
  have "Jwks_Verify (?L 9) k' 1000000000 ''tok'' ?vo = Inr \<lparr>tc_Issuer = mo_Issuer demo_opts, tc_Subject = mo_Subject demo_opts,
           tc_Audience = mo_Audience demo_opts, tc_Scope = mo_Scope demo_opts, tc_Extra = mo_Extra demo_opts\<rparr>"
    by simp
  then have "Jwks_Verify (?L 9) k' 1000000000 ''tok'' ?vo = Inr \<lparr>tc_Issuer = ''https://mock/'', tc_Subject = ''sub'', tc_Audience = [''api''], tc_Scope = ''read'',
      tc_Extra = [''gty'' \<mapsto> JStr ''password'']\<rparr>"
    unfolding demo_opts_def MintOpts.select_convs .
  with boot k' show ?thesis by blast
qed

end
