(* ===== verification/Api_Main.thy ===== *)
theory Api_Main
  imports Router Startup Keyset
begin

text \<open>
  The program \<^verbatim>\<open>cmd/api/main.go\<close>: \<^verbatim>\<open>run\<close> loads the configuration, builds the stores, the router and the
  listeners from it, and blocks in the orchestrator. The environment, the encodings of keys and
  certificates and the OpenAPI library are parameters.
\<close>

text \<open>
  \<open>bo_env\<close> is what \<^verbatim>\<open>env.Parse\<close> gives and \<open>bo_audience\<close> the variable \<^verbatim>\<open>DEFAULT_AUDIENCE\<close>; \<open>bo_keylib\<close> is
  the library under the key set, \<open>bo_decode\<close> the loader of OpenAPI documents, \<open>bo_doc\<close> the embedded
  document and \<open>bo_build\<close> the router of the OpenAPI library.
\<close>

record ('r, 'cert, 'key) boot =
  bo_env :: "string + Specification"
  bo_audience :: "string option"
  bo_loopback :: "string \<Rightarrow> bool option"
  bo_duration :: "duration \<Rightarrow> string"
  bo_keylib :: "'key key_lib"
  bo_decode :: "string \<Rightarrow> string + (string list \<times> (string, (string, op_spec) gomap) gomap)"
  bo_doc :: string
  bo_build :: "Spec \<Rightarrow> string + Validator"
  bo_url :: url_lib
  bo_quote :: "string \<Rightarrow> string"
  bo_replay :: "replay_error \<Rightarrow> string"
  bo_routing :: "'r routing"
  bo_routes :: 'r
  bo_conns :: conns
  bo_tls :: "'cert tls_lib"
  bo_now1 :: time
  bo_now2 :: time

definition keyset_config :: "Specification \<Rightarrow> Config" where
  "keyset_config cfg = \<lparr>cf_Issuer = sp_IssuerURL cfg, cf_KeyFile = sp_SigningKeyFile cfg, cf_AccessTokenTTL = sp_AccessTokenTTL cfg,
     cf_IDTokenTTL = sp_IDTokenTTL cfg, cf_Leeway = sp_TokenLeeway cfg\<rparr>"

definition boot_deps :: "Specification \<Rightarrow> KeySet \<Rightarrow> Spec \<Rightarrow> Validator \<Rightarrow> Router_Deps" where
  "boot_deps cfg keys sp v = \<lparr>rt_Store = Some Match_NewStore, rt_Claims = Some Claims_NewStore, rt_ClaimMappings = Some NewMappingStore,
     rt_Sessions = None, rt_AuthorizeErrors = None, rt_Permissions = Some Perm_NewStore, rt_PKCE = Some Pkce_NewStore,
     rt_MFA = Some Mfa_NewStore, rt_Keys = keys, rt_Spec = sp, rt_Validator = v, rt_Issuer = sp_IssuerURL cfg,
     rt_DefaultAudience = sp_DefaultAudience cfg, rt_SpecValidationStrict = sp_SpecValidationStrict cfg,
     rt_BearerRequireAudience = sp_BearerRequireAudience cfg, rt_MaxRequestBodyBytes = sint (sp_MaxRequestBodyBytes cfg),
     rt_LogoutAllowedURLs = sp_LogoutAllowedURLs cfg, rt_AuthorizeAllowedRedirectURIs = sp_AuthorizeAllowedCallbacks cfg,
     rt_CORSAllowedOrigins = sp_CORSAllowedOrigins cfg, rt_Debug = sp_Debug cfg, rt_Clock = Some NewControlled,
     rt_EventsReplayBuffer = sint (sp_EventsReplayBuffer cfg), rt_EventsReconnectHint = sp_EventsReconnectHint cfg,
     rt_Journal = Some (Journal_New (sint (sp_RequestJournalSize cfg)))\<rparr>"

text \<open>The listeners, the plain one first; the certificate is loaded only for the TLS one.\<close>

definition timeouts_of :: "Specification \<Rightarrow> Timeouts" where
  "timeouts_of cfg = \<lparr>to_ReadHeader = sp_ReadHeaderTimeout cfg, to_Write = sp_WriteTimeout cfg, to_Idle = sp_IdleTimeout cfg\<rparr>"

definition boot_servers :: "('r, 'cert, 'key) boot \<Rightarrow> Specification \<Rightarrow> 'h \<Rightarrow> file_system \<Rightarrow> (string + ('h, 'cert) stdServer option list) \<times> file_system" where
  "boot_servers B cfg handler fs =
     (let plain = (if sp_HTTPAddress cfg \<noteq> [] \<and> sp_HTTPAddress cfg \<noteq> ''off''
                   then [Some (NewHTTP (sp_HTTPAddress cfg) handler (timeouts_of cfg))] else [])
      in if sp_HTTPSAddress cfg \<noteq> [] \<and> sp_HTTPSAddress cfg \<noteq> ''off'' then
           (case Tls_Load (bo_tls B) (bo_now1 B) (bo_now2 B) (sp_TLS cfg) fs of
              (Inl err, fs') \<Rightarrow> (Inl (''tls init: '' @ err), fs')
            | (Inr cert, fs') \<Rightarrow> (Inr (plain @ [Some (NewHTTPS (sp_HTTPSAddress cfg) handler cert (timeouts_of cfg))]), fs'))
         else (Inr plain, fs))"

record ('r, 'cert, 'key) started =
  sd_cfg :: Specification
  sd_keys :: "KeySet \<times> 'key"
  sd_app :: "'r app"
  sd_orc :: "('r app, 'cert) stdServer Orchestrator"

definition api_boot :: "('r, 'cert, 'key) boot \<Rightarrow> file_system \<Rightarrow> (string + ('r, 'cert, 'key) started) \<times> file_system" where
  "api_boot B fs = (case Config_Load (bo_loopback B) (bo_duration B) (bo_env B) (bo_audience B) of
      Inl err \<Rightarrow> (Inl (''config: '' @ err), fs)
    | Inr cfg \<Rightarrow> (case NewKeySet (bo_keylib B) (keyset_config cfg) fs of
        (Inl err, fs1) \<Rightarrow> (Inl (''jwks init: '' @ err), fs1)
      | (Inr keys, fs1) \<Rightarrow> (case Load (bo_decode B) (bo_doc B) of
          Inl err \<Rightarrow> (Inl (''openapi load: '' @ err), fs1)
        | Inr sp \<Rightarrow> (case NewValidator (bo_build B) sp of
            Inl err \<Rightarrow> (Inl (''spec validator: '' @ err), fs1)
          | Inr v \<Rightarrow> (case Router_New (bo_url B) (bo_quote B) (bo_replay B) (bo_routing B) (bo_conns B) (boot_deps cfg (fst keys) sp v) (bo_routes B) of
              Inl err \<Rightarrow> (Inl (''router init: '' @ err), fs1)
            | Inr app \<Rightarrow> (case boot_servers B cfg app fs1 of
                (Inl err, fs2) \<Rightarrow> (Inl err, fs2)
              | (Inr servers, fs2) \<Rightarrow>
                  (Inr \<lparr>sd_cfg = cfg, sd_keys = keys, sd_app = app,
                        sd_orc = WithShutdownTimeout (sp_ShutdownTimeout cfg) (NewOrchestrator servers)\<rparr>, fs2)))))))"

text \<open>\<^verbatim>\<open>run\<close> as a whole: nothing while the listeners run, then the errors it ends with.\<close>

definition api_run :: "('r, 'cert, 'key) boot \<Rightarrow> (string \<Rightarrow> bool) \<Rightarrow> (('r app, 'cert) stdServer \<Rightarrow> duration \<Rightarrow> string option) \<Rightarrow> ('r app, 'cert) stdServer run_event list \<Rightarrow> file_system \<Rightarrow> string list option" where
  "api_run B expected down evs fs = (case fst (api_boot B fs) of
      Inl err \<Rightarrow> Some [err]
    | Inr st \<Rightarrow> map_option (\<lambda>errs. if errs = [] then [] else [''server: '' @ str_join [CHR 0x0A] errs]) (Orch_Start expected down (sd_orc st) evs))"

text \<open>
  The command: \<^verbatim>\<open>-version\<close> prints the version that the linker set and ends; otherwise the program runs, and an
  error it ends with is printed before it exits with 1.
\<close>

definition version_String :: "string \<Rightarrow> string \<Rightarrow> string \<Rightarrow> string" where
  "version_String version commit date = ''auth0-mock '' @ version @ '' ('' @ commit @ '', '' @ date @ '')''"

definition api_main :: "bool \<Rightarrow> string \<times> string \<times> string \<Rightarrow> ('r, 'cert, 'key) boot \<Rightarrow> (('r app, 'cert) stdServer \<Rightarrow> duration \<Rightarrow> string option)
    \<Rightarrow> ('r app, 'cert) stdServer run_event list \<Rightarrow> file_system \<Rightarrow> (string list \<times> nat) option" where
  "api_main showVersion v B down evs fs =
     (if showVersion then Some ([case v of (version, commit, date) \<Rightarrow> version_String version commit date], 0)
      else map_option (\<lambda>errs. if errs = [] then ([], 0) else ([''fatal: '' @ str_join [CHR 0x0A] errs], 1))
             (api_run B IsExpectedStopErr down evs fs))"

lemma boot_servers_some:
  assumes "boot_servers B cfg handler fs = (Inr servers, fs')"
  shows "map (\<lambda>srv. (ss_Addr srv, ss_tls srv)) (List.map_filter (\<lambda>s. s) servers) =
      (if listenerOff (sp_HTTPAddress cfg) then [] else [(sp_HTTPAddress cfg, False)])
      @ (if listenerOff (sp_HTTPSAddress cfg) then [] else [(sp_HTTPSAddress cfg, True)])"
    "list_all (\<lambda>srv. ss_Handler srv = handler \<and> ss_Timeouts srv = timeouts_of cfg \<and> ss_tls srv = (ss_TLSConfig srv \<noteq> None)) (List.map_filter (\<lambda>s. s) servers)"
  using assms
  by (auto simp: boot_servers_def listenerOff_def NewHTTP_def NewHTTPS_def Let_def map_filter_simps split: if_splits sum.splits prod.splits)

text \<open>What a boot that reaches its listeners has been through.\<close>

lemma api_booted:
  assumes boot: "api_boot B fs = (Inr st, fs')"
  obtains cfg sp v fs1 servers where "Config_Load (bo_loopback B) (bo_duration B) (bo_env B) (bo_audience B) = Inr cfg"
    and "NewKeySet (bo_keylib B) (keyset_config cfg) fs = (Inr (sd_keys st), fs1)"
    and "Router_New (bo_url B) (bo_quote B) (bo_replay B) (bo_routing B) (bo_conns B) (boot_deps cfg (fst (sd_keys st)) sp v) (bo_routes B) = Inr (sd_app st)"
    and "boot_servers B cfg (sd_app st) fs1 = (Inr servers, fs')" and "sd_cfg st = cfg"
    and "sd_orc st = WithShutdownTimeout (sp_ShutdownTimeout cfg) (NewOrchestrator servers)"
proof -
  from boot obtain cfg where cfg: "Config_Load (bo_loopback B) (bo_duration B) (bo_env B) (bo_audience B) = Inr cfg"
    by (cases "Config_Load (bo_loopback B) (bo_duration B) (bo_env B) (bo_audience B)") (simp_all add: api_boot_def)
  obtain kr fs1 where ks: "NewKeySet (bo_keylib B) (keyset_config cfg) fs = (kr, fs1)" by fastforce
  from boot obtain keys where keys: "kr = Inr keys" by (cases kr) (simp_all add: api_boot_def cfg ks)
  from boot obtain sp where sp: "Load (bo_decode B) (bo_doc B) = Inr sp"
    by (cases "Load (bo_decode B) (bo_doc B)") (simp_all add: api_boot_def cfg ks keys)
  from boot obtain v where v: "NewValidator (bo_build B) sp = Inr v"
    by (cases "NewValidator (bo_build B) sp") (simp_all add: api_boot_def cfg ks keys sp)
  let ?new = "Router_New (bo_url B) (bo_quote B) (bo_replay B) (bo_routing B) (bo_conns B) (boot_deps cfg (fst keys) sp v) (bo_routes B)"
  from boot obtain app where app: "?new = Inr app" by (cases ?new) (simp_all add: api_boot_def cfg ks keys sp v)
  obtain r f where rf: "boot_servers B cfg app fs1 = (r, f)" by fastforce
  from boot obtain servers where r: "r = Inr servers" by (cases r) (simp_all add: api_boot_def cfg ks keys sp v app rf)
  from boot r have f: "f = fs'"
    and st: "st = \<lparr>sd_cfg = cfg, sd_keys = keys, sd_app = app, sd_orc = WithShutdownTimeout (sp_ShutdownTimeout cfg) (NewOrchestrator servers)\<rparr>"
    by (simp_all add: api_boot_def cfg ks keys sp v app rf)
  show thesis by (rule that[OF cfg, of fs1 sp v servers]) (simp_all add: st f ks keys app rf r)
qed

text \<open>
  C30. A program that comes up serves. When \<^verbatim>\<open>run\<close> reaches its listeners, every store of the control plane
  and the store of authorization codes are wired; the Authentication API signs with the key set that was
  loaded and has the configured issuer, audience and allow-lists; there is one listener for each address that is not
  switched off, the plain one first and the other with a certificate, all in front of the same
  routes with the configured timeouts, and there is at least one; without \<^verbatim>\<open>ADMIN_ALLOW_REMOTE\<close> each address
  names the local machine. It then runs until it is interrupted: as long as no listener has returned
  it does not end, and once it is interrupted it does.
\<close>
theorem api_serves:
  assumes boot: "api_boot B fs = (Inr st, fs')"
  shows "wired (sv_deps (ap_server (sd_app st))) \<and> sv_PKCE (ap_server (sd_app st)) \<noteq> None
    \<and> ap_auth (sd_app st) = \<lparr>au_Token = \<lparr>th_Keys = fst (sd_keys st), th_DefaultAudience = sp_DefaultAudience (sd_cfg st)\<rparr>,
         au_Issuer = sp_IssuerURL (sd_cfg st), au_LogoutAllowedURLs = sp_LogoutAllowedURLs (sd_cfg st),
         au_AuthorizeAllowedRedirectURIs = sp_AuthorizeAllowedCallbacks (sd_cfg st)\<rparr>
    \<and> ks_cfg (fst (sd_keys st)) = keyset_config (sd_cfg st)
    \<and> map (\<lambda>srv. (ss_Addr srv, ss_tls srv)) (oc_servers (sd_orc st)) =
        (if listenerOff (sp_HTTPAddress (sd_cfg st)) then [] else [(sp_HTTPAddress (sd_cfg st), False)])
        @ (if listenerOff (sp_HTTPSAddress (sd_cfg st)) then [] else [(sp_HTTPSAddress (sd_cfg st), True)])
    \<and> list_all (\<lambda>srv. ss_Handler srv = sd_app st \<and> ss_Timeouts srv = timeouts_of (sd_cfg st) \<and> ss_tls srv = (ss_TLSConfig srv \<noteq> None))
        (oc_servers (sd_orc st))
    \<and> oc_servers (sd_orc st) \<noteq> []
    \<and> (sp_AdminAllowRemote (sd_cfg st) \<or> (\<forall>addr \<in> {sp_HTTPAddress (sd_cfg st), sp_HTTPSAddress (sd_cfg st)}. \<forall>host port.
        \<not> listenerOff addr \<and> SplitHostPort addr = Some (host, port) \<longrightarrow>
        without_zone host \<noteq> [] \<and> (equal_fold (without_zone host) ''localhost'' \<or> bo_loopback B (without_zone host) = Some True)))
    \<and> (Interrupt \<notin> set evs \<and> (\<forall>i e. Returned i e \<notin> set evs) \<longrightarrow> api_run B expected down evs fs = None)
    \<and> (Interrupt \<in> set evs \<longrightarrow> api_run B expected down evs fs \<noteq> None)"
proof -
  obtain cfg sp v fs1 servers where cfg: "Config_Load (bo_loopback B) (bo_duration B) (bo_env B) (bo_audience B) = Inr cfg"
    and keys: "NewKeySet (bo_keylib B) (keyset_config cfg) fs = (Inr (sd_keys st), fs1)"
    and app: "Router_New (bo_url B) (bo_quote B) (bo_replay B) (bo_routing B) (bo_conns B) (boot_deps cfg (fst (sd_keys st)) sp v) (bo_routes B) = Inr (sd_app st)"
    and sv: "boot_servers B cfg (sd_app st) fs1 = (Inr servers, fs')" and st: "sd_cfg st = cfg"
      "sd_orc st = WithShutdownTimeout (sp_ShutdownTimeout cfg) (NewOrchestrator servers)"
    by (rule api_booted[OF boot])
  have oc: "oc_servers (sd_orc st) = List.map_filter (\<lambda>s. s) servers" by (simp add: st WithShutdownTimeout_def NewOrchestrator_def)
  note ld = load_accepts[OF cfg] and sets = boot_servers_some[OF sv, folded oc]
  have some: "oc_servers (sd_orc st) \<noteq> []" using sets(1) ld[THEN conjunct1] by auto
  obtain hub where hub: "ap_server (sd_app st) = router_stores (hub, bo_conns B) (boot_deps cfg (fst (sd_keys st)) sp v)"
      "ap_auth (sd_app st) = auth_deps (boot_deps cfg (fst (sd_keys st)) sp v)" "wired (sv_deps (ap_server (sd_app st)))"
    using router_wired[where U = "bo_url B" and quote = "bo_quote B" and d = "boot_deps cfg (fst (sd_keys st)) sp v" and errtext = "bo_replay B"
        and register = "bo_routing B" and cs = "bo_conns B" and rt = "bo_routes B"] app
    by (auto simp: boot_deps_def Mfa_NewStore_def split: sum.splits)
  have pkce: "sv_PKCE (ap_server (sd_app st)) \<noteq> None" using hub(1) by (simp add: router_stores_def boot_deps_def)
  have auth: "ap_auth (sd_app st) = \<lparr>au_Token = \<lparr>th_Keys = fst (sd_keys st), th_DefaultAudience = sp_DefaultAudience cfg\<rparr>, au_Issuer = sp_IssuerURL cfg,
      au_LogoutAllowedURLs = sp_LogoutAllowedURLs cfg, au_AuthorizeAllowedRedirectURIs = sp_AuthorizeAllowedCallbacks cfg\<rparr>"
    unfolding hub(2) by (simp add: auth_deps_def boot_deps_def)
  have kcfg: "ks_cfg (fst (sd_keys st)) = keyset_config cfg" by (rule keyset_cfg[OF keys])
  have run: "api_run B expected down evs fs = None \<longleftrightarrow> group_wait expected (oc_servers (sd_orc st)) evs = None"
    by (simp add: api_run_def boot Orch_Start_def)
  have waits: "Interrupt \<notin> set evs \<and> (\<forall>i e. Returned i e \<notin> set evs) \<longrightarrow> api_run B expected down evs fs = None"
    using wait_running[of "hd (oc_servers (sd_orc st))" "oc_servers (sd_orc st)" evs expected] some unfolding run by simp
  have ends: "Interrupt \<in> set evs \<longrightarrow> api_run B expected down evs fs \<noteq> None" using wait_interrupted unfolding run by blast
  show ?thesis using hub(3) pkce auth kcfg sets some ld[THEN conjunct2, THEN conjunct2] waits ends unfolding st(1) by blast
qed

definition demo_boot :: "conns \<Rightarrow> (nat, string, nat) boot" where
  "demo_boot cs = \<lparr>bo_env = Inr demo_spec, bo_audience = None, bo_loopback = demo_loopback, bo_duration = (\<lambda>_. []),
     bo_keylib = demo_keylib 9, bo_decode = (\<lambda>_. Inr ([], [])), bo_doc = [], bo_build = (\<lambda>_. Inr demo_validator),
     bo_url = cors_url, bo_quote = (\<lambda>s. s), bo_replay = (\<lambda>_. []), bo_routing = (\<lambda>rt _ _ _. Inr rt), bo_routes = 0, bo_conns = cs,
     bo_tls = demo_tls, bo_now1 = 0, bo_now2 = 0\<rparr>"

lemma demo_boot_fields:
  "bo_env (demo_boot cs) = Inr demo_spec" "bo_audience (demo_boot cs) = None" "bo_loopback (demo_boot cs) = demo_loopback"
  "bo_duration (demo_boot cs) = (\<lambda>_. [])" "bo_keylib (demo_boot cs) = demo_keylib 9" "bo_decode (demo_boot cs) = (\<lambda>_. Inr ([], []))"
  "bo_doc (demo_boot cs) = []" "bo_build (demo_boot cs) = (\<lambda>_. Inr demo_validator)" "bo_url (demo_boot cs) = cors_url"
  "bo_quote (demo_boot cs) = (\<lambda>s. s)" "bo_replay (demo_boot cs) = (\<lambda>_. [])" "bo_routing (demo_boot cs) = (\<lambda>rt _ _ _. Inr rt)"
  "bo_routes (demo_boot cs) = 0" "bo_conns (demo_boot cs) = cs"
  by (simp_all add: demo_boot_def)

lemma demo_boots: "\<exists>st. api_boot (demo_boot cs) Map.empty = (Inr st, Map.empty) \<and> sd_cfg st = demo_spec"
proof -
  have "cf_KeyFile (keyset_config demo_spec) = []" by (simp add: keyset_config_def demo_spec_def)
  moreover have "kl_generate (demo_keylib 9) = Inr 9" by (simp add: demo_keylib_def)
  ultimately have "\<exists>keys. NewKeySet (demo_keylib 9) (keyset_config demo_spec) Map.empty = (Inr keys, Map.empty)"
    by (simp add: NewKeySet_def loadOrGenerate_def)
  then obtain keys where keys: "NewKeySet (demo_keylib 9) (keyset_config demo_spec) Map.empty = (Inr keys, Map.empty)" by blast
  let ?d = "boot_deps demo_spec (fst keys) \<lparr>sp_Paths = [], sp_BasePath = []\<rparr> (demo_validator\<lparr>vl_BasePath := []\<rparr>)"
  have "newCORSMatcher cors_url (\<lambda>s. s) (rt_CORSAllowedOrigins ?d) = Inr \<lparr>cm_anyOrigin = True, cm_exact = [], cm_wildcards = []\<rparr>"
    by (simp add: boot_deps_def demo_spec_def newCORSMatcher_def)
  then obtain app where app: "Router_New cors_url (\<lambda>s. s) (\<lambda>_. []) (\<lambda>rt _ _ _. Inr rt) cs ?d (0 :: nat) = Inr app"
    using router_wired[where U = cors_url and quote = "\<lambda>s. s" and d = ?d and errtext = "\<lambda>_. []" and register = "\<lambda>rt _ _ _. Inr rt"
        and cs = cs and rt = "0 :: nat"] by auto
  have addrs: "sp_HTTPAddress demo_spec = ''127.0.0.1:8080''" "sp_HTTPSAddress demo_spec = ''off''" by (simp_all add: demo_spec_def)
  have srv: "boot_servers (demo_boot cs) demo_spec app Map.empty = (Inr [Some (NewHTTP (sp_HTTPAddress demo_spec) app (timeouts_of demo_spec))], Map.empty)"
    by (simp add: boot_servers_def addrs)
  have load: "NewValidator (\<lambda>_. Inr demo_validator) \<lparr>sp_Paths = [], sp_BasePath = []\<rparr> = Inr (demo_validator\<lparr>vl_BasePath := []\<rparr>)"
    "Load (\<lambda>_. Inr ([], [])) [] = Inr \<lparr>sp_Paths = [], sp_BasePath = []\<rparr>"
    by (simp_all add: NewValidator_def Load_def deriveBasePath_def)
  show ?thesis by (simp add: api_boot_def demo_boot_fields demo_spec_loads keys load app srv)
qed

theorem api_serves_witness:
  "\<forall>cs. \<exists>st. api_boot (demo_boot cs) Map.empty = (Inr st, Map.empty) \<and> wired (sv_deps (ap_server (sd_app st)))
     \<and> map ss_Addr (oc_servers (sd_orc st)) = [''127.0.0.1:8080''] \<and> api_run (demo_boot cs) (\<lambda>_. False) (\<lambda>_ _. None) [Interrupt] Map.empty \<noteq> None"
proof
  fix cs
  obtain st where st: "api_boot (demo_boot cs) Map.empty = (Inr st, Map.empty)" "sd_cfg st = demo_spec" using demo_boots by blast
  have off: "\<not> listenerOff (sp_HTTPAddress demo_spec)" "listenerOff (sp_HTTPSAddress demo_spec)" by code_simp+
  note serves = api_serves[OF st(1), of "[Interrupt]" "\<lambda>_. False" "\<lambda>_ _. None"]
  have "map fst (map (\<lambda>srv. (ss_Addr srv, ss_tls srv)) (oc_servers (sd_orc st))) = [''127.0.0.1:8080'']"
    unfolding serves[THEN conjunct2, THEN conjunct2, THEN conjunct2, THEN conjunct2, THEN conjunct1] st(2) using off by (simp add: demo_spec_def)
  then have addr: "map ss_Addr (oc_servers (sd_orc st)) = [''127.0.0.1:8080'']" by (simp add: comp_def)
  have ends: "api_run (demo_boot cs) (\<lambda>_. False) (\<lambda>_ _. None) [Interrupt] Map.empty \<noteq> None"
    by (rule serves[THEN conjunct2, THEN conjunct2, THEN conjunct2, THEN conjunct2, THEN conjunct2, THEN conjunct2, THEN conjunct2, THEN conjunct2, THEN conjunct2, rule_format]) simp
  show "\<exists>st. api_boot (demo_boot cs) Map.empty = (Inr st, Map.empty) \<and> wired (sv_deps (ap_server (sd_app st)))
     \<and> map ss_Addr (oc_servers (sd_orc st)) = [''127.0.0.1:8080''] \<and> api_run (demo_boot cs) (\<lambda>_. False) (\<lambda>_ _. None) [Interrupt] Map.empty \<noteq> None"
    by (rule exI[of _ st], rule conjI[OF st(1)], rule conjI[OF serves[THEN conjunct1]], rule conjI[OF addr ends])
qed

end
