(* ===== verification/Sdk.thy ===== *)
theory Sdk
  imports Middleware
begin

text \<open>
  The Go client of \<^verbatim>\<open>pkg/auth0mock\<close>: the transport and its errors, the ledger of registered
  expectations with \<^verbatim>\<open>Verify\<close> and \<^verbatim>\<open>Reset\<close>, and the fluent builder. A call of the server maps the
  world to its answer and the new world; JSON encoding and decoding are the fields of \<open>transport\<close>.
  A handle is named by its address.
\<close>

section \<open>Transport and errors\<close>

record APIError =
  er_StatusCode :: int
  er_Reason :: string
  er_Message :: string
  er_ErrorCode :: string

datatype sdk_error = ErrAPI APIError | ErrText string

record http_call =
  hc_method :: string
  hc_url :: string
  hc_header :: http_header
  hc_body :: "string option"

record http_resp =
  hr_status :: int
  hr_body :: string

text \<open>
  \<open>tr_build\<close> is the error of \<^verbatim>\<open>http.NewRequestWithContext\<close>, \<open>tr_send\<close> the server and the network,
  \<open>tr_api_error\<close> \<^verbatim>\<open>json.Unmarshal\<close> into an \<^verbatim>\<open>APIError\<close>, \<open>tr_status_text\<close> \<^verbatim>\<open>http.StatusText\<close>.
\<close>

record 'w transport =
  tr_build :: "string \<Rightarrow> string \<Rightarrow> string option"
  tr_send :: "http_call \<Rightarrow> 'w \<Rightarrow> (string + http_resp) \<times> 'w"
  tr_api_error :: "string \<Rightarrow> APIError option"
  tr_status_text :: "int \<Rightarrow> string"

definition maxErrorBodyBytes :: nat where
  "maxErrorBodyBytes = 2 ^ 20"

definition APIError_Error :: "(int \<Rightarrow> string) \<Rightarrow> APIError \<Rightarrow> string" where
  "APIError_Error status_text e =
     ''auth0mock: '' @ itoa (er_StatusCode e) @ '' '' @
     (if er_Message e \<noteq> [] \<and> er_ErrorCode e \<noteq> [] then er_ErrorCode e @ '': '' @ er_Message e
      else if er_Message e \<noteq> [] then er_Reason e @ '': '' @ er_Message e
      else if er_ErrorCode e \<noteq> [] then er_ErrorCode e
      else if er_Reason e \<noteq> [] then er_Reason e
      else status_text (er_StatusCode e))"

definition decodeError :: "'w transport \<Rightarrow> http_resp \<Rightarrow> APIError" where
  "decodeError T resp =
     (let body = take maxErrorBodyBytes (hr_body resp);
          fallback = \<lparr>er_StatusCode = hr_status resp, er_Reason = tr_status_text T (hr_status resp), er_Message = body, er_ErrorCode = []\<rparr>
      in case tr_api_error T body of
           None \<Rightarrow> fallback
         | Some e \<Rightarrow>
             if er_StatusCode e \<noteq> 0 \<or> er_ErrorCode e \<noteq> [] \<or> er_Message e \<noteq> [] \<or> er_Reason e \<noteq> [] then
               (let e1 = (if er_StatusCode e = 0 then e\<lparr>er_StatusCode := hr_status resp\<rparr> else e)
                in if er_Reason e1 = [] then e1\<lparr>er_Reason := tr_status_text T (hr_status resp)\<rparr> else e1)
             else fallback)"

text \<open>
  \<^verbatim>\<open>do\<close>. The body is what \<^verbatim>\<open>json.Marshal\<close> gives, when there is one; \<open>dec\<close> decodes an answer, \<^const>\<open>None\<close>
  standing for a body that is empty, which leaves the zero value.
\<close>

definition sdk_do :: "'w transport \<Rightarrow> string \<Rightarrow> string \<Rightarrow> string \<Rightarrow> (string + string) option \<Rightarrow> (string \<Rightarrow> string + 'a option) \<Rightarrow> 'a \<Rightarrow> 'w
    \<Rightarrow> (sdk_error + 'a) \<times> 'w" where
  "sdk_do T baseURL meth path body dec zero w =
     (let where0 = meth @ '' '' @ path
      in case body of
           Some (Inl err) \<Rightarrow> (Inl (ErrText (''auth0mock: marshal '' @ where0 @ '' body: '' @ err)), w)
         | _ \<Rightarrow>
             (case tr_build T meth (baseURL @ path) of
                Some err \<Rightarrow> (Inl (ErrText (''auth0mock: build '' @ where0 @ '' request: '' @ err)), w)
              | None \<Rightarrow>
                  (case tr_send T \<lparr>hc_method = meth, hc_url = baseURL @ path,
                        hc_header = (if body = None then [] else [(''Content-Type'', [''application/json''])]) @ [(''Accept'', [''application/json''])],
                        hc_body = (case body of Some (Inr b) \<Rightarrow> Some b | _ \<Rightarrow> None)\<rparr> w of
                     (Inl err, w') \<Rightarrow> (Inl (ErrText (''auth0mock: '' @ where0 @ '': '' @ err)), w')
                   | (Inr resp, w') \<Rightarrow>
                       if hr_status resp \<ge> 400 then (Inl (ErrAPI (decodeError T resp)), w')
                       else (case dec (hr_body resp) of
                           Inl err \<Rightarrow> (Inl (ErrText (''auth0mock: decode '' @ where0 @ '' response: '' @ err)), w')
                         | Inr None \<Rightarrow> (Inr zero, w')
                         | Inr (Some x) \<Rightarrow> (Inr x, w')))))"

definition discard :: "string \<Rightarrow> string + unit option" where
  "discard _ = Inr None"

section \<open>The client and its ledger\<close>

datatype hitsMode = hitsModeUnset | hitsModeExact | hitsModeAtLeast | hitsModeAtMost

record hitsConstraint =
  ht_mode :: hitsMode
  ht_exact :: int
  ht_atLeast :: int
  ht_atMost :: int

record RegisteredExpectation =
  ha_ID :: string
  ha_method :: string
  ha_path :: string
  ha_registeredAt :: string
  ha_expected :: "hitsConstraint option"

type_synonym handles = "nat \<Rightarrow> RegisteredExpectation"

record Client =
  cl_baseURL :: string
  cl_registered :: "nat list"
  cl_pendingAdds :: int
  cl_resetAfterUnverified :: bool

definition trackRegistered :: "nat \<Rightarrow> Client \<Rightarrow> Client" where
  "trackRegistered re c = c\<lparr>cl_registered := cl_registered c @ [re], cl_pendingAdds := cl_pendingAdds c + 1\<rparr>"

definition decrementPendingAdds :: "int \<Rightarrow> Client \<Rightarrow> Client" where
  "decrementPendingAdds n c =
     (if n \<le> 0 then c else if cl_pendingAdds c = 0 then c else c\<lparr>cl_pendingAdds := max (cl_pendingAdds c - n) 0\<rparr>)"

definition untrack :: "(nat \<Rightarrow> bool) \<Rightarrow> Client \<Rightarrow> Client" where
  "untrack gone c =
     (let kept = filter (\<lambda>re. \<not> gone re) (cl_registered c)
      in decrementPendingAdds (int (length (cl_registered c)) - int (length kept)) (c\<lparr>cl_registered := kept\<rparr>))"

definition untrackByID :: "handles \<Rightarrow> string \<Rightarrow> Client \<Rightarrow> Client" where
  "untrackByID H i c = untrack (\<lambda>re. ha_ID (H re) = i) c"

definition untrackByMethodPath :: "handles \<Rightarrow> string \<Rightarrow> string \<Rightarrow> Client \<Rightarrow> Client" where
  "untrackByMethodPath H m p c = untrack (\<lambda>re. equal_fold (ha_method (H re)) m \<and> ha_path (H re) = p) c"

definition untrackAll :: "Client \<Rightarrow> Client" where
  "untrackAll c = c\<lparr>cl_registered := [], cl_pendingAdds := 0\<rparr>"

definition registeredSnapshot :: "Client \<Rightarrow> nat list" where
  "registeredSnapshot c = cl_registered c"

definition dropRegistered :: "Client \<Rightarrow> Client" where
  "dropRegistered c =
     (let c1 = (if cl_pendingAdds c > 0 then c\<lparr>cl_resetAfterUnverified := True\<rparr> else c)
      in c1\<lparr>cl_pendingAdds := 0, cl_registered := []\<rparr>)"

text \<open>\<open>parse\<close> is what \<^verbatim>\<open>NewClient\<close> reads of \<^verbatim>\<open>url.Parse\<close>: the scheme and the host.\<close>

definition trim_right_slashes :: "string \<Rightarrow> string" where
  "trim_right_slashes s = rev (dropWhile (\<lambda>c. c = CHR ''/'') (rev s))"

definition NewClient :: "(string \<Rightarrow> string + string \<times> string) \<Rightarrow> (string \<Rightarrow> string) \<Rightarrow> string \<Rightarrow> string + Client" where
  "NewClient parse quote baseURL =
     (if baseURL = [] then Inl ''auth0mock: NewClient: baseURL is empty''
      else (case parse baseURL of
          Inl err \<Rightarrow> Inl (''auth0mock: NewClient: parse baseURL '' @ quote baseURL @ '': '' @ err)
        | Inr (scheme, host) \<Rightarrow>
            if scheme = [] \<or> host = [] then
              Inl (''auth0mock: NewClient: baseURL '' @ quote baseURL @ '' must include a scheme and host (e.g. http://localhost:8080)'')
            else Inr \<lparr>cl_baseURL = trim_right_slashes baseURL, cl_registered = [], cl_pendingAdds = 0, cl_resetAfterUnverified = False\<rparr>))"

definition BaseURL :: "Client \<Rightarrow> string" where
  "BaseURL c = cl_baseURL c"

section \<open>Call sites\<close>

definition sdkPkgPrefix :: string where
  "sdkPkgPrefix = ''github.com/sergiught/auth0-mock/pkg/auth0mock''"

definition isSDKFrame :: "string \<Rightarrow> bool" where
  "isSDKFrame fn =
     (if \<not> has_prefix fn sdkPkgPrefix then False
      else (let rest = drop (length sdkPkgPrefix) fn in has_prefix rest ''.'' \<or> has_prefix rest ''/''))"

definition trimRepoPath :: "string \<Rightarrow> string" where
  "trimRepoPath p =
     (let parts = split_on CHR ''/'' p
      in if length parts \<le> 2 then p else str_join ''/'' (drop (length parts - 2) parts))"

text \<open>The frames of the stack above \<^verbatim>\<open>callerFrame\<close>, innermost first: function, file and line.\<close>

definition callerFrame :: "(string \<times> string \<times> int) list \<Rightarrow> string" where
  "callerFrame frames = (case find (\<lambda>(fn, _). \<not> isSDKFrame fn) (take 16 frames) of
      Some (_, file, line) \<Rightarrow> trimRepoPath file @ '':'' @ itoa line
    | None \<Rightarrow> [])"

section \<open>Hit counts\<close>

definition no_constraint :: hitsConstraint where
  "no_constraint = \<lparr>ht_mode = hitsModeUnset, ht_exact = 0, ht_atLeast = 0, ht_atMost = 0\<rparr>"

definition set_expected :: "hitsConstraint \<Rightarrow> nat \<Rightarrow> handles \<Rightarrow> handles" where
  "set_expected h re H = H(re := (H re)\<lparr>ha_expected := Some h\<rparr>)"

definition Times :: "int \<Rightarrow> nat \<Rightarrow> handles \<Rightarrow> handles" where
  "Times n = set_expected (no_constraint\<lparr>ht_mode := hitsModeExact, ht_exact := n\<rparr>)"

definition AtLeast :: "int \<Rightarrow> nat \<Rightarrow> handles \<Rightarrow> handles" where
  "AtLeast n = set_expected (no_constraint\<lparr>ht_mode := hitsModeAtLeast, ht_atLeast := n\<rparr>)"

definition AtMost :: "int \<Rightarrow> nat \<Rightarrow> handles \<Rightarrow> handles" where
  "AtMost n = set_expected (no_constraint\<lparr>ht_mode := hitsModeAtMost, ht_atMost := n\<rparr>)"

definition AnyTimes :: "nat \<Rightarrow> handles \<Rightarrow> handles" where
  "AnyTimes = set_expected no_constraint"

definition describe :: "hitsConstraint \<Rightarrow> string" where
  "describe h = (case ht_mode h of
      hitsModeExact \<Rightarrow> ''exactly '' @ itoa (ht_exact h)
    | hitsModeAtLeast \<Rightarrow> ''at least '' @ itoa (ht_atLeast h)
    | hitsModeAtMost \<Rightarrow> ''at most '' @ itoa (ht_atMost h)
    | hitsModeUnset \<Rightarrow> [])"

definition tooFew :: "hitsConstraint \<Rightarrow> int \<Rightarrow> bool" where
  "tooFew h actual = (case ht_mode h of
      hitsModeExact \<Rightarrow> actual < ht_exact h
    | hitsModeAtLeast \<Rightarrow> actual < ht_atLeast h
    | _ \<Rightarrow> False)"

definition satisfied :: "hitsConstraint \<Rightarrow> int \<Rightarrow> bool" where
  "satisfied h actual = (case ht_mode h of
      hitsModeExact \<Rightarrow> actual = ht_exact h
    | hitsModeAtLeast \<Rightarrow> actual \<ge> ht_atLeast h
    | hitsModeAtMost \<Rightarrow> actual \<le> ht_atMost h
    | hitsModeUnset \<Rightarrow> True)"

definition describeLabel :: "RegisteredExpectation \<Rightarrow> string" where
  "describeLabel re =
     (if ha_method re \<noteq> [] \<and> ha_path re \<noteq> [] \<and> ha_registeredAt re \<noteq> [] then
        ha_method re @ '' '' @ ha_path re @ '' ('' @ ha_registeredAt re @ '')''
      else if ha_method re \<noteq> [] \<and> ha_path re \<noteq> [] then ha_method re @ '' '' @ ha_path re
      else ha_ID re)"

section \<open>Near misses\<close>

record sdk_Difference =
  df_Field :: string
  df_Reason :: string
  df_Want :: string
  df_Got :: string

record sdk_NearMiss =
  sn_ExpectationID :: string
  sn_Differences :: "sdk_Difference list"

text \<open>An entry of the journal, with its one-line form.\<close>

record JournalEntry =
  jo_Text :: string
  jo_NearMisses :: "sdk_NearMiss list"

definition Difference_String :: "sdk_Difference \<Rightarrow> string" where
  "Difference_String d =
     (if df_Reason d = ''invalid_json'' then df_Field d @ '': request body is not valid JSON''
      else
        (let got = (if df_Reason d \<noteq> ''missing'' \<and> length (df_Got d) > 0 then df_Got d else ''nothing'')
         in df_Field d @ '': want '' @ df_Want d @ '', got '' @ got))"

definition right_arrow :: string where
  "right_arrow = [CHR 0xE2, CHR 0x86, CHR 0x92]"

definition JournalEntry_String :: "string \<Rightarrow> string \<Rightarrow> int \<Rightarrow> string \<Rightarrow> string \<Rightarrow> string" where
  "JournalEntry_String meth path status outcome clock =
     meth @ '' '' @ path @ '' '' @ right_arrow @ '' '' @ itoa status @ '' '' @ outcome @ '' at '' @ clock"

definition maxNearMissHints :: nat where
  "maxNearMissHints = 3"

definition hint_of :: "string \<Rightarrow> JournalEntry \<Rightarrow> string option" where
  "hint_of i e = map_option (\<lambda>nm. [CHR 0x0A] @ ''    near miss: '' @ jo_Text e
       @ concat (map (\<lambda>d. [CHR 0x0A] @ ''      '' @ Difference_String d) (sn_Differences nm)))
     (find (\<lambda>nm. sn_ExpectationID nm = i) (jo_NearMisses e))"

definition nearMissHints :: "JournalEntry list \<Rightarrow> string \<Rightarrow> string" where
  "nearMissHints entries i = concat (take maxNearMissHints (List.map_filter (hint_of i) (rev entries)))"

section \<open>The expectations client\<close>

text \<open>What the client reads of the answers: the stored stubs with their ids and hits, the id of a new one.\<close>

record sdk_codec =
  sc_marshal_id :: "string \<Rightarrow> string + string option"
  sc_list :: "string \<Rightarrow> string + (string \<times> int) list option"
  sc_entries :: "string \<Rightarrow> string + JournalEntry list option"
  sc_hits :: "string \<Rightarrow> string + int option"
  sc_escape :: "string \<Rightarrow> string"
  sc_query :: "url_values \<Rightarrow> string"
  sc_endpoint :: "string \<Rightarrow> string \<Rightarrow> string"

record sdk_expectation =
  xp_Method :: string
  xp_Path :: string
  xp_json :: "string + string"

definition Exp_Add :: "'w transport \<Rightarrow> sdk_codec \<Rightarrow> (string \<times> string \<times> int) list \<Rightarrow> nat \<Rightarrow> sdk_expectation \<Rightarrow> Client \<Rightarrow> handles \<Rightarrow> 'w
    \<Rightarrow> (sdk_error + nat) \<times> Client \<times> handles \<times> 'w" where
  "Exp_Add T K frames a e c H w =
     (case sdk_do T (cl_baseURL c) ''POST'' ''/admin0/expectations'' (Some (xp_json e)) (sc_marshal_id K) [] w of
        (Inl err, w') \<Rightarrow> (Inl err, c, H, w')
      | (Inr i, w') \<Rightarrow>
          (Inr a, trackRegistered a c,
           H(a := \<lparr>ha_ID = i, ha_method = xp_Method e, ha_path = xp_Path e, ha_registeredAt = callerFrame frames, ha_expected = None\<rparr>), w'))"

definition Exp_List :: "'w transport \<Rightarrow> sdk_codec \<Rightarrow> Client \<Rightarrow> 'w \<Rightarrow> (sdk_error + (string \<times> int) list) \<times> 'w" where
  "Exp_List T K c w = sdk_do T (cl_baseURL c) ''GET'' ''/admin0/expectations'' None (sc_list K) [] w"

definition Hits :: "'w transport \<Rightarrow> sdk_codec \<Rightarrow> Client \<Rightarrow> handles \<Rightarrow> nat \<Rightarrow> 'w \<Rightarrow> (sdk_error + int) \<times> 'w" where
  "Hits T K c H re w = sdk_do T (cl_baseURL c) ''GET'' (''/admin0/expectations/'' @ sc_escape K (ha_ID (H re))) None (sc_hits K) 0 w"

definition Handle_Clear :: "'w transport \<Rightarrow> sdk_codec \<Rightarrow> handles \<Rightarrow> nat \<Rightarrow> Client \<Rightarrow> 'w \<Rightarrow> sdk_error option \<times> Client \<times> 'w" where
  "Handle_Clear T K H re c w =
     (case sdk_do T (cl_baseURL c) ''DELETE'' (''/admin0/expectations/'' @ sc_escape K (ha_ID (H re))) None discard () w of
        (Inl err, w') \<Rightarrow> (Some err, c, w')
      | (Inr _, w') \<Rightarrow> (None, untrackByID H (ha_ID (H re)) c, w'))"

definition Exp_Clear :: "'w transport \<Rightarrow> Client \<Rightarrow> 'w \<Rightarrow> sdk_error option \<times> Client \<times> 'w" where
  "Exp_Clear T c w = (case sdk_do T (cl_baseURL c) ''DELETE'' ''/admin0/expectations'' None discard () w of
      (Inl err, w') \<Rightarrow> (Some err, c, w')
    | (Inr _, w') \<Rightarrow> (None, untrackAll c, w'))"

definition ClearOp :: "'w transport \<Rightarrow> sdk_codec \<Rightarrow> handles \<Rightarrow> string \<Rightarrow> string \<Rightarrow> Client \<Rightarrow> 'w \<Rightarrow> sdk_error option \<times> Client \<times> 'w" where
  "ClearOp T K H m p c w = (case sdk_do T (cl_baseURL c) ''DELETE'' ''/admin0/expectations'' (Some (Inr (sc_endpoint K m p))) discard () w of
      (Inl err, w') \<Rightarrow> (Some err, c, w')
    | (Inr _, w') \<Rightarrow> (None, untrackByMethodPath H m p c, w'))"

definition Client_Reset :: "'w transport \<Rightarrow> Client \<Rightarrow> 'w \<Rightarrow> sdk_error option \<times> Client \<times> 'w" where
  "Client_Reset T c w = (case sdk_do T (cl_baseURL c) ''POST'' ''/admin0/reset'' None discard () w of
      (res, w') \<Rightarrow> ((case res of Inl err \<Rightarrow> Some err | Inr _ \<Rightarrow> None), dropRegistered c, w'))"

text \<open>The fetch of the journal, whose failure means no hints.\<close>

definition Journal_fetch :: "'w transport \<Rightarrow> sdk_codec \<Rightarrow> Client \<Rightarrow> string \<Rightarrow> string \<Rightarrow> string \<Rightarrow> 'w \<Rightarrow> (sdk_error + JournalEntry list) \<times> 'w" where
  "Journal_fetch T K c path meth fpath w =
     (let q = (if meth \<noteq> [] then [(''method'', [meth])] else []) @ (if fpath \<noteq> [] then [(''path'', [fpath])] else [])
      in sdk_do T (cl_baseURL c) ''GET'' (path @ (if length q > 0 then ''?'' @ sc_query K q else [])) None (sc_entries K) [] w)"

definition verify_dash :: string where
  "verify_dash = '' '' @ [CHR 0xE2, CHR 0x80, CHR 0x94] @ '' ''"

text \<open>
  One round of the loop of \<^verbatim>\<open>Verify\<close>: the violation of a handle, if any, with the journal entries that
  were fetched for its method.
\<close>

definition verify_one :: "'w transport \<Rightarrow> sdk_codec \<Rightarrow> Client \<Rightarrow> (string \<rightharpoonup> int) \<Rightarrow> RegisteredExpectation
    \<Rightarrow> (string \<rightharpoonup> JournalEntry list) \<times> 'w \<Rightarrow> string option \<times> (string \<rightharpoonup> JournalEntry list) \<times> 'w" where
  "verify_one T K c byID re cw = (case cw of (cache, w) \<Rightarrow>
     (case ha_expected re of
        None \<Rightarrow> (None, cache, w)
      | Some want \<Rightarrow>
          if ht_mode want = hitsModeUnset then (None, cache, w)
          else (case byID (ha_ID re) of
              None \<Rightarrow> (Some (describeLabel re @ verify_dash @ ''expected '' @ describe want
                  @ '', but the expectation was cleared before Verify ran (Reset/Clear fired between Add and Verify)''), cache, w)
            | Some actual \<Rightarrow>
                if satisfied want actual then (None, cache, w)
                else
                  (let msg = describeLabel re @ verify_dash @ ''expected '' @ describe want @ '', got '' @ itoa actual
                   in if \<not> tooFew want actual then (Some msg, cache, w)
                      else (case cache (ha_method re) of
                          Some entries \<Rightarrow> (Some (msg @ nearMissHints entries (ha_ID re)), cache, w)
                        | None \<Rightarrow>
                            (case Journal_fetch T K c ''/admin0/journal/unmatched'' (ha_method re) [] w of (res, w') \<Rightarrow>
                               (let entries = (case res of Inl _ \<Rightarrow> [] | Inr es \<Rightarrow> es)
                                in (Some (msg @ nearMissHints entries (ha_ID re)), cache(ha_method re \<mapsto> entries), w'))))))))"

fun verify_all :: "'w transport \<Rightarrow> sdk_codec \<Rightarrow> Client \<Rightarrow> (string \<rightharpoonup> int) \<Rightarrow> RegisteredExpectation list
    \<Rightarrow> (string \<rightharpoonup> JournalEntry list) \<times> 'w \<Rightarrow> string list \<times> 'w" where
  "verify_all T K c byID [] cw = ([], snd cw)"
| "verify_all T K c byID (re # res) cw =
     (case verify_one T K c byID re cw of (v, cw') \<Rightarrow>
       (case verify_all T K c byID res cw' of (vs, w') \<Rightarrow> ((case v of Some x \<Rightarrow> x # vs | None \<Rightarrow> vs), w')))"

definition reset_before_verify :: string where
  "reset_before_verify = ''auth0mock: Verify: Reset() ran before Verify() on this Client, so any Times/AtLeast/AtMost constraints set since the prior Reset were silently dropped''
     @ verify_dash @ ''order cleanups so Verify runs before Reset (Go'' @ [CHR 0x27] @ ''s t.Cleanup is LIFO, register Reset first) or use auth0mocktest.Bracket(t, c) which gets the order right''"

definition error_of :: "'w transport \<Rightarrow> sdk_error \<Rightarrow> string" where
  "error_of T e = (case e of ErrAPI a \<Rightarrow> APIError_Error (tr_status_text T) a | ErrText s \<Rightarrow> s)"

definition Verify_run :: "'w transport \<Rightarrow> sdk_codec \<Rightarrow> handles \<Rightarrow> Client \<Rightarrow> 'w \<Rightarrow> string option \<times> Client \<times> 'w" where
  "Verify_run T K H c0 w =
     (let resetFlag = cl_resetAfterUnverified c0;
          c = c0\<lparr>cl_resetAfterUnverified := False\<rparr>;
          tracked = registeredSnapshot c
      in if length tracked = 0 then ((if resetFlag then Some reset_before_verify else None), c, w)
         else (case Exp_List T K c w of
             (Inl err, w') \<Rightarrow> (Some (''auth0mock: Verify: list expectations: '' @ error_of T err), c, w')
           | (Inr exps, w') \<Rightarrow>
               (case verify_all T K c (map_of (rev exps)) (map H tracked) (Map.empty, w') of (violations, w'') \<Rightarrow>
                  (if length violations = 0 then None
                   else Some (''auth0mock: Verify:'' @ [CHR 0x0A] @ ''  '' @ str_join ([CHR 0x0A] @ ''  '') violations),
                   c\<lparr>cl_pendingAdds := 0\<rparr>, w''))))"

section \<open>The fluent builder\<close>

record RequestMatcher_b =
  mb_Query :: "(string, string) gomap option"
  mb_Headers :: "(string, string) gomap option"
  mb_Body :: string

record ResponseDef_b =
  rb_Status :: int
  rb_Headers :: "(string, string) gomap option"
  rb_Body :: string

record ExpectationBuilder =
  bd_Method :: string
  bd_Path :: string
  bd_Request :: "RequestMatcher_b option"
  bd_err :: "string option"

definition Expect :: "string \<Rightarrow> string \<Rightarrow> ExpectationBuilder" where
  "Expect meth path = \<lparr>bd_Method = meth, bd_Path = path, bd_Request = None, bd_err = None\<rparr>"

definition ExpectGet :: "string \<Rightarrow> ExpectationBuilder" where
  "ExpectGet path = Expect ''GET'' path"

definition ExpectPost :: "string \<Rightarrow> ExpectationBuilder" where
  "ExpectPost path = Expect ''POST'' path"

definition ExpectPut :: "string \<Rightarrow> ExpectationBuilder" where
  "ExpectPut path = Expect ''PUT'' path"

definition ExpectPatch :: "string \<Rightarrow> ExpectationBuilder" where
  "ExpectPatch path = Expect ''PATCH'' path"

definition ExpectDelete :: "string \<Rightarrow> ExpectationBuilder" where
  "ExpectDelete path = Expect ''DELETE'' path"

text \<open>\<^verbatim>\<open>MustJSON\<close>: the encoded value, or the message of the panic.\<close>

definition MustJSON :: "string + string \<Rightarrow> string + string" where
  "MustJSON v = (case v of Inl err \<Rightarrow> Inl (''auth0mock.MustJSON: '' @ err) | Inr b \<Rightarrow> Inr b)"

definition ensureRequest :: "ExpectationBuilder \<Rightarrow> ExpectationBuilder" where
  "ensureRequest b = (if bd_Request b = None then b\<lparr>bd_Request := Some \<lparr>mb_Query = None, mb_Headers = None, mb_Body = []\<rparr>\<rparr> else b)"

definition on_request :: "(RequestMatcher_b \<Rightarrow> RequestMatcher_b) \<Rightarrow> ExpectationBuilder \<Rightarrow> ExpectationBuilder" where
  "on_request f b = (let b1 = ensureRequest b in b1\<lparr>bd_Request := map_option f (bd_Request b1)\<rparr>)"

definition put_key :: "string \<Rightarrow> string \<Rightarrow> (string, string) gomap option \<Rightarrow> (string, string) gomap option" where
  "put_key k v m = Some (AList.update k v (case m of None \<Rightarrow> [] | Some x \<Rightarrow> x))"

definition WithQuery :: "string \<Rightarrow> string \<Rightarrow> ExpectationBuilder \<Rightarrow> ExpectationBuilder" where
  "WithQuery k v = on_request (\<lambda>q. q\<lparr>mb_Query := put_key k v (mb_Query q)\<rparr>)"

definition WithHeader :: "string \<Rightarrow> string \<Rightarrow> ExpectationBuilder \<Rightarrow> ExpectationBuilder" where
  "WithHeader k v = on_request (\<lambda>q. q\<lparr>mb_Headers := put_key k v (mb_Headers q)\<rparr>)"

definition WithBody :: "string \<Rightarrow> ExpectationBuilder \<Rightarrow> ExpectationBuilder" where
  "WithBody raw = on_request (\<lambda>q. q\<lparr>mb_Body := raw\<rparr>)"

text \<open>The argument is what \<^verbatim>\<open>json.Marshal\<close> makes of the value.\<close>

definition WithBodyJSON :: "string + string \<Rightarrow> ExpectationBuilder \<Rightarrow> ExpectationBuilder" where
  "WithBodyJSON v b =
     (if bd_err b \<noteq> None then b
      else (case v of
          Inl err \<Rightarrow> b\<lparr>bd_err := Some (''auth0mock: WithBodyJSON: '' @ err)\<rparr>
        | Inr raw \<Rightarrow> on_request (\<lambda>q. q\<lparr>mb_Body := raw\<rparr>) b))"

record ResponseBuilder =
  rp_builder :: ExpectationBuilder
  rp_responses :: "ResponseDef_b list"

definition new_response :: "int \<Rightarrow> ResponseDef_b" where
  "new_response status = \<lparr>rb_Status = status, rb_Headers = None, rb_Body = []\<rparr>"

definition Respond_b :: "int \<Rightarrow> ExpectationBuilder \<Rightarrow> ResponseBuilder" where
  "Respond_b status b = \<lparr>rp_builder = b, rp_responses = [new_response status]\<rparr>"

definition on_cur :: "(ResponseDef_b \<Rightarrow> ResponseDef_b) \<Rightarrow> ResponseBuilder \<Rightarrow> ResponseBuilder" where
  "on_cur f r = r\<lparr>rp_responses := butlast (rp_responses r) @ [f (last (rp_responses r))]\<rparr>"

definition Then :: "int \<Rightarrow> ResponseBuilder \<Rightarrow> ResponseBuilder" where
  "Then status r = r\<lparr>rp_responses := rp_responses r @ [new_response status]\<rparr>"

definition JSON :: "string + string \<Rightarrow> ResponseBuilder \<Rightarrow> ResponseBuilder" where
  "JSON v r =
     (if bd_err (rp_builder r) \<noteq> None then r
      else (case v of
          Inl err \<Rightarrow> r\<lparr>rp_builder := (rp_builder r)\<lparr>bd_err := Some (''auth0mock: Respond.JSON: '' @ err)\<rparr>\<rparr>
        | Inr raw \<Rightarrow> on_cur (\<lambda>d. d\<lparr>rb_Body := raw\<rparr>) r))"

definition Body :: "string \<Rightarrow> ResponseBuilder \<Rightarrow> ResponseBuilder" where
  "Body raw = on_cur (\<lambda>d. d\<lparr>rb_Body := raw\<rparr>)"

definition Header :: "string \<Rightarrow> string \<Rightarrow> ResponseBuilder \<Rightarrow> ResponseBuilder" where
  "Header k v = on_cur (\<lambda>d. d\<lparr>rb_Headers := put_key k v (rb_Headers d)\<rparr>)"

text \<open>
  \<^verbatim>\<open>Apply\<close>: the error captured in the chain, or the registration of the request matcher, the first
  answer and the others. \<open>enc\<close> is the JSON form of an expectation.
\<close>

definition Apply :: "'w transport \<Rightarrow> sdk_codec \<Rightarrow> (string \<Rightarrow> string \<Rightarrow> RequestMatcher_b option \<Rightarrow> ResponseDef_b \<Rightarrow> ResponseDef_b list \<Rightarrow> string + string)
    \<Rightarrow> (string \<times> string \<times> int) list \<Rightarrow> nat \<Rightarrow> ResponseBuilder \<Rightarrow> Client \<Rightarrow> handles \<Rightarrow> 'w \<Rightarrow> (sdk_error + nat) \<times> Client \<times> handles \<times> 'w" where
  "Apply T K enc frames a r c H w =
     (let b = rp_builder r
      in case bd_err b of
           Some err \<Rightarrow> (Inl (ErrText err), c, H, w)
         | None \<Rightarrow>
             Exp_Add T K frames a \<lparr>xp_Method = bd_Method b, xp_Path = bd_Path b,
               xp_json = enc (bd_Method b) (bd_Path b) (bd_Request b) (hd (rp_responses r)) (tl (rp_responses r))\<rparr> c H w)"

end
