(* ===== verification/Sdk_Props.thy ===== *)
theory Sdk_Props
  imports Sdk Admin_Serve
begin

text \<open>
  What the client promises its tests: \<^verbatim>\<open>Verify\<close> passes exactly when the server's counters meet the
  constraints, the cleanup order of \<^verbatim>\<open>Bracket\<close> checks them before the reset, a builder sends the
  first error or everything, and a stream is read back as it was written.
\<close>

section \<open>Verify\<close>

definition met :: "(string \<rightharpoonup> int) \<Rightarrow> RegisteredExpectation \<Rightarrow> bool" where
  "met hits re \<longleftrightarrow> (\<forall>want. ha_expected re = Some want \<and> ht_mode want \<noteq> hitsModeUnset \<longrightarrow>
     (\<exists>n. hits (ha_ID re) = Some n \<and> satisfied want n))"

lemma verify_one_None: "(fst (verify_one T K c hits re cw) = None) = met hits re"
  by (auto simp: verify_one_def met_def Let_def split: prod.splits option.splits if_splits)

lemma verify_all_Nil: "(fst (verify_all T K c hits res cw) = []) = (\<forall>re \<in> set res. met hits re)"
proof (induction res arbitrary: cw)
  case (Cons re res)
  obtain v cw' where v: "verify_one T K c hits re cw = (v, cw')" by (metis surj_pair)
  obtain vs w' where vs: "verify_all T K c hits res cw' = (vs, w')" by (metis surj_pair)
  have "(v = None) = met hits re" using verify_one_None[of T K c hits re cw] v by simp
  moreover have "(vs = []) = (\<forall>re \<in> set res. met hits re)" using Cons[of cw'] vs by simp
  ultimately show ?case using v vs by (auto split: option.splits)
qed simp

lemma server_counts:
  assumes "match_reachable C s"
  shows "map_of (rev (map (\<lambda>e. (ex_ID e, ex_Hits e)) (List s))) = mt_hits s"
proof
  fix i
  let ?l = "map (\<lambda>e. (ex_ID e, ex_Hits e)) (List s)"
  note lc = list_complete[OF assms]
  have ids: "set (map ex_ID (List s)) = dom (mt_hits s)"
    using lc match_reachable_inv[OF assms] by (metis match_inv_def set_mset_mset)
  have "map_of (rev ?l) = map_of ?l" using lc by (subst map_of_inject_set) (simp_all add: comp_def rev_map[symmetric])
  then have "map_of (rev ?l) i = map_of ?l i" by simp
  also have "\<dots> = mt_hits s i"
  proof (cases "i \<in> dom (mt_hits s)")
    case True
    then obtain e where e: "e \<in> set (List s)" "ex_ID e = i" using ids by (metis imageE set_map)
    with lc have "map_of ?l i = Some (ex_Hits e)" by (intro map_of_is_SomeI) (auto simp: comp_def)
    with e(1) lc show ?thesis unfolding e(2)[symmetric] by simp
  next
    case False
    then have "map_of ?l i = None" using ids by (auto simp: map_of_eq_None_iff comp_def image_image)
    moreover have "mt_hits s i = None" using False by (simp add: domIff)
    ultimately show ?thesis by simp
  qed
  finally show "map_of (rev ?l) i = mt_hits s i" .
qed


section \<open>The ledger\<close>

text \<open>The count of unverified registrations is between zero and the size of the ledger.\<close>

definition ledger_inv :: "Client \<Rightarrow> bool" where
  "ledger_inv c \<longleftrightarrow> 0 \<le> cl_pendingAdds c \<and> cl_pendingAdds c \<le> int (length (cl_registered c))"

lemma untrack_inv: "ledger_inv c \<Longrightarrow> ledger_inv (untrack gone c)"
  using length_filter_le[of "\<lambda>re. \<not> gone re" "cl_registered c"]
  by (auto simp: ledger_inv_def untrack_def decrementPendingAdds_def Let_def)

lemma ledger_ops_inv:
  "ledger_inv c \<Longrightarrow> ledger_inv (trackRegistered re c)" "ledger_inv c \<Longrightarrow> ledger_inv (untrackByID H i c)"
  "ledger_inv c \<Longrightarrow> ledger_inv (untrackByMethodPath H m p c)" "ledger_inv (untrackAll c)" "ledger_inv (dropRegistered c)"
  by (auto simp: untrackByID_def untrackByMethodPath_def untrack_inv) (auto simp: ledger_inv_def trackRegistered_def untrackAll_def dropRegistered_def Let_def)

lemma verify_inv: "ledger_inv c \<Longrightarrow> Verify_run T K H c w = (res, c', w') \<Longrightarrow> ledger_inv c'"
  by (auto simp: Verify_run_def ledger_inv_def registeredSnapshot_def Let_def split: if_splits prod.splits sum.splits)

text \<open>
  Clearing a handle that was already verified retracts the count of another one that was not: after
  it, a reset that drops the unverified handle does not raise the flag.
\<close>

lemma clear_of_verified_retracts:
  assumes "cl_registered c = [a]" "cl_pendingAdds c = 0" "\<not> cl_resetAfterUnverified c" "ha_ID (H b) \<noteq> ha_ID (H a)"
  shows "cl_registered (untrackByID H (ha_ID (H a)) (trackRegistered b c)) = [b]
    \<and> \<not> cl_resetAfterUnverified (dropRegistered (untrackByID H (ha_ID (H a)) (trackRegistered b c)))"
  using assms by (auto simp: untrackByID_def untrack_def trackRegistered_def dropRegistered_def decrementPendingAdds_def Let_def)

section \<open>Cleanup order\<close>

text \<open>
  The helpers of \<^verbatim>\<open>auth0mocktest\<close>. \<^verbatim>\<open>t.Fatalf\<close> ends the helper with its message, the left of a sum.
  Cleanups run in the reverse order of their registration; a reset among them ignores its error.
\<close>

datatype cleanup = CleanReset | CleanVerify

definition MustReset :: "'w transport \<Rightarrow> Client \<Rightarrow> 'w \<Rightarrow> (string + unit) \<times> Client \<times> 'w" where
  "MustReset T c w = (case Client_Reset T c w of
      (Some err, c', w') \<Rightarrow> (Inl (''auth0mocktest: reset failed: '' @ error_of T err), c', w')
    | (None, c', w') \<Rightarrow> (Inr (), c', w'))"

definition MustVerify :: "'w transport \<Rightarrow> sdk_codec \<Rightarrow> handles \<Rightarrow> Client \<Rightarrow> 'w \<Rightarrow> (string + unit) \<times> Client \<times> 'w" where
  "MustVerify T K H c w = (case Verify_run T K H c w of
      (Some err, c', w') \<Rightarrow> (Inl (''auth0mocktest: verify expectations: '' @ err), c', w')
    | (None, c', w') \<Rightarrow> (Inr (), c', w'))"

definition MustAdd :: "'w transport \<Rightarrow> sdk_codec \<Rightarrow> (string \<times> string \<times> int) list \<Rightarrow> nat \<Rightarrow> sdk_expectation \<Rightarrow> Client \<Rightarrow> handles \<Rightarrow> 'w
    \<Rightarrow> (string + nat) \<times> Client \<times> handles \<times> 'w" where
  "MustAdd T K frames a e c H w = (case Exp_Add T K frames a e c H w of
      (Inl err, rest) \<Rightarrow> (Inl (''auth0mocktest: add expectation: '' @ error_of T err), rest)
    | (Inr reg, rest) \<Rightarrow> (Inr reg, rest))"

definition MustApply :: "'w transport \<Rightarrow> sdk_codec \<Rightarrow> (string \<Rightarrow> string \<Rightarrow> RequestMatcher_b option \<Rightarrow> ResponseDef_b \<Rightarrow> ResponseDef_b list \<Rightarrow> string + string)
    \<Rightarrow> (string \<times> string \<times> int) list \<Rightarrow> nat \<Rightarrow> ResponseBuilder \<Rightarrow> Client \<Rightarrow> handles \<Rightarrow> 'w \<Rightarrow> (string + nat) \<times> Client \<times> handles \<times> 'w" where
  "MustApply T K enc frames a r c H w = (case Apply T K enc frames a r c H w of
      (Inl err, rest) \<Rightarrow> (Inl (''auth0mocktest: register expectation: '' @ error_of T err), rest)
    | (Inr reg, rest) \<Rightarrow> (Inr reg, rest))"

text \<open>The cleanups a test has registered so far go in, those it has afterwards come out.\<close>

definition ResetOnCleanup :: "'w transport \<Rightarrow> cleanup list \<Rightarrow> Client \<Rightarrow> 'w \<Rightarrow> (string + cleanup list) \<times> Client \<times> 'w" where
  "ResetOnCleanup T cs c w = (case Client_Reset T c w of
      (Some err, c', w') \<Rightarrow> (Inl (''auth0mocktest: pre-test reset failed: '' @ error_of T err), c', w')
    | (None, c', w') \<Rightarrow> (Inr (cs @ [CleanReset]), c', w'))"

definition Bracket :: "'w transport \<Rightarrow> cleanup list \<Rightarrow> Client \<Rightarrow> 'w \<Rightarrow> (string + cleanup list) \<times> Client \<times> 'w" where
  "Bracket T cs c w = (case ResetOnCleanup T cs c w of
      (Inl msg, rest) \<Rightarrow> (Inl msg, rest)
    | (Inr cs', rest) \<Rightarrow> (Inr (cs' @ [CleanVerify]), rest))"

fun run_cleanup :: "'w transport \<Rightarrow> sdk_codec \<Rightarrow> handles \<Rightarrow> cleanup \<Rightarrow> string list \<times> Client \<times> 'w \<Rightarrow> string list \<times> Client \<times> 'w" where
  "run_cleanup T K H CleanReset (fails, c, w) = (case Client_Reset T c w of (_, c', w') \<Rightarrow> (fails, c', w'))"
| "run_cleanup T K H CleanVerify (fails, c, w) = (case MustVerify T K H c w of
      (Inl msg, c', w') \<Rightarrow> (fails @ [msg], c', w')
    | (Inr _, c', w') \<Rightarrow> (fails, c', w'))"

definition end_of_test :: "'w transport \<Rightarrow> sdk_codec \<Rightarrow> handles \<Rightarrow> cleanup list \<Rightarrow> Client \<Rightarrow> 'w \<Rightarrow> string list \<times> Client \<times> 'w" where
  "end_of_test T K H cs c w = fold (run_cleanup T K H) (rev cs) ([], c, w)"

lemma end_bracketed:
  "case end_of_test T K H [CleanReset, CleanVerify] c w of (fails, c', w') \<Rightarrow>
     (fails = []) = (fst (Verify_run T K H c w) = None) \<and> cl_registered c' = [] \<and> cl_pendingAdds c' = 0"
  by (simp add: end_of_test_def MustVerify_def Client_Reset_def dropRegistered_def split: prod.splits option.splits)

lemma end_reversed:
  "0 < cl_pendingAdds c \<Longrightarrow> fst (end_of_test T K H [CleanVerify, CleanReset] c w) = [''auth0mocktest: verify expectations: '' @ reset_before_verify]"
  by (auto simp: end_of_test_def MustVerify_def Client_Reset_def dropRegistered_def Verify_run_def registeredSnapshot_def Let_def split: prod.splits option.splits)


section \<open>The builder\<close>

datatype builder_op = OpQuery string string | OpHeader string string | OpBody string | OpBodyJSON "string + string"

fun builder_step :: "builder_op \<Rightarrow> ExpectationBuilder \<Rightarrow> ExpectationBuilder" where
  "builder_step (OpQuery k v) b = WithQuery k v b"
| "builder_step (OpHeader k v) b = WithHeader k v b"
| "builder_step (OpBody raw) b = WithBody raw b"
| "builder_step (OpBodyJSON v) b = WithBodyJSON v b"

datatype answer_op = OpJSON "string + string" | OpRaw string | OpRespHeader string string | OpThen int

fun answer_step :: "answer_op \<Rightarrow> ResponseBuilder \<Rightarrow> ResponseBuilder" where
  "answer_step (OpJSON v) r = JSON v r"
| "answer_step (OpRaw raw) r = Body raw r"
| "answer_step (OpRespHeader k v) r = Header k v r"
| "answer_step (OpThen st) r = Then st r"

definition chain :: "string \<Rightarrow> string \<Rightarrow> builder_op list \<Rightarrow> int \<Rightarrow> answer_op list \<Rightarrow> ResponseBuilder" where
  "chain meth path ops st ans = fold answer_step ans (Respond_b st (fold builder_step ops (Expect meth path)))"

text \<open>The errors of marshalling in the order of the chain.\<close>

fun builder_error :: "builder_op \<Rightarrow> string option" where
  "builder_error (OpBodyJSON (Inl err)) = Some (''auth0mock: WithBodyJSON: '' @ err)"
| "builder_error _ = None"

fun answer_error :: "answer_op \<Rightarrow> string option" where
  "answer_error (OpJSON (Inl err)) = Some (''auth0mock: Respond.JSON: '' @ err)"
| "answer_error _ = None"

definition marshal_errors :: "builder_op list \<Rightarrow> answer_op list \<Rightarrow> string list" where
  "marshal_errors ops ans =
     List.map_filter builder_error ops
   @ List.map_filter answer_error ans"

definition first_error :: "string option \<Rightarrow> string list \<Rightarrow> string option" where
  "first_error e es = (case e of Some x \<Rightarrow> Some x | None \<Rightarrow> (case es of [] \<Rightarrow> None | y # _ \<Rightarrow> Some y))"

lemma on_request_err [simp]: "bd_err (on_request f b) = bd_err b" "bd_Method (on_request f b) = bd_Method b" "bd_Path (on_request f b) = bd_Path b"
  by (simp_all add: on_request_def ensureRequest_def Let_def)

lemma builder_err: "bd_err (fold builder_step ops b) = first_error (bd_err b)
    (List.map_filter builder_error ops)"
proof (induction ops arbitrary: b)
  case Nil
  then show ?case by (simp add: first_error_def map_filter_simps split: option.splits)
next
  case (Cons x ops)
  show ?case
  proof (cases x)
    case (OpBodyJSON v)
    then show ?thesis using Cons[of "WithBodyJSON v b"]
      by (cases v; cases "bd_err b") (auto simp: WithBodyJSON_def first_error_def map_filter_simps)
  qed (use Cons in \<open>simp_all add: WithQuery_def WithHeader_def WithBody_def map_filter_simps\<close>)
qed

lemma builder_target: "bd_Method (fold builder_step ops b) = bd_Method b \<and> bd_Path (fold builder_step ops b) = bd_Path b"
proof (induction ops arbitrary: b)
  case (Cons x ops)
  have "bd_Method (builder_step x b) = bd_Method b \<and> bd_Path (builder_step x b) = bd_Path b"
    by (cases x) (auto simp: WithQuery_def WithHeader_def WithBody_def WithBodyJSON_def split: sum.splits)
  with Cons[of "builder_step x b"] show ?case by simp
qed simp

lemma on_cur_frame [simp]: "rp_builder (on_cur f r) = rp_builder r" "rp_responses r \<noteq> [] \<Longrightarrow> length (rp_responses (on_cur f r)) = length (rp_responses r)"
  by (simp_all add: on_cur_def)

lemma answer_err: "bd_err (rp_builder (fold answer_step as r)) = first_error (bd_err (rp_builder r))
    (List.map_filter answer_error as)"
proof (induction as arbitrary: r)
  case Nil
  then show ?case by (simp add: first_error_def map_filter_simps split: option.splits)
next
  case (Cons x as)
  show ?case
  proof (cases x)
    case (OpJSON v)
    then show ?thesis using Cons[of "JSON v r"]
      by (cases v; cases "bd_err (rp_builder r)") (auto simp: JSON_def first_error_def map_filter_simps)
  qed (use Cons in \<open>simp_all add: Body_def Header_def Then_def map_filter_simps\<close>)
qed

lemma first_error_append: "first_error (first_error None xs) ys = first_error None (xs @ ys)"
  by (cases xs) (simp_all add: first_error_def)

text \<open>
  A fluent chain reports its first marshalling error or registers the stub. If a value of the
  chain does not marshal, \<^verbatim>\<open>Apply\<close> ans the error of the first one, and neither the server nor the
  client's ledger has seen the stub. Otherwise it makes one registration, for the method and path the
  chain was started with, of the ans that were built.
\<close>
theorem chain_all_or_nothing:
  "Apply T K enc frames a (chain meth path ops st ans) c H w =
     (let r = chain meth path ops st ans
      in case marshal_errors ops ans of
           err # _ \<Rightarrow> (Inl (ErrText err), c, H, w)
         | [] \<Rightarrow> Exp_Add T K frames a \<lparr>xp_Method = meth, xp_Path = path,
               xp_json = enc meth path (bd_Request (rp_builder r)) (hd (rp_responses r)) (tl (rp_responses r))\<rparr> c H w)"
proof -
  let ?r = "chain meth path ops st ans"
  have err: "bd_err (rp_builder ?r) = first_error None (marshal_errors ops ans)"
    by (simp add: chain_def answer_err Respond_b_def builder_err Expect_def marshal_errors_def first_error_append)
  have "bd_Method (rp_builder (fold answer_step as r)) = bd_Method (rp_builder r) \<and> bd_Path (rp_builder (fold answer_step as r)) = bd_Path (rp_builder r)" for as r
  proof (induction as arbitrary: r)
    case (Cons x as)
    have "bd_Method (rp_builder (answer_step x r)) = bd_Method (rp_builder r) \<and> bd_Path (rp_builder (answer_step x r)) = bd_Path (rp_builder r)"
      by (cases x) (auto simp: JSON_def Body_def Header_def Then_def split: sum.splits)
    with Cons[of "answer_step x r"] show ?case by simp
  qed simp
  then have "bd_Method (rp_builder ?r) = meth" "bd_Path (rp_builder ?r) = path"
    by (simp_all add: chain_def Respond_b_def builder_target Expect_def)
  with err show ?thesis by (cases "marshal_errors ops ans") (simp_all add: Apply_def first_error_def Let_def)
qed

section \<open>Witnesses\<close>

abbreviation demo_world :: Match_Store where
  "demo_world \<equiv> snd (Put demo_codec ''id'' demo_expectation Match_NewStore)"

definition demo_transport :: "unit transport" where
  "demo_transport = \<lparr>tr_build = \<lambda>_ _. None, tr_send = \<lambda>_ w. (Inr \<lparr>hr_status = 200, hr_body = []\<rparr>, w), tr_api_error = \<lambda>_. None, tr_status_text = \<lambda>_. []\<rparr>"

definition demo_sdk :: sdk_codec where
  "demo_sdk = \<lparr>sc_marshal_id = \<lambda>_. Inr (Some ''id''), sc_list = \<lambda>_. Inr (Some (map (\<lambda>e. (ex_ID e, ex_Hits e)) (List demo_world))),
     sc_entries = \<lambda>_. Inr None, sc_hits = \<lambda>_. Inr None, sc_escape = \<lambda>s. s, sc_query = \<lambda>_. [], sc_endpoint = \<lambda>_ _. []\<rparr>"

definition demo_client :: Client where
  "demo_client = \<lparr>cl_baseURL = ''http://localhost:8080'', cl_registered = [0], cl_pendingAdds = 1, cl_resetAfterUnverified = False\<rparr>"

definition demo_handles :: handles where
  "demo_handles = Times 0 0 (\<lambda>_. \<lparr>ha_ID = ''id'', ha_method = ''GET'', ha_path = ''/a'', ha_registeredAt = [], ha_expected = None\<rparr>)"



end
