(* ===== verification/Sdk_Clients.thy ===== *)
theory Sdk_Clients
  imports Sdk Admin_Serve
begin

text \<open>
  The typed clients of the control plane in \<^verbatim>\<open>pkg/auth0mock\<close> (claims, claim mappings, MFA, permissions,
  clock, events, authorization failures, journal) and their composition with the server: the transport
  carries each call to the route that \<^verbatim>\<open>Mount\<close> of \<^verbatim>\<open>internal/admin0\<close> registers. The JSON codecs, the
  escaping of URLs, and the formats of times and durations are the fields of \<open>wire\<close>.
\<close>

section \<open>The clients\<close>

record ClockState =
  ks_Mode :: string
  ks_Now :: time
  ks_Offset :: duration

record clockWireResponse =
  cr_Mode :: string
  cr_Now :: string
  cr_Offset :: string

record SubscriberCount =
  su_Active :: int
  su_Total :: int

record wire =
  wi_enc :: "json \<Rightarrow> string"
  wi_claims :: "string \<Rightarrow> string + (string, json) gomap option"
  wi_strings :: "string \<Rightarrow> string + (string, string) gomap option"
  wi_perms :: "string \<Rightarrow> string + string list option"
  wi_permmap :: "string \<Rightarrow> string + (string, string list) gomap option"
  wi_required :: "string \<Rightarrow> string + bool option"
  wi_clock :: "string \<Rightarrow> string + clockWireResponse option"
  wi_count :: "string \<Rightarrow> string + SubscriberCount option"
  wi_expired :: "string \<Rightarrow> string + int option"
  wi_rule :: "string \<Rightarrow> string + Rule option"
  wi_rules :: "string \<Rightarrow> string + Rule list option"
  wi_rule_json :: "Rule \<Rightarrow> string"
  wi_PathEscape :: "string \<Rightarrow> string"
  wi_QueryEscape :: "string \<Rightarrow> string"
  wi_format_time :: "time \<Rightarrow> string"
  wi_parse_time :: "string \<Rightarrow> string + time"
  wi_format_dur :: "duration \<Rightarrow> string"
  wi_parse_dur :: "string \<Rightarrow> string + duration"
  wi_quote :: "string \<Rightarrow> string"
  wi_raw :: "string \<Rightarrow> string + string"
  wi_mgmt :: "MgmtError \<Rightarrow> string"
  wi_auth :: "AuthError \<Rightarrow> string"
  wi_capture :: "string \<Rightarrow> string"

type_synonym ('w, 'a) sdk_call = "Client \<Rightarrow> 'w \<Rightarrow> (sdk_error + 'a) \<times> 'w"

definition sdk_get :: "'w transport \<Rightarrow> string \<Rightarrow> (string \<Rightarrow> string + 'a option) \<Rightarrow> 'a \<Rightarrow> ('w, 'a) sdk_call" where
  "sdk_get T path dec zero c w = sdk_do T (cl_baseURL c) ''GET'' path None dec zero w"

definition sdk_send :: "'w transport \<Rightarrow> string \<Rightarrow> string \<Rightarrow> string option \<Rightarrow> ('w, unit) sdk_call" where
  "sdk_send T meth path body c w = sdk_do T (cl_baseURL c) meth path (map_option Inr body) discard () w"

definition ClaimsClient_Get :: "'w transport \<Rightarrow> wire \<Rightarrow> ('w, (string, json) gomap) sdk_call" where
  "ClaimsClient_Get T W = sdk_get T ''/admin0/claims'' (wi_claims W) []"

definition ClaimsClient_Set :: "'w transport \<Rightarrow> wire \<Rightarrow> (string, json) gomap \<Rightarrow> ('w, unit) sdk_call" where
  "ClaimsClient_Set T W m = sdk_send T ''PUT'' ''/admin0/claims'' (Some (wi_enc W (JObj m)))"

definition ClaimsClient_Clear :: "'w transport \<Rightarrow> ('w, unit) sdk_call" where
  "ClaimsClient_Clear T = sdk_send T ''DELETE'' ''/admin0/claims'' None"

definition ClaimMappingsClient_Get :: "'w transport \<Rightarrow> wire \<Rightarrow> ('w, (string, string) gomap) sdk_call" where
  "ClaimMappingsClient_Get T W = sdk_get T ''/admin0/claims/mappings'' (wi_strings W) []"

definition ClaimMappingsClient_Set :: "'w transport \<Rightarrow> wire \<Rightarrow> (string, string) gomap \<Rightarrow> ('w, unit) sdk_call" where
  "ClaimMappingsClient_Set T W m =
     sdk_send T ''PUT'' ''/admin0/claims/mappings'' (Some (wi_enc W (JObj (map (\<lambda>(k, v). (k, JStr v)) m))))"

definition ClaimMappingsClient_Clear :: "'w transport \<Rightarrow> ('w, unit) sdk_call" where
  "ClaimMappingsClient_Clear T = sdk_send T ''DELETE'' ''/admin0/claims/mappings'' None"

definition MFAClient_Get :: "'w transport \<Rightarrow> wire \<Rightarrow> ('w, bool) sdk_call" where
  "MFAClient_Get T W = sdk_get T ''/admin0/mfa-required'' (wi_required W) False"

definition MFAClient_Set :: "'w transport \<Rightarrow> wire \<Rightarrow> bool \<Rightarrow> ('w, unit) sdk_call" where
  "MFAClient_Set T W required = sdk_send T ''PUT'' ''/admin0/mfa-required'' (Some (wi_enc W (JObj [(''required'', JBool required)])))"

definition audiencePath :: "wire \<Rightarrow> string \<Rightarrow> string" where
  "audiencePath W audience = ''/admin0/permissions/'' @ wi_PathEscape W audience"

definition PermissionsClient_All :: "'w transport \<Rightarrow> wire \<Rightarrow> ('w, (string, string list) gomap) sdk_call" where
  "PermissionsClient_All T W = sdk_get T ''/admin0/permissions'' (wi_permmap W) []"

definition PermissionsClient_Clear :: "'w transport \<Rightarrow> ('w, unit) sdk_call" where
  "PermissionsClient_Clear T = sdk_send T ''DELETE'' ''/admin0/permissions'' None"

definition PermissionsClient_Get :: "'w transport \<Rightarrow> wire \<Rightarrow> string \<Rightarrow> ('w, string list) sdk_call" where
  "PermissionsClient_Get T W audience = sdk_get T (audiencePath W audience) (wi_perms W) []"

definition PermissionsClient_Set :: "'w transport \<Rightarrow> wire \<Rightarrow> string \<Rightarrow> string list \<Rightarrow> ('w, unit) sdk_call" where
  "PermissionsClient_Set T W audience perms = sdk_send T ''PUT'' (audiencePath W audience) (Some (wi_enc W (strings_json perms)))"

definition PermissionsClient_Delete :: "'w transport \<Rightarrow> wire \<Rightarrow> string \<Rightarrow> ('w, unit) sdk_call" where
  "PermissionsClient_Delete T W audience = sdk_send T ''DELETE'' (audiencePath W audience) None"

text \<open>The clock: the answer is parsed after it is decoded, its offset only when there is one.\<close>

definition ClockClient_Get :: "'w transport \<Rightarrow> wire \<Rightarrow> ('w, ClockState) sdk_call" where
  "ClockClient_Get T W c w = (case sdk_get T ''/admin0/clock'' (wi_clock W) \<lparr>cr_Mode = [], cr_Now = [], cr_Offset = []\<rparr> c w of
      (Inl err, w') \<Rightarrow> (Inl err, w')
    | (Inr raw, w') \<Rightarrow>
        (case wi_parse_time W (cr_Now raw) of
           Inl err \<Rightarrow> (Inl (ErrText (''auth0mock: clock: parse server now '' @ wi_quote W (cr_Now raw) @ '': '' @ err)), w')
         | Inr t \<Rightarrow>
             if cr_Offset raw = [] then (Inr \<lparr>ks_Mode = cr_Mode raw, ks_Now = t, ks_Offset = 0\<rparr>, w')
             else (case wi_parse_dur W (cr_Offset raw) of
                 Inl err \<Rightarrow> (Inl (ErrText (''auth0mock: clock: parse server offset '' @ wi_quote W (cr_Offset raw) @ '': '' @ err)), w')
               | Inr d \<Rightarrow> (Inr \<lparr>ks_Mode = cr_Mode raw, ks_Now = t, ks_Offset = d\<rparr>, w'))))"

definition ClockClient_Freeze :: "'w transport \<Rightarrow> wire \<Rightarrow> time \<Rightarrow> ('w, unit) sdk_call" where
  "ClockClient_Freeze T W t = sdk_send T ''PUT'' ''/admin0/clock'' (Some (wi_enc W (JObj [(''now'', JStr (wi_format_time W t))])))"

definition ClockClient_Offset :: "'w transport \<Rightarrow> wire \<Rightarrow> duration \<Rightarrow> ('w, unit) sdk_call" where
  "ClockClient_Offset T W d = sdk_send T ''PUT'' ''/admin0/clock'' (Some (wi_enc W (JObj [(''offset'', JStr (wi_format_dur W d))])))"

definition ClockClient_Advance :: "'w transport \<Rightarrow> wire \<Rightarrow> duration \<Rightarrow> ('w, unit) sdk_call" where
  "ClockClient_Advance T W d = sdk_send T ''POST'' ''/admin0/clock/advance'' (Some (wi_enc W (JObj [(''by'', JStr (wi_format_dur W d))])))"

definition ClockClient_Reset :: "'w transport \<Rightarrow> ('w, unit) sdk_call" where
  "ClockClient_Reset T = sdk_send T ''DELETE'' ''/admin0/clock'' None"

text \<open>
  Events. \<open>wi_raw\<close> is \<^verbatim>\<open>json.Marshal\<close> of a raw message, which refuses invalid JSON. The random bytes of an id are an argument; a hex digit is what \<^verbatim>\<open>hex.EncodeToString\<close> writes.
\<close>

definition hex_digit :: "nat \<Rightarrow> char" where
  "hex_digit n = (if n < 10 then char_of (48 + n) else char_of (87 + n))"

definition hex_encode :: "nat list \<Rightarrow> string" where
  "hex_encode bs = concat (map (\<lambda>b. [hex_digit (b div 16), hex_digit (b mod 16)]) bs)"

definition NewEventID :: "nat list \<Rightarrow> string" where
  "NewEventID b = ''evt_'' @ hex_encode b"

definition NewStreamID :: "nat list \<Rightarrow> string" where
  "NewStreamID b = ''est_'' @ hex_encode b"

definition EventsClient_Subscribers :: "'w transport \<Rightarrow> wire \<Rightarrow> ('w, SubscriberCount) sdk_call" where
  "EventsClient_Subscribers T W = sdk_get T ''/admin0/events/subscribers'' (wi_count W) \<lparr>su_Active = 0, su_Total = 0\<rparr>"

definition EventsClient_Push :: "'w transport \<Rightarrow> wire \<Rightarrow> string \<Rightarrow> ('w, unit) sdk_call" where
  "EventsClient_Push T W payload c w =
     (if length payload = 0 then (Inl (ErrText ''auth0mock: events: Push: payload is required''), w)
      else sdk_do T (cl_baseURL c) ''POST'' ''/admin0/events'' (Some (wi_raw W payload)) discard () w)"

definition EventsClient_ExpireEvents :: "'w transport \<Rightarrow> wire \<Rightarrow> ('w, int) sdk_call" where
  "EventsClient_ExpireEvents T W c w = sdk_do T (cl_baseURL c) ''POST'' ''/admin0/events/expire'' None (wi_expired W) 0 w"

definition EventsClient_ExpireEventsBefore :: "'w transport \<Rightarrow> wire \<Rightarrow> string \<Rightarrow> ('w, int) sdk_call" where
  "EventsClient_ExpireEventsBefore T W cursor c w =
     (if cursor = [] then
        (Inl (ErrText ''auth0mock: events: ExpireEventsBefore: cursor is required (use ExpireEvents to expire the whole buffer)''), w)
      else sdk_do T (cl_baseURL c) ''POST'' (''/admin0/events/expire?before='' @ wi_QueryEscape W cursor) None (wi_expired W) 0 w)"

definition zero_rule :: Rule where
  "zero_rule = \<lparr>ru_ID = [], ru_Match = None, ru_Error = [], ru_ErrorDescription = []\<rparr>"

definition AuthorizeErrorsClient_Add :: "'w transport \<Rightarrow> wire \<Rightarrow> Rule \<Rightarrow> ('w, Rule) sdk_call" where
  "AuthorizeErrorsClient_Add T W e c w =
     sdk_do T (cl_baseURL c) ''POST'' ''/admin0/authorize-errors'' (Some (Inr (wi_rule_json W e))) (wi_rule W) zero_rule w"

definition AuthorizeErrorsClient_List :: "'w transport \<Rightarrow> wire \<Rightarrow> ('w, Rule list) sdk_call" where
  "AuthorizeErrorsClient_List T W = sdk_get T ''/admin0/authorize-errors'' (wi_rules W) []"

definition AuthorizeErrorsClient_Delete :: "'w transport \<Rightarrow> wire \<Rightarrow> string \<Rightarrow> ('w, unit) sdk_call" where
  "AuthorizeErrorsClient_Delete T W i = sdk_send T ''DELETE'' (''/admin0/authorize-errors/'' @ wi_PathEscape W i) None"

definition AuthorizeErrorsClient_Clear :: "'w transport \<Rightarrow> ('w, unit) sdk_call" where
  "AuthorizeErrorsClient_Clear T = sdk_send T ''DELETE'' ''/admin0/authorize-errors'' None"

definition JournalClient_List :: "'w transport \<Rightarrow> sdk_codec \<Rightarrow> string \<Rightarrow> string \<Rightarrow> ('w, JournalEntry list) sdk_call" where
  "JournalClient_List T K meth path c w = Journal_fetch T K c ''/admin0/journal'' meth path w"

definition JournalClient_Unmatched :: "'w transport \<Rightarrow> sdk_codec \<Rightarrow> string \<Rightarrow> string \<Rightarrow> ('w, JournalEntry list) sdk_call" where
  "JournalClient_Unmatched T K meth path c w = Journal_fetch T K c ''/admin0/journal/unmatched'' meth path w"

definition JournalClient_Clear :: "'w transport \<Rightarrow> ('w, unit) sdk_call" where
  "JournalClient_Clear T = sdk_send T ''DELETE'' ''/admin0/journal'' None"

lemmas sdk_client_defs = ClaimsClient_Get_def ClaimsClient_Set_def ClaimsClient_Clear_def ClaimMappingsClient_Get_def
  ClaimMappingsClient_Set_def ClaimMappingsClient_Clear_def MFAClient_Get_def MFAClient_Set_def PermissionsClient_All_def
  PermissionsClient_Clear_def PermissionsClient_Get_def PermissionsClient_Set_def PermissionsClient_Delete_def
  ClockClient_Reset_def

section \<open>The clients and the server\<close>

text \<open>
  The routes of the control plane: a pattern that ends in a wildcard takes the rest of the path, one
  that ends in \<^verbatim>\<open>{id}\<close> one segment, any other the path itself. \<open>wi_capture\<close> is what the router hands to
  the handler for the escaped text it captured.
\<close>

definition match_pattern :: "string \<Rightarrow> string \<Rightarrow> string option" where
  "match_pattern pat path =
     (if drop (length pat - 2) pat = ''/*'' then
        (let pre = butlast pat in if has_prefix path pre then Some (drop (length pre) path) else None)
      else if drop (length pat - 5) pat = ''/{id}'' then
        (let pre = take (length pat - 4) pat; rest = drop (length pre) path
         in if has_prefix path pre \<and> rest \<noteq> [] \<and> \<not> contains_char rest CHR ''/'' then Some rest else None)
      else if path = pat then Some [] else None)"

definition find_route :: "string \<Rightarrow> string \<Rightarrow> (admin_handler \<times> string) option" where
  "find_route m path =
     (case find (\<lambda>((m', pat), h). m' = m \<and> match_pattern pat path \<noteq> None) (Admin0_Mount True True) of
        None \<Rightarrow> None
      | Some ((_, pat), h) \<Rightarrow> map_option (Pair h) (match_pattern pat path))"

definition server_decode :: "string + 'a option \<Rightarrow> string + 'a" where
  "server_decode r = (case r of Inl err \<Rightarrow> Inl err | Inr None \<Rightarrow> Inl ''EOF'' | Inr (Some x) \<Rightarrow> Inr x)"

definition call_of :: "wire \<Rightarrow> admin_call \<Rightarrow> string \<Rightarrow> string \<Rightarrow> admin_call" where
  "call_of W E param body = E\<lparr>ca_param := wi_capture W param, ca_body := (body, None),
     ca_dec_mfa := map_sum id (\<lambda>b. \<lparr>mr_Required = b\<rparr>) (server_decode (wi_required W body)),
     ca_dec_claims := server_decode (wi_claims W body), ca_dec_mappings := server_decode (wi_strings W body),
     ca_dec_perms := server_decode (wi_perms W body), ca_dec_rule := server_decode (wi_rule W body)\<rparr>"

definition line_end :: string where
  "line_end = [CHR 0x0A]"

definition render_body :: "wire \<Rightarrow> resp_body \<Rightarrow> string" where
  "render_body W b = (case b of
      NoBody \<Rightarrow> [] | JsonBody j \<Rightarrow> wi_enc W j @ line_end | TextBody t \<Rightarrow> t | MgmtBody e \<Rightarrow> wi_mgmt W e | AuthBody e \<Rightarrow> wi_auth W e)"

definition serve_call :: "wire \<Rightarrow> Validator \<Rightarrow> admin_call \<Rightarrow> string \<Rightarrow> http_call \<Rightarrow> Admin0_Deps \<Rightarrow> (string + http_resp) \<times> Admin0_Deps" where
  "serve_call W v E base call d =
     (let path = takeWhile (\<lambda>c. c \<noteq> CHR ''?'') (drop (length base) (hc_url call))
      in case find_route (hc_method call) path of
           None \<Rightarrow> (Inr \<lparr>hr_status = 404, hr_body = ''404 page not found'' @ [CHR 0x0A]\<rparr>, d)
         | Some (h, param) \<Rightarrow>
             (case admin_serve v h (call_of W E param (case hc_body call of None \<Rightarrow> [] | Some b \<Rightarrow> b)) d of
                (Inl (), d') \<Rightarrow> (Inl ''EOF'', d')
              | (Inr resp, d') \<Rightarrow> (Inr \<lparr>hr_status = rs_status resp, hr_body = render_body W (rs_body resp)\<rparr>, d')))"

definition server_transport :: "wire \<Rightarrow> Validator \<Rightarrow> admin_call \<Rightarrow> string \<Rightarrow> (string \<Rightarrow> APIError option) \<Rightarrow> (int \<Rightarrow> string) \<Rightarrow> Admin0_Deps transport" where
  "server_transport W v E base apierr statustext =
     \<lparr>tr_build = \<lambda>_ _. None, tr_send = serve_call W v E base, tr_api_error = apierr, tr_status_text = statustext\<rparr>"

text \<open>
  What the codecs are documented to do: what one side encodes the other decodes to the same value, with
  or without the newline an encoder ends with, and an escaped segment has no question mark.
\<close>

definition wire_laws :: "wire \<Rightarrow> bool" where
  "wire_laws W \<longleftrightarrow> (\<forall>e \<in> {[], line_end}.
     (\<forall>m. wf_map m \<longrightarrow> (\<exists>m'. wi_claims W (wi_enc W (JObj m) @ e) = Inr (Some m') \<and> wf_map m' \<and> map_of m' = map_of m))
     \<and> (\<forall>m. wf_map m \<longrightarrow> (\<exists>m'. wi_strings W (wi_enc W (JObj (map (\<lambda>(k, v). (k, JStr v)) m)) @ e) = Inr (Some m') \<and> wf_map m' \<and> map_of m' = map_of m))
     \<and> (\<forall>ps. wi_perms W (wi_enc W (strings_json ps) @ e) = Inr (Some ps))
     \<and> (\<forall>b. wi_required W (wi_enc W (JObj [(''required'', JBool b)]) @ e) = Inr (Some b)))
   \<and> (\<forall>a. CHR ''?'' \<notin> set (wi_PathEscape W a))"

lemma find_route_fixed:
  "find_route ''GET'' ''/admin0/claims'' = Some (HGetClaims, [])"
  "find_route ''PUT'' ''/admin0/claims'' = Some (HPutClaims, [])"
  "find_route ''GET'' ''/admin0/claims/mappings'' = Some (HGetClaimMappings, [])"
  "find_route ''PUT'' ''/admin0/claims/mappings'' = Some (HPutClaimMappings, [])"
  "find_route ''GET'' ''/admin0/mfa-required'' = Some (HGetMFARequired, [])"
  "find_route ''PUT'' ''/admin0/mfa-required'' = Some (HPutMFARequired, [])"
  by code_simp+

lemma find_route_permissions:
  "find_route ''GET'' (''/admin0/permissions/'' @ x) = Some (HGetPermissions, x)"
  "find_route ''PUT'' (''/admin0/permissions/'' @ x) = Some (HPutPermissions, x)"
  "find_route ''DELETE'' (''/admin0/permissions/'' @ x) = Some (HDeletePermissions, x)"
  by (simp_all add: find_route_def Admin0_Mount_def match_pattern_def has_prefix_def Let_def)

text \<open>One call through the transport, once its route is known.\<close>

lemma sdk_do_served:
  assumes T: "T = server_transport W v E (cl_baseURL c) apierr statustext"
    and route: "find_route meth path = Some (h, param)" "CHR ''?'' \<notin> set path"
    and served: "admin_serve v h (call_of W E param (case body of None \<Rightarrow> [] | Some b \<Rightarrow> b)) d = (Inr resp, d')" "rs_status resp < 400"
  shows "sdk_do T (cl_baseURL c) meth path (map_option Inr body) dec zero d =
     ((case dec (render_body W (rs_body resp)) of
         Inl err \<Rightarrow> Inl (ErrText (''auth0mock: decode '' @ meth @ '' '' @ path @ '' response: '' @ err))
       | Inr None \<Rightarrow> Inr zero
       | Inr (Some x) \<Rightarrow> Inr x), d')"
proof -
  have path: "takeWhile (\<lambda>c. c \<noteq> CHR ''?'') path = path" using route(2) by (induction path) auto
  from served(2) show ?thesis
    by (cases body) (simp_all add: sdk_do_def T server_transport_def serve_call_def path route(1) served(1)[simplified] Let_def
        split: sum.splits option.splits, use served(1) in \<open>auto split: sum.splits option.splits\<close>)
qed

lemma sdk_send_served:
  assumes "T = server_transport W v E (cl_baseURL c) apierr statustext" "find_route meth path = Some (h, param)" "CHR ''?'' \<notin> set path"
    "admin_serve v h (call_of W E param (case body of None \<Rightarrow> [] | Some b \<Rightarrow> b)) d = (Inr resp, d')" "rs_status resp < 400"
  shows "sdk_send T meth path body c d = (Inr (), d')"
  using sdk_do_served[OF assms, of discard "()"] by (simp add: sdk_send_def discard_def)

lemma sdk_get_served:
  assumes T: "T = server_transport W v E (cl_baseURL c) apierr statustext"
    and route: "find_route ''GET'' path = Some (h, param)" "CHR ''?'' \<notin> set path"
    and served: "admin_serve v h (call_of W E param []) d = (Inr (render_json 200 j), d)"
    and dec: "dec (wi_enc W j @ line_end) = Inr (Some x)"
  shows "sdk_get T path dec zero c d = (Inr x, d)"
proof -
  have "admin_serve v h (call_of W E param (case None of None \<Rightarrow> [] | Some b \<Rightarrow> b)) d = (Inr (render_json 200 j), d)" using served by simp
  from sdk_do_served[OF T route this, of dec zero] dec show ?thesis by (simp add: sdk_get_def render_body_def)
qed

text \<open>The stores that a value goes through keep it.\<close>

lemma copy_kept: "wf_map m \<Longrightarrow> wf_map (maps_copy [] (maps_copy [] m)) \<and> map_of (maps_copy [] (maps_copy [] m)) = map_of m"
  by (simp add: maps_copy_wf maps_copy_lookup)

lemma claims_roundtrip:
  assumes laws: "wire_laws W" and T: "T = server_transport W v E (cl_baseURL c) apierr statustext"
    and st: "ad_Claims d \<noteq> None" and wf: "wf_map m"
  shows "\<exists>d' m'. ClaimsClient_Set T W m c d = (Inr (), d') \<and> ClaimsClient_Get T W c d' = (Inr m', d') \<and> map_of m' = map_of m"
proof -
  obtain s where s: "ad_Claims d = Some s" using st by auto
  obtain m1 where m1: "wi_claims W (wi_enc W (JObj m)) = Inr (Some m1)" "wf_map m1" "map_of m1 = map_of m"
    using laws wf unfolding wire_laws_def by (metis append_Nil2 insertI1)
  let ?d = "d\<lparr>ad_Claims := Some (Claims_Set m1 s)\<rparr>" and ?out = "maps_copy [] (maps_copy [] m1)"
  obtain m2 where m2: "wi_claims W (wi_enc W (JObj ?out) @ line_end) = Inr (Some m2)" "map_of m2 = map_of m"
    using laws copy_kept[OF m1(2)] m1(3) unfolding wire_laws_def by (metis insert_iff)
  have "sdk_send T ''PUT'' ''/admin0/claims'' (Some (wi_enc W (JObj m))) c d = (Inr (), ?d)"
    by (rule sdk_send_served[OF T find_route_fixed(2), where resp = "no_content 204"])
      (simp_all add: s writes_def PutClaimsHandler_def call_of_def server_decode_def m1)
  moreover have "sdk_get T ''/admin0/claims'' (wi_claims W) [] c ?d = (Inr m2, ?d)"
    by (rule sdk_get_served[OF T find_route_fixed(1), where j = "JObj ?out"])
      (simp_all add: reads_def GetClaimsHandler_def m2 Claims_Get_def Claims_Set_def)
  ultimately show ?thesis using m2(2) by (auto simp: sdk_client_defs)
qed

lemma mappings_roundtrip:
  assumes laws: "wire_laws W" and T: "T = server_transport W v E (cl_baseURL c) apierr statustext"
    and st: "ad_ClaimMappings d \<noteq> None" and wf: "wf_map m"
  shows "\<exists>d' m'. ClaimMappingsClient_Set T W m c d = (Inr (), d') \<and> ClaimMappingsClient_Get T W c d' = (Inr m', d') \<and> map_of m' = map_of m"
proof -
  let ?j = "\<lambda>m. JObj (map (\<lambda>(k, v). (k, JStr v)) m)"
  obtain s where s: "ad_ClaimMappings d = Some s" using st by auto
  obtain m1 where m1: "wi_strings W (wi_enc W (?j m)) = Inr (Some m1)" "wf_map m1" "map_of m1 = map_of m"
    using laws wf unfolding wire_laws_def by (metis append_Nil2 insertI1)
  let ?d = "d\<lparr>ad_ClaimMappings := Some (Mapping_Set m1 s)\<rparr>" and ?out = "maps_copy [] (maps_copy [] m1)"
  obtain m2 where m2: "wi_strings W (wi_enc W (?j ?out) @ line_end) = Inr (Some m2)" "map_of m2 = map_of m"
    using laws copy_kept[OF m1(2)] m1(3) unfolding wire_laws_def by (metis insert_iff)
  have "sdk_send T ''PUT'' ''/admin0/claims/mappings'' (Some (wi_enc W (?j m))) c d = (Inr (), ?d)"
    by (rule sdk_send_served[OF T find_route_fixed(4), where resp = "no_content 204"])
      (simp_all add: s writes_def PutClaimMappingsHandler_def call_of_def server_decode_def m1)
  moreover have "sdk_get T ''/admin0/claims/mappings'' (wi_strings W) [] c ?d = (Inr m2, ?d)"
    by (rule sdk_get_served[OF T find_route_fixed(3), where j = "?j ?out"])
      (simp_all add: reads_def GetClaimMappingsHandler_def m2 Mapping_Get_def Mapping_Set_def)
  ultimately show ?thesis using m2(2) by (auto simp: sdk_client_defs)
qed

lemma mfa_roundtrip:
  assumes laws: "wire_laws W" and T: "T = server_transport W v E (cl_baseURL c) apierr statustext" and st: "ad_MFA d \<noteq> None"
  shows "\<exists>d'. MFAClient_Set T W b c d = (Inr (), d') \<and> MFAClient_Get T W c d' = (Inr b, d')"
proof -
  obtain s where s: "ad_MFA d = Some s" using st by auto
  let ?j = "JObj [(''required'', JBool b)]" and ?d = "d\<lparr>ad_MFA := Some (SetRequired b s)\<rparr>"
  have dec: "wi_required W (wi_enc W ?j) = Inr (Some b)" "wi_required W (wi_enc W ?j @ line_end) = Inr (Some b)"
    using laws unfolding wire_laws_def by (metis append_Nil2 insertI1, metis insert_iff)
  have req: "IsRequired (SetRequired b s) = b" by (simp add: SetRequired_def IsRequired_def)
  have "sdk_send T ''PUT'' ''/admin0/mfa-required'' (Some (wi_enc W ?j)) c d = (Inr (), ?d)"
    by (rule sdk_send_served[OF T find_route_fixed(6), where resp = "no_content 204"])
      (simp_all add: s writes_def PutMFARequiredHandler_def call_of_def server_decode_def dec)
  moreover have "sdk_get T ''/admin0/mfa-required'' (wi_required W) False c ?d = (Inr b, ?d)"
    by (rule sdk_get_served[OF T find_route_fixed(5), where j = ?j]) (simp_all add: reads_def GetMFARequiredHandler_def req dec)
  ultimately show ?thesis by (auto simp: sdk_client_defs)
qed

lemma permissions_roundtrip:
  assumes laws: "wire_laws W" and T: "T = server_transport W v E (cl_baseURL c) apierr statustext" and s: "ad_Permissions d = Some s"
  shows "\<exists>d'. PermissionsClient_Set T W aud ps c d = (Inr (), d') \<and> PermissionsClient_Get T W aud c d' = (Inr ps, d')
    \<and> ad_Permissions d' = Some (Perm_Set (wi_capture W (wi_PathEscape W aud)) ps s)"
proof -
  let ?k = "wi_capture W (wi_PathEscape W aud)" and ?p = "''/admin0/permissions/'' @ wi_PathEscape W aud"
  let ?d = "d\<lparr>ad_Permissions := Some (Perm_Set ?k ps s)\<rparr>"
  have dec: "wi_perms W (wi_enc W (strings_json ps)) = Inr (Some ps)" "wi_perms W (wi_enc W (strings_json ps) @ line_end) = Inr (Some ps)"
    using laws unfolding wire_laws_def by (metis append_Nil2 insertI1, metis insert_iff)
  have q: "CHR ''?'' \<notin> set ?p" using laws by (simp add: wire_laws_def)
  have look: "Perm_Get ?k (Perm_Set ?k ps s) = Some ps" by (simp add: Perm_Get_def Perm_Set_def update_conv')
  have "sdk_send T ''PUT'' ?p (Some (wi_enc W (strings_json ps))) c d = (Inr (), ?d)"
    by (rule sdk_send_served[OF T find_route_permissions(2) q, where resp = "no_content 204"])
      (simp_all add: s writes_def PutPermissionsHandler_def call_of_def server_decode_def dec)
  moreover have "sdk_get T ?p (wi_perms W) [] c ?d = (Inr ps, ?d)"
    by (rule sdk_get_served[OF T find_route_permissions(1) q, where j = "strings_json ps"]) (simp_all add: reads_def GetPermissionsHandler_def call_of_def look dec)
  ultimately show ?thesis by (auto simp: sdk_client_defs audiencePath_def)
qed


section \<open>A codec for the witness\<close>

text \<open>A self-delimiting code: what follows a value never changes how it is read.\<close>

definition code_str :: "string \<Rightarrow> string" where
  "code_str s = concat (map (\<lambda>c. [CHR ''c'', c]) s) @ ''e''"

definition code_nat :: "nat \<Rightarrow> string" where
  "code_nat n = replicate n CHR ''c'' @ ''e''"

definition code_int :: "int \<Rightarrow> string" where
  "code_int i = (if i < 0 then ''-'' else ''+'') @ code_nat (nat \<bar>i\<bar>)"

fun code_json :: "json \<Rightarrow> string" where
  "code_json JNull = ''n''"
| "code_json (JBool b) = (if b then ''t'' else ''f'')"
| "code_json (JNum q) = ''q'' @ code_int (fst (quotient_of q)) @ code_int (snd (quotient_of q))"
| "code_json (JStr s) = ''s'' @ code_str s"
| "code_json (JArr xs) = ''a'' @ concat (map (\<lambda>x. ''c'' @ code_json x) xs) @ ''e''"
| "code_json (JObj m) = ''o'' @ concat (map (\<lambda>(k, v). ''c'' @ code_str k @ code_json v) m) @ ''e''"

definition prefix_free :: "('a \<Rightarrow> string) \<Rightarrow> 'a \<Rightarrow> bool" where
  "prefix_free f x \<longleftrightarrow> (\<forall>y r r'. f x @ r = f y @ r' \<longrightarrow> x = y \<and> r = r')"

lemma prefix_freeD: "prefix_free f x \<Longrightarrow> f x @ r = f y @ r' \<Longrightarrow> x = y \<and> r = r'"
  by (simp add: prefix_free_def)

lemma code_list_prefix_free:
  assumes "\<forall>x \<in> set xs. prefix_free f x"
  shows "prefix_free (\<lambda>xs. concat (map (\<lambda>x. ''c'' @ f x) xs) @ ''e'') xs"
  using assms
proof (induction xs)
  case Nil
  show ?case unfolding prefix_free_def
  proof (intro allI impI)
    fix y :: "'a list" and r r'
    assume "(concat (map (\<lambda>x. ''c'' @ f x) []) @ ''e'') @ r = (concat (map (\<lambda>x. ''c'' @ f x) y) @ ''e'') @ r'"
    then show "[] = y \<and> r = r'" by (cases y) auto
  qed
next
  case (Cons x xs)
  show ?case unfolding prefix_free_def
  proof (intro allI impI)
    fix y :: "'a list" and r r'
    assume eq: "(concat (map (\<lambda>x. ''c'' @ f x) (x # xs)) @ ''e'') @ r = (concat (map (\<lambda>x. ''c'' @ f x) y) @ ''e'') @ r'"
    then obtain z zs where y: "y = z # zs" by (cases y) auto
    with eq have step: "f x @ (concat (map (\<lambda>x. ''c'' @ f x) xs) @ ''e'') @ r = f z @ (concat (map (\<lambda>x. ''c'' @ f x) zs) @ ''e'') @ r'" by simp
    have px: "prefix_free f x" using Cons.prems by simp
    from prefix_freeD[where f = f and x = x and y = z, OF px step]
    have xz: "x = z" and rest: "(concat (map (\<lambda>x. ''c'' @ f x) xs) @ ''e'') @ r = (concat (map (\<lambda>x. ''c'' @ f x) zs) @ ''e'') @ r'"
      by simp_all
    have "prefix_free (\<lambda>xs. concat (map (\<lambda>x. ''c'' @ f x) xs) @ ''e'') xs" using Cons by simp
    from prefix_freeD[OF this rest] have "xs = zs \<and> r = r'" .
    with xz show "x # xs = y \<and> r = r'" by (simp add: y)
  qed
qed

lemma code_str_prefix_free: "prefix_free code_str s"
proof -
  have "\<forall>c \<in> set s. prefix_free (\<lambda>c. [c]) c" by (simp add: prefix_free_def)
  from code_list_prefix_free[OF this] show ?thesis unfolding code_str_def[abs_def] by simp
qed

lemma code_int_prefix_free: "prefix_free code_int i"
proof -
  have n: "code_nat a @ r = code_nat b @ r' \<Longrightarrow> a = b \<and> r = r'" for a b r r'
  proof (induction a arbitrary: b)
    case 0
    then show ?case by (cases b) (simp_all add: code_nat_def)
  next
    case (Suc a)
    then show ?case by (cases b) (simp_all add: code_nat_def)
  qed
  show ?thesis unfolding prefix_free_def code_int_def
  proof (intro allI impI)
    fix y :: int and r r'
    assume "((if i < 0 then ''-'' else ''+'') @ code_nat (nat \<bar>i\<bar>)) @ r = ((if y < 0 then ''-'' else ''+'') @ code_nat (nat \<bar>y\<bar>)) @ r'"
    then have "(i < 0) = (y < 0)" "code_nat (nat \<bar>i\<bar>) @ r = code_nat (nat \<bar>y\<bar>) @ r'" by (auto split: if_splits)
    with n[OF this(2)] show "i = y \<and> r = r'" by auto
  qed
qed

lemma prefix_freeI:
  "(\<And>y r r'. code x @ r = code y @ r' \<Longrightarrow> x = y \<and> r = r') \<Longrightarrow> prefix_free code x"
  by (auto simp: prefix_free_def)

lemma code_rat_prefix_free:
  assumes "code_int (fst (quotient_of q)) @ code_int (snd (quotient_of q)) @ r
    = code_int (fst (quotient_of p)) @ code_int (snd (quotient_of p)) @ r'"
  shows "q = p \<and> r = r'"
proof -
  from prefix_freeD[OF code_int_prefix_free assms] have fst: "fst (quotient_of q) = fst (quotient_of p)"
    and rest: "code_int (snd (quotient_of q)) @ r = code_int (snd (quotient_of p)) @ r'" by simp_all
  from prefix_freeD[OF code_int_prefix_free rest] fst show ?thesis
    by (simp add: prod_eq_iff quotient_of_inject_eq[symmetric])
qed

lemma code_field_prefix_free:
  assumes "prefix_free code_json (snd p)"
  shows "prefix_free (\<lambda>(k, v). code_str k @ code_json v) p"
proof (rule prefix_freeI)
  fix y r r'
  assume "(case p of (k, v) \<Rightarrow> code_str k @ code_json v) @ r = (case y of (k, v) \<Rightarrow> code_str k @ code_json v) @ r'"
  then have "code_str (fst p) @ code_json (snd p) @ r = code_str (fst y) @ code_json (snd y) @ r'"
    by (simp add: case_prod_beta)
  from prefix_freeD[OF code_str_prefix_free this]
  have "fst p = fst y" and "code_json (snd p) @ r = code_json (snd y) @ r'" by simp_all
  with prefix_freeD[OF assms] show "p = y \<and> r = r'" by (auto simp: prod_eq_iff)
qed

lemma code_obj_form:
  "code_json (JObj m) = ''o'' @ concat (map (\<lambda>x. ''c'' @ (\<lambda>(k, v). code_str k @ code_json v) x) m) @ ''e''"
  by (auto intro!: arg_cong[where f = concat])

lemma code_leaf_prefix_free:
  "code_json JNull @ r = code_json y @ r' \<Longrightarrow> JNull = y \<and> r = r'"
  "code_json (JBool b) @ r = code_json y @ r' \<Longrightarrow> JBool b = y \<and> r = r'"
  "code_json (JNum q) @ r = code_json y @ r' \<Longrightarrow> JNum q = y \<and> r = r'"
  "code_json (JStr s) @ r = code_json y @ r' \<Longrightarrow> JStr s = y \<and> r = r'"
  by (cases y; auto split: if_splits dest: code_rat_prefix_free prefix_freeD[OF code_str_prefix_free])+

lemma code_json_prefix_free: "prefix_free code_json j"
proof (induction j)
  case JNull
  show ?case by (rule prefix_freeI) (rule code_leaf_prefix_free(1))
next
  case (JBool b)
  show ?case by (rule prefix_freeI) (rule code_leaf_prefix_free(2))
next
  case (JNum q)
  show ?case by (rule prefix_freeI) (rule code_leaf_prefix_free(3))
next
  case (JStr s)
  show ?case by (rule prefix_freeI) (rule code_leaf_prefix_free(4))
next
  case (JArr xs)
  show ?case
  proof (rule prefix_freeI)
    fix y r r'
    assume eq: "code_json (JArr xs) @ r = code_json y @ r'"
    then obtain ys where y: "y = JArr ys" by (cases y) (auto split: if_splits)
    from eq y have "(concat (map (\<lambda>x. ''c'' @ code_json x) xs) @ ''e'') @ r = (concat (map (\<lambda>x. ''c'' @ code_json x) ys) @ ''e'') @ r'" by simp
    from prefix_freeD[OF code_list_prefix_free this] JArr y show "JArr xs = y \<and> r = r'" by simp
  qed
next
  case (JObj m)
  let ?f = "\<lambda>(k, v). code_str k @ code_json v"
  have fields: "prefix_free ?f p" if "p \<in> set m" for p
    using that JObj by (intro code_field_prefix_free) (cases p, auto)
  show ?case
  proof (rule prefix_freeI)
    fix y r r'
    assume eq: "code_json (JObj m) @ r = code_json y @ r'"
    then obtain m' where y: "y = JObj m'" by (cases y) (auto split: if_splits)
    from eq have "(concat (map (\<lambda>x. ''c'' @ ?f x) m) @ ''e'') @ r = (concat (map (\<lambda>x. ''c'' @ ?f x) m') @ ''e'') @ r'"
      unfolding y code_obj_form by simp
    from prefix_freeD[OF code_list_prefix_free this] fields y show "JObj m = y \<and> r = r'" by simp
  qed
qed

lemma code_json_inj: "code_json a = code_json b \<Longrightarrow> a = b"
  using code_json_prefix_free[of a] unfolding prefix_free_def by (metis append_Nil2)

lemma code_json_newline: "code_json a = code_json b @ line_end \<Longrightarrow> False"
  using code_json_prefix_free[of a] unfolding prefix_free_def line_end_def by (metis append_Nil2 list.distinct(1))

definition demo_dec :: "('a \<Rightarrow> json) \<Rightarrow> string \<Rightarrow> string + 'a option" where
  "demo_dec f t = (if \<exists>x. t = code_json (f x) \<or> t = code_json (f x) @ line_end
     then Inr (Some (SOME x. t = code_json (f x) \<or> t = code_json (f x) @ line_end)) else Inl ''bad'')"

lemma demo_dec_law:
  assumes "inj f" "e \<in> {[], line_end}"
  shows "demo_dec f (code_json (f x) @ e) = Inr (Some x)"
proof -
  let ?P = "\<lambda>y. code_json (f x) @ e = code_json (f y) \<or> code_json (f x) @ e = code_json (f y) @ line_end"
  have "?P x" using assms(2) by auto
  moreover have "y = x" if "?P y" for y
  proof -
    have "code_json (f x) = code_json (f y)"
      using that assms(2) code_json_newline[of "f y" "f x"] code_json_newline[of "f x" "f y"] by (auto simp: eq_commute)
    then show ?thesis using code_json_inj assms(1) by (metis injD)
  qed
  ultimately have "(SOME y. ?P y) = x" by (rule some_equality)
  with \<open>?P x\<close> show ?thesis unfolding demo_dec_def by auto
qed

definition demo_wire :: wire where
  "demo_wire = \<lparr>wi_enc = code_json, wi_claims = demo_dec JObj, wi_strings = demo_dec (\<lambda>m. JObj (map (\<lambda>(k, v). (k, JStr v)) m)),
     wi_perms = demo_dec strings_json, wi_permmap = (\<lambda>_. Inl []), wi_required = demo_dec (\<lambda>b. JObj [(''required'', JBool b)]),
     wi_clock = (\<lambda>_. Inl []), wi_count = (\<lambda>_. Inl []), wi_expired = (\<lambda>_. Inl []), wi_rule = (\<lambda>_. Inl []), wi_rules = (\<lambda>_. Inl []),
     wi_rule_json = (\<lambda>_. []), wi_PathEscape = code_str \<circ> filter (\<lambda>c. c \<noteq> CHR ''?''), wi_QueryEscape = (\<lambda>s. s),
     wi_format_time = (\<lambda>_. []), wi_parse_time = (\<lambda>_. Inl []), wi_format_dur = (\<lambda>_. []), wi_parse_dur = (\<lambda>_. Inl []),
     wi_quote = (\<lambda>s. s), wi_raw = Inr, wi_mgmt = (\<lambda>_. []), wi_auth = (\<lambda>_. []), wi_capture = (\<lambda>s. s)\<rparr>"

lemma demo_wire_laws: "wire_laws demo_wire"
proof -
  have i: "inj JObj" "inj (\<lambda>m. JObj (map (\<lambda>(k, v). (k, JStr v)) m))" "inj strings_json" "inj (\<lambda>b. JObj [(''required'', JBool b)])"
    by (auto simp: inj_def strings_json_def inj_map_eq_map)
  show ?thesis unfolding wire_laws_def demo_wire_def
    by (simp add: demo_dec_law[OF i(1)] demo_dec_law[OF i(2)] demo_dec_law[OF i(3)] demo_dec_law[OF i(4)] code_str_def
        del: code_json.simps)
qed


end
