(* ===== verification/Sdk_Stream.thy ===== *)
theory Sdk_Stream
  imports Sdk_Clients
begin

text \<open>
  The test helpers of \<^verbatim>\<open>pkg/auth0mock/auth0mocktest\<close> for the event stream: the reader goroutine of a
  subscription, which parses the frames of the stream into a channel of sixteen events, its consumer
  \<^verbatim>\<open>NextEvent\<close>, the cleanup of a test, and \<^verbatim>\<open>WaitForActiveSubscribers\<close>. The frames come as lines;
  \<^verbatim>\<open>bufio.Reader\<close> splits them.
\<close>

section \<open>Parsing frames\<close>

record SSEEvent =
  sv_ID :: string
  sv_Type :: string
  sv_Data :: string

definition no_event :: SSEEvent where
  "no_event = \<lparr>sv_ID = [], sv_Type = [], sv_Data = []\<rparr>"

definition trim_eol :: "string \<Rightarrow> string" where
  "trim_eol line = rev (dropWhile (\<lambda>c. c = CHR 0x0D \<or> c = CHR 0x0A) (rev line))"

definition after_prefix :: "string \<Rightarrow> string \<Rightarrow> string" where
  "after_prefix line pre = trim_space (drop (length pre) line)"

text \<open>One line of the stream: the event that is complete, if any, and the frame that is being read.\<close>

definition read_line :: "string \<Rightarrow> SSEEvent \<times> bool \<Rightarrow> SSEEvent option \<times> SSEEvent \<times> bool" where
  "read_line line0 cur_has = (case cur_has of (cur, hasContent) \<Rightarrow>
     (let line = trim_eol line0
      in if line = [] then ((if hasContent then Some cur else None), no_event, False)
         else if has_prefix line '':'' then (None, cur, hasContent)
         else if has_prefix line ''id:'' then (None, cur\<lparr>sv_ID := after_prefix line ''id:''\<rparr>, True)
         else if has_prefix line ''event:'' then (None, cur\<lparr>sv_Type := after_prefix line ''event:''\<rparr>, True)
         else if has_prefix line ''data:'' then
           (let dat = after_prefix line ''data:'';
                old = (if length (sv_Data cur) > 0 then sv_Data cur @ [CHR 0x0A] else sv_Data cur)
            in (None, cur\<lparr>sv_Data := old @ dat\<rparr>, True))
         else (None, cur, hasContent)))"

fun read_lines :: "string list \<Rightarrow> SSEEvent \<times> bool \<Rightarrow> SSEEvent list" where
  "read_lines [] st = []"
| "read_lines (l # ls) st = (case read_line l st of (ev, st') \<Rightarrow> (case ev of None \<Rightarrow> [] | Some e \<Rightarrow> [e]) @ read_lines ls st')"

section \<open>The reader goroutine\<close>

text \<open>
  The state of a subscription: the lines that have not been read, the frame that is being read, an
  event that waits for room in the channel, the channel, whether the context is cancelled, the error
  slot, whether \<^verbatim>\<open>stopped\<close> is closed, and what \<^verbatim>\<open>NextEvent\<close> has taken.
\<close>

definition events_cap :: nat where
  "events_cap = 16"

record SSEStream =
  st_lines :: "string list"
  st_cur :: "SSEEvent \<times> bool"
  st_sending :: "SSEEvent option"
  st_events :: "SSEEvent list"
  st_cancelled :: bool
  st_errc :: "string option"
  st_stopped :: bool
  st_taken :: "SSEEvent list"

definition new_stream :: "string list \<Rightarrow> SSEStream" where
  "new_stream ls = \<lparr>st_lines = ls, st_cur = (no_event, False), st_sending = None, st_events = [], st_cancelled = False,
     st_errc = None, st_stopped = False, st_taken = []\<rparr>"

text \<open>
  \<^verbatim>\<open>SubscribeEvents\<close>: the stream, or the message the test fails with. \<open>open_stream\<close> sends the request and
  gives the status, the header and the lines of the body.
\<close>

definition SubscribeEvents :: "(string \<Rightarrow> string option) \<Rightarrow> (http_call \<Rightarrow> string + (int \<times> http_header \<times> string list)) \<Rightarrow> (string \<Rightarrow> string)
    \<Rightarrow> Client \<Rightarrow> string \<Rightarrow> string \<Rightarrow> string + SSEStream" where
  "SubscribeEvents build open_stream quote c token query =
     (let url = BaseURL c @ ''/api/v2/events'' @ (if query \<noteq> [] then ''?'' @ query else [])
      in case build url of
           Some err \<Rightarrow> Inl (''auth0mocktest: subscribe: build request: '' @ err)
         | None \<Rightarrow>
             (case open_stream \<lparr>hc_method = ''GET'', hc_url = url,
                   hc_header = [(''Authorization'', [''Bearer '' @ token]), (''Accept'', [''text/event-stream''])], hc_body = None\<rparr> of
                Inl err \<Rightarrow> Inl (''auth0mocktest: subscribe: do: '' @ err)
              | Inr (status, hdr, ls) \<Rightarrow>
                  if status \<noteq> 200 then Inl (''auth0mocktest: subscribe: status '' @ itoa status @ '' (want 200)'')
                  else if \<not> str_contains (header_get hdr ''Content-Type'') ''text/event-stream'' then
                    Inl (''auth0mocktest: subscribe: Content-Type '' @ quote (header_get hdr ''Content-Type'') @ '' (want text/event-stream)'')
                  else Inr (new_stream ls)))"

text \<open>
  Steps. The reader reads a line, sends the event it holds when the channel has room, and stops when
  reading fails, at the end of the stream or once the context is cancelled (lines that were buffered may
  still be read then); while it waits to send,
  the other branch of the \<^verbatim>\<open>select\<close>, a receive from \<^verbatim>\<open>stopped\<close>, is only ready when \<^verbatim>\<open>stopped\<close> is closed,
  which the reader itself does when it returns. The test takes an event, and cancels.
\<close>

inductive stream_step :: "SSEStream \<Rightarrow> SSEStream \<Rightarrow> bool" where
  read: "\<not> st_stopped s \<Longrightarrow> st_sending s = None \<Longrightarrow> st_lines s = l # ls \<Longrightarrow> read_line l (st_cur s) = (ev, cur') \<Longrightarrow>
     stream_step s (s\<lparr>st_lines := ls, st_cur := cur', st_sending := ev\<rparr>)"
| send: "\<not> st_stopped s \<Longrightarrow> st_sending s = Some e \<Longrightarrow> length (st_events s) < events_cap \<Longrightarrow>
     stream_step s (s\<lparr>st_sending := None, st_events := st_events s @ [e]\<rparr>)"
| give_up: "st_stopped s \<Longrightarrow> st_sending s = Some e \<Longrightarrow> stream_step s (s\<lparr>st_sending := None\<rparr>)"
| fail: "\<not> st_stopped s \<Longrightarrow> st_sending s = None \<Longrightarrow> st_cancelled s \<or> st_lines s = [] \<Longrightarrow>
     stream_step s (s\<lparr>st_stopped := True,
       st_errc := (if st_cancelled s then st_errc s else case st_errc s of None \<Rightarrow> Some ''EOF'' | Some e \<Rightarrow> Some e)\<rparr>)"
| take_event: "st_events s = e # es \<Longrightarrow> stream_step s (s\<lparr>st_events := es, st_taken := st_taken s @ [e]\<rparr>)"
| cancel: "stream_step s (s\<lparr>st_cancelled := True\<rparr>)"

inductive stream_run :: "SSEStream \<Rightarrow> SSEStream \<Rightarrow> bool" where
  start: "stream_run s s"
| step: "stream_run s t \<Longrightarrow> stream_step t u \<Longrightarrow> stream_run s u"

text \<open>
  \<^verbatim>\<open>NextEvent\<close>: a \<^verbatim>\<open>select\<close> over the channel of events, the error slot and a timer. \<open>branch\<close> is the branch that is
  taken, which must be ready; when several are ready the runtime picks any of them. \<open>late\<close> is the timeout
  as it is printed. \<^verbatim>\<open>Close\<close> cancels the context.
\<close>

datatype select_branch = OnEvent | OnError | OnTimeout

definition NextEvent :: "select_branch \<Rightarrow> string \<Rightarrow> SSEStream \<Rightarrow> ((string + SSEEvent) \<times> SSEStream) option" where
  "NextEvent branch late s = (case branch of
      OnEvent \<Rightarrow> (case st_events s of [] \<Rightarrow> None | e # es \<Rightarrow> Some (Inr e, s\<lparr>st_events := es, st_taken := st_taken s @ [e]\<rparr>))
    | OnError \<Rightarrow> (case st_errc s of None \<Rightarrow> None | Some err \<Rightarrow> Some (Inl (''auth0mocktest: NextEvent: stream error: '' @ err), s\<lparr>st_errc := None\<rparr>))
    | OnTimeout \<Rightarrow> Some (Inl (''auth0mocktest: NextEvent: timeout after '' @ late), s))"

definition Close :: "SSEStream \<Rightarrow> SSEStream" where
  "Close s = s\<lparr>st_cancelled := True\<rparr>"

text \<open>An event that \<^verbatim>\<open>NextEvent\<close> returns is the oldest of the channel, and taking it is a step of the stream; so is \<^verbatim>\<open>Close\<close>.\<close>

lemma next_event_step: "NextEvent OnEvent late s = Some (r, t) \<Longrightarrow> stream_step s t \<and> (\<exists>e es. st_events s = e # es \<and> r = Inr e)"
  by (cases "st_events s") (auto simp: NextEvent_def intro: stream_step.take_event)

lemma close_step: "stream_step s (Close s)"
  unfolding Close_def by (rule stream_step.cancel)

inductive_cases stream_stepE: "stream_step s t"

text \<open>What the reader still owes: the event it holds and the events of the lines it has not read.\<close>

definition owed :: "SSEStream \<Rightarrow> SSEEvent list" where
  "owed s = (case st_sending s of None \<Rightarrow> [] | Some e \<Rightarrow> [e]) @ read_lines (st_lines s) (st_cur s)"

lemma stream_conserves:
  assumes "stream_run s t" "st_stopped s \<longrightarrow> st_sending s = None"
  shows "st_taken t @ st_events t @ owed t = st_taken s @ st_events s @ owed s \<and> (st_stopped t \<longrightarrow> st_sending t = None)"
  using assms
proof (induction rule: stream_run.induct)
  case (step s t u)
  then have ih: "st_taken t @ st_events t @ owed t = st_taken s @ st_events s @ owed s" "st_stopped t \<longrightarrow> st_sending t = None" by auto
  from step.hyps(2) show ?case
    using ih by cases (auto simp: owed_def split: option.splits prod.splits)
qed simp

text \<open>
  The reader cannot be stopped while it waits: when the channel is full, it holds an event and the test
  takes nothing more, \<^verbatim>\<open>stopped\<close> is never closed, cancelled or not, and the cleanup, which waits for it,
  does not return.
\<close>

lemma reader_stuck:
  assumes "stream_run s t" "st_taken t = st_taken s"
    and "\<not> st_stopped s" "st_sending s = Some e" "length (st_events s) = events_cap"
  shows "\<not> st_stopped t \<and> st_sending t = Some e \<and> length (st_events t) = events_cap"
proof -
  have mono: "length (st_taken s) \<le> length (st_taken t)" if "stream_run s t" for s t
    using that by (induction rule: stream_run.induct) (auto elim!: stream_stepE)
  have "length (st_taken t) = length (st_taken s) \<longrightarrow> \<not> st_stopped t \<and> st_sending t = Some e \<and> length (st_events t) = events_cap"
    using assms(1,3-)
  proof (induction rule: stream_run.induct)
    case (step s t u)
    have "length (st_taken s) \<le> length (st_taken t)" using mono[OF step.hyps(1)] .
    moreover have "length (st_taken t) \<le> length (st_taken u)" using step.hyps(2) by (auto elim!: stream_stepE)
    ultimately show ?case using step.IH[OF step.prems] step.hyps(2) by (auto elim!: stream_stepE)
  qed simp
  then show ?thesis using assms(2) by simp
qed

section \<open>Frames come back\<close>

text \<open>An event as the stream format frames it, one data field per line of its data, comments before it.\<close>

definition sse_frame :: "string list \<Rightarrow> string \<Rightarrow> string \<Rightarrow> string list \<Rightarrow> string list" where
  "sse_frame comments i t ds =
     map (\<lambda>c. '':'' @ c @ line_end) comments @ [''id: '' @ i @ line_end, ''event: '' @ t @ line_end]
     @ map (\<lambda>d. ''data: '' @ d @ line_end) ds @ [line_end]"

definition field_ok :: "string \<Rightarrow> bool" where
  "field_ok s \<longleftrightarrow> s \<noteq> [] \<and> trim_space s = s"

lemma field_ok_last:
  assumes "field_ok s"
  shows "\<not> is_space (last s)"
proof -
  let ?t = "dropWhile is_space s"
  have l: "length (dropWhile is_space (rev ?t)) = length s" using assms by (simp add: field_ok_def trim_space_def) (metis length_rev)
  have a: "length (dropWhile is_space (rev ?t)) \<le> length ?t" using length_dropWhile_le[of is_space "rev ?t"] by simp
  have "length s = length (takeWhile is_space s) + length ?t" by (metis length_append takeWhile_dropWhile_id)
  then have "takeWhile is_space s = []" using l a by simp
  then have t: "?t = s" by (metis append_Nil takeWhile_dropWhile_id)
  then have "dropWhile is_space (rev s) = rev s"
    using assms by (simp add: field_ok_def trim_space_def) (metis rev_rev_ident)
  then show ?thesis using hd_dropWhile[of is_space "rev s"] assms by (simp add: field_ok_def hd_rev)
qed

lemma trim_eol_field:
  assumes "field_ok s"
  shows "trim_eol (pre @ s @ line_end) = pre @ s" "trim_space (CHR 0x20 # s) = s"
proof -
  have "last s \<noteq> CHR 0x0D" "last s \<noteq> CHR 0x0A" using field_ok_last[OF assms] by (auto simp: is_space_def)
  moreover obtain xs where "s = xs @ [last s]" using assms by (metis append_butlast_last_id field_ok_def)
  then obtain c where "s = xs @ [c]" "last s = c" by blast
  ultimately show "trim_eol (pre @ s @ line_end) = pre @ s" by (simp add: trim_eol_def line_end_def)
  show "trim_space (CHR 0x20 # s) = s" using assms by (simp add: field_ok_def trim_space_def is_space_def)
qed

lemma read_id: "field_ok i \<Longrightarrow> read_line (''id: '' @ i @ line_end) (cur, hc) = (None, cur\<lparr>sv_ID := i\<rparr>, True)"
  using trim_eol_field(1)[of i "''id: ''"] trim_eol_field(2)[of i] by (simp add: read_line_def has_prefix_def after_prefix_def Let_def)

lemma read_event: "field_ok t \<Longrightarrow> read_line (''event: '' @ t @ line_end) (cur, hc) = (None, cur\<lparr>sv_Type := t\<rparr>, True)"
  using trim_eol_field(1)[of t "''event: ''"] trim_eol_field(2)[of t] by (simp add: read_line_def has_prefix_def after_prefix_def Let_def)

lemma read_data: "field_ok d \<Longrightarrow> read_line (''data: '' @ d @ line_end) (cur, hc) =
    (None, cur\<lparr>sv_Data := (if sv_Data cur = [] then [] else sv_Data cur @ line_end) @ d\<rparr>, True)"
  using trim_eol_field(1)[of d "''data: ''"] trim_eol_field(2)[of d] by (simp add: read_line_def has_prefix_def after_prefix_def Let_def line_end_def)

lemma read_comment: "read_line ('':'' @ c @ line_end) st = (None, st)"
proof -
  have "\<exists>xs. dropWhile P (ys @ [CHR '':'']) = xs @ [CHR '':'']" if "\<not> P CHR '':''" for P ys using that by (induction ys) auto
  from this[of "\<lambda>c. c = CHR 0x0D \<or> c = CHR 0x0A" "rev (c @ line_end)"]
  obtain xs where "dropWhile (\<lambda>c. c = CHR 0x0D \<or> c = CHR 0x0A) (rev (c @ line_end) @ [CHR '':'']) = xs @ [CHR '':'']" by auto
  then have "trim_eol ('':'' @ c @ line_end) = '':'' @ rev xs" by (simp add: trim_eol_def)
  then show ?thesis by (cases st) (simp add: read_line_def has_prefix_def Let_def)
qed

lemma read_end: "read_line line_end (cur, hc) = ((if hc then Some cur else None), no_event, False)"
  by (simp add: read_line_def trim_eol_def line_end_def Let_def)

lemma str_join_cons: "str_join sep (x # y # ys) = str_join sep ((x @ sep @ y) # ys)"
  by (cases ys) simp_all

lemma read_datas:
  assumes "list_all field_ok ds"
  shows "read_lines (map (\<lambda>d. ''data: '' @ d @ line_end) ds @ rest) (cur, True) =
     read_lines rest (cur\<lparr>sv_Data := str_join line_end (if sv_Data cur = [] then ds else sv_Data cur # ds)\<rparr>, True)"
  using assms
proof (induction ds arbitrary: cur)
  case Nil
  then show ?case by (cases cur) simp
next
  case (Cons d ds)
  let ?c = "cur\<lparr>sv_Data := (if sv_Data cur = [] then [] else sv_Data cur @ line_end) @ d\<rparr>"
  have d: "field_ok d" "d \<noteq> []" using Cons.prems by (simp_all add: field_ok_def)
  have "read_lines (map (\<lambda>d. ''data: '' @ d @ line_end) (d # ds) @ rest) (cur, True) =
      read_lines (map (\<lambda>d. ''data: '' @ d @ line_end) ds @ rest) (?c, True)"
    using read_data[OF d(1), of cur True] by simp
  also have "\<dots> = read_lines rest (?c\<lparr>sv_Data := str_join line_end (sv_Data ?c # ds)\<rparr>, True)"
    using Cons d(2) by simp
  also have "str_join line_end (sv_Data ?c # ds) = str_join line_end (if sv_Data cur = [] then d # ds else sv_Data cur # d # ds)"
    by (cases ds) (simp_all add: str_join_cons)
  finally show ?case by simp
qed

lemma read_comments: "read_lines (map (\<lambda>c. '':'' @ c @ line_end) comments @ rest) st = read_lines rest st"
proof (induction comments)
  case (Cons c comments)
  then show ?case using read_comment[of c st] by simp
qed simp

lemma read_frame:
  assumes "field_ok i" "field_ok t" "list_all field_ok ds"
  shows "read_lines (sse_frame comments i t ds @ rest) (no_event, False) =
     \<lparr>sv_ID = i, sv_Type = t, sv_Data = str_join line_end ds\<rparr> # read_lines rest (no_event, False)"
proof -
  let ?e = "no_event\<lparr>sv_ID := i, sv_Type := t\<rparr>"
  have "read_lines (sse_frame comments i t ds @ rest) (no_event, False) =
      read_lines ([''id: '' @ i @ line_end, ''event: '' @ t @ line_end] @ map (\<lambda>d. ''data: '' @ d @ line_end) ds @ line_end # rest) (no_event, False)"
    unfolding sse_frame_def using read_comments by simp
  also have "\<dots> = read_lines (map (\<lambda>d. ''data: '' @ d @ line_end) ds @ line_end # rest) (?e, True)"
    using read_id[OF assms(1)] read_event[OF assms(2)] by simp
  also have "\<dots> = read_lines (line_end # rest) (?e\<lparr>sv_Data := str_join line_end ds\<rparr>, True)"
    unfolding read_datas[OF assms(3)] by (simp add: no_event_def)
  finally show ?thesis by (simp add: read_end no_event_def)
qed

lemma run_first: "stream_run t u \<Longrightarrow> stream_step s t \<Longrightarrow> stream_run s u"
  by (induction rule: stream_run.induct) (blast intro: stream_run.intros)+

lemma run_trans: "stream_run t u \<Longrightarrow> stream_run s t \<Longrightarrow> stream_run s u"
  by (induction rule: stream_run.induct) (blast intro: stream_run.intros)+

lemma stopped_done:
  assumes "stream_run s t" "st_stopped s \<longrightarrow> st_cancelled s \<or> owed s = []"
  shows "st_stopped t \<longrightarrow> st_cancelled t \<or> owed t = []"
  using assms
proof (induction rule: stream_run.induct)
  case (step s t u)
  from step.hyps(2) show ?case using step.IH[OF step.prems] by cases (auto simp: owed_def split: option.splits)
qed simp

text \<open>As long as the reader runs, the test can take everything: a line becomes at most one event.\<close>

lemma all_delivered:
  assumes "\<not> st_stopped s"
  shows "\<exists>t. stream_run s t \<and> st_events t = [] \<and> owed t = []"
  using assms
proof (induction "3 * length (st_lines s) + (case st_sending s of None \<Rightarrow> 0 | Some _ \<Rightarrow> 2) + length (st_events s)" arbitrary: s rule: less_induct)
  case less
  consider (take) e es where "st_events s = e # es" | (send) e where "st_events s = []" "st_sending s = Some e"
    | (read) l ls where "st_events s = []" "st_sending s = None" "st_lines s = l # ls" | (idle) "st_events s = []" "st_sending s = None" "st_lines s = []"
    by (cases "st_events s"; cases "st_sending s"; cases "st_lines s") auto
  then show ?case
  proof cases
    case take
    let ?t = "s\<lparr>st_events := es, st_taken := st_taken s @ [e]\<rparr>"
    have "stream_step s ?t" by (rule take_event[OF take])
    moreover have "\<exists>u. stream_run ?t u \<and> st_events u = [] \<and> owed u = []" using less take by simp
    ultimately show ?thesis using run_first by blast
  next
    case send
    let ?t = "s\<lparr>st_sending := None, st_events := st_events s @ [e]\<rparr>"
    have "stream_step s ?t" by (rule stream_step.send) (use less.prems send in \<open>simp_all add: events_cap_def\<close>)
    moreover have "\<exists>u. stream_run ?t u \<and> st_events u = [] \<and> owed u = []" using less send by simp
    ultimately show ?thesis using run_first by blast
  next
    case read
    obtain ev cur' where rl: "read_line l (st_cur s) = (ev, cur')" by (metis surj_pair)
    let ?t = "s\<lparr>st_lines := ls, st_cur := cur', st_sending := ev\<rparr>"
    have "stream_step s ?t" by (rule stream_step.read[OF less.prems read(2,3) rl])
    moreover have "\<exists>u. stream_run ?t u \<and> st_events u = [] \<and> owed u = []" using less read by (simp split: option.splits)
    ultimately show ?thesis using run_first by blast
  next
    case idle
    then have "owed s = []" by (simp add: owed_def)
    then show ?thesis using idle(1) stream_run.start by blast
  qed
qed



section \<open>Waiting for subscribers\<close>

text \<open>
  \<^verbatim>\<open>WaitForActiveSubscribers\<close>: the test fails when a call fails or the deadline passes. The readings of
  the clock are a list, as is what happens to the server between two polls; a run that has no reading
  left has not ended.
\<close>

datatype wait_result = Reached | FailedCall sdk_error | TimedOut int | Waiting

fun WaitForActiveSubscribers :: "'w transport \<Rightarrow> wire \<Rightarrow> Client \<Rightarrow> int \<Rightarrow> time \<Rightarrow> (time \<times> ('w \<Rightarrow> 'w)) list \<Rightarrow> 'w \<Rightarrow> wait_result \<times> 'w" where
  "WaitForActiveSubscribers T W c want deadline [] w = (Waiting, w)"
| "WaitForActiveSubscribers T W c want deadline ((now, between) # polls) w =
     (case EventsClient_Subscribers T W c w of
        (Inl err, w') \<Rightarrow> (FailedCall err, w')
      | (Inr sc, w') \<Rightarrow>
          if su_Active sc = want then (Reached, w')
          else if deadline < now then (TimedOut (su_Active sc), w')
          else WaitForActiveSubscribers T W c want deadline polls (between w'))"

lemma wait_ends: "\<exists>p \<in> set polls. deadline < fst p \<Longrightarrow> fst (WaitForActiveSubscribers T W c want deadline polls w) \<noteq> Waiting"
proof (induction polls arbitrary: w)
  case (Cons p polls)
  obtain now between where p: "p = (now, between)" by (cases p)
  obtain r w' where r: "EventsClient_Subscribers T W c w = (r, w')" by fastforce
  show ?case
  proof (cases r)
    case (Inr sc)
    have "\<exists>p \<in> set polls. deadline < fst p" if "\<not> deadline < now" using Cons.prems that p by auto
    with Cons.IH[of "between w'"] show ?thesis by (auto simp: p r Inr)
  qed (simp add: p r)
qed simp

section \<open>Pushing an event\<close>

text \<open>\<^verbatim>\<open>MustPush\<close>: the push, or the message the test fails with.\<close>

definition MustPush :: "'w transport \<Rightarrow> wire \<Rightarrow> string \<Rightarrow> Client \<Rightarrow> 'w \<Rightarrow> (string + unit) \<times> 'w" where
  "MustPush T W payload c w = (case EventsClient_Push T W payload c w of
      (Inl err, w') \<Rightarrow> (Inl (''auth0mocktest: events: push: '' @ error_of T err), w')
    | (Inr _, w') \<Rightarrow> (Inr (), w'))"

section \<open>Finding a call\<close>

text \<open>\<^verbatim>\<open>MustFindCall\<close>: the last call that the filter admits, or the message the test fails with.\<close>

definition MustFindCall :: "'w transport \<Rightarrow> sdk_codec \<Rightarrow> string \<Rightarrow> string \<Rightarrow> Client \<Rightarrow> 'w \<Rightarrow> (string + JournalEntry) \<times> 'w" where
  "MustFindCall T K meth path c w = (case JournalClient_List T K meth path c w of
      (Inl err, w1) \<Rightarrow> (Inl (''auth0mocktest: list journal: '' @ error_of T err), w1)
    | (Inr entries, w1) \<Rightarrow>
        if length entries > 0 then (Inr (last entries), w1)
        else (case JournalClient_List T K meth [] c w1 of
            (Inl err, w2) \<Rightarrow> (Inl (''auth0mocktest: list journal: '' @ error_of T err), w2)
          | (Inr same, w2) \<Rightarrow>
              (Inl (''auth0mocktest: no '' @ meth @ '' '' @ path @ '' call recorded; recent '' @ meth @ '' calls:''
                 @ (if length same = 0 then line_end @ ''  (none)'' else [])
                 @ concat (map (\<lambda>e. line_end @ ''  '' @ jo_Text e
                     @ concat (map (\<lambda>nm. concat (map (\<lambda>d. line_end @ ''    '' @ Difference_String d) (sn_Differences nm))) (jo_NearMisses e)))
                     (take 5 (rev same)))), w2)))"

text \<open>
  A stream that ends after its last event leaves both branches of \<^verbatim>\<open>NextEvent\<close> ready: the event is in the channel and
  the end of the stream in the error slot, and the runtime may pick the error.
\<close>

lemma ended_stream_races:
  defines "e \<equiv> \<lparr>sv_ID = [], sv_Type = [], sv_Data = ''x''\<rparr>"
  shows "\<exists>s t u. stream_run (new_stream [''data:x'', []]) s \<and> NextEvent OnEvent ''1s'' s = Some (Inr e, t)
    \<and> NextEvent OnError ''1s'' s = Some (Inl ''auth0mocktest: NextEvent: stream error: EOF'', u)"
proof -
  have lines: "read_line ''data:x'' (no_event, False) = (None, e, True)" "read_line [] (e, True) = (Some e, no_event, False)"
    unfolding e_def no_event_def by code_simp+
  let ?s0 = "new_stream [''data:x'', []]"
  let ?s1 = "?s0\<lparr>st_lines := [[]], st_cur := (e, True), st_sending := None\<rparr>"
  let ?s2 = "?s1\<lparr>st_lines := [], st_cur := (no_event, False), st_sending := Some e\<rparr>"
  let ?s3 = "?s2\<lparr>st_sending := None, st_events := st_events ?s2 @ [e]\<rparr>"
  let ?s4 = "?s3\<lparr>st_stopped := True, st_errc := Some ''EOF''\<rparr>"
  have steps: "stream_step ?s0 ?s1" "stream_step ?s1 ?s2" "stream_step ?s2 ?s3" "stream_step ?s3 ?s4"
    using stream_step.read[of ?s0 "''data:x''" "[[]]" None "(e, True)"] stream_step.read[of ?s1 "[]" "[]" "Some e" "(no_event, False)"]
      stream_step.send[of ?s2 e] stream_step.fail[of ?s3] lines
    by (simp_all add: new_stream_def events_cap_def)
  then have "stream_run ?s0 ?s4" by (meson stream_run.intros)
  moreover have "st_events ?s4 = [e]" "st_errc ?s4 = Some ''EOF''" by (simp_all add: new_stream_def)
  ultimately obtain s where "stream_run ?s0 s" "st_events s = [e]" "st_errc s = Some ''EOF''" by blast
  then show ?thesis by - (rule exI[of _ s], simp add: NextEvent_def)
qed

end
