(* ===== verification/Genopenapi.thy ===== *)
theory Genopenapi
  imports Api_Spec Middleware
begin

text \<open>
  The generator of the API description, \<^verbatim>\<open>cmd/genopenapi/main.go\<close>: it strips Auth0's prose off the
  Management API skeleton, prefixes its paths, and merges the description fragments of the other
  surfaces into it. The OpenAPI loader is a parameter; a document is what the loader yields. A nil map
  or object that the code takes for an empty one is the empty one, a nil pointer that the walk skips is
  \<open>None\<close>, and what neither the walk nor the merge looks at is kept in the \<open>rest\<close> of a node. A node with
  a reference is written as that reference, so the copy of its target that the loader hangs on it is no
  part of the written document.
\<close>

section \<open>Documents\<close>

type_synonym ext = "(string \<times> json) list"

datatype SchemaRef = SchemaRef string ext "Schema option"
  and Schema = Schema string "json option" ext "(json \<times> ext) option"
    "(string \<times> SchemaRef option) list" "(string \<times> SchemaRef option) list" "SchemaRef option" "SchemaRef option list"
    "SchemaRef option list" "SchemaRef option list" "SchemaRef option list" "SchemaRef option"
    "SchemaRef option" "SchemaRef option" "SchemaRef option" json

record 'v ref =
  rf_Ref :: string
  rf_Extensions :: ext
  rf_Value :: "'v option"

record MediaType =
  md_Extensions :: ext
  md_Schema :: "SchemaRef option"
  md_rest :: json

type_synonym content = "(string \<times> MediaType option) list"

record Parameter =
  pa_Description :: string
  pa_Extensions :: ext
  pa_Schema :: "SchemaRef option"
  pa_Content :: content
  pa_rest :: json

record hdr_def =
  hd_Description :: string
  hd_Extensions :: ext
  hd_Schema :: "SchemaRef option"
  hd_rest :: json

record RequestBody =
  bd_Description :: string
  bd_Extensions :: ext
  bd_Content :: content
  bd_rest :: json

record Response_def =
  rp_Description :: "string option"
  rp_Extensions :: ext
  rp_Body :: content
  rp_Headers :: "(string \<times> hdr_def ref option) list"
  rp_rest :: json

record OAuthFlows =
  fl_Extensions :: ext
  fl_Implicit :: "(ext \<times> json) option"
  fl_Password :: "(ext \<times> json) option"
  fl_ClientCredentials :: "(ext \<times> json) option"
  fl_AuthorizationCode :: "(ext \<times> json) option"

record SecurityScheme =
  ss_Type :: string
  ss_Scheme :: string
  ss_BearerFormat :: string
  ss_Description :: string
  ss_Extensions :: ext
  ss_Flows :: "OAuthFlows option"
  ss_rest :: json

record doc_op =
  do_Description :: string
  do_ExternalDocs :: "json option"
  do_Extensions :: ext
  do_Parameters :: "Parameter ref option list"
  do_RequestBody :: "RequestBody ref option"
  do_Responses :: "(string \<times> Response_def ref option) list"
  do_Tags :: "string list"
  do_rest :: json

record PathItem =
  pi_Description :: string
  pi_Extensions :: ext
  pi_Parameters :: "Parameter ref option list"
  pi_Operations :: "(string, doc_op) gomap"
  pi_rest :: json

record Info =
  if_Title :: string
  if_Description :: string
  if_TermsOfService :: string
  if_Contact :: "(string \<times> string) option"
  if_License :: "(string \<times> string) option"
  if_Version :: string
  if_Extensions :: ext

record server_var =
  sw_Description :: string
  sw_Extensions :: ext
  sw_rest :: json

record Server =
  se_URL :: string
  se_Description :: string
  se_Extensions :: ext
  se_Variables :: "(string \<times> server_var option) list"

record doc_tag =
  tg_Name :: string
  tg_rest :: json

record Components =
  cp_Extensions :: ext
  cp_SecuritySchemes :: "(string, SecurityScheme ref option) gomap"
  cp_Schemas :: "(string, SchemaRef option) gomap"
  cp_Parameters :: "(string, Parameter ref option) gomap"
  cp_Headers :: "(string, hdr_def ref option) gomap"
  cp_RequestBodies :: "(string, RequestBody ref option) gomap"
  cp_Responses :: "(string, Response_def ref option) gomap"

text \<open>\<open>oa_TagGroups\<close> is the extension \<^verbatim>\<open>x-tagGroups\<close>, which only the generator writes.\<close>

record doc =
  oa_Info :: "Info option"
  oa_Servers :: "Server option list"
  oa_Paths :: "(string, PathItem) gomap"
  oa_Paths_ext :: ext
  oa_Components :: Components
  oa_Tags :: "doc_tag option list"
  oa_ExternalDocs :: "(string \<times> string) option"
  oa_Extensions :: ext
  oa_TagGroups :: "(string \<times> string list) list option"

section \<open>Stripping the prose\<close>

fun dropRefSiblingDescriptions :: "json \<Rightarrow> json" where
  "dropRefSiblingDescriptions (JObj m) =
     (let walked = map (\<lambda>(k, v). (k, dropRefSiblingDescriptions v)) m
      in JObj (if ''$ref'' \<in> set (map fst m) then filter (\<lambda>(k, v). k \<noteq> ''description'') walked else walked))"
| "dropRefSiblingDescriptions (JArr xs) = JArr (map dropRefSiblingDescriptions xs)"
| "dropRefSiblingDescriptions v = v"

primrec stripSchemaRef :: "SchemaRef \<Rightarrow> SchemaRef" and stripSchema :: "Schema \<Rightarrow> Schema" where
  "stripSchemaRef (SchemaRef r e v) = SchemaRef r [] (if r \<noteq> [] then v else map_option stripSchema v)"
| "stripSchema (Schema desc edocs e disc props pats items pre allOf anyOf oneOf nt addl uprops uitems rest) =
     Schema [] None [] (map_option (\<lambda>(d, _). (d, [])) disc)
       (map (map_prod id (map_option stripSchemaRef)) props)
       (map (map_prod id (map_option stripSchemaRef)) pats)
       (map_option stripSchemaRef items)
       (map (map_option stripSchemaRef) pre)
       (map (map_option stripSchemaRef) allOf)
       (map (map_option stripSchemaRef) anyOf)
       (map (map_option stripSchemaRef) oneOf)
       (map_option stripSchemaRef nt)
       (map_option stripSchemaRef addl)
       (map_option stripSchemaRef uprops)
       (map_option stripSchemaRef uitems)
       rest"

definition stripContent :: "content \<Rightarrow> content" where
  "stripContent c = map (map_prod id (map_option (\<lambda>mt.
     mt\<lparr>md_Extensions := [], md_Schema := map_option stripSchemaRef (md_Schema mt)\<rparr>))) c"

text \<open>What most references share: the extensions go, and the value, if it is there, is stripped.\<close>

definition strip_ref :: "('v \<Rightarrow> 'v) \<Rightarrow> 'v ref option \<Rightarrow> 'v ref option" where
  "strip_ref f r = map_option (\<lambda>x. x\<lparr>rf_Extensions := [], rf_Value := map_option f (rf_Value x)\<rparr>) r"

definition stripHeader :: "hdr_def \<Rightarrow> hdr_def" where
  "stripHeader h = h\<lparr>hd_Description := [], hd_Extensions := [], hd_Schema := map_option stripSchemaRef (hd_Schema h)\<rparr>"

definition stripRequestBody :: "RequestBody \<Rightarrow> RequestBody" where
  "stripRequestBody b = b\<lparr>bd_Description := [], bd_Extensions := [], bd_Content := stripContent (bd_Content b)\<rparr>"

definition stripResponseRef :: "Response_def ref option \<Rightarrow> Response_def ref option" where
  "stripResponseRef = strip_ref (\<lambda>v. v\<lparr>rp_Description := Some [], rp_Extensions := [], rp_Body := stripContent (rp_Body v),
     rp_Headers := map (map_prod id (strip_ref stripHeader)) (rp_Headers v)\<rparr>)"

definition stripParameterRef :: "Parameter ref option \<Rightarrow> Parameter ref option" where
  "stripParameterRef = strip_ref (\<lambda>v. v\<lparr>pa_Description := [], pa_Extensions := [],
     pa_Schema := map_option stripSchemaRef (pa_Schema v), pa_Content := stripContent (pa_Content v)\<rparr>)"

definition strip_flow :: "(ext \<times> json) option \<Rightarrow> (ext \<times> json) option" where
  "strip_flow f = map_option (\<lambda>(_, rest). ([], rest)) f"

definition stripSecuritySchemeRef :: "SecurityScheme ref option \<Rightarrow> SecurityScheme ref option" where
  "stripSecuritySchemeRef = strip_ref (\<lambda>v. v\<lparr>ss_Description := [], ss_Extensions := [],
     ss_Flows := map_option (\<lambda>f. f\<lparr>fl_Extensions := [], fl_Implicit := strip_flow (fl_Implicit f), fl_Password := strip_flow (fl_Password f),
       fl_ClientCredentials := strip_flow (fl_ClientCredentials f), fl_AuthorizationCode := strip_flow (fl_AuthorizationCode f)\<rparr>) (ss_Flows v)\<rparr>)"

text \<open>The request body of an operation keeps the extensions next to a reference to it.\<close>

definition stripOperation :: "doc_op \<Rightarrow> doc_op" where
  "stripOperation op = op\<lparr>do_Description := [], do_ExternalDocs := None, do_Extensions := [],
     do_Parameters := map stripParameterRef (do_Parameters op),
     do_RequestBody := map_option (\<lambda>x. x\<lparr>rf_Value := map_option stripRequestBody (rf_Value x)\<rparr>) (do_RequestBody op),
     do_Responses := map (map_prod id stripResponseRef) (do_Responses op)\<rparr>"

definition stripPathItem :: "PathItem \<Rightarrow> PathItem" where
  "stripPathItem item = item\<lparr>pi_Description := [], pi_Extensions := [], pi_Parameters := map stripParameterRef (pi_Parameters item),
     pi_Operations := map (map_prod id stripOperation) (pi_Operations item)\<rparr>"

definition strip_components :: "Components \<Rightarrow> Components" where
  "strip_components c = c\<lparr>cp_Extensions := [],
     cp_SecuritySchemes := map (map_prod id stripSecuritySchemeRef) (cp_SecuritySchemes c),
     cp_Schemas := map (map_prod id (map_option stripSchemaRef)) (cp_Schemas c),
     cp_Parameters := map (map_prod id stripParameterRef) (cp_Parameters c),
     cp_Headers := map (map_prod id (strip_ref stripHeader)) (cp_Headers c),
     cp_RequestBodies := map (map_prod id (strip_ref stripRequestBody)) (cp_RequestBodies c),
     cp_Responses := map (map_prod id stripResponseRef) (cp_Responses c)\<rparr>"

definition stripUpstreamProse :: "doc \<Rightarrow> doc" where
  "stripUpstreamProse base = base\<lparr>oa_ExternalDocs := None, oa_Extensions := [], oa_TagGroups := None,
     oa_Info := map_option (\<lambda>i. i\<lparr>if_Description := [], if_TermsOfService := [], if_Contact := None, if_License := None,
       if_Extensions := []\<rparr>) (oa_Info base),
     oa_Servers := map (map_option (\<lambda>s. s\<lparr>se_Description := [], se_Extensions := [],
       se_Variables := map (map_prod id (map_option (\<lambda>v. v\<lparr>sw_Description := [], sw_Extensions := []\<rparr>))) (se_Variables s)\<rparr>)) (oa_Servers base),
     oa_Paths_ext := [], oa_Paths := map (map_prod id stripPathItem) (oa_Paths base),
     oa_Components := strip_components (oa_Components base)\<rparr>"

section \<open>Tags\<close>

text \<open>The first letter is upper-cased as far as it is an ASCII letter.\<close>

definition titleizeTag :: "string \<Rightarrow> string" where
  "titleizeTag tag = str_join '' '' (map (\<lambda>p. case p of [] \<Rightarrow> [] | c # cs \<Rightarrow> to_upper_char c # cs) (split_on CHR ''-'' tag))"

definition titleizeManagementTags :: "doc \<Rightarrow> doc" where
  "titleizeManagementTags base = base\<lparr>oa_Paths := map (map_prod id (\<lambda>item. item\<lparr>pi_Operations :=
     map (map_prod id (\<lambda>op. op\<lparr>do_Tags := map titleizeTag (do_Tags op)\<rparr>)) (pi_Operations item)\<rparr>)) (oa_Paths base)\<rparr>"

definition used_tags :: "doc \<Rightarrow> string list" where
  "used_tags d = concat (map (\<lambda>(_, item). concat (map (\<lambda>(_, op). do_Tags op) (pi_Operations item))) (oa_Paths d))"

definition authAPITags :: "string list" where
  "authAPITags = [''OAuth & OIDC'', ''Database Connections'', ''Passwordless'']"

definition admin0Tags :: "string list" where
  "admin0Tags = [''Claims'', ''Permissions'', ''MFA'', ''Expectations'', ''Clock'', ''Event Producer'']"

definition serviceTags :: "string list" where
  "serviceTags = [''Service'']"

definition applyTagGroups :: "doc \<Rightarrow> doc" where
  "applyTagGroups base =
     (let mgmtTags = sort (filter (\<lambda>t. t \<notin> set (authAPITags @ admin0Tags @ serviceTags)) (remdups (used_tags base)))
      in base\<lparr>oa_TagGroups := Some [(''Authentication API'', authAPITags), (''Management API'', mgmtTags),
           (''admin0'', admin0Tags), (''Service'', serviceTags)]\<rparr>)"

section \<open>Merging the fragments\<close>

fun merge_tags :: "(string \<Rightarrow> string) \<Rightarrow> string set \<Rightarrow> doc_tag option list \<Rightarrow> doc_tag option list \<Rightarrow> string + doc_tag option list" where
  "merge_tags quote seen base [] = Inr base"
| "merge_tags quote seen base (None # ts) = merge_tags quote seen base ts"
| "merge_tags quote seen base (Some t # ts) =
     (if tg_Name t \<in> seen then Inl (''conflict: tag '' @ quote (tg_Name t) @ '' declared in both base and fragment'')
      else merge_tags quote (insert (tg_Name t) seen) (base @ [Some t]) ts)"

definition tag_names :: "doc_tag option list \<Rightarrow> string list" where
  "tag_names ts = concat (map (\<lambda>t. case t of None \<Rightarrow> [] | Some x \<Rightarrow> [tg_Name x]) ts)"

definition mergeTags :: "(string \<Rightarrow> string) \<Rightarrow> doc \<Rightarrow> doc \<Rightarrow> string + doc" where
  "mergeTags quote base frag = (case merge_tags quote (set (tag_names (oa_Tags base))) (oa_Tags base) (oa_Tags frag) of
      Inl err \<Rightarrow> Inl err
    | Inr ts \<Rightarrow> Inr (base\<lparr>oa_Tags := ts\<rparr>))"

fun merge_ops :: "string \<Rightarrow> (string, doc_op) gomap \<Rightarrow> (string, doc_op) gomap \<Rightarrow> string + (string, doc_op) gomap" where
  "merge_ops path existing [] = Inr existing"
| "merge_ops path existing ((m, op) # ops) =
     (if map_of existing m \<noteq> None then Inl (''conflict: '' @ m @ '' '' @ path @ '' declared in both base and fragment'')
      else merge_ops path (AList.update m op existing) ops)"

fun merge_paths :: "(string, PathItem) gomap \<Rightarrow> (string, PathItem) gomap \<Rightarrow> string + (string, PathItem) gomap" where
  "merge_paths base [] = Inr base"
| "merge_paths base ((path, item) # frag) =
     (case map_of base path of
        None \<Rightarrow> merge_paths (AList.update path item base) frag
      | Some existing \<Rightarrow>
          (case merge_ops path (pi_Operations existing) (pi_Operations item) of
             Inl err \<Rightarrow> Inl err
           | Inr ops \<Rightarrow> merge_paths (AList.update path (existing\<lparr>pi_Operations := ops\<rparr>) base) frag))"

definition mergePaths :: "doc \<Rightarrow> doc \<Rightarrow> string + doc" where
  "mergePaths base frag = (case merge_paths (oa_Paths base) (oa_Paths frag) of
      Inl err \<Rightarrow> Inl err
    | Inr ps \<Rightarrow> Inr (base\<lparr>oa_Paths := ps\<rparr>))"

fun merge_schemas :: "(string \<Rightarrow> string) \<Rightarrow> (string, SchemaRef option) gomap \<Rightarrow> (string, SchemaRef option) gomap \<Rightarrow> string + (string, SchemaRef option) gomap" where
  "merge_schemas quote base [] = Inr base"
| "merge_schemas quote base ((n, sch) # frag) =
     (if map_of base n \<noteq> None then Inl (''conflict: schema '' @ quote n @ '' declared in both base and fragment'')
      else merge_schemas quote (AList.update n sch base) frag)"

definition mergeSchemas :: "(string \<Rightarrow> string) \<Rightarrow> doc \<Rightarrow> doc \<Rightarrow> string + doc" where
  "mergeSchemas quote base frag = (case merge_schemas quote (cp_Schemas (oa_Components base)) (cp_Schemas (oa_Components frag)) of
      Inl err \<Rightarrow> Inl err
    | Inr ss \<Rightarrow> Inr (base\<lparr>oa_Components := (oa_Components base)\<lparr>cp_Schemas := ss\<rparr>\<rparr>))"

definition securitySchemesEqual :: "SecurityScheme ref option \<Rightarrow> SecurityScheme ref option \<Rightarrow> bool" where
  "securitySchemesEqual a b = (case (a, b) of
      (Some x, Some y) \<Rightarrow>
        (case (rf_Value x, rf_Value y) of
           (Some av, Some bv) \<Rightarrow> equal_fold (ss_Type av) (ss_Type bv) \<and> equal_fold (ss_Scheme av) (ss_Scheme bv)
              \<and> equal_fold (ss_BearerFormat av) (ss_BearerFormat bv)
         | (av, bv) \<Rightarrow> av = None \<and> bv = None)
    | _ \<Rightarrow> a = None \<and> b = None)"

fun merge_schemes :: "(string \<Rightarrow> string) \<Rightarrow> (string, SecurityScheme ref option) gomap \<Rightarrow> (string, SecurityScheme ref option) gomap
    \<Rightarrow> string + (string, SecurityScheme ref option) gomap" where
  "merge_schemes quote base [] = Inr base"
| "merge_schemes quote base ((n, sc) # frag) =
     (case map_of base n of
        Some existing \<Rightarrow>
          if \<not> securitySchemesEqual existing sc then Inl (''conflict: security scheme '' @ quote n @ '' redefined with different shape'')
          else merge_schemes quote base frag
      | None \<Rightarrow> merge_schemes quote (AList.update n sc base) frag)"

definition mergeSecuritySchemes :: "(string \<Rightarrow> string) \<Rightarrow> doc \<Rightarrow> doc \<Rightarrow> string + doc" where
  "mergeSecuritySchemes quote base frag =
     (case merge_schemes quote (cp_SecuritySchemes (oa_Components base)) (cp_SecuritySchemes (oa_Components frag)) of
        Inl err \<Rightarrow> Inl err
      | Inr ss \<Rightarrow> Inr (base\<lparr>oa_Components := (oa_Components base)\<lparr>cp_SecuritySchemes := ss\<rparr>\<rparr>))"

definition mergeFragment :: "(string \<Rightarrow> string) \<Rightarrow> doc \<Rightarrow> doc \<Rightarrow> string + doc" where
  "mergeFragment quote base frag =
     (case mergePaths base frag of Inl err \<Rightarrow> Inl err | Inr b1 \<Rightarrow>
     (case mergeSchemas quote b1 frag of Inl err \<Rightarrow> Inl err | Inr b2 \<Rightarrow>
     (case mergeSecuritySchemes quote b2 frag of Inl err \<Rightarrow> Inl err | Inr b3 \<Rightarrow> mergeTags quote b3 frag)))"

section \<open>The bundle\<close>

definition basePath :: "string \<Rightarrow> string" where
  "basePath url = (case after_host url of Some p \<Rightarrow> p | None \<Rightarrow> url)"

text \<open>\<open>description\<close> is the text of the documentation page, \<open>version\<close> what the build injected.\<close>

definition rewriteInfo :: "string \<Rightarrow> string \<Rightarrow> doc \<Rightarrow> doc" where
  "rewriteInfo description version base =
     (let v = (if version = [] \<or> version = ''dev'' then
                 (case oa_Info base of Some i \<Rightarrow> if if_Version i \<noteq> [] then if_Version i else ''2.0'' | None \<Rightarrow> ''2.0'')
               else version)
      in base\<lparr>oa_Info := Some \<lparr>if_Title = ''auth0-mock API'', if_Description = description, if_TermsOfService = [],
            if_Contact = Some (''auth0-mock'', ''https://github.com/sergiught/auth0-mock''),
            if_License = Some (''MIT'', ''https://github.com/sergiught/auth0-mock/blob/main/LICENSE''), if_Version = v, if_Extensions = []\<rparr>,
          oa_ExternalDocs := Some (''auth0-mock on GitHub'', ''https://github.com/sergiught/auth0-mock'')\<rparr>)"

datatype gen_error = GenError string | NilServer

definition prefix_paths :: "doc \<Rightarrow> gen_error + doc" where
  "prefix_paths base = (case oa_Servers base of
      [] \<Rightarrow> Inr base
    | None # _ \<Rightarrow> Inl NilServer
    | Some s # _ \<Rightarrow>
        (let bp = basePath (se_URL s)
         in Inr (if bp \<noteq> [] then base\<lparr>oa_Paths := map (map_prod ((@) bp) id) (oa_Paths base), oa_Paths_ext := []\<rparr> else base)))"

text \<open>
  What the generator calls: the OpenAPI loader, the JSON codec and its encoding of a document, the
  quoting of \<^verbatim>\<open>%q\<close>, and the errors of reading and writing a file.
\<close>

type_synonym files = "string \<rightharpoonup> string"

record gen_lib =
  gn_load :: "string \<Rightarrow> string + doc"
  gn_unmarshal :: "string \<Rightarrow> string + json"
  gn_marshal :: "json \<Rightarrow> string"
  gn_marshal_doc :: "doc \<Rightarrow> string + string"
  gn_quote :: "string \<Rightarrow> string"
  gn_read_error :: "string \<Rightarrow> string"
  gn_write_error :: "string \<Rightarrow> string option"

fun merge_all :: "gen_lib \<Rightarrow> nat \<Rightarrow> string list \<Rightarrow> doc \<Rightarrow> gen_error + doc" where
  "merge_all G i [] base = Inr base"
| "merge_all G i (raw # raws) base = (case gn_load G raw of
      Inl err \<Rightarrow> Inl (GenError (''load fragment '' @ itoa (int i) @ '': '' @ err))
    | Inr frag \<Rightarrow> (case mergeFragment (gn_quote G) base frag of
          Inl err \<Rightarrow> Inl (GenError (''fragment '' @ itoa (int i) @ '': '' @ err))
        | Inr base' \<Rightarrow> merge_all G (Suc i) raws base'))"

definition finish_bundle :: "string \<Rightarrow> string \<Rightarrow> string \<Rightarrow> doc \<Rightarrow> doc" where
  "finish_bundle description version server base =
     applyTagGroups (rewriteInfo description version
       (base\<lparr>oa_Servers := [Some \<lparr>se_URL = server, se_Description = ''Local auth0-mock'', se_Extensions = [], se_Variables = []\<rparr>]\<rparr>))"

definition bundleWithExtras :: "gen_lib \<Rightarrow> string \<Rightarrow> string \<Rightarrow> string \<Rightarrow> string list \<Rightarrow> string \<Rightarrow> string list \<Rightarrow> gen_error + doc" where
  "bundleWithExtras G description version skeleton fragments server extras =
     (case gn_load G skeleton of
        Inl err \<Rightarrow> Inl (GenError (''load base: '' @ err))
      | Inr base0 \<Rightarrow>
          (case prefix_paths base0 of
             Inl err \<Rightarrow> Inl err
           | Inr base1 \<Rightarrow>
               (case merge_all G 0 (fragments @ extras) (titleizeManagementTags (stripUpstreamProse base1)) of
                  Inl err \<Rightarrow> Inl err
                | Inr base2 \<Rightarrow> Inr (finish_bundle description version server base2))))"

definition gen_bundle :: "gen_lib \<Rightarrow> string \<Rightarrow> string \<Rightarrow> string \<Rightarrow> string list \<Rightarrow> string \<Rightarrow> gen_error + doc" where
  "gen_bundle G description version skeleton fragments server = bundleWithExtras G description version skeleton fragments server []"

section \<open>The commands\<close>

definition gen_write :: "gen_lib \<Rightarrow> string \<Rightarrow> string \<Rightarrow> files \<Rightarrow> gen_error option \<times> files" where
  "gen_write G out body fs = (case gn_write_error G out of
      Some err \<Rightarrow> (Some (GenError (''write '' @ out @ '': '' @ err)), fs)
    | None \<Rightarrow> (None, fs(out \<mapsto> body @ [CHR 0x0A])))"

definition gen_run :: "gen_lib \<Rightarrow> string \<Rightarrow> string \<Rightarrow> string \<Rightarrow> string list \<Rightarrow> string \<Rightarrow> string \<Rightarrow> files \<Rightarrow> gen_error option \<times> files" where
  "gen_run G description version skeleton fragments out server fs =
     (case gen_bundle G description version skeleton fragments server of
        Inl err \<Rightarrow> (Some err, fs)
      | Inr d \<Rightarrow> (case gn_marshal_doc G d of
            Inl err \<Rightarrow> (Some (GenError (''marshal: '' @ err)), fs)
          | Inr body \<Rightarrow> gen_write G out body fs))"

definition runStrip :: "gen_lib \<Rightarrow> string \<Rightarrow> string \<Rightarrow> files \<Rightarrow> gen_error option \<times> files" where
  "runStrip G rawPath out fs = (case fs rawPath of
      None \<Rightarrow> (Some (GenError (''read raw spec: '' @ gn_read_error G rawPath)), fs)
    | Some raw \<Rightarrow> (case gn_unmarshal G raw of
          Inl err \<Rightarrow> (Some (GenError (''parse raw spec: '' @ err)), fs)
        | Inr tree \<Rightarrow> (case gn_load G (gn_marshal G (dropRefSiblingDescriptions tree)) of
              Inl err \<Rightarrow> (Some (GenError (''parse raw spec: '' @ err)), fs)
            | Inr d \<Rightarrow> (case gn_marshal_doc G (stripUpstreamProse d) of
                  Inl err \<Rightarrow> (Some (GenError (''marshal skeleton: '' @ err)), fs)
                | Inr body \<Rightarrow> gen_write G out body fs))))"

text \<open>
  The command: \<^verbatim>\<open>-strip-raw\<close> selects the vendoring step. The exit code and what is printed; a nil server
  in the skeleton is a panic, which exits with 2.
\<close>

definition gen_main :: "gen_lib \<Rightarrow> string \<Rightarrow> string \<Rightarrow> string \<Rightarrow> string list \<Rightarrow> string \<Rightarrow> string \<Rightarrow> string \<Rightarrow> files \<Rightarrow> (nat \<times> string option) \<times> files" where
  "gen_main G description version skeleton fragments out server stripRaw fs =
     (case (if stripRaw \<noteq> [] then runStrip G stripRaw out fs else gen_run G description version skeleton fragments out server fs) of
        (None, fs') \<Rightarrow> ((0, None), fs')
      | (Some (GenError err), fs') \<Rightarrow> ((1, Some (''genopenapi: '' @ err)), fs')
      | (Some NilServer, fs') \<Rightarrow> ((2, None), fs'))"

end
