(* ===== verification/Genopenapi_Props.thy ===== *)
theory Genopenapi_Props
  imports Genopenapi
begin

text \<open>
  What the generator guarantees: the stripped skeleton carries no prose and every route of the
  original, the bundle serves exactly the operations of the skeleton under its base path and of the
  fragments, and every tag of an operation is in one group of the sidebar.
\<close>

section \<open>No prose is left\<close>

abbreviation fine :: "bool option \<Rightarrow> bool" where
  "fine x \<equiv> x \<noteq> Some False"

primrec plainRef :: "SchemaRef \<Rightarrow> bool" and plainSchema :: "Schema \<Rightarrow> bool" where
  "plainRef (SchemaRef r e v) \<longleftrightarrow> e = [] \<and> (r = [] \<longrightarrow> fine (map_option plainSchema v))"
| "plainSchema (Schema desc edocs e disc props pats items pre allOf anyOf oneOf nt addl uprops uitems rest) \<longleftrightarrow>
     desc = [] \<and> edocs = None \<and> e = [] \<and> (\<forall>d x. disc = Some (d, x) \<longrightarrow> x = [])
     \<and> list_all (\<lambda>p. fine (snd p)) (map (map_prod id (map_option plainRef)) props)
     \<and> list_all (\<lambda>p. fine (snd p)) (map (map_prod id (map_option plainRef)) pats)
     \<and> fine (map_option plainRef items) \<and> list_all fine (map (map_option plainRef) pre)
     \<and> list_all fine (map (map_option plainRef) allOf) \<and> list_all fine (map (map_option plainRef) anyOf)
     \<and> list_all fine (map (map_option plainRef) oneOf) \<and> fine (map_option plainRef nt) \<and> fine (map_option plainRef addl)
     \<and> fine (map_option plainRef uprops) \<and> fine (map_option plainRef uitems)"

lemma stripSchema_plain: "plainRef (stripSchemaRef r)" "plainSchema (stripSchema s)"
  by (induction r and s) (auto simp: list_all_iff option.map_comp o_def split: prod.splits)

lemma strip_schema_idem: "stripSchemaRef (stripSchemaRef r) = stripSchemaRef r" "stripSchema (stripSchema s) = stripSchema s"
  by (induction r and s) (auto simp: option.map_comp o_def intro!: list.map_cong0 option.map_cong0 prod.map_cong0 split: prod.splits)

abbreviation all_opt :: "('a \<Rightarrow> bool) \<Rightarrow> 'a option \<Rightarrow> bool" where
  "all_opt P x \<equiv> \<forall>y. x = Some y \<longrightarrow> P y"

definition plain_ref :: "('v \<Rightarrow> bool) \<Rightarrow> 'v ref option \<Rightarrow> bool" where
  "plain_ref P = all_opt (\<lambda>x. rf_Extensions x = [] \<and> all_opt P (rf_Value x))"

definition plain_content :: "content \<Rightarrow> bool" where
  "plain_content c \<longleftrightarrow> (\<forall>(k, mt) \<in> set c. all_opt (\<lambda>m. md_Extensions m = [] \<and> all_opt plainRef (md_Schema m)) mt)"

definition plain_header :: "hdr_def \<Rightarrow> bool" where
  "plain_header h \<longleftrightarrow> hd_Description h = [] \<and> hd_Extensions h = [] \<and> all_opt plainRef (hd_Schema h)"

definition plain_body :: "RequestBody \<Rightarrow> bool" where
  "plain_body b \<longleftrightarrow> bd_Description b = [] \<and> bd_Extensions b = [] \<and> plain_content (bd_Content b)"

definition plain_response :: "Response_def \<Rightarrow> bool" where
  "plain_response v \<longleftrightarrow> rp_Description v = Some [] \<and> rp_Extensions v = [] \<and> plain_content (rp_Body v)
     \<and> (\<forall>(k, h) \<in> set (rp_Headers v). plain_ref plain_header h)"

definition plain_parameter :: "Parameter \<Rightarrow> bool" where
  "plain_parameter v \<longleftrightarrow> pa_Description v = [] \<and> pa_Extensions v = [] \<and> all_opt plainRef (pa_Schema v) \<and> plain_content (pa_Content v)"

definition plain_flow :: "(ext \<times> json) option \<Rightarrow> bool" where
  "plain_flow = all_opt (\<lambda>f. fst f = [])"

definition plain_scheme :: "SecurityScheme \<Rightarrow> bool" where
  "plain_scheme v \<longleftrightarrow> ss_Description v = [] \<and> ss_Extensions v = []
     \<and> all_opt (\<lambda>f. fl_Extensions f = [] \<and> plain_flow (fl_Implicit f) \<and> plain_flow (fl_Password f)
         \<and> plain_flow (fl_ClientCredentials f) \<and> plain_flow (fl_AuthorizationCode f)) (ss_Flows v)"

definition plain_op :: "doc_op \<Rightarrow> bool" where
  "plain_op op \<longleftrightarrow> do_Description op = [] \<and> do_ExternalDocs op = None \<and> do_Extensions op = []
     \<and> list_all (plain_ref plain_parameter) (do_Parameters op)
     \<and> all_opt (\<lambda>x. all_opt plain_body (rf_Value x)) (do_RequestBody op)
     \<and> (\<forall>(k, r) \<in> set (do_Responses op). plain_ref plain_response r)"

definition plain_item :: "PathItem \<Rightarrow> bool" where
  "plain_item item \<longleftrightarrow> pi_Description item = [] \<and> pi_Extensions item = [] \<and> list_all (plain_ref plain_parameter) (pi_Parameters item)
     \<and> (\<forall>(m, op) \<in> set (pi_Operations item). plain_op op)"

definition plain_components :: "Components \<Rightarrow> bool" where
  "plain_components c \<longleftrightarrow> cp_Extensions c = []
     \<and> (\<forall>(k, r) \<in> set (cp_SecuritySchemes c). plain_ref plain_scheme r)
     \<and> (\<forall>(k, r) \<in> set (cp_Schemas c). all_opt plainRef r)
     \<and> (\<forall>(k, r) \<in> set (cp_Parameters c). plain_ref plain_parameter r)
     \<and> (\<forall>(k, r) \<in> set (cp_Headers c). plain_ref plain_header r)
     \<and> (\<forall>(k, r) \<in> set (cp_RequestBodies c). plain_ref plain_body r)
     \<and> (\<forall>(k, r) \<in> set (cp_Responses c). plain_ref plain_response r)"

text \<open>A document without prose; the descriptions of its tags are not looked at.\<close>

definition plain_doc :: "doc \<Rightarrow> bool" where
  "plain_doc d \<longleftrightarrow> oa_ExternalDocs d = None \<and> oa_Extensions d = [] \<and> oa_Paths_ext d = []
     \<and> all_opt (\<lambda>i. if_Description i = [] \<and> if_TermsOfService i = [] \<and> if_Contact i = None \<and> if_License i = None \<and> if_Extensions i = []) (oa_Info d)
     \<and> list_all (all_opt (\<lambda>s. se_Description s = [] \<and> se_Extensions s = []
         \<and> (\<forall>(k, v) \<in> set (se_Variables s). all_opt (\<lambda>x. sw_Description x = [] \<and> sw_Extensions x = []) v))) (oa_Servers d)
     \<and> (\<forall>(p, item) \<in> set (oa_Paths d). plain_item item) \<and> plain_components (oa_Components d)"

lemma strip_ref_plain: "(\<And>v. P (f v)) \<Longrightarrow> plain_ref P (strip_ref f r)"
  by (auto simp: plain_ref_def strip_ref_def)

lemma stripContent_plain: "plain_content (stripContent c)"
  by (auto simp: plain_content_def stripContent_def stripSchema_plain)

lemma stripHeader_plain: "plain_header (stripHeader h)"
  by (auto simp: plain_header_def stripHeader_def stripSchema_plain)

lemma stripRequestBody_plain: "plain_body (stripRequestBody b)"
  by (simp add: plain_body_def stripRequestBody_def stripContent_plain)

lemma stripResponseRef_plain: "plain_ref plain_response (stripResponseRef r)"
  unfolding stripResponseRef_def
  by (rule strip_ref_plain) (auto simp: plain_response_def stripContent_plain strip_ref_plain stripHeader_plain)

lemma stripParameterRef_plain: "plain_ref plain_parameter (stripParameterRef r)"
  unfolding stripParameterRef_def
  by (rule strip_ref_plain) (auto simp: plain_parameter_def stripContent_plain stripSchema_plain)

lemma strip_flow_plain: "plain_flow (strip_flow f)"
  by (auto simp: plain_flow_def strip_flow_def)

lemma stripSecuritySchemeRef_plain: "plain_ref plain_scheme (stripSecuritySchemeRef r)"
  unfolding stripSecuritySchemeRef_def
  by (rule strip_ref_plain) (auto simp: plain_scheme_def strip_flow_plain)

lemmas strip_plain = stripSchema_plain stripContent_plain stripHeader_plain stripRequestBody_plain stripResponseRef_plain
  stripParameterRef_plain stripSecuritySchemeRef_plain strip_ref_plain

lemma stripPathItem_plain: "plain_item (stripPathItem item)"
  by (auto simp: plain_item_def plain_op_def stripPathItem_def stripOperation_def list_all_iff strip_plain)

lemma strip_components_plain: "plain_components (strip_components c)"
  by (auto simp: plain_components_def strip_components_def strip_plain)

lemma some_is_map_option: "(Some y = map_option f x) = (\<exists>z. x = Some z \<and> y = f z)"
  by (cases x) auto

section \<open>Stripping twice\<close>

lemma map_idem: "(\<And>x. f (f x) = f x) \<Longrightarrow> map f (map f xs) = map f xs"
  by simp

lemma map_snd_idem: "(\<And>x. f (f x) = f x) \<Longrightarrow> map (map_prod id f) (map (map_prod id f) xs) = map (map_prod id f) xs"
  by (auto simp: prod.map_comp)

lemma map_option_idem: "(\<And>x. f (f x) = f x) \<Longrightarrow> map_option f (map_option f x) = map_option f x"
  by (cases x) simp_all

lemma strip_ref_idem: "(\<And>v. f (f v) = f v) \<Longrightarrow> strip_ref f (strip_ref f r) = strip_ref f r"
  by (cases r) (auto simp: strip_ref_def map_option_idem)

lemma stripSchema_opt_idem: "map_option stripSchemaRef (map_option stripSchemaRef x) = map_option stripSchemaRef x"
  by (rule map_option_idem) (rule strip_schema_idem)

lemma stripContent_idem: "stripContent (stripContent c) = stripContent c"
  unfolding stripContent_def by (intro map_snd_idem map_option_idem) (simp add: stripSchema_opt_idem)

lemma stripHeader_idem: "stripHeader (stripHeader h) = stripHeader h"
  by (simp add: stripHeader_def stripSchema_opt_idem)

lemma stripRequestBody_idem: "stripRequestBody (stripRequestBody b) = stripRequestBody b"
  by (simp add: stripRequestBody_def stripContent_idem)

lemma stripResponseRef_idem: "stripResponseRef (stripResponseRef r) = stripResponseRef r"
  unfolding stripResponseRef_def
  by (rule strip_ref_idem) (simp add: stripContent_idem map_snd_idem strip_ref_idem stripHeader_idem del: map_map)

lemma stripParameterRef_idem: "stripParameterRef (stripParameterRef r) = stripParameterRef r"
  unfolding stripParameterRef_def by (rule strip_ref_idem) (simp add: stripContent_idem stripSchema_opt_idem)

lemma strip_flow_idem: "strip_flow (strip_flow f) = strip_flow f"
  by (cases f) (auto simp: strip_flow_def)

lemma stripSecuritySchemeRef_idem: "stripSecuritySchemeRef (stripSecuritySchemeRef r) = stripSecuritySchemeRef r"
  unfolding stripSecuritySchemeRef_def
  by (rule strip_ref_idem) (simp add: map_option_idem strip_flow_idem)

lemma stripOperation_idem: "stripOperation (stripOperation op) = stripOperation op"
  by (simp add: stripOperation_def map_idem stripParameterRef_idem map_snd_idem stripResponseRef_idem map_option_idem stripRequestBody_idem del: map_map)

lemma stripPathItem_idem: "stripPathItem (stripPathItem item) = stripPathItem item"
  by (simp add: stripPathItem_def map_idem stripParameterRef_idem map_snd_idem stripOperation_idem del: map_map)

lemma strip_components_idem: "strip_components (strip_components c) = strip_components c"
  by (simp add: strip_components_def map_snd_idem stripSecuritySchemeRef_idem stripSchema_opt_idem stripParameterRef_idem
      strip_ref_idem stripHeader_idem stripRequestBody_idem stripResponseRef_idem del: map_map)

text \<open>No object of a tree has both a reference and a description.\<close>

fun ref_alone :: "json \<Rightarrow> bool" where
  "ref_alone (JObj m) \<longleftrightarrow> \<not> (''$ref'' \<in> set (map fst m) \<and> ''description'' \<in> set (map fst m)) \<and> (\<forall>(k, v) \<in> set m. ref_alone v)"
| "ref_alone (JArr xs) \<longleftrightarrow> (\<forall>x \<in> set xs. ref_alone x)"
| "ref_alone v \<longleftrightarrow> True"

lemma dropRefs_alone: "ref_alone (dropRefSiblingDescriptions v)"
  by (induction v rule: dropRefSiblingDescriptions.induct) (auto simp: Let_def image_iff)

text \<open>What the mock routes by: the paths, methods and tags, and what the walk does not look at.\<close>

definition routes_of :: "doc \<Rightarrow> (string \<times> (string \<times> string list \<times> json) list) list" where
  "routes_of d = map (map_prod id (\<lambda>item. map (map_prod id (\<lambda>op. (do_Tags op, do_rest op))) (pi_Operations item))) (oa_Paths d)"

text \<open>
  The skeleton carries none of Auth0's prose. After the walk no description, external documentation
  or vendor extension is left in the document's metadata, its servers, path items, operations,
  parameters, bodies, responses, headers, security schemes and schemas, however deep they are nested;
  before the walk no description is left beside a reference. Every path keeps its operations, and
  stripping what was stripped already changes nothing, so the bundle may strip the committed skeleton
  again.
\<close>
theorem strip_prose:
  "plain_doc (stripUpstreamProse d) \<and> ref_alone (dropRefSiblingDescriptions tree)
   \<and> routes_of (stripUpstreamProse d) = routes_of d \<and> stripUpstreamProse (stripUpstreamProse d) = stripUpstreamProse d"
proof (intro conjI)
  show "plain_doc (stripUpstreamProse d)"
    by (auto simp: plain_doc_def stripUpstreamProse_def list_all_iff stripPathItem_plain strip_components_plain some_is_map_option)
  show "routes_of (stripUpstreamProse d) = routes_of d"
    by (auto simp: routes_of_def stripUpstreamProse_def stripPathItem_def stripOperation_def)
  show "stripUpstreamProse (stripUpstreamProse d) = stripUpstreamProse d"
    by (simp add: stripUpstreamProse_def map_snd_idem stripPathItem_idem strip_components_idem map_option_idem map_idem del: map_map)
qed (rule dropRefs_alone)

section \<open>The operations of the bundle\<close>

definition op_in :: "(string, PathItem) gomap \<Rightarrow> string \<times> string \<rightharpoonup> doc_op" where
  "op_in ps = (\<lambda>(p, m). case map_of ps p of None \<Rightarrow> None | Some item \<Rightarrow> map_of (pi_Operations item) m)"

abbreviation op_at :: "doc \<Rightarrow> string \<times> string \<rightharpoonup> doc_op" where
  "op_at d \<equiv> op_in (oa_Paths d)"

text \<open>The maps of a document have each key once.\<close>

definition wf_paths :: "(string, PathItem) gomap \<Rightarrow> bool" where
  "wf_paths ps \<longleftrightarrow> wf_map ps \<and> (\<forall>(p, item) \<in> set ps. wf_map (pi_Operations item))"

text \<open>The result of a merge: the union of two disjoint maps, or an error because they overlap.\<close>

definition union_or_clash :: "('x \<Rightarrow> 'k \<rightharpoonup> 'v) \<Rightarrow> string + 'x \<Rightarrow> ('k \<rightharpoonup> 'v) \<Rightarrow> ('k \<rightharpoonup> 'v) \<Rightarrow> bool" where
  "union_or_clash look r f g \<longleftrightarrow> (case r of Inr x \<Rightarrow> look x = f ++ g \<and> dom f \<inter> dom g = {} | Inl _ \<Rightarrow> dom f \<inter> dom g \<noteq> {})"

lemma union_or_clash_shift:
  "union_or_clash look r f g \<Longrightarrow> f ++ g = f' ++ g' \<Longrightarrow> dom f \<inter> dom g = dom f' \<inter> dom g' \<Longrightarrow> union_or_clash look r f' g'"
  by (auto simp: union_or_clash_def split: sum.splits)

lemma map_of_update_Cons:
  assumes "m \<notin> fst ` set ops" "map_of ex m = None"
  shows "map_of (AList.update m op ex) ++ map_of ops = map_of ex ++ map_of ((m, op) # ops)"
    and "dom (map_of (AList.update m op ex)) \<inter> dom (map_of ops) = dom (map_of ex) \<inter> dom (map_of ((m, op) # ops))"
proof -
  have n: "map_of ops m = None" using assms(1) by (simp add: map_of_eq_None_iff)
  then show "map_of (AList.update m op ex) ++ map_of ops = map_of ex ++ map_of ((m, op) # ops)"
    by (auto simp: update_conv' map_add_def fun_eq_iff split: option.splits)
  show "dom (map_of (AList.update m op ex)) \<inter> dom (map_of ops) = dom (map_of ex) \<inter> dom (map_of ((m, op) # ops))"
    using n assms(2) by (auto simp: update_conv' split: if_splits)
qed

lemma merge_ops_spec: "wf_map ops \<Longrightarrow> union_or_clash map_of (merge_ops path ex ops) (map_of ex) (map_of ops)"
proof (induction path ex ops rule: merge_ops.induct)
  case (2 path ex m op ops)
  show ?case
  proof (cases "map_of ex m")
    case None
    with 2 have "union_or_clash map_of (merge_ops path (AList.update m op ex) ops) (map_of (AList.update m op ex)) (map_of ops)" by simp
    moreover have "m \<notin> fst ` set ops" using 2(2) by simp
    note map_of_update_Cons[OF this None, of op]
    ultimately have "union_or_clash map_of (merge_ops path (AList.update m op ex) ops) (map_of ex) (map_of ((m, op) # ops))"
      by (rule union_or_clash_shift)
    moreover have "merge_ops path ex ((m, op) # ops) = merge_ops path (AList.update m op ex) ops" using None by simp
    ultimately show ?thesis by (simp only:)
  qed (auto simp: dom_def union_or_clash_def)
qed (simp add: union_or_clash_def)

lemma op_in_update: "op_in (AList.update p item ps) = (\<lambda>(q, m). if q = p then map_of (pi_Operations item) m else op_in ps (q, m))"
  by (auto simp: op_in_def update_conv' fun_eq_iff)

lemma op_in_Cons: "op_in ((p, item) # ps) = (\<lambda>(q, m). if q = p then map_of (pi_Operations item) m else op_in ps (q, m))"
  by (auto simp: op_in_def fun_eq_iff)

lemma merge_paths_spec: "wf_paths frag \<Longrightarrow> union_or_clash op_in (merge_paths base frag) (op_in base) (op_in frag)"
proof (induction base frag rule: merge_paths.induct)
  case (1 base)
  have "op_in [] = Map.empty" by (auto simp: op_in_def)
  then show ?case by (simp add: union_or_clash_def)
next
  case (2 base path item frag)
  have wf: "wf_paths frag" "wf_map (pi_Operations item)" using "2.prems" by (auto simp: wf_paths_def)
  have "map_of frag path = None" using "2.prems" by (simp add: wf_paths_def map_of_eq_None_iff)
  then have fresh: "op_in frag (path, m) = None" for m by (simp add: op_in_def)
  show ?case
  proof (cases "map_of base path")
    case None
    have b0: "op_in base (path, m) = None" for m using None by (simp add: op_in_def)
    have "op_in (AList.update path item base) ++ op_in frag = op_in base ++ op_in ((path, item) # frag)"
      by (auto simp: op_in_update op_in_Cons map_add_def fun_eq_iff fresh b0 split: option.splits)
    moreover have "dom (op_in (AList.update path item base)) \<inter> dom (op_in frag) = dom (op_in base) \<inter> dom (op_in ((path, item) # frag))"
      using fresh b0 by (auto simp: op_in_update op_in_Cons split: if_splits)
    ultimately show ?thesis using union_or_clash_shift[OF 2(1)[OF None wf(1)]] None by simp
  next
    case (Some existing)
    have b1: "op_in base (path, m) = map_of (pi_Operations existing) m" for m using Some by (simp add: op_in_def)
    note mo = merge_ops_spec[OF wf(2), where path = path and ex = "pi_Operations existing"]
    show ?thesis
    proof (cases "merge_ops path (pi_Operations existing) (pi_Operations item)")
      case (Inl err)
      with mo obtain m x y where "map_of (pi_Operations existing) m = Some x" "map_of (pi_Operations item) m = Some y"
        by (auto simp: union_or_clash_def)
      then have "(path, m) \<in> dom (op_in base) \<inter> dom (op_in ((path, item) # frag))" by (auto simp: b1 op_in_Cons)
      with Inl Some show ?thesis by (auto simp: union_or_clash_def)
    next
      case (Inr ops)
      with mo have ops: "map_of ops = map_of (pi_Operations existing) ++ map_of (pi_Operations item)"
        "dom (map_of (pi_Operations existing)) \<inter> dom (map_of (pi_Operations item)) = {}" by (simp_all add: union_or_clash_def)
      then have no: "map_of (pi_Operations existing) m = Some x \<Longrightarrow> map_of (pi_Operations item) m = None" for m x
        by (metis (no_types) IntI domI empty_iff not_None_eq)
      let ?b = "AList.update path (existing\<lparr>pi_Operations := ops\<rparr>) base"
      have u: "op_in ?b = (\<lambda>(q, n). if q = path then (map_of (pi_Operations existing) ++ map_of (pi_Operations item)) n else op_in base (q, n))"
        by (auto simp: op_in_update ops fun_eq_iff)
      have "op_in ?b ++ op_in frag = op_in base ++ op_in ((path, item) # frag)"
        by (auto simp: u op_in_Cons map_add_def fun_eq_iff fresh b1 split: option.splits)
      moreover have "dom (op_in ?b) \<inter> dom (op_in frag) = dom (op_in base) \<inter> dom (op_in ((path, item) # frag))"
        using fresh b1 no by (auto simp: u op_in_Cons split: if_splits)
      ultimately show ?thesis using union_or_clash_shift[OF 2(2)[OF Some Inr wf(1)]] Some Inr by simp
    qed
  qed
qed

lemma mergeFragment_ops:
  assumes "mergeFragment quote base frag = Inr d" "wf_paths (oa_Paths frag)"
  shows "op_at d = op_at base ++ op_at frag" "dom (op_at base) \<inter> dom (op_at frag) = {}"
proof -
  from assms(1) obtain ps where ps: "merge_paths (oa_Paths base) (oa_Paths frag) = Inr ps" and d: "oa_Paths d = ps"
    by (auto simp: mergeFragment_def mergePaths_def mergeSchemas_def mergeSecuritySchemes_def mergeTags_def split: sum.splits)
  with merge_paths_spec[OF assms(2), of "oa_Paths base"]
  show "op_at d = op_at base ++ op_at frag" "dom (op_at base) \<inter> dom (op_at frag) = {}" by (simp_all add: union_or_clash_def)
qed

text \<open>Merging fragments keeps what was there, and takes every operation of every fragment from one place.\<close>

lemma merge_all_ops:
  assumes "merge_all G i raws base = Inr d" "map (gn_load G) raws = map Inr docs" "list_all (\<lambda>f. wf_paths (oa_Paths f)) docs"
  shows "\<forall>k op. op_at d k = Some op \<longleftrightarrow> op_at base k = Some op \<or> (\<exists>f \<in> set docs. op_at f k = Some op)"
    and "\<forall>k f. f \<in> set docs \<longrightarrow> k \<in> dom (op_at f) \<longrightarrow> k \<notin> dom (op_at base)"
proof -
  have "(\<forall>k op. op_at d k = Some op \<longleftrightarrow> op_at base k = Some op \<or> (\<exists>f \<in> set docs. op_at f k = Some op))
      \<and> (\<forall>k f. f \<in> set docs \<longrightarrow> k \<in> dom (op_at f) \<longrightarrow> k \<notin> dom (op_at base))"
    using assms
  proof (induction raws arbitrary: i base docs)
    case (Cons raw raws)
    then obtain f fs where docs: "docs = f # fs" and lf: "gn_load G raw = Inr f" "map (gn_load G) raws = map Inr fs"
      by (cases docs) auto
    from Cons.prems(1) lf obtain b where b: "mergeFragment (gn_quote G) base f = Inr b" "merge_all G (Suc i) raws b = Inr d"
      by (auto split: sum.splits)
    have wf: "wf_paths (oa_Paths f)" "list_all (\<lambda>f. wf_paths (oa_Paths f)) fs" using Cons.prems(3) docs by simp_all
    note ops = mergeFragment_ops[OF b(1) wf(1)]
    note ih = Cons.IH[OF b(2) lf(2) wf(2)]
    have look: "op_at b k = Some op \<longleftrightarrow> op_at base k = Some op \<or> op_at f k = Some op" for k op
      using ops by (auto simp: map_add_Some_iff dest: IntI[OF domI domI])
    then show ?case using ih ops(2) by (auto simp: docs dom_def)
  qed simp
  then show "\<forall>k op. op_at d k = Some op \<longleftrightarrow> op_at base k = Some op \<or> (\<exists>f \<in> set docs. op_at f k = Some op)"
    "\<forall>k f. f \<in> set docs \<longrightarrow> k \<in> dom (op_at f) \<longrightarrow> k \<notin> dom (op_at base)" by blast+
qed

text \<open>What becomes of an operation of the skeleton.\<close>

definition upstream_op :: "doc_op \<Rightarrow> doc_op" where
  "upstream_op op = (stripOperation op)\<lparr>do_Tags := map titleizeTag (do_Tags op)\<rparr>"

lemma map_of_map_snd: "map_of (map (map_prod id f) xs) k = map_option f (map_of xs k)"
  by (induction xs) auto

lemma map_of_map_fst: "inj g \<Longrightarrow> map_of (map (map_prod g id) xs) (g k) = map_of xs k"
  by (induction xs) (auto simp: inj_eq)

lemma map_of_map_fst_range: "map_of (map (map_prod g id) xs) k = Some v \<Longrightarrow> \<exists>k'. k = g k'"
  by (induction xs) (auto split: if_splits)

lemma prepared_ops: "op_at (titleizeManagementTags (stripUpstreamProse b)) k = map_option upstream_op (op_at b k)"
proof (cases k)
  case (Pair p m)
  show ?thesis
  proof (cases "map_of (oa_Paths b) p")
    case None
    then show ?thesis by (simp add: Pair op_in_def titleizeManagementTags_def stripUpstreamProse_def map_of_map_snd del: map_map)
  next
    case (Some item)
    then show ?thesis
      by (cases "map_of (pi_Operations item) m") (simp_all add: Pair op_in_def titleizeManagementTags_def stripUpstreamProse_def stripPathItem_def
          map_of_map_snd upstream_op_def stripOperation_def del: map_map)
  qed
qed

lemma prefixed_ops:
  assumes "oa_Servers base = Some sv # rest" "prefix_paths base = Inr b"
  shows "op_at b (p, m) = Some op \<longleftrightarrow> (\<exists>q. p = basePath (se_URL sv) @ q \<and> op_at base (q, m) = Some op)"
proof (cases "basePath (se_URL sv) = []")
  case False
  let ?bp = "basePath (se_URL sv)"
  have b: "oa_Paths b = map (map_prod ((@) ?bp) id) (oa_Paths base)" using assms False by (auto simp: prefix_paths_def Let_def)
  have inj: "inj ((@) ?bp)" by (simp add: inj_def)
  show ?thesis
  proof (cases "\<exists>q. p = ?bp @ q")
    case True
    then obtain q where p: "p = ?bp @ q" by blast
    show ?thesis unfolding b op_in_def p by (simp add: map_of_map_fst[OF inj])
  next
    case False
    then have "map_of (oa_Paths b) p = None" unfolding b using map_of_map_fst_range[of "(@) ?bp"] by (metis not_Some_eq)
    with False show ?thesis by (simp add: op_in_def)
  qed
qed (use assms in \<open>auto simp: prefix_paths_def Let_def\<close>)

lemma upstream_op_plain: "plain_op (upstream_op op)"
  by (auto simp: plain_op_def upstream_op_def stripOperation_def list_all_iff strip_plain)

lemma finish_ops: "op_at (finish_bundle description version server b) = op_at b"
  by (simp add: finish_bundle_def applyTagGroups_def rewriteInfo_def Let_def)

text \<open>
  C40. The merged description serves every surface as it describes itself. When the bundle succeeds, its
  operations are exactly those of the Management API under the base path of its server, without prose
  and with readable tags, and those of the fragments, unchanged; no operation of a fragment is declared
  by the Management API too.
\<close>
theorem bundle_exact:
  assumes base: "gn_load G skeleton = Inr base" "oa_Servers base = Some sv # svs"
    and frags: "map (gn_load G) fragments = map Inr docs" "list_all (\<lambda>f. wf_paths (oa_Paths f)) docs"
    and ok: "gen_bundle G description version skeleton fragments server = Inr d"
  shows "(op_at d (p, m) = Some op \<longleftrightarrow>
            (\<exists>q up. p = basePath (se_URL sv) @ q \<and> op_at base (q, m) = Some up \<and> op = upstream_op up)
            \<or> (\<exists>f \<in> set docs. op_at f (p, m) = Some op))
    \<and> plain_op (upstream_op up)
    \<and> \<not> ((\<exists>q. p = basePath (se_URL sv) @ q \<and> (q, m) \<in> dom (op_at base)) \<and> (\<exists>f \<in> set docs. (p, m) \<in> dom (op_at f)))"
proof -
  obtain b where b: "prefix_paths base = Inr b" using base(2) by (auto simp: prefix_paths_def Let_def)
  let ?u = "titleizeManagementTags (stripUpstreamProse b)"
  from ok base b obtain b2 where m: "merge_all G 0 fragments ?u = Inr b2" and d: "d = finish_bundle description version server b2"
    by (auto simp: gen_bundle_def bundleWithExtras_def split: sum.splits)
  note ops = merge_all_ops[OF m frags]
  note pre = prefixed_ops[OF base(2) b]
  have up: "op_at ?u (p, m) = Some op' \<longleftrightarrow> (\<exists>q up. p = basePath (se_URL sv) @ q \<and> op_at base (q, m) = Some up \<and> op' = upstream_op up)" for op'
    unfolding prepared_ops map_option_eq_Some pre by auto
  have "op_at d = op_at b2" unfolding d by (rule finish_ops)
  then have "op_at d (p, m) = Some op \<longleftrightarrow>
            (\<exists>q up. p = basePath (se_URL sv) @ q \<and> op_at base (q, m) = Some up \<and> op = upstream_op up)
            \<or> (\<exists>f \<in> set docs. op_at f (p, m) = Some op)"
    using ops(1) up by simp
  moreover have "\<not> ((\<exists>q. p = basePath (se_URL sv) @ q \<and> (q, m) \<in> dom (op_at base)) \<and> (\<exists>f \<in> set docs. (p, m) \<in> dom (op_at f)))"
  proof
    assume clash: "(\<exists>q. p = basePath (se_URL sv) @ q \<and> (q, m) \<in> dom (op_at base)) \<and> (\<exists>f \<in> set docs. (p, m) \<in> dom (op_at f))"
    then obtain op' where "op_at ?u (p, m) = Some op'" using up by blast
    with ops(2) clash show False by blast
  qed
  ultimately show ?thesis using upstream_op_plain by blast
qed

text \<open>
  No tag is lost from the sidebar. After the tags are grouped, a tag that an operation uses is in one
  group and in no other, whatever the fragments declare; the Management API's group lists its tags once
  each, in order.
\<close>
theorem tag_groups_cover:
  "\<exists>groups. oa_TagGroups (applyTagGroups d) = Some groups
    \<and> (\<forall>t. t \<in> set (used_tags d) \<longrightarrow> (\<exists>!g. g \<in> set groups \<and> t \<in> set (snd g)))
    \<and> (\<forall>ts. (''Management API'', ts) \<in> set groups \<longrightarrow> sorted ts \<and> distinct ts \<and> set ts \<subseteq> set (used_tags d))"
proof -
  let ?m = "sort (filter (\<lambda>t. t \<notin> set (authAPITags @ admin0Tags @ serviceTags)) (remdups (used_tags d)))"
  let ?gs = "[(''Authentication API'', authAPITags), (''Management API'', ?m), (''admin0'', admin0Tags), (''Service'', serviceTags)]"
  have eq: "oa_TagGroups (applyTagGroups d) = Some ?gs" by (simp add: applyTagGroups_def Let_def)
  have dis: "set authAPITags \<inter> set admin0Tags = {}" "set authAPITags \<inter> set serviceTags = {}" "set admin0Tags \<inter> set serviceTags = {}"
    by (auto simp: authAPITags_def admin0Tags_def serviceTags_def)
  have "\<exists>!g. g \<in> set ?gs \<and> t \<in> set (snd g)" if "t \<in> set (used_tags d)" for t
  proof -
    have "t \<in> set authAPITags \<or> t \<in> set admin0Tags \<or> t \<in> set serviceTags \<or> t \<in> set ?m" using that by auto
    then consider "t \<in> set authAPITags" | "t \<in> set admin0Tags" | "t \<in> set serviceTags" | "t \<in> set ?m" by blast
    then show ?thesis
    proof cases
      case 1
      then show ?thesis using dis by (intro ex1I[of _ "(''Authentication API'', authAPITags)"]) auto
    next
      case 2
      then show ?thesis using dis by (intro ex1I[of _ "(''admin0'', admin0Tags)"]) auto
    next
      case 3
      then show ?thesis using dis by (intro ex1I[of _ "(''Service'', serviceTags)"]) auto
    next
      case 4
      then show ?thesis by (intro ex1I[of _ "(''Management API'', ?m)"]) auto
    qed
  qed
  moreover have "sorted ts \<and> distinct ts \<and> set ts \<subseteq> set (used_tags d)" if "(''Management API'', ts) \<in> set ?gs" for ts
    using that by auto
  ultimately show ?thesis unfolding eq by blast
qed

section \<open>Witnesses\<close>

definition demo_doc_op :: "string list \<Rightarrow> doc_op" where
  "demo_doc_op tags = \<lparr>do_Description = ''prose'', do_ExternalDocs = None, do_Extensions = [], do_Parameters = [], do_RequestBody = None,
     do_Responses = [], do_Tags = tags, do_rest = JNull\<rparr>"

definition demo_doc :: "string \<Rightarrow> string \<Rightarrow> string list \<Rightarrow> doc" where
  "demo_doc url path tags = \<lparr>oa_Info = None,
     oa_Servers = [Some \<lparr>se_URL = url, se_Description = [], se_Extensions = [], se_Variables = []\<rparr>],
     oa_Paths = [(path, \<lparr>pi_Description = [], pi_Extensions = [], pi_Parameters = [], pi_Operations = [(''GET'', demo_doc_op tags)], pi_rest = JNull\<rparr>)],
     oa_Paths_ext = [], oa_Components = \<lparr>cp_Extensions = [], cp_SecuritySchemes = [], cp_Schemas = [], cp_Parameters = [], cp_Headers = [],
       cp_RequestBodies = [], cp_Responses = []\<rparr>, oa_Tags = [], oa_ExternalDocs = None, oa_Extensions = [], oa_TagGroups = None\<rparr>"

definition demo_gen :: gen_lib where
  "demo_gen = \<lparr>gn_load = (\<lambda>raw. if raw = ''base'' then Inr (demo_doc ''https://x/api/v2'' ''/users'' [''client-grants''])
       else if raw = ''frag'' then Inr (demo_doc [] ''/healthz'' [''Service'']) else Inl ''no''),
     gn_unmarshal = (\<lambda>_. Inl []), gn_marshal = (\<lambda>_. []), gn_marshal_doc = (\<lambda>_. Inl []), gn_quote = (\<lambda>s. s), gn_read_error = (\<lambda>s. s),
     gn_write_error = (\<lambda>_. None)\<rparr>"

theorem bundle_exact_witness:
  "\<exists>d. gen_bundle demo_gen [] [] ''base'' [''frag''] ''http://localhost:8080'' = Inr d
     \<and> op_at d (''/healthz'', ''GET'') = Some (demo_doc_op [''Service''])
     \<and> op_at d (''/api/v2/users'', ''GET'') = Some (upstream_op (demo_doc_op [''client-grants'']))"
proof -
  let ?base = "demo_doc ''https://x/api/v2'' ''/users'' [''client-grants'']" and ?frag = "demo_doc [] ''/healthz'' [''Service'']"
  let ?sv = "\<lparr>se_URL = ''https://x/api/v2'', se_Description = [], se_Extensions = [], se_Variables = []\<rparr>"
  obtain d where ok: "gen_bundle demo_gen [] [] ''base'' [''frag''] ''http://localhost:8080'' = Inr d"
    by (simp add: gen_bundle_def bundleWithExtras_def demo_gen_def demo_doc_def prefix_paths_def basePath_def titleizeManagementTags_def
        stripUpstreamProse_def strip_components_def mergeFragment_def mergePaths_def mergeSchemas_def mergeSecuritySchemes_def mergeTags_def tag_names_def)
  have base: "gn_load demo_gen ''base'' = Inr ?base" "oa_Servers ?base = Some ?sv # []" by (simp_all add: demo_gen_def demo_doc_def)
  have frags: "map (gn_load demo_gen) [''frag''] = map Inr [?frag]" "list_all (\<lambda>f. wf_paths (oa_Paths f)) [?frag]"
    by (simp_all add: demo_gen_def demo_doc_def wf_paths_def)
  have bp: "basePath (se_URL ?sv) = ''/api/v2''" by code_simp
  have f: "op_at ?frag (''/healthz'', ''GET'') = Some (demo_doc_op [''Service''])"
    and b: "op_at ?base (''/users'', ''GET'') = Some (demo_doc_op [''client-grants''])" by (simp_all add: demo_doc_def op_in_def)
  have u: "\<exists>q up. ''/api/v2/users'' = basePath (se_URL ?sv) @ q \<and> op_at ?base (q, ''GET'') = Some up \<and> upstream_op (demo_doc_op [''client-grants'']) = upstream_op up"
    unfolding bp using b by (intro exI[of _ "''/users''"] exI[of _ "demo_doc_op [''client-grants'']"]) simp
  note ex = bundle_exact[OF base frags ok, THEN conjunct1]
  have "op_at d (''/healthz'', ''GET'') = Some (demo_doc_op [''Service''])"
    using ex[of "''/healthz''" "''GET''" "demo_doc_op [''Service'']"] f by simp
  moreover have "op_at d (''/api/v2/users'', ''GET'') = Some (upstream_op (demo_doc_op [''client-grants'']))"
    using ex[of "''/api/v2/users''" "''GET''" "upstream_op (demo_doc_op [''client-grants''])"] u by blast
  ultimately show ?thesis using ok by blast
qed

theorem tag_groups_cover_witness:
  "\<exists>groups. oa_TagGroups (applyTagGroups (demo_doc [] ''/users'' [''Client Grants''])) = Some groups
     \<and> (\<exists>!g. g \<in> set groups \<and> ''Client Grants'' \<in> set (snd g))"
proof -
  have "''Client Grants'' \<in> set (used_tags (demo_doc [] ''/users'' [''Client Grants'']))" by (simp add: used_tags_def demo_doc_def demo_doc_op_def)
  then show ?thesis using tag_groups_cover[of "demo_doc [] ''/users'' [''Client Grants'']"] by blast
qed

end
