(* ===== verification/Logger.thy ===== *)
theory Logger
  imports Prelude
begin

text \<open>
  The logger, \<^verbatim>\<open>internal/logger/logger.go\<close>: the level that is used, the label of a level, and its colour.
  The level parser and the writer of zerolog are parameters: a parsed level is \<open>None\<close> for \<^verbatim>\<open>NoLevel\<close>.
\<close>

definition colorize :: "string \<Rightarrow> string \<Rightarrow> bool \<Rightarrow> string" where
  "colorize s ansi noColor = (if noColor then s else [CHR 0x1B] @ ''['' @ ansi @ ''m'' @ s @ [CHR 0x1B] @ ''[0m'')"

definition warning_glyph :: string where
  "warning_glyph = [CHR 0xE2, CHR 0x9A, CHR 0xA0]"

definition ballot_glyph :: string where
  "ballot_glyph = [CHR 0xE2, CHR 0x9C, CHR 0x97]"

text \<open>A field that is no string has the empty text.\<close>

definition levelFormatter :: "bool \<Rightarrow> string option \<Rightarrow> string" where
  "levelFormatter noColor i =
     (let s = (case i of Some x \<Rightarrow> x | None \<Rightarrow> [])
      in if s = ''trace'' then colorize ''TRACE'' ''90'' noColor
         else if s = ''debug'' then colorize ''DEBUG'' ''36'' noColor
         else if s = ''info'' then colorize ''INFO'' ''32'' noColor
         else if s = ''warn'' then colorize (warning_glyph @ '' WARNING'') ''33'' noColor
         else if s = ''error'' then colorize (ballot_glyph @ '' ERROR'') ''31'' noColor
         else if s = ''fatal'' then colorize (ballot_glyph @ '' FATAL'') ''1;31'' noColor
         else if s = ''panic'' then colorize (ballot_glyph @ '' PANIC'') ''1;31'' noColor
         else s)"

text \<open>
  \<^verbatim>\<open>stdoutIsTTY\<close>: whether the file information of the standard output can be read and is that of a
  character device. \<^verbatim>\<open>New\<close>: the warning on the standard error, if any, the level and whether colours
  are off.
\<close>

definition stdoutIsTTY :: "bool option \<Rightarrow> bool" where
  "stdoutIsTTY char_device = (case char_device of None \<Rightarrow> False | Some is_device \<Rightarrow> is_device)"

record 'lvl Logger =
  lg_Level :: 'lvl
  lg_NoColor :: bool

definition Logger_New :: "(string \<Rightarrow> string + 'lvl option) \<Rightarrow> 'lvl \<Rightarrow> (string \<Rightarrow> string) \<Rightarrow> bool option \<Rightarrow> string \<Rightarrow> string list \<times> 'lvl Logger" where
  "Logger_New parse_level info quote char_device level =
     (case (case parse_level level of Inr (Some l) \<Rightarrow> ([], l)
            | _ \<Rightarrow> ([''logger: invalid LOG_LEVEL '' @ quote level @ '', falling back to info'' @ [CHR 0x0A]], info)) of
        (warnings, parsed) \<Rightarrow> (warnings, \<lparr>lg_Level = parsed, lg_NoColor = \<not> stdoutIsTTY char_device\<rparr>))"

text \<open>The label of a level without the colour is its label with the colour, stripped of the two escape sequences.\<close>

lemma colorize_plain: "colorize s ansi False = [CHR 0x1B] @ ''['' @ ansi @ ''m'' @ colorize s ansi True @ [CHR 0x1B] @ ''[0m''"
  by (simp add: colorize_def)

text \<open>Off a terminal the colours go, the glyphs stay: the labels of warnings and errors are not ASCII there.\<close>

lemma glyph_without_colour:
  assumes "level \<in> {''warn'', ''error'', ''fatal'', ''panic''}"
  shows "\<exists>c \<in> set (levelFormatter True (Some level)). (of_char c :: nat) > 127"
proof -
  have glyphs: "CHR 0xE2 \<in> set warning_glyph" "CHR 0xE2 \<in> set ballot_glyph" "(of_char CHR 0xE2 :: nat) > 127"
    by (simp_all add: warning_glyph_def ballot_glyph_def)
  have "levelFormatter True (Some ''warn'') = warning_glyph @ '' WARNING''" "levelFormatter True (Some ''error'') = ballot_glyph @ '' ERROR''"
    "levelFormatter True (Some ''fatal'') = ballot_glyph @ '' FATAL''" "levelFormatter True (Some ''panic'') = ballot_glyph @ '' PANIC''"
    by (simp_all add: levelFormatter_def colorize_def)
  with assms have "CHR 0xE2 \<in> set (levelFormatter True (Some level))" using glyphs(1,2) by (elim insertE) simp_all
  with glyphs(3) show ?thesis by blast
qed

lemma invalid_level_is_info:
  "parse_level level = Inl err \<or> parse_level level = Inr None \<Longrightarrow>
     lg_Level (snd (Logger_New parse_level info quote dev level)) = info \<and> fst (Logger_New parse_level info quote dev level) \<noteq> []"
  by (auto simp: Logger_New_def)

end
