(* ===== verification/Server_Runs.thy ===== *)
theory Server_Runs
  imports Router Auth_Mount Mgmt_Access
begin

text \<open>
  The three APIs over the stores they share, as \<^verbatim>\<open>cmd/api/main.go\<close> and \<^verbatim>\<open>internal/router/router.go\<close> wire
  them: the control plane, the Authentication API and the Management API behind its bearer check. One
  controllable clock drives them all: \<^verbatim>\<open>run\<close> hands \<^verbatim>\<open>clk.Now\<close> to the key set, to the PKCE store and to the MFA
  store, and the clock itself to the control plane, so that every reading of the time is a reading
  of that clock. The wall clock is read anew each time: \<open>wall i\<close> is what the i-th reading of a call shows.
\<close>

section \<open>The server\<close>

record server_setup =
  sx_auth :: auth_config
  sx_issuer :: string
  sx_mount :: MountOpts
  sx_stream :: "request \<Rightarrow> writer_call list"

definition router_setup :: "auth_lib \<Rightarrow> url_lib \<Rightarrow> json_codec \<Rightarrow> (request \<Rightarrow> writer_call list) \<Rightarrow> Router_Deps \<Rightarrow> server_setup" where
  "router_setup A U C stream d = (let s = auth_deps d in
     \<lparr>sx_auth = \<lparr>ac_lib = A, ac_url = U, ac_codec = C, ac_token = au_Token s, ac_callbacks = au_AuthorizeAllowedRedirectURIs s,
        ac_logout_urls = au_LogoutAllowedURLs s, ac_rules = None\<rparr>,
      sx_issuer = au_Issuer s, sx_mount = mount_opts d, sx_stream = stream\<rparr>)"

definition server_now :: "time \<Rightarrow> server \<Rightarrow> time" where
  "server_now wall sv = (case ad_Clock (sv_deps sv) of None \<Rightarrow> wall | Some c \<Rightarrow> Now wall c)"

definition put_auth :: "auth_state \<Rightarrow> server \<Rightarrow> server" where
  "put_auth st sv = sv\<lparr>sv_deps := (sv_deps sv)\<lparr>ad_Claims := as_Claims st, ad_ClaimMappings := as_Mappings st,
     ad_Permissions := as_Permissions st, ad_MFA := as_MFA st, ad_Sessions := as_Sessions st\<rparr>, sv_PKCE := as_PKCE st\<rparr>"

datatype server_call =
    AdminCall admin_handler admin_call
  | AuthCall auth_handler auth_input
  | MgmtCall Operation http_header int request

text \<open>An answer, with what the journal's slot was told, a stream, or a panic.\<close>

datatype server_reply =
    Answered "handler_act list" response
  | Streamed "handler_act list"
  | Panicked

definition reply_of :: "handler_act list \<times> response + handler_act list \<Rightarrow> server_reply" where
  "reply_of out = (case out of Inl (acts, resp) \<Rightarrow> Answered acts resp | Inr acts \<Rightarrow> Streamed acts)"

text \<open>The registered handler of an operation, once the bearer check has passed.\<close>

definition served :: "server_setup \<Rightarrow> Operation \<Rightarrow> http_header \<Rightarrow> int \<Rightarrow> request \<Rightarrow> Match_Store \<Rightarrow> server_reply \<times> Match_Store" where
  "served X op hdr n r s = map_prod reply_of id
     (case mh_inner (mount_handler (sx_mount X) op) of
        Generic h \<Rightarrow> (case Generic_ServeHTTP (ac_codec (sx_auth X)) h hdr n r s of (acts, resp, s') \<Rightarrow> (Inl (acts, resp), s'))
      | EventsStubs h \<Rightarrow> Events_ServeHTTP (ac_codec (sx_auth X)) h hdr (sx_stream X) r s)"

fun server_serve :: "server_setup \<Rightarrow> (nat \<Rightarrow> time) \<times> server_call \<Rightarrow> server \<Rightarrow> server_reply \<times> server" where
  "server_serve X (wall, AdminCall h c) sv =
     (case admin_serve (mn_Validator (sx_mount X)) h (c\<lparr>ca_wall := wall 0\<rparr>) (sv_deps sv) of
        (Inl (), d) \<Rightarrow> (Panicked, sv\<lparr>sv_deps := d\<rparr>)
      | (Inr resp, d) \<Rightarrow> (Answered [] resp, sv\<lparr>sv_deps := d\<rparr>))"
| "server_serve X (wall, AuthCall h i) sv =
     (case mount_serve ((sx_auth X)\<lparr>ac_rules := ad_AuthorizeErrors (sv_deps sv)\<rparr>) (sx_issuer X) h
         (i\<lparr>ai_env := (ai_env i)\<lparr>nd_now := \<lambda>k. server_now (wall k) sv\<rparr>, ai_now := server_now (wall 0) sv, ai_now' := server_now (wall 1) sv\<rparr>)
         (auth_of sv) of
        (resp, st) \<Rightarrow> (Answered [] resp, put_auth st sv))"
| "server_serve X (wall, MgmtCall op hdr n r) sv =
     (let L = al_jwt (ac_lib (sx_auth X)); k = th_Keys (ac_token (sx_auth X)); m = mount_handler (sx_mount X) op; now = server_now (wall 0) sv
      in case ad_Matches (sv_deps sv) of
           Some s \<Rightarrow> (case mounted_serve L k now (ac_codec (sx_auth X)) (sx_stream X) m hdr n r s of
               (out, s') \<Rightarrow> (reply_of out, sv\<lparr>sv_deps := (sv_deps sv)\<lparr>ad_Matches := Some s'\<rparr>\<rparr>))
         | None \<Rightarrow> (case Bearer_Middleware L k (mh_RequireAudience m) now r of
               Inl refusal \<Rightarrow> (Answered [] (over_header hdr refusal), sv)
             | Inr _ \<Rightarrow> (Panicked, sv)))"

declare server_serve.simps [simp del]

section \<open>Time travel\<close>

text \<open>What a body says to the clock endpoints, as their decoders read it.\<close>

definition says_now :: "admin_call \<Rightarrow> time \<Rightarrow> bool" where
  "says_now c t \<longleftrightarrow> (\<exists>txt. cl_decode_put (ca_clock c) (fst (ca_body c)) = Inr (Some txt, None) \<and> cl_parse_time (ca_clock c) txt = Inr t)"

definition says_by :: "admin_call \<Rightarrow> duration \<Rightarrow> bool" where
  "says_by c d \<longleftrightarrow> (\<exists>txt. cl_decode_advance (ca_clock c) (fst (ca_body c)) = Inr txt \<and> cl_parse_duration (ca_clock c) txt = Inr d)"

definition frozen :: "time \<Rightarrow> server \<Rightarrow> server" where
  "frozen t sv = sv\<lparr>sv_deps := (sv_deps sv)\<lparr>ad_Clock := Some \<lparr>ck_mode = ModeFrozen, ck_pinned = t, ck_offset = 0\<rparr>\<rparr>\<rparr>"

lemma frozen_now [simp]: "server_now wall (frozen t sv) = t"
  by (simp add: server_now_def frozen_def Now_def)

lemma frozen_frame [simp]:
  "frozen t (frozen u sv) = frozen t sv" "auth_of (frozen t sv) = auth_of sv" "ad_Matches (sv_deps (frozen t sv)) = ad_Matches (sv_deps sv)"
  by (simp_all add: frozen_def auth_of_def Let_def)

lemma put_auth_of [simp]: "put_auth (auth_of sv) sv = sv"
  by (simp add: put_auth_def auth_of_def Let_def)

lemma serve_freeze:
  assumes "says_now c t" "ad_Clock (sv_deps sv) \<noteq> None"
  shows "server_serve X (wall, AdminCall HPutClock c) sv = (Answered [] (no_content 204), frozen t sv)"
  using assms by (auto simp: server_serve.simps says_now_def writes_def PutClockHandler_def decodeClockBody_def Freeze_def frozen_def)

lemma serve_advance:
  assumes "says_by c d"
  shows "server_serve X (wall, AdminCall HAdvanceClock c) (frozen t sv) = (Answered [] (no_content 204), frozen (time_add t d) sv)"
  using assms by (auto simp: server_serve.simps says_by_def writes_def AdvanceClockHandler_def decodeClockBody_def Advance_def frozen_def)

lemma serve_advances:
  assumes "list_all2 says_by cs ds" "map snd ops = map (AdminCall HAdvanceClock) cs"
  shows "run_ops (server_serve X) ops (frozen t sv)
    = (replicate (length ops) (Answered [] (no_content 204)), frozen (t + sum_list (map dur_ns ds)) sv)"
  using assms
proof (induction cs ds arbitrary: ops t rule: list_all2_induct)
  case (Cons c cs d ds)
  then obtain wall rest where ops: "ops = (wall, AdminCall HAdvanceClock c) # rest" "map snd rest = map (AdminCall HAdvanceClock) cs"
    by (cases ops) auto
  from Cons.IH[OF ops(2), of "time_add t d"] show ?case
    by (simp add: ops(1) run_ops.simps(2) serve_advance[OF Cons.hyps(1)] time_add_def add.assoc)
qed simp

text \<open>The token request of a machine, at the time the clock shows.\<close>

lemma serve_credentials:
  assumes "parseTokenRequest (ac_lib (sx_auth X)) (ai_request i) = Inr req" "tr_GrantType req = ''client_credentials''"
    and "resolveAudience (ac_token (sx_auth X)) (tr_Audience req) = aud" "aud \<noteq> []"
    and "Mint (al_jwt (ac_lib (sx_auth X))) (th_Keys (ac_token (sx_auth X))) t
      (access_opts (ac_token (sx_auth X)) (ai_request i) (tr_ClientID req @ ''@clients'') aud (tr_Scope req)
        (augmentExtra (auth_of sv) (azp_extra ''client-credentials'' (tr_ClientID req)) aud (tr_Params req))) = Inr tok"
  shows "server_serve X (wall, AuthCall HToken i) (frozen t sv) =
    (Answered [] (render_json 200 (token_json \<lparr>tp_AccessToken = tok, tp_IDToken = [], tp_RefreshToken = [], tp_TokenType = ''Bearer'',
        tp_ExpiresIn = dur_secs (cf_AccessTokenTTL (cfg_of (ac_token (sx_auth X)))), tp_Scope = tr_Scope req\<rparr>)), frozen t sv)"
proof -
  have "put_auth (auth_of sv) (frozen t sv) = frozen t sv" using put_auth_of[of "frozen t sv"] by simp
  with assms show ?thesis by (simp add: server_serve.simps Token_ServeHTTP_def respondClientCredentials_def Let_def)
qed

text \<open>A request to the Management API: let through, or refused with nothing changed.\<close>

lemma serve_mgmt:
  assumes "ad_Matches (sv_deps sv) = Some s"
    and "mounted_serve (al_jwt (ac_lib (sx_auth X))) (th_Keys (ac_token (sx_auth X))) t (ac_codec (sx_auth X)) (sx_stream X)
      (mount_handler (sx_mount X) op) hdr n r s = (res, s')"
  shows "server_serve X (wall, MgmtCall op hdr n r) (frozen t sv) = (reply_of res, frozen t (sv\<lparr>sv_deps := (sv_deps sv)\<lparr>ad_Matches := Some s'\<rparr>\<rparr>))"
  using assms by (simp add: server_serve.simps frozen_def server_now_def Now_def)

lemma same_store: "ad_Matches (sv_deps sv) = Some s \<Longrightarrow> sv\<lparr>sv_deps := (sv_deps sv)\<lparr>ad_Matches := Some s\<rparr>\<rparr> = sv"
  by (cases sv; cases "sv_deps sv") auto

lemma serve_with_token:
  assumes lib: "jwt_correct (al_jwt (ac_lib (sx_auth X)))" and mint: "Mint (al_jwt (ac_lib (sx_auth X))) k now opts = Inr tok"
    and keys: "k = th_Keys (ac_token (sx_auth X))" and iss: "mo_Issuer opts \<noteq> []" "IssuerFor k r = mo_Issuer opts"
    and extra: "keeps_registered (mo_Extra opts)" and lifetime: "0 \<le> dur_ns (cf_Leeway (ks_cfg k))" "1000000000 \<le> dur_ns (mo_TTL opts)"
    and aud: "mn_RequireAudience (sx_mount X) = [] \<or> mn_RequireAudience (sx_mount X) \<in> set (mo_Audience opts)"
    and bearer: "list_all (\<lambda>c. \<not> is_space c) tok" "tok \<noteq> []" "header_get (rq_Header r) ''Authorization'' = ''Bearer '' @ tok"
    and store: "ad_Matches (sv_deps sv) = Some s"
  shows "served X op hdr n r s = (reply, s') \<Longrightarrow>
      server_serve X (wall, MgmtCall op hdr n r) (frozen now sv) = (reply, frozen now (sv\<lparr>sv_deps := (sv_deps sv)\<lparr>ad_Matches := Some s'\<rparr>\<rparr>))"
    and "dur_ns (mo_TTL opts) + dur_ns (cf_Leeway (ks_cfg k)) \<le> dur_ns d \<Longrightarrow>
      server_serve X (wall, MgmtCall op hdr n r) (frozen (time_add now d) sv) =
        (Answered [] (over_header hdr (WriteMgmt 401 ''Unauthorized'' ''invalid bearer token'' ''invalid_bearer'')), frozen (time_add now d) sv)"
proof -
  note opens = mounted_by_token[OF lib mint iss extra lifetime(1) _ bearer, where mopts = "sx_mount X" and op = op and C = "ac_codec (sx_auth X)"
      and stream = "sx_stream X" and hdr = hdr and n = n and s = s, unfolded Let_def keys]
  let ?mounted = "\<lambda>u. mounted_serve (al_jwt (ac_lib (sx_auth X))) (th_Keys (ac_token (sx_auth X))) u (ac_codec (sx_auth X)) (sx_stream X)
      (mount_handler (sx_mount X) op) hdr n r s"
  {
    assume "served X op hdr n r s = (reply, s')"
    then obtain res where "?mounted now = (res, s')" "reply_of res = reply"
      using opens[of now] aud lifetime by (auto simp: served_def time_add_def keys map_prod_def split: prod.splits)
    from serve_mgmt[OF store this(1)] this(2)
    show "server_serve X (wall, MgmtCall op hdr n r) (frozen now sv) = (reply, frozen now (sv\<lparr>sv_deps := (sv_deps sv)\<lparr>ad_Matches := Some s'\<rparr>\<rparr>))"
      by simp
  next
    assume "dur_ns (mo_TTL opts) + dur_ns (cf_Leeway (ks_cfg k)) \<le> dur_ns d"
    then have "?mounted (time_add now d) = (Inl ([], over_header hdr (WriteMgmt 401 ''Unauthorized'' ''invalid bearer token'' ''invalid_bearer'')), s)"
      using opens[of "time_add now d"] lifetime by (simp add: time_add_def keys)
    from serve_mgmt[OF store this] same_store[OF store] show "server_serve X (wall, MgmtCall op hdr n r) (frozen (time_add now d) sv) =
        (Answered [] (over_header hdr (WriteMgmt 401 ''Unauthorized'' ''invalid bearer token'' ''invalid_bearer'')), frozen (time_add now d) sv)"
      by (simp add: reply_of_def)
  }
qed

lemma run_ops_parts:
  "run_ops f xs s = (rs, s1) \<Longrightarrow> run_ops f ys s1 = (rs', s2) \<Longrightarrow> run_ops f (xs @ ys) s = (rs @ rs', s2)"
  by (simp add: prod_eq_iff)

text \<open>
  C22. Time travel reaches every API. Once \<^verbatim>\<open>PUT /admin0/clock\<close> has frozen the clock and any number of
  \<^verbatim>\<open>POST /admin0/clock/advance\<close> have moved it, whatever the wall clock shows at any reading, a machine's token
  request is answered with a token minted at exactly the frozen instant plus the advances; the
  Management API takes this token and answers from its stubs; and after one more advance
  past the token's lifetime and the leeway it answers the same request 401, without counting a hit.
  Nothing but the clock and the stub that answered has changed.
\<close>
theorem time_travel:
  fixes X :: server_setup and sv :: server and i :: auth_input and req :: tokenRequest and aud :: string and t :: time and ds :: "duration list"
  defines "L \<equiv> al_jwt (ac_lib (sx_auth X))" and "h \<equiv> ac_token (sx_auth X)"
    and "ttl \<equiv> cf_AccessTokenTTL (cfg_of (ac_token (sx_auth X)))" and "leeway \<equiv> cf_Leeway (cfg_of (ac_token (sx_auth X)))"
    and "now \<equiv> t + sum_list (map dur_ns ds)"
    and "opts \<equiv> access_opts (ac_token (sx_auth X)) (ai_request i) (tr_ClientID req @ ''@clients'') aud (tr_Scope req)
      (augmentExtra (auth_of sv) (azp_extra ''client-credentials'' (tr_ClientID req)) aud (tr_Params req))"
  assumes lib: "jwt_correct L" and clock: "ad_Clock (sv_deps sv) \<noteq> None" and store: "ad_Matches (sv_deps sv) = Some s"
    and freeze: "says_now fc t" and moves: "list_all2 says_by acs ds" and far: "says_by ac d" "dur_ns ttl + dur_ns leeway \<le> dur_ns d"
    and ops: "map snd ops = AdminCall HPutClock fc # map (AdminCall HAdvanceClock) acs"
    and req: "parseTokenRequest (ac_lib (sx_auth X)) (ai_request i) = Inr req" "tr_GrantType req = ''client_credentials''"
    and aud: "resolveAudience h (tr_Audience req) = aud" "aud \<noteq> []" "mn_RequireAudience (sx_mount X) \<in> {[], aud}"
    and iss: "IssuerFor (th_Keys h) (ai_request i) \<noteq> []" "IssuerFor (th_Keys h) r = IssuerFor (th_Keys h) (ai_request i)"
    and extra: "keeps_registered (mo_Extra opts)" and signed: "jl_sign L (ks_keyID (th_Keys h)) (mint_claims (mo_Issuer opts) now opts) = Inr tok"
    and lifetime: "0 \<le> dur_ns leeway" "1000000000 \<le> dur_ns ttl"
    and bearer: "list_all (\<lambda>c. \<not> is_space c) tok" "tok \<noteq> []" "header_get (rq_Header r) ''Authorization'' = ''Bearer '' @ tok"
  shows "\<exists>reply s'. served X op hdr n r s = (reply, s') \<and>
    run_ops (server_serve X) (ops @ [(w1, AuthCall HToken i), (w2, MgmtCall op hdr n r), (w3, AdminCall HAdvanceClock ac), (w4, MgmtCall op hdr n r)]) sv =
      (replicate (length ops) (Answered [] (no_content 204)) @
        [Answered [] (render_json 200 (token_json \<lparr>tp_AccessToken = tok, tp_IDToken = [], tp_RefreshToken = [], tp_TokenType = ''Bearer'',
           tp_ExpiresIn = dur_secs ttl, tp_Scope = tr_Scope req\<rparr>)),
         reply, Answered [] (no_content 204),
         Answered [] (over_header hdr (WriteMgmt 401 ''Unauthorized'' ''invalid bearer token'' ''invalid_bearer''))],
       frozen (time_add now d) (sv\<lparr>sv_deps := (sv_deps sv)\<lparr>ad_Matches := Some s'\<rparr>\<rparr>))"
proof -
  let ?k = "th_Keys h" and ?sv = "\<lambda>s'. sv\<lparr>sv_deps := (sv_deps sv)\<lparr>ad_Matches := Some s'\<rparr>\<rparr>"
  obtain wall moved where split: "ops = (wall, AdminCall HPutClock fc) # moved" "map snd moved = map (AdminCall HAdvanceClock) acs"
    using ops by (cases ops) auto
  have run: "run_ops (server_serve X) ops sv = (replicate (length ops) (Answered [] (no_content 204)), frozen now sv)"
    using serve_advances[OF moves split(2), of X t sv] serve_freeze[OF freeze clock, of X wall]
    by (simp add: split(1) run_ops.simps(2) now_def)
  have opts: "mo_Issuer opts = IssuerFor ?k (ai_request i)" "mo_TTL opts = ttl" "mo_Audience opts = [aud]" "cf_Leeway (ks_cfg ?k) = leeway"
    by (simp_all add: opts_def access_opts_def h_def ttl_def leeway_def)
  have mint: "Mint L ?k now opts = Inr tok" using iss(1) signed by (simp add: Mint_def issuer_def opts)
  note token = serve_credentials[OF req aud(1,2)[unfolded h_def] mint[unfolded L_def h_def opts_def], folded ttl_def, where wall = w1]
  obtain reply s' where out: "served X op hdr n r s = (reply, s')" by fastforce
  have keys: "?k = th_Keys (ac_token (sx_auth X))" by (simp add: h_def)
  have use: "mo_Issuer opts \<noteq> []" "IssuerFor ?k r = mo_Issuer opts" "0 \<le> dur_ns (cf_Leeway (ks_cfg ?k))" "1000000000 \<le> dur_ns (mo_TTL opts)"
    "mn_RequireAudience (sx_mount X) = [] \<or> mn_RequireAudience (sx_mount X) \<in> set (mo_Audience opts)"
    using iss lifetime aud(3) by (auto simp: opts)
  note with_token = serve_with_token[OF lib[unfolded L_def] mint[unfolded L_def] keys use(1,2) extra use(3,4,5) bearer]
  have late: "dur_ns (mo_TTL opts) + dur_ns (cf_Leeway (ks_cfg ?k)) \<le> dur_ns d" using far(2) by (simp add: opts)
  have kept: "ad_Matches (sv_deps (?sv s')) = Some s'" by simp
  show ?thesis
    by (intro exI[of _ reply] exI[of _ s'] conjI out run_ops_parts[OF run])
      (simp add: run_ops.simps(2) token with_token(1)[OF store out] with_token(2)[OF kept late] serve_advance[OF far(1)])
qed

section \<open>Witness\<close>

definition demo_credentials :: claims where
  "demo_credentials = mint_claims ''https://mock/'' 3600000000000
     \<lparr>mo_Issuer = ''https://mock/'', mo_Subject = ''app@clients'', mo_Audience = [''api''], mo_Scope = [], mo_TTL = word_of_int 3600000000000,
      mo_Extra = (azp_extra ''client-credentials'' ''app'')(''org'' \<mapsto> JStr ''acme'')\<rparr>"

definition demo_setup :: "url_lib \<Rightarrow> server_setup" where
  "demo_setup U = \<lparr>sx_auth = \<lparr>ac_lib = (demo_auth_lib [(''tok'', demo_credentials)])\<lparr>al_form := \<lambda>_. Inr (Some [(''grant_type'', [''client_credentials'']),
        (''audience'', [''api'']), (''client_id'', [''app''])])\<rparr>, ac_url = U, ac_codec = demo_codec, ac_token = demo_handler, ac_callbacks = [],
        ac_logout_urls = [], ac_rules = None\<rparr>,
     sx_issuer = ''https://mock/'', sx_mount = demo_mount, sx_stream = \<lambda>_. []\<rparr>"

text \<open>A clock library that reads a body as a number of hours.\<close>

definition demo_hours :: clock_lib where
  "demo_hours = \<lparr>cl_decode_put = \<lambda>b. Inr (Some b, None), cl_decode_advance = Inr, cl_parse_time = \<lambda>s. Inr (int (length s) * 3600000000000),
     cl_parse_duration = \<lambda>s. Inr (word_of_int (int (length s) * 3600000000000)), cl_format_time = \<lambda>_. [], cl_format_duration = \<lambda>_. []\<rparr>"

definition demo_hours_call :: "admin_call \<Rightarrow> string \<Rightarrow> admin_call" where
  "demo_hours_call c body = c\<lparr>ca_clock := demo_hours, ca_body := (body, None)\<rparr>"

definition demo_sv :: "Hub \<times> conns \<Rightarrow> server" where
  "demo_sv hub = \<lparr>sv_deps = (new_deps 5 hub)\<lparr>ad_Claims := Some [(''org'', JStr ''acme'')]\<rparr>, sv_PKCE = None\<rparr>"

theorem time_travel_witness:
  "\<forall>U c hub w. \<exists>reply s'.
     run_ops (server_serve (demo_setup U))
       [(w, AdminCall HPutClock (demo_hours_call c [])), (w, AdminCall HAdvanceClock (demo_hours_call c ''h'')),
        (w, AuthCall HToken \<lparr>ai_request = demo_http, ai_env = demo_env, ai_now = 0, ai_now' = 0, ai_uid = [], ai_body = [],
           ai_start = \<lambda>_. Inl [], ai_signup = \<lambda>_. Inl [], ai_change = \<lambda>_. Inl []\<rparr>),
        (w, MgmtCall (demo_operation ''GET'') [] 0 demo_bearer), (w, AdminCall HAdvanceClock (demo_hours_call c ''hh'')),
        (w, MgmtCall (demo_operation ''GET'') [] 0 demo_bearer)] (demo_sv hub) =
     ([Answered [] (no_content 204), Answered [] (no_content 204),
       Answered [] (render_json 200 (token_json \<lparr>tp_AccessToken = ''tok'', tp_IDToken = [], tp_RefreshToken = [], tp_TokenType = ''Bearer'',
         tp_ExpiresIn = 3600, tp_Scope = []\<rparr>)),
       reply, Answered [] (no_content 204),
       Answered [] (over_header [] (WriteMgmt 401 ''Unauthorized'' ''invalid bearer token'' ''invalid_bearer''))],
      frozen 10800000000000 (demo_sv hub\<lparr>sv_deps := (sv_deps (demo_sv hub))\<lparr>ad_Matches := Some s'\<rparr>\<rparr>))"
proof (intro allI)
  fix U c hub and w :: "nat \<Rightarrow> time"
  let ?X = "demo_setup U" and ?A = "ac_lib (sx_auth (demo_setup U))" and ?h = "ac_token (sx_auth (demo_setup U))"
  let ?i = "\<lparr>ai_request = demo_http, ai_env = demo_env, ai_now = 0, ai_now' = 0, ai_uid = [], ai_body = [],
     ai_start = \<lambda>_. Inl [], ai_signup = \<lambda>_. Inl [], ai_change = \<lambda>_. Inl []\<rparr>"
  have h: "?h = demo_handler" by (simp add: demo_setup_def)
  obtain req where req: "parseTokenRequest ?A demo_http = Inr req" "tr_GrantType req = ''client_credentials''" "tr_ClientID req = ''app''"
    "tr_Audience req = ''api''" "tr_Scope req = []"
    by (simp add: parseTokenRequest_def parseTokenBody_def demo_setup_def demo_auth_lib_def demo_http_def header_get_def values_get_def
        applyBasicAuth_def has_prefix_def)
  have opts: "access_opts ?h (ai_request ?i) (tr_ClientID req @ ''@clients'') ''api'' (tr_Scope req)
      (augmentExtra (auth_of (demo_sv hub)) (azp_extra ''client-credentials'' (tr_ClientID req)) ''api'' (tr_Params req)) =
    \<lparr>mo_Issuer = ''https://mock/'', mo_Subject = ''app@clients'', mo_Audience = [''api''], mo_Scope = [], mo_TTL = word_of_int 3600000000000,
     mo_Extra = (azp_extra ''client-credentials'' ''app'')(''org'' \<mapsto> JStr ''acme'')\<rparr>"
    by (simp add: access_opts_def h demo_handler_def demo_keys_def req IssuerFor_def ResolveIssuer_def AutoIssuer_def augmentExtra_def auth_of_def
        demo_sv_def new_deps_def Perm_Get_def Perm_NewStore_def MergeInto_def Project_def NewMappingStore_def)
  have calls: "says_now (demo_hours_call c []) 0" "list_all2 says_by [demo_hours_call c ''h''] [word_of_int 3600000000000]"
    "says_by (demo_hours_call c ''hh'') (word_of_int 7200000000000)"
    by (simp_all add: says_now_def says_by_def demo_hours_call_def demo_hours_def)
  have hours: "dur_ns 3600000000000 = 3600000000000" "dur_ns 7200000000000 = 7200000000000"
    by (simp_all add: dur_ns_def)
  have lib: "jwt_correct (al_jwt ?A)" using demo_jwt_correct[of "[(''tok'', demo_credentials)]"] by (simp add: demo_setup_def demo_auth_lib_def)
  have start: "ad_Clock (sv_deps (demo_sv hub)) \<noteq> None" "ad_Matches (sv_deps (demo_sv hub)) = Some Match_NewStore"
    by (simp_all add: demo_sv_def new_deps_def)
  have aud: "resolveAudience ?h (tr_Audience req) = ''api''" "''api'' \<noteq> []" "mn_RequireAudience (sx_mount ?X) \<in> {[], ''api''}"
    by (simp_all add: resolveAudience_def req demo_setup_def demo_mount_def trim_space_def is_space_def)
  have iss: "IssuerFor (th_Keys ?h) (ai_request ?i) \<noteq> []" "IssuerFor (th_Keys ?h) demo_bearer = IssuerFor (th_Keys ?h) (ai_request ?i)"
    by (simp_all add: h demo_handler_def demo_keys_def IssuerFor_def ResolveIssuer_def AutoIssuer_def)
  have ttl: "0 \<le> dur_ns (cf_Leeway (cfg_of ?h))" "1000000000 \<le> dur_ns (cf_AccessTokenTTL (cfg_of ?h))"
    "dur_ns (cf_AccessTokenTTL (cfg_of ?h)) + dur_ns (cf_Leeway (cfg_of ?h)) \<le> dur_ns (word_of_int 7200000000000)"
    by (simp_all add: h demo_handler_def demo_keys_def hours)
  have bearer: "list_all (\<lambda>c. \<not> is_space c) ''tok''" "''tok'' \<noteq> []" "header_get (rq_Header demo_bearer) ''Authorization'' = ''Bearer '' @ ''tok''"
    by code_simp+
  have ops: "map snd [(w, AdminCall HPutClock (demo_hours_call c [])), (w, AdminCall HAdvanceClock (demo_hours_call c ''h''))] =
      AdminCall HPutClock (demo_hours_call c []) # map (AdminCall HAdvanceClock) [demo_hours_call c ''h'']" by simp
  have extra: "keeps_registered ((azp_extra ''client-credentials'' ''app'')(''org'' \<mapsto> JStr ''acme''))"
    by (simp add: keeps_registered_def azp_extra_def registered_claims_def)
  have signed: "jl_sign (al_jwt ?A) (ks_keyID (th_Keys ?h)) demo_credentials = Inr ''tok''"
    by (simp add: demo_setup_def demo_auth_lib_def demo_jwt_def)
  have secs: "dur_secs (cf_AccessTokenTTL (cfg_of ?h)) = 3600"
    by (simp add: h demo_handler_def demo_keys_def dur_secs_def hours)
  note travel = time_travel[where X = ?X and sv = "demo_sv hub" and i = ?i and req = req and aud = "''api''" and t = 0
      and ds = "[word_of_int 3600000000000]" and s = Match_NewStore and fc = "demo_hours_call c []" and acs = "[demo_hours_call c ''h'']"
      and ac = "demo_hours_call c ''hh''" and d = "word_of_int 7200000000000"
      and ops = "[(w, AdminCall HPutClock (demo_hours_call c [])), (w, AdminCall HAdvanceClock (demo_hours_call c ''h''))]"
      and r = demo_bearer and tok = "''tok''" and op = "demo_operation ''GET''" and hdr = "[]" and n = 0
      and ?w1.0 = w and ?w2.0 = w and ?w3.0 = w and ?w4.0 = w, unfolded opts]
  show "\<exists>reply s'. run_ops (server_serve ?X)
       [(w, AdminCall HPutClock (demo_hours_call c [])), (w, AdminCall HAdvanceClock (demo_hours_call c ''h'')), (w, AuthCall HToken ?i),
        (w, MgmtCall (demo_operation ''GET'') [] 0 demo_bearer), (w, AdminCall HAdvanceClock (demo_hours_call c ''hh'')),
        (w, MgmtCall (demo_operation ''GET'') [] 0 demo_bearer)] (demo_sv hub) =
     ([Answered [] (no_content 204), Answered [] (no_content 204),
       Answered [] (render_json 200 (token_json \<lparr>tp_AccessToken = ''tok'', tp_IDToken = [], tp_RefreshToken = [], tp_TokenType = ''Bearer'',
         tp_ExpiresIn = 3600, tp_Scope = []\<rparr>)),
       reply, Answered [] (no_content 204),
       Answered [] (over_header [] (WriteMgmt 401 ''Unauthorized'' ''invalid bearer token'' ''invalid_bearer''))],
      frozen 10800000000000 (demo_sv hub\<lparr>sv_deps := (sv_deps (demo_sv hub))\<lparr>ad_Matches := Some s'\<rparr>\<rparr>))"
    using travel lib start calls ttl ops aud iss bearer req(1,2,5) extra signed by (auto simp: demo_credentials_def secs hours time_add_def)
qed

end
