(* ===== verification/Token_Shapes.thy ===== *)
theory Token_Shapes
  imports Token
begin

text \<open>
  The answers of the token endpoint against the API description that the mock publishes for itself,
  \<^verbatim>\<open>internal/authapi/authapi.openapi.yaml\<close>: the schemas of \<^verbatim>\<open>POST /oauth/token\<close> and the shape of every
  answer that the nine grants can give.
\<close>

section \<open>Schemas\<close>

datatype json_type = TString | TInteger

record object_schema =
  os_required :: "string list"
  os_properties :: "(string \<times> json_type) list"

fun has_type :: "json_type \<Rightarrow> json \<Rightarrow> bool" where
  "has_type TString v = (case v of JStr _ \<Rightarrow> True | _ \<Rightarrow> False)"
| "has_type TInteger v = (case v of JNum q \<Rightarrow> snd (quotient_of q) = 1 | _ \<Rightarrow> False)"

text \<open>An object with the required fields whose known fields have their types; others are allowed.\<close>

definition conforms :: "object_schema \<Rightarrow> json \<Rightarrow> bool" where
  "conforms sch v = (case v of
      JObj m \<Rightarrow> list_all (\<lambda>k. map_of m k \<noteq> None) (os_required sch)
        \<and> list_all (\<lambda>(k, x). case map_of (os_properties sch) k of None \<Rightarrow> True | Some ty \<Rightarrow> has_type ty x) m
    | _ \<Rightarrow> False)"

definition OAuthTokenResponse :: object_schema where
  "OAuthTokenResponse = \<lparr>os_required = [''access_token'', ''token_type''],
     os_properties = [(''access_token'', TString), (''id_token'', TString), (''refresh_token'', TString), (''scope'', TString),
       (''token_type'', TString), (''expires_in'', TInteger)]\<rparr>"

definition OAuthError :: object_schema where
  "OAuthError = \<lparr>os_required = [''error''], os_properties = [(''error'', TString), (''error_description'', TString)]\<rparr>"

text \<open>\<^verbatim>\<open>MFARequiredError\<close> is \<^verbatim>\<open>OAuthError\<close> and an object with the token: the conjunction of both.\<close>

definition MFARequiredError :: object_schema where
  "MFARequiredError = \<lparr>os_required = [''error''],
     os_properties = [(''error'', TString), (''error_description'', TString), (''mfa_token'', TString)]\<rparr>"

definition token_schemas :: "int \<Rightarrow> object_schema list" where
  "token_schemas status = (if status = 200 then [OAuthTokenResponse] else if status = 400 then [OAuthError]
     else if status = 401 then [OAuthError] else if status = 403 then [MFARequiredError, OAuthError] else [])"

section \<open>Bodies\<close>

definition AuthError_json :: "AuthError \<Rightarrow> json" where
  "AuthError_json e = JObj ([(''error'', JStr (ae_error e))] @ omitempty ''error_description'' (ae_errorDescription e))"

definition body_json :: "resp_body \<Rightarrow> json option" where
  "body_json b = (case b of JsonBody v \<Rightarrow> Some v | AuthBody e \<Rightarrow> Some (AuthError_json e) | _ \<Rightarrow> None)"

text \<open>What an answer must be, and when the endpoint may fail: a signature or the random source failed.\<close>

definition documented :: "response \<Rightarrow> bool" where
  "documented resp \<longleftrightarrow> (\<exists>v sch. body_json (rs_body resp) = Some v \<and> sch \<in> set (token_schemas (rs_status resp)) \<and> conforms sch v)"

definition mint_failed :: "auth_lib \<Rightarrow> env \<Rightarrow> TokenHandler \<Rightarrow> bool" where
  "mint_failed A E h \<longleftrightarrow> (\<exists>err. nd_opaque E = Inl err) \<or> (\<exists>c err. jl_sign (al_jwt A) (ks_keyID (th_Keys h)) c = Inl err)"

definition shaped :: "auth_lib \<Rightarrow> env \<Rightarrow> TokenHandler \<Rightarrow> response \<Rightarrow> bool" where
  "shaped A E h resp \<longleftrightarrow> has_prefix (header_get (rs_headers resp) ''Content-Type'') ''application/json'' \<and>
     (rs_status resp \<in> {200, 400, 403} \<and> documented resp
      \<or> rs_status resp = 500 \<and> mint_failed A E h \<and> (\<exists>v. body_json (rs_body resp) = Some v \<and> conforms OAuthError v))"

lemma error_conforms: "conforms OAuthError (AuthError_json e)"
  by (simp add: conforms_def AuthError_json_def OAuthError_def omitempty_def)

lemma token_conforms: "conforms OAuthTokenResponse (token_json t)"
  by (simp add: conforms_def token_json_def OAuthTokenResponse_def omitempty_def)

lemma json_headers:
  "header_get (rs_headers (WriteAuth s e d)) ''Content-Type'' = ''application/json''"
  "header_get (rs_headers (render_json s v)) ''Content-Type'' = ''application/json; charset=utf-8''"
  "has_prefix ''application/json'' ''application/json''" "has_prefix ''application/json; charset=utf-8'' ''application/json''"
  by (simp_all add: WriteAuth_def render_json_def) code_simp+

lemma shaped_error [simp]: "s \<in> {400, 403} \<Longrightarrow> shaped A E h (WriteAuth s e d)"
  using error_conforms by (auto simp: shaped_def documented_def body_json_def token_schemas_def json_headers)

lemma shaped_failure [simp]: "mint_failed A E h \<Longrightarrow> shaped A E h (server_error err)"
  using error_conforms by (simp add: shaped_def server_error_def body_json_def json_headers)

lemma shaped_token [simp]: "shaped A E h (render_json 200 (token_json t))"
  using token_conforms by (simp add: shaped_def documented_def body_json_def token_schemas_def json_headers)

lemma challenge_conforms:
  "conforms MFARequiredError (JObj [(''error'', JStr a), (''error_description'', JStr b), (''mfa_token'', JStr c)])"
  by (simp add: conforms_def MFARequiredError_def)

lemma shaped_challenge: "requireMFA E ctx st = (Some resp, st') \<Longrightarrow> shaped A E h resp"
  using challenge_conforms[of "''mfa_required''"]
  by (fastforce simp: requireMFA_def shaped_def documented_def body_json_def token_schemas_def json_headers split: option.splits if_splits)

section \<open>The grants\<close>

lemma failed_mint:
  assumes "Mint (al_jwt A) (th_Keys h) now opts = Inl err" "mo_Issuer opts = IssuerFor (th_Keys h) r"
  shows "mint_failed A E h"
proof -
  have "issuer (th_Keys h) (mo_Issuer opts) \<noteq> Inl e" for e
    unfolding assms(2) by (simp add: issuer_def IssuerFor_def ResolveIssuer_def)
  with assms(1) show ?thesis by (auto simp: Mint_def mint_failed_def split: sum.splits)
qed

lemma failed_access:
  assumes "mintAccess A E h opts cid st = (Inl err, st')" "mo_Issuer opts = IssuerFor (th_Keys h) r"
  shows "mint_failed A E h"
  using assms failed_mint[OF _ assms(2)] by (auto simp: mintAccess_def mint_failed_def Let_def split: if_splits sum.splits)

lemma access_issuer [simp]: "mo_Issuer (access_opts h r subject aud scope extra) = IssuerFor (th_Keys h) r"
  by (simp add: access_opts_def)

lemma shaped_finish [simp]: "shaped A E h (fst (finish_login A E h r access idExtra g st))"
  by (auto simp: finish_login_def Let_def dest!: failed_mint[where r = r and E = E] split: sum.splits prod.splits)

lemma shaped_mint [simp]: "shaped A E h (fst (mint_and_finish A E h r extra idExtra g st))"
  by (auto simp: mint_and_finish_def dest!: failed_access[where r = r and E = E] split: prod.splits sum.splits)

lemma shaped_login:
  "shaped A E h (fst (respondPassword A E h r req aud st))" "shaped A E h (fst (respondPasswordRealm A E h r req aud st))"
  by (auto simp: respondPassword_def respondPasswordRealm_def Let_def split: prod.splits option.splits dest: shaped_challenge)

lemma shaped_passwordless: "shaped A E h (fst (respondPasswordless A E h r req aud st))"
  unfolding respondPasswordless_def Let_def
  by (simp split: option.splits prod.splits del: find.simps) (use shaped_challenge in blast)

lemma shaped_unknown: "shaped A E h (fst (respondUnknownRefreshToken A E h r req aud st))"
  by (auto simp: respondUnknownRefreshToken_def split: prod.splits sum.splits dest!: failed_access[where r = r and E = E])

lemma shaped_refresh: "shaped A E h (fst (respondRefreshToken A E h r req aud st))"
  using shaped_unknown by (auto simp: respondRefreshToken_def Let_def simp del: fun_upd_apply split: option.splits)

lemma shaped_code: "shaped A E h (fst (respondAuthorizationCode A E h r req aud st))"
proof -
  have redeem: "shaped A E h resp" if "redeem_code A E req st = (Inl resp, st')" for resp st'
    using that by (auto simp: redeem_code_def Let_def split: option.splits if_splits prod.splits)
  show ?thesis
    by (auto simp: respondAuthorizationCode_def Let_def redeem split: prod.splits sum.splits)
qed

lemma shaped_step_up:
  "shaped A E h (fst (respondMFAOTP A E h r req st))" "shaped A E h (fst (respondMFAOOB A E h r req st))"
  "shaped A E h (fst (respondMFARecoveryCode A E h r req st))"
proof -
  have consume: "shaped A E h resp" if "consumeMFAToken E t st = (Inl resp, st')" for t resp st'
    using that by (auto simp: consumeMFAToken_def split: option.splits if_splits prod.splits)
  have mint: "shaped A E h (fst (mintFromMFA A E h r ctx gty params s))" for ctx gty params s by (simp add: mintFromMFA_def Let_def)
  show "shaped A E h (fst (respondMFAOTP A E h r req st))" "shaped A E h (fst (respondMFAOOB A E h r req st))"
    "shaped A E h (fst (respondMFARecoveryCode A E h r req st))"
    unfolding respondMFAOTP_def respondMFAOOB_def respondMFARecoveryCode_def
    using consume mint by (auto split: prod.splits sum.splits)
qed

lemma shaped_credentials: "shaped A E h (fst (respondClientCredentials A E h r req aud st))"
  by (auto simp: respondClientCredentials_def split: sum.splits dest!: failed_mint[where r = r and E = E])

lemmas grants_shaped = shaped_login shaped_passwordless shaped_refresh shaped_code shaped_step_up shaped_credentials

text \<open>
  C37. The token endpoint answers as its published description says. Whatever the request and whatever the
  state, the answer is JSON; it has status 200, 400 or 403 and its body conforms to a schema that the
  description gives for this status, or it is a 500 with an error object, and then a signature
  or the random source has failed. 200 is never anything but a token object.
\<close>
theorem token_answers_typed:
  "let resp = fst (Token_ServeHTTP A E h r st)
   in has_prefix (header_get (rs_headers resp) ''Content-Type'') ''application/json'' \<and>
     (rs_status resp \<in> {200, 400, 403} \<and>
        (\<exists>v sch. body_json (rs_body resp) = Some v \<and> sch \<in> set (token_schemas (rs_status resp)) \<and> conforms sch v)
      \<or> rs_status resp = 500 \<and> (\<exists>v. body_json (rs_body resp) = Some v \<and> conforms OAuthError v) \<and>
        ((\<exists>err. nd_opaque E = Inl err) \<or> (\<exists>c err. jl_sign (al_jwt A) (ks_keyID (th_Keys h)) c = Inl err)))"
proof -
  have "shaped A E h (fst (Token_ServeHTTP A E h r st))"
    by (simp add: Token_ServeHTTP_def Let_def grants_shaped split: sum.splits)
  then show ?thesis unfolding shaped_def documented_def mint_failed_def Let_def by blast
qed

end
