(* ===== verification/Form_Post.thy ===== *)
theory Form_Post
  imports Authorize
begin

text \<open>
  The page of \<^verbatim>\<open>response_mode=form_post\<close>: \<^verbatim>\<open>formPostTemplate\<close> of \<^verbatim>\<open>internal/authapi/deliver.go\<close> as
  \<^verbatim>\<open>html/template\<close> executes it, with the contextual escaping of the library written out: a value in a quoted
  attribute goes through the replacement table of \<^verbatim>\<open>attrEscaper\<close>, a form's action first through
  \<^verbatim>\<open>urlFilter\<close> and \<^verbatim>\<open>urlNormalizer\<close>. A reader of such a page specifies what a browser submits.
\<close>

section \<open>Escaping\<close>

definition dquote :: char where
  "dquote = CHR 0x22"

definition newline :: string where
  "newline = [CHR 0x0A]"

definition html_refs :: "(char \<times> string) list" where
  "html_refs = [(CHR 0x22, ''&#34;''), (CHR ''&'', ''&amp;''), (CHR 0x27, ''&#39;''), (CHR ''+'', ''&#43;''), (CHR ''<'', ''&lt;''),
     (CHR ''>'', ''&gt;'')]"

text \<open>NUL becomes the replacement character, in UTF-8.\<close>

definition attr_char :: "char \<Rightarrow> string" where
  "attr_char c = (if c = CHR 0x00 then [CHR 0xEF, CHR 0xBF, CHR 0xBD] else case map_of html_refs c of Some r \<Rightarrow> r | None \<Rightarrow> [c])"

definition attrEscaper :: "string \<Rightarrow> string" where
  "attrEscaper s = concat (map attr_char s)"

definition isSafeURL :: "string \<Rightarrow> bool" where
  "isSafeURL s = (case str_cut CHR '':'' s of (protocol, _, ok) \<Rightarrow>
     \<not> (ok \<and> \<not> contains_char protocol CHR ''/'')
     \<or> equal_fold protocol ''http'' \<or> equal_fold protocol ''https'' \<or> equal_fold protocol ''mailto'')"

definition urlFilter :: "string \<Rightarrow> string" where
  "urlFilter s = (if isSafeURL s then s else ''#ZgotmplZ'')"

definition is_hex :: "char \<Rightarrow> bool" where
  "is_hex c \<longleftrightarrow> (let n = (of_char c :: nat) in (48 \<le> n \<and> n \<le> 57) \<or> (97 \<le> n \<and> n \<le> 102) \<or> (65 \<le> n \<and> n \<le> 70))"

definition url_plain :: "char \<Rightarrow> bool" where
  "url_plain c \<longleftrightarrow> is_alpha c \<or> (let n = (of_char c :: nat) in 48 \<le> n \<and> n \<le> 57) \<or> c \<in> set ''-._~'' \<or> c \<in> set ''!#$&*+,/:;=?@[]''"

definition hex_lower :: "nat \<Rightarrow> char" where
  "hex_lower n = (if n < 10 then char_of (48 + n) else char_of (87 + n))"

fun urlNormalizer :: "string \<Rightarrow> string" where
  "urlNormalizer [] = []"
| "urlNormalizer (c # cs) =
     (if url_plain c \<or> (c = CHR ''%'' \<and> length cs \<ge> 2 \<and> is_hex (cs ! 0) \<and> is_hex (cs ! 1)) then c # urlNormalizer cs
      else [CHR ''%'', hex_lower ((of_char c :: nat) div 16), hex_lower ((of_char c :: nat) mod 16)] @ urlNormalizer cs)"

section \<open>The page\<close>

definition page_head :: string where
  "page_head = ''<!DOCTYPE html>'' @ newline @ ''<html><head><title>Submitting...</title></head>'' @ newline
     @ ''<body onload='' @ [dquote] @ ''document.forms[0].submit()'' @ [dquote] @ ''>'' @ newline
     @ ''<form method='' @ [dquote] @ ''post'' @ [dquote] @ '' action='' @ [dquote]"

definition input_open :: string where
  "input_open = ''<input type='' @ [dquote] @ ''hidden'' @ [dquote] @ '' name='' @ [dquote]"

definition input_mid :: string where
  "input_mid = [dquote] @ '' value='' @ [dquote]"

definition tag_close :: string where
  "tag_close = [dquote] @ ''>'' @ newline"

definition page_foot :: string where
  "page_foot = ''<noscript><button type='' @ [dquote] @ ''submit'' @ [dquote] @ ''>Continue</button></noscript>'' @ newline
     @ ''</form>'' @ newline @ ''</body></html>'' @ newline"

definition formPostTemplate :: "string \<Rightarrow> (string \<times> string) list \<Rightarrow> string" where
  "formPostTemplate action inputs = page_head @ attrEscaper (urlNormalizer (urlFilter action)) @ tag_close
     @ concat (map (\<lambda>(n, v). input_open @ attrEscaper n @ input_mid @ attrEscaper v @ tag_close) inputs) @ page_foot"

section \<open>What a browser reads\<close>

text \<open>The value of an attribute ends at the quote; its character references stand for their characters.\<close>

function html_unescape :: "string \<Rightarrow> string" where
  "html_unescape s = (case s of [] \<Rightarrow> [] | c # cs \<Rightarrow>
     (case find (\<lambda>(ch, r). has_prefix s r) html_refs of
        Some (ch, r) \<Rightarrow> ch # html_unescape (drop (length r) s)
      | None \<Rightarrow> c # html_unescape cs))"
  by auto
termination
  by (relation "measure length") (auto simp: html_refs_def split: if_splits)

definition cut_prefix :: "string \<Rightarrow> string \<Rightarrow> string option" where
  "cut_prefix p s = (if has_prefix s p then Some (drop (length p) s) else None)"

definition read_attr :: "string \<Rightarrow> string \<times> string" where
  "read_attr s = (html_unescape (takeWhile (\<lambda>c. c \<noteq> dquote) s), dropWhile (\<lambda>c. c \<noteq> dquote) s)"

lemma cut_prefix_length: "cut_prefix p s = Some r \<Longrightarrow> length r \<le> length s"
  by (auto simp: cut_prefix_def split: if_splits)

lemma cut_prefix_shorter: "cut_prefix p s = Some r \<Longrightarrow> p \<noteq> [] \<Longrightarrow> length r < length s"
  by (cases s; cases p) (auto simp: cut_prefix_def has_prefix_def less_Suc_eq_le split: if_splits)

lemma read_attr_length: "read_attr s = (v, r) \<Longrightarrow> length r \<le> length s"
  by (auto simp: read_attr_def length_dropWhile_le)

lemma input_open_pos: "input_open \<noteq> []"
  by (simp add: input_open_def)

function read_fields :: "string \<Rightarrow> (string \<times> string) list option" where
  "read_fields s = (case cut_prefix input_open s of
      None \<Rightarrow> if s = page_foot then Some [] else None
    | Some s1 \<Rightarrow> (case read_attr s1 of (n, s2) \<Rightarrow>
        (case cut_prefix input_mid s2 of None \<Rightarrow> None | Some s3 \<Rightarrow> (case read_attr s3 of (v, s4) \<Rightarrow>
          (case cut_prefix tag_close s4 of None \<Rightarrow> None | Some s5 \<Rightarrow> map_option ((#) (n, v)) (read_fields s5))))))"
  by auto
termination
  by (relation "measure length")
    (auto dest!: cut_prefix_shorter[OF _ input_open_pos] cut_prefix_length[of input_mid] cut_prefix_length[of tag_close] read_attr_length[OF sym])

definition read_form :: "string \<Rightarrow> (string \<times> (string \<times> string) list) option" where
  "read_form page = (case cut_prefix page_head page of None \<Rightarrow> None | Some s \<Rightarrow>
     (case read_attr s of (action, s1) \<Rightarrow> (case cut_prefix tag_close s1 of None \<Rightarrow> None | Some s2 \<Rightarrow> map_option (Pair action) (read_fields s2))))"

declare html_unescape.simps [simp del] read_fields.simps [simp del]

section \<open>Round trip\<close>

lemma ref_head: "(c, r) \<in> set html_refs \<Longrightarrow> r \<noteq> [] \<and> hd r = CHR ''&''"
  by (auto simp: html_refs_def)

lemma unescape_plain: "c \<noteq> CHR ''&'' \<Longrightarrow> html_unescape (c # s) = c # html_unescape s"
  by (subst html_unescape.simps) (simp add: html_refs_def has_prefix_def)

lemma unescape_ref: "map_of html_refs c = Some r \<Longrightarrow> html_unescape (r @ s) = c # html_unescape s"
  by (subst html_unescape.simps) (auto simp: html_refs_def has_prefix_def split: if_splits)

lemma unescape_escape: "CHR 0x00 \<notin> set s \<Longrightarrow> html_unescape (attrEscaper s) = s"
proof (induction s)
  case Nil
  show ?case by (subst html_unescape.simps) (simp add: attrEscaper_def)
next
  case (Cons c s)
  then have nul: "c \<noteq> CHR 0x00" and IH: "html_unescape (attrEscaper s) = s" by auto
  show ?case
  proof (cases "map_of html_refs c")
    case None
    then have "c \<noteq> CHR ''&''" by (auto simp: html_refs_def)
    with None nul IH show ?thesis by (simp add: attrEscaper_def attr_char_def unescape_plain)
  next
    case (Some r)
    with nul IH show ?thesis by (simp add: attrEscaper_def attr_char_def unescape_ref)
  qed
qed

lemma escape_chars: "set (attrEscaper s) \<inter> {dquote, CHR ''<'', CHR ''>''} = {}"
proof -
  have "set (attr_char c) \<inter> {dquote, CHR ''<'', CHR ''>''} = {}" for c
    by (auto simp: attr_char_def html_refs_def dquote_def)
  then show ?thesis by (auto simp: attrEscaper_def)
qed

lemma cut_prefix_append [simp]: "cut_prefix p (p @ s) = Some s"
  by (simp add: cut_prefix_def has_prefix_def)

lemma read_attr_escaped:
  assumes "CHR 0x00 \<notin> set s"
  shows "read_attr (attrEscaper s @ dquote # rest) = (s, dquote # rest)"
proof -
  have "\<forall>c \<in> set (attrEscaper s). c \<noteq> dquote" using escape_chars[of s] by auto
  then show ?thesis using unescape_escape[OF assms] by (simp add: read_attr_def)
qed

lemma read_fields_page:
  assumes "\<forall>(n, v) \<in> set inputs. CHR 0x00 \<notin> set n \<and> CHR 0x00 \<notin> set v"
  shows "read_fields (concat (map (\<lambda>(n, v). input_open @ attrEscaper n @ input_mid @ attrEscaper v @ tag_close) inputs) @ page_foot) = Some inputs"
  using assms
proof (induction inputs)
  case Nil
  show ?case by (subst read_fields.simps) (simp add: cut_prefix_def has_prefix_def input_open_def page_foot_def)
next
  case (Cons f inputs)
  obtain n v where f: "f = (n, v)" by fastforce
  let ?rest = "concat (map (\<lambda>(n, v). input_open @ attrEscaper n @ input_mid @ attrEscaper v @ tag_close) inputs) @ page_foot"
  have nul: "CHR 0x00 \<notin> set n" "CHR 0x00 \<notin> set v" using Cons.prems f by auto
  have "read_attr (attrEscaper n @ input_mid @ attrEscaper v @ tag_close @ ?rest) = (n, input_mid @ attrEscaper v @ tag_close @ ?rest)"
    using read_attr_escaped[OF nul(1)] by (simp add: input_mid_def)
  moreover have "read_attr (attrEscaper v @ tag_close @ ?rest) = (v, tag_close @ ?rest)"
    using read_attr_escaped[OF nul(2)] by (simp add: tag_close_def)
  ultimately show ?case using Cons.IH Cons.prems by (subst read_fields.simps) (simp add: f)
qed

text \<open>What a page cannot contain: a value never closes its attribute, nor opens or closes a tag.\<close>

lemma count_escaped: "count_list (attrEscaper s) CHR ''<'' = 0"
  using escape_chars[of s] by (auto simp: count_list_0_iff)

lemma count_page: "count_list (formPostTemplate action inputs) CHR ''<'' = 15 + length inputs"
proof -
  have one: "count_list (case x of (n, v) \<Rightarrow> input_open @ attrEscaper n @ input_mid @ attrEscaper v @ tag_close) CHR ''<'' = 1" for x
    by (simp add: input_open_def input_mid_def tag_close_def newline_def dquote_def count_escaped split: prod.splits)
  have "count_list (concat (map (\<lambda>(n, v). input_open @ attrEscaper n @ input_mid @ attrEscaper v @ tag_close) inputs)) CHR ''<'' = length inputs"
    by (induction inputs) (simp_all add: one)
  then show ?thesis by (simp add: formPostTemplate_def count_escaped page_head_def page_foot_def tag_close_def newline_def dquote_def)
qed

lemma safe_http: "scheme = ''http'' \<or> scheme = ''https'' \<Longrightarrow> isSafeURL (scheme @ '':'' @ rest)"
  by (auto simp: isSafeURL_def equal_fold_def)

text \<open>The normalizer writes no NUL.\<close>

lemma hex_lower_no_nul: "n < 16 \<Longrightarrow> hex_lower n \<noteq> CHR 0x00"
proof
  assume "n < 16" "hex_lower n = CHR 0x00"
  then have "(of_char (hex_lower n) :: nat) = 0" by simp
  with \<open>n < 16\<close> show False by (simp add: hex_lower_def split: if_splits)
qed

lemma hex_digits_no_nul: "hex_lower (of_char c div 16) \<noteq> CHR 0x00" "hex_lower (of_char c mod 16) \<noteq> CHR 0x00"
proof -
  have "(of_char c :: nat) < 256" by (metis mod_less_divisor of_char_mod_256 zero_less_numeral)
  then show "hex_lower (of_char c div 16) \<noteq> CHR 0x00" "hex_lower (of_char c mod 16) \<noteq> CHR 0x00"
    by (intro hex_lower_no_nul; simp add: less_mult_imp_div_less)+
qed

lemma normalized_no_nul: "CHR 0x00 \<notin> set (urlNormalizer s)"
proof (induction s)
  case (Cons c s)
  have "\<not> url_plain CHR 0x00" by code_simp
  with Cons hex_digits_no_nul[of c] show ?case by (auto dest: sym)
qed simp


text \<open>A state that tries to break out of its attribute.\<close>

definition demo_form_url :: url_lib where
  "demo_form_url = \<lparr>ul_authority = \<lambda>s. Some ([], s), ul_unescape_path = Some, ul_unescape_fragment = Some,
     ul_string = \<lambda>u. u_Scheme u @ ''://'' @ u_Host u @ u_Path u, ul_query = \<lambda>_. [], ul_encode = \<lambda>_. [], ul_escape = \<lambda>s. s,
     ul_form_post = formPostTemplate, ul_web_message = \<lambda>_ _. [], ul_cookie = \<lambda>_ _. None, ul_form = \<lambda>_. Inr []\<rparr>"


end
