(* ===== verification/Example_Consumer.thy ===== *)
theory Example_Consumer
  imports Sdk_Clients
begin

text \<open>
  The example programs \<^verbatim>\<open>examples/consumer\<close>, which drives the mock through Auth0's own Go client, and
  \<^verbatim>\<open>examples/go\<close>, a service that checks tokens. The libraries they call are the fields of \<open>go_auth0\<close> and
  \<open>jwt_check\<close>; an action maps the world to its result and the new world. What the programs print
  on the way is not part of their result.
\<close>

section \<open>Results and clients\<close>

type_synonym ('w, 'a) action = "'w \<Rightarrow> (string + 'a) \<times> 'w"

text \<open>Go's \<^verbatim>\<open>if err != nil\<close> with \<^verbatim>\<open>fmt.Errorf("what: %w", err)\<close>, where an empty text stands for \<^verbatim>\<open>return err\<close>.\<close>

definition and_then :: "string \<Rightarrow> ('w, 'a) action \<Rightarrow> ('a \<Rightarrow> ('w, 'b) action) \<Rightarrow> ('w, 'b) action" where
  "and_then what f g w = (case f w of (Inl err, w') \<Rightarrow> (Inl (what @ err), w') | (Inr x, w') \<Rightarrow> g x w')"

definition pure_step :: "string + 'a \<Rightarrow> ('w, 'a) action" where
  "pure_step r w = (r, w)"

record tls_config =
  tc_MinVersion :: int
  tc_InsecureSkipVerify :: bool
  tc_RootCAs :: "string list option"

text \<open>\<open>read\<close> is \<^verbatim>\<open>os.ReadFile\<close>; \<open>certs\<close> the certificates \<^verbatim>\<open>AppendCertsFromPEM\<close> finds, which reports whether there are any.\<close>

definition tls_client :: "string \<Rightarrow> (string \<Rightarrow> string + string) \<Rightarrow> (string \<Rightarrow> string list) \<Rightarrow> string \<Rightarrow> string + tls_config" where
  "tls_client none_found read certs certFile =
     (let tlsCfg = \<lparr>tc_MinVersion = 0x0304, tc_InsecureSkipVerify = False, tc_RootCAs = None\<rparr>
      in if certFile = [] then Inr (tlsCfg\<lparr>tc_InsecureSkipVerify := True\<rparr>)
         else (case read certFile of
             Inl err \<Rightarrow> Inl (''read cert file '' @ certFile @ '': '' @ err)
           | Inr pem \<Rightarrow>
               if certs pem = [] then Inl (none_found @ certFile)
               else Inr (tlsCfg\<lparr>tc_RootCAs := Some (certs pem)\<rparr>)))"

definition newHTTPClient :: "(string \<Rightarrow> string + string) \<Rightarrow> (string \<Rightarrow> string list) \<Rightarrow> string \<Rightarrow> string + tls_config" where
  "newHTTPClient = tls_client ''no PEM certificates found in ''"

text \<open>Certificates are checked unless no file is named.\<close>

lemma tls_client_verifies:
  "tls_client none_found read certs certFile = Inr cfg \<Longrightarrow>
     tc_InsecureSkipVerify cfg = (certFile = []) \<and> (certFile \<noteq> [] \<longrightarrow> (\<exists>c cs. tc_RootCAs cfg = Some (c # cs)))"
  by (auto simp: tls_client_def Let_def neq_Nil_conv split: if_splits sum.splits)

definition preview :: "string \<Rightarrow> nat \<Rightarrow> string" where
  "preview s n = (if length s \<le> n then s else take n s @ ''...'')"

lemma preview_bound: "length (preview s n) \<le> n + 3" "take n (preview s n) = take n s"
  by (auto simp: preview_def)

section \<open>The consumer\<close>

text \<open>What the program sets of the types of the client library: pointers that may be nil.\<close>

record management_Client =
  mc_ClientID :: "string option"
  mc_Name :: "string option"
  mc_AppType :: "string option"

record management_User =
  mu_ID :: "string option"
  mu_Email :: "string option"
  mu_Connection :: "string option"
  mu_Password :: "string option"

datatype stub_body = StubClient management_Client | StubUser management_User

record stubResponse =
  sr_Status :: int
  sr_Body :: stub_body

record expectation =
  ec_Method :: string
  ec_Path :: string
  ec_Response :: stubResponse

text \<open>
  The libraries: the HTTP client of a TLS configuration, \<^verbatim>\<open>json.Marshal\<close> of an expectation, and of go-auth0,
  jwkset, keyfunc and golang-jwt the calls the program makes.
\<close>

record ('a, 'm, 's, 'f, 'w) go_auth0 =
  ga_http :: "tls_config \<Rightarrow> 'w transport"
  ga_marshal :: "expectation \<Rightarrow> string + string"
  ga_auth :: "string \<Rightarrow> string \<Rightarrow> string \<Rightarrow> tls_config \<Rightarrow> ('w, 'a) action"
  ga_login :: "'a \<Rightarrow> string \<Rightarrow> ('w, string) action"
  ga_jwks :: "string \<Rightarrow> tls_config \<Rightarrow> ('w, 's) action"
  ga_keyfunc :: "'s \<Rightarrow> string + 'f"
  ga_parse :: "string \<Rightarrow> 'f \<Rightarrow> ('w, unit) action"
  ga_management :: "string \<Rightarrow> string \<Rightarrow> tls_config \<Rightarrow> ('w, 'm) action"
  ga_client_create :: "'m \<Rightarrow> management_Client \<Rightarrow> ('w, management_Client) action"
  ga_client_read :: "'m \<Rightarrow> string \<Rightarrow> ('w, management_Client) action"
  ga_user_create :: "'m \<Rightarrow> management_User \<Rightarrow> ('w, management_User) action"
  ga_user_read :: "'m \<Rightarrow> string \<Rightarrow> ('w, management_User) action"
  ga_client_id :: "management_Client \<Rightarrow> string"
  ga_user_id :: "management_User \<Rightarrow> string"

definition mintToken :: "('a, 'm, 's, 'f, 'w) go_auth0 \<Rightarrow> string \<Rightarrow> string \<Rightarrow> tls_config \<Rightarrow> ('w, string) action" where
  "mintToken L domain audience hc =
     and_then ''new authentication client: '' (ga_auth L domain ''demo'' ''x'' hc) (\<lambda>auth.
     and_then ''client credentials login: '' (ga_login L auth audience) (\<lambda>tok.
     pure_step (if tok = [] then Inl ''response contained no access_token'' else Inr tok)))"

definition verifyToken :: "('a, 'm, 's, 'f, 'w) go_auth0 \<Rightarrow> string \<Rightarrow> string \<Rightarrow> tls_config \<Rightarrow> ('w, unit) action" where
  "verifyToken L base tok hc =
     and_then ''load JWKS: '' (ga_jwks L (base @ ''/.well-known/jwks.json'') hc) (\<lambda>storage.
     and_then ''build keyfunc: '' (pure_step (ga_keyfunc L storage)) (\<lambda>verifier.
     and_then ''parse token: '' (ga_parse L tok verifier) (\<lambda>_. pure_step (Inr ()))))"

definition registerExpectation :: "('a, 'm, 's, 'f, 'w) go_auth0 \<Rightarrow> string \<Rightarrow> tls_config \<Rightarrow> expectation \<Rightarrow> ('w, unit) action" where
  "registerExpectation L base hc e w =
     (case ga_marshal L e of
        Inl err \<Rightarrow> (Inl (''marshal expectation: '' @ err), w)
      | Inr payload \<Rightarrow>
          (case tr_build (ga_http L hc) ''POST'' (base @ ''/admin0/expectations'') of
             Some err \<Rightarrow> (Inl (''build request: '' @ err), w)
           | None \<Rightarrow>
               (case tr_send (ga_http L hc) \<lparr>hc_method = ''POST'', hc_url = base @ ''/admin0/expectations'',
                     hc_header = [(''Content-Type'', [''application/json''])], hc_body = Some payload\<rparr> w of
                  (Inl err, w') \<Rightarrow> (Inl (''post expectation: '' @ err), w')
                | (Inr resp, w') \<Rightarrow>
                    if hr_status resp \<noteq> 204 then
                      (Inl (''expectation for '' @ ec_Method e @ '' '' @ ec_Path e @ '' rejected: got HTTP '' @ itoa (hr_status resp)
                         @ '', want 204: '' @ hr_body resp), w')
                    else (Inr (), w'))))"

fun registerExpectations :: "('a, 'm, 's, 'f, 'w) go_auth0 \<Rightarrow> string \<Rightarrow> tls_config \<Rightarrow> expectation list \<Rightarrow> ('w, unit) action" where
  "registerExpectations L base hc [] w = (Inr (), w)"
| "registerExpectations L base hc (e # es) w = and_then [] (registerExpectation L base hc e) (\<lambda>_. registerExpectations L base hc es) w"

definition createAndReadClient :: "('a, 'm, 's, 'f, 'w) go_auth0 \<Rightarrow> string \<Rightarrow> 'm \<Rightarrow> tls_config \<Rightarrow> ('w, string) action" where
  "createAndReadClient L base api hc =
     (let stub = StubClient \<lparr>mc_ClientID = Some ''demo-client-id'', mc_Name = Some ''Demo App'', mc_AppType = Some ''non_interactive''\<rparr>
      in and_then [] (registerExpectations L base hc
           [\<lparr>ec_Method = ''POST'', ec_Path = ''/api/v2/clients'', ec_Response = \<lparr>sr_Status = 201, sr_Body = stub\<rparr>\<rparr>,
            \<lparr>ec_Method = ''GET'', ec_Path = ''/api/v2/clients/'' @ ''demo-client-id'', ec_Response = \<lparr>sr_Status = 200, sr_Body = stub\<rparr>\<rparr>]) (\<lambda>_.
         and_then ''Client.Create: ''
           (ga_client_create L api \<lparr>mc_ClientID = None, mc_Name = Some ''Demo App'', mc_AppType = Some ''non_interactive''\<rparr>) (\<lambda>created.
         and_then ''Client.Read: '' (ga_client_read L api (ga_client_id L created)) (\<lambda>got. pure_step (Inr (ga_client_id L got))))))"

definition createAndReadUser :: "('a, 'm, 's, 'f, 'w) go_auth0 \<Rightarrow> string \<Rightarrow> 'm \<Rightarrow> tls_config \<Rightarrow> ('w, string) action" where
  "createAndReadUser L base api hc =
     (let stub = StubUser \<lparr>mu_ID = Some ''auth0|demo'', mu_Email = Some ''demo@example.com'',
            mu_Connection = Some ''Username-Password-Authentication'', mu_Password = None\<rparr>
      in and_then [] (registerExpectations L base hc
           [\<lparr>ec_Method = ''POST'', ec_Path = ''/api/v2/users'', ec_Response = \<lparr>sr_Status = 201, sr_Body = stub\<rparr>\<rparr>,
            \<lparr>ec_Method = ''GET'', ec_Path = ''/api/v2/users/'' @ ''auth0|demo'', ec_Response = \<lparr>sr_Status = 200, sr_Body = stub\<rparr>\<rparr>]) (\<lambda>_.
         and_then ''User.Create: ''
           (ga_user_create L api \<lparr>mu_ID = None, mu_Email = Some ''demo@example.com'', mu_Connection = Some ''Username-Password-Authentication'',
              mu_Password = Some ''Sup3rSecret!''\<rparr>) (\<lambda>created.
         and_then ''User.Read: '' (ga_user_read L api (ga_user_id L created)) (\<lambda>got. pure_step (Inr (ga_user_id L got))))))"

definition trim_prefix :: "string \<Rightarrow> string \<Rightarrow> string" where
  "trim_prefix p s = (if has_prefix s p then drop (length p) s else s)"

text \<open>\<^verbatim>\<open>run\<close>, after the flags are parsed: the ids that it prints at the end.\<close>

definition consumer_run :: "('a, 'm, 's, 'f, 'w) go_auth0 \<Rightarrow> (string \<Rightarrow> string + string) \<Rightarrow> (string \<Rightarrow> string list) \<Rightarrow> string \<Rightarrow> string
    \<Rightarrow> ('w, string \<times> string) action" where
  "consumer_run L read certs mockURL certFile =
     (let domain = trim_prefix ''https://'' mockURL
      in and_then ''build HTTP client: '' (pure_step (newHTTPClient read certs certFile)) (\<lambda>hc.
         and_then ''mint token: '' (mintToken L domain (mockURL @ ''/api/v2/'') hc) (\<lambda>tok.
         and_then ''verify token signature: '' (verifyToken L mockURL tok hc) (\<lambda>_.
         and_then ''new management client: '' (ga_management L domain tok hc) (\<lambda>api.
         and_then ''client round-trip: '' (createAndReadClient L mockURL api hc) (\<lambda>clientID.
         and_then ''user round-trip: '' (createAndReadUser L mockURL api hc) (\<lambda>userID. pure_step (Inr (clientID, userID)))))))))"

section \<open>The consumer and the server\<close>

lemma and_then_Inr: "and_then what f g w = (Inr y, w'') \<longleftrightarrow> (\<exists>x w'. f w = (Inr x, w') \<and> g x w' = (Inr y, w''))"
  by (auto simp: and_then_def split: prod.splits sum.splits)

text \<open>A registration is answered 201 or 400.\<close>

lemma post_status:
  assumes "validator_laws v" "PostExpectationHandler C decode kept v uid body s = (Inr resp, s')"
  shows "rs_status resp \<in> {201, 400}"
  using assms check_expectation_refused[OF assms(1)]
  by (fastforce simp: PostExpectationHandler_def invalid_body_def split: sum.splits prod.splits)

lemma serve_post_status:
  assumes "validator_laws v" "wired d"
  shows "\<exists>resp d'. admin_serve v HPostExpectation c d = (Inr resp, d') \<and> wired d' \<and> rs_status resp \<in> {201, 400}"
proof -
  obtain resp d' where run: "admin_serve v HPostExpectation c d = (Inr resp, d')" "wired d'" using serve_post[OF assms] by blast
  obtain s where "ad_Matches d = Some s" using assms(2) by (auto simp: wired_def)
  with run(1) post_status[OF assms(1)] have "rs_status resp \<in> {201, 400}" by (fastforce split: prod.splits)
  with run show ?thesis by blast
qed

text \<open>
  The consumer asks for 204, which the server never answers, so it takes every registration for a
  refusal, also the one that is stored, and never comes to an end with success.
\<close>

lemma consumer_never_registers:
  assumes laws: "validator_laws v" and d: "wired d" and http: "ga_http L hc = server_transport W v E base apierr statustext"
  shows "\<exists>err. fst (registerExpectation L base hc e d) = Inl err"
proof (cases "ga_marshal L e")
  case (Inr payload)
  have route: "find_route ''POST'' ''/admin0/expectations'' = Some (HPostExpectation, [])"
    "takeWhile (\<lambda>c. c \<noteq> CHR ''?'') ''/admin0/expectations'' = ''/admin0/expectations''" by code_simp+
  obtain resp d' where "admin_serve v HPostExpectation (call_of W E [] payload) d = (Inr resp, d')" "rs_status resp \<noteq> 204"
    using serve_post_status[OF laws d] by fastforce
  then show ?thesis
    by (simp add: registerExpectation_def Inr http server_transport_def serve_call_def route Let_def del: admin_serve.simps)
qed (simp add: registerExpectation_def)

definition libraries_keep_wired :: "('a, 'm, 's, 'f, Admin0_Deps) go_auth0 \<Rightarrow> bool" where
  "libraries_keep_wired L \<longleftrightarrow> (\<forall>d. wired d \<longrightarrow>
     (\<forall>a b c hc. wired (snd (ga_auth L a b c hc d))) \<and> (\<forall>a s. wired (snd (ga_login L a s d))) \<and>
     (\<forall>s hc. wired (snd (ga_jwks L s hc d))) \<and> (\<forall>s f. wired (snd (ga_parse L s f d))) \<and> (\<forall>a b hc. wired (snd (ga_management L a b hc d))))"

lemma consumer_fails:
  assumes laws: "validator_laws v" and keep: "libraries_keep_wired L" and d: "wired d"
    and http: "\<And>hc. ga_http L hc = server_transport W v E mockURL apierr statustext"
  shows "\<exists>err. fst (consumer_run L read certs mockURL certFile d) = Inl err"
proof (rule ccontr)
  assume "\<not> ?thesis"
  then obtain ids d' where "consumer_run L read certs mockURL certFile d = (Inr ids, d')" by (metis prod.collapse sum.exhaust)
  then obtain hc tok api r d1 d2 d3 d4 d5 d6 d7 where runs: "ga_auth L (trim_prefix ''https://'' mockURL) ''demo'' ''x'' hc d = (r, d1)"
      "\<exists>a. ga_login L a (mockURL @ ''/api/v2/'') d1 = (Inr tok, d2)" "\<exists>j. ga_jwks L (mockURL @ ''/.well-known/jwks.json'') hc d2 = (j, d3)"
      "\<exists>f u. ga_parse L tok f d3 = (u, d4)" "ga_management L (trim_prefix ''https://'' mockURL) tok hc d4 = (Inr api, d5)"
      and ok: "\<exists>e u. registerExpectation L mockURL hc e d5 = (Inr u, d6)"
    by (auto simp: consumer_run_def mintToken_def verifyToken_def createAndReadClient_def Let_def and_then_Inr pure_step_def split: if_splits) blast
  have "wired d5" using d runs keep unfolding libraries_keep_wired_def by (metis snd_conv)
  with ok consumer_never_registers[OF laws _ http] show False by (metis fst_conv sum.distinct(1))
qed

section \<open>The protected service\<close>

text \<open>
  \<open>jc_check\<close> is the middleware \<^verbatim>\<open>CheckJWT\<close> built from its options: its own answer, or the claims of the request's
  context as \<^verbatim>\<open>GetClaims\<close> reads them, here the subject.
\<close>

record ('p, 'v, 'm) jwt_check =
  jc_parse :: "string \<Rightarrow> string + string"
  jc_provider :: "string \<Rightarrow> string + 'p"
  jc_validator :: "'p \<Rightarrow> string \<Rightarrow> string \<Rightarrow> string \<Rightarrow> string + 'v"
  jc_middleware :: "'v \<Rightarrow> string + 'm"
  jc_check :: "'m \<Rightarrow> request \<Rightarrow> response + (string + string)"

definition http_Error :: "int \<Rightarrow> http_header \<Rightarrow> string \<Rightarrow> response" where
  "http_Error status hdr msg = \<lparr>rs_status = status,
     rs_headers = hdr @ [(''Content-Type'', [''text/plain; charset=utf-8'']), (''X-Content-Type-Options'', [''nosniff''])],
     rs_body = TextBody (msg @ line_end)\<rparr>"

definition private_handler :: "string + string \<Rightarrow> response" where
  "private_handler claims = (case claims of
      Inl err \<Rightarrow> http_Error 500 [] err
    | Inr sub \<Rightarrow> \<lparr>rs_status = 200, rs_headers = [], rs_body = JsonBody (JObj [(''sub'', JStr sub)])\<rparr>)"

text \<open>\<^verbatim>\<open>http.ServeMux\<close> with one pattern for GET, which takes HEAD too.\<close>

definition mux_get :: "string \<Rightarrow> (request \<Rightarrow> response) \<Rightarrow> request \<Rightarrow> response" where
  "mux_get path h r =
     (if rq_Path r \<noteq> path then http_Error 404 [] ''404 page not found''
      else if rq_Method r \<in> {''GET'', ''HEAD''} then h r
      else http_Error 405 [(''Allow'', [''GET, HEAD''])] ''Method Not Allowed'')"

definition NewApp :: "('p, 'v, 'm) jwt_check \<Rightarrow> string \<Rightarrow> string \<Rightarrow> string + (request \<Rightarrow> response)" where
  "NewApp J issuerURL audience =
     (case jc_parse J issuerURL of Inl err \<Rightarrow> Inl err | Inr iss \<Rightarrow>
      (case jc_provider J iss of Inl err \<Rightarrow> Inl err | Inr provider \<Rightarrow>
       (case jc_validator J provider ''RS256'' iss audience of Inl err \<Rightarrow> Inl err | Inr jwtValidator \<Rightarrow>
        (case jc_middleware J jwtValidator of Inl err \<Rightarrow> Inl err | Inr mw \<Rightarrow>
           Inr (mux_get ''/private'' (\<lambda>r. case jc_check J mw r of Inl refusal \<Rightarrow> refusal | Inr claims \<Rightarrow> private_handler claims))))))"

text \<open>Whoever is answered 200 with a subject passed the check.\<close>

lemma app_serves_checked:
  assumes "NewApp J issuerURL audience = Inr app" "\<And>m r resp. jc_check J m r = Inl resp \<Longrightarrow> rs_status resp \<noteq> 200" "rs_status (app r) = 200"
  shows "\<exists>p v m iss sub. jc_validator J p ''RS256'' iss audience = Inr v \<and> jc_middleware J v = Inr m \<and> jc_check J m r = Inr (Inr sub)
    \<and> rs_body (app r) = JsonBody (JObj [(''sub'', JStr sub)])"
  using assms by (auto simp: NewApp_def private_handler_def mux_get_def http_Error_def split: sum.splits if_splits) blast+

end
