(* ===== verification/Example_Sdk.thy ===== *)
theory Example_Sdk
  imports Example_Consumer Server_Runs
begin

text \<open>
  The example program \<^verbatim>\<open>examples/sdk\<close>: eleven phases over the clients of \<^verbatim>\<open>pkg/auth0mock\<close> and over
  go-auth0, with the state of the SDK client, its handles and the world passed along. The narrative
  it prints is not part of the results; what the phases fail on is.
\<close>

section \<open>Helpers\<close>

definition sdk_newHTTPClient :: "(string \<Rightarrow> string + string) \<Rightarrow> (string \<Rightarrow> string list) \<Rightarrow> string \<Rightarrow> string + tls_config" where
  "sdk_newHTTPClient = tls_client ''no PEM-encoded certs in ''"

definition compactJSON :: "(string \<Rightarrow> string + json) \<Rightarrow> (json \<Rightarrow> string + string) \<Rightarrow> string \<Rightarrow> string" where
  "compactJSON dec enc raw =
     (if length raw = 0 then []
      else (case dec raw of Inl _ \<Rightarrow> raw | Inr v \<Rightarrow> (case enc v of Inl _ \<Rightarrow> raw | Inr out \<Rightarrow> out)))"

definition sortedKeys :: "(string, 'v) gomap \<Rightarrow> string list" where
  "sortedKeys m = sort (map fst m)"

text \<open>Every key once, whatever the order the map is walked in.\<close>

lemma sortedKeys_deterministic:
  assumes "wf_map m" "wf_map m'" "map_of m = map_of m'"
  shows "sortedKeys m = sortedKeys m'"
proof -
  have "dom (map_of m) = dom (map_of m')" using assms(3) by simp
  then have "set (map fst m) = set (map fst m')" by (simp add: dom_map_of_conv_image_fst)
  then show ?thesis using assms unfolding sortedKeys_def by (metis distinct_sort set_sort sorted_distinct_set_unique sorted_sort)
qed

text \<open>Base64, JSON, \<^verbatim>\<open>%q\<close> and \<^verbatim>\<open>%T\<close>, and the layout of times.\<close>

record jwt_reader =
  jr_base64 :: "string \<Rightarrow> string + string"
  jr_claims :: "string \<Rightarrow> string + (string, json) gomap option"
  jr_quote :: "string \<Rightarrow> string"
  jr_type :: "json \<Rightarrow> string"
  jr_rfc3339 :: "time \<Rightarrow> string"

definition decodeJWTPayload :: "jwt_reader \<Rightarrow> string \<Rightarrow> string + (string, json) gomap" where
  "decodeJWTPayload R tok =
     (let parts = split_on CHR ''.'' tok
      in if length parts \<noteq> 3 then Inl (''token is not a compact JWT ('' @ itoa (int (length parts)) @ '' segments)'')
         else (case jr_base64 R (parts ! 1) of
             Inl err \<Rightarrow> Inl (''decode payload: '' @ err)
           | Inr payload \<Rightarrow> (case jr_claims R payload of
               Inl err \<Rightarrow> Inl (''unmarshal payload: '' @ err)
             | Inr None \<Rightarrow> Inr []
             | Inr (Some claims) \<Rightarrow> Inr claims)))"

text \<open>Go truncates towards zero.\<close>

definition claimUnix :: "jwt_reader \<Rightarrow> (string, json) gomap \<Rightarrow> string \<Rightarrow> string + int" where
  "claimUnix R claims name = (case map_of claims name of
      None \<Rightarrow> Inl (''claim '' @ jr_quote R name @ '' absent'')
    | Some (JNum f) \<Rightarrow> Inr (if f < 0 then \<lceil>f\<rceil> else \<lfloor>f\<rfloor>)
    | Some v \<Rightarrow> Inl (''claim '' @ jr_quote R name @ '' is '' @ jr_type R v @ '', want number''))"

lemma claimUnix_int: "map_of claims name = Some (JNum (of_int n)) \<Longrightarrow> claimUnix R claims name = Inr n"
  by (simp add: claimUnix_def)

section \<open>The phases\<close>

record 'w sdk_state =
  se_client :: Client
  se_handles :: handles
  se_world :: 'w

text \<open>The libraries of the SDK, the JSON form of an expectation and of a value, and the stack of a call.\<close>

record 'w sdk_env =
  ev_T :: "'w transport"
  ev_W :: wire
  ev_K :: sdk_codec
  ev_enc :: "string \<Rightarrow> string \<Rightarrow> RequestMatcher_b option \<Rightarrow> ResponseDef_b \<Rightarrow> ResponseDef_b list \<Rightarrow> string + string"
  ev_marshal :: "json \<Rightarrow> string + string"
  ev_frames :: "nat \<Rightarrow> (string \<times> string \<times> int) list"
  ev_reader :: jwt_reader

definition by_client :: "'w sdk_env \<Rightarrow> ('w, 'a) sdk_call \<Rightarrow> ('w sdk_state, 'a) action" where
  "by_client V f s = (case f (se_client s) (se_world s) of (r, w) \<Rightarrow> (map_sum (error_of (ev_T V)) id r, s\<lparr>se_world := w\<rparr>))"

definition on_world :: "('w, 'a) action \<Rightarrow> ('w sdk_state, 'a) action" where
  "on_world f s = (case f (se_world s) of (r, w) \<Rightarrow> (r, s\<lparr>se_world := w\<rparr>))"

definition reset_state :: "'w sdk_env \<Rightarrow> ('w sdk_state, unit) action" where
  "reset_state V s = (case Client_Reset (ev_T V) (se_client s) (se_world s) of (err, c, w) \<Rightarrow>
     ((case err of None \<Rightarrow> Inr () | Some e \<Rightarrow> Inl (error_of (ev_T V) e)), s\<lparr>se_client := c, se_world := w\<rparr>))"

definition apply_stub :: "'w sdk_env \<Rightarrow> nat \<Rightarrow> ResponseBuilder \<Rightarrow> ('w sdk_state, nat) action" where
  "apply_stub V a r s = (case Apply (ev_T V) (ev_K V) (ev_enc V) (ev_frames V a) a r (se_client s) (se_handles s) (se_world s) of
     (res, c, H, w) \<Rightarrow> (map_sum (error_of (ev_T V)) id res, \<lparr>se_client = c, se_handles = H, se_world = w\<rparr>))"

definition phase1Reset :: "'w sdk_env \<Rightarrow> ('w sdk_state, unit) action" where
  "phase1Reset V = and_then ''reset: '' (reset_state V) (\<lambda>_. pure_step (Inr ()))"

definition user_json :: "string \<Rightarrow> string \<Rightarrow> json" where
  "user_json i email = JObj [(''user_id'', JStr i), (''email'', JStr email)]"

text \<open>The two handles are allocated at \<open>a\<close> and \<open>b\<close>.\<close>

definition phase2Stubs :: "'w sdk_env \<Rightarrow> nat \<Rightarrow> nat \<Rightarrow> ('w sdk_state, nat) action" where
  "phase2Stubs V a b =
     and_then ''stub alice: '' (apply_stub V a (JSON (ev_marshal V (user_json ''auth0|alice'' ''alice@example.com''))
         (Respond_b 200 (ExpectGet ''/api/v2/users/auth0|alice'')))) (\<lambda>alice s.
     and_then ''stub catch-all: '' (apply_stub V b (JSON (ev_marshal V (user_json ''any'' ''placeholder@example.com''))
         (Respond_b 200 (ExpectGet ''/api/v2/users/{id}'')))) (\<lambda>_. pure_step (Inr alice))
       (s\<lparr>se_handles := Times 1 alice (se_handles s)\<rparr>))"

definition phase3Claims :: "'w sdk_env \<Rightarrow> ('w sdk_state, unit) action" where
  "phase3Claims V = and_then ''set claims: '' (by_client V (ClaimsClient_Set (ev_T V) (ev_W V) [(''https://example.com/tenant'', JStr ''acme'')]))
     (\<lambda>_. pure_step (Inr ()))"

definition phase4Permissions :: "'w sdk_env \<Rightarrow> ('w sdk_state, unit) action" where
  "phase4Permissions V = and_then ''set permissions: ''
     (by_client V (PermissionsClient_Set (ev_T V) (ev_W V) ''https://api.example.com/'' [''read:users'', ''write:users''])) (\<lambda>_. pure_step (Inr ()))"

definition phase5MFA :: "'w sdk_env \<Rightarrow> ('w sdk_state, unit) action" where
  "phase5MFA V = and_then ''require mfa: '' (by_client V (MFAClient_Set (ev_T V) (ev_W V) True)) (\<lambda>_. pure_step (Inr ()))"

text \<open>The first instant of 2030, and the advances.\<close>

definition clockFreezeStart :: time where
  "clockFreezeStart = (1893456000 + 62135596800) * 1000000000"

definition hours :: "nat \<Rightarrow> duration" where
  "hours n = of_nat n * 3600000000000"

definition clockAdvances :: "duration list" where
  "clockAdvances = [hours 1, hours 25]"

definition clockEnd :: time where
  "clockEnd = foldl time_add clockFreezeStart clockAdvances"

fun advance_all :: "'w sdk_env \<Rightarrow> duration list \<Rightarrow> ('w sdk_state, unit) action" where
  "advance_all V [] s = (Inr (), s)"
| "advance_all V (d # ds) s = and_then (''advance '' @ wi_format_dur (ev_W V) d @ '': '')
     (by_client V (ClockClient_Advance (ev_T V) (ev_W V) d)) (\<lambda>_. advance_all V ds) s"

definition phase6Clock :: "'w sdk_env \<Rightarrow> ('w sdk_state, unit) action" where
  "phase6Clock V =
     and_then ''freeze: '' (by_client V (ClockClient_Freeze (ev_T V) (ev_W V) clockFreezeStart)) (\<lambda>_.
     and_then [] (advance_all V clockAdvances) (\<lambda>_.
     and_then ''get clock: '' (by_client V (ClockClient_Get (ev_T V) (ev_W V))) (\<lambda>_. pure_step (Inr ()))))"

definition phase7Readback :: "'w sdk_env \<Rightarrow> ('w sdk_state, unit) action" where
  "phase7Readback V =
     and_then ''list expectations: '' (by_client V (Exp_List (ev_T V) (ev_K V))) (\<lambda>_.
     and_then ''get claims: '' (by_client V (ClaimsClient_Get (ev_T V) (ev_W V))) (\<lambda>_.
     and_then ''get permissions: '' (by_client V (PermissionsClient_Get (ev_T V) (ev_W V) ''https://api.example.com/'')) (\<lambda>_.
     and_then ''get mfa: '' (by_client V (MFAClient_Get (ev_T V) (ev_W V))) (\<lambda>_. pure_step (Inr ())))))"

definition phase8DriveWithGoAuth0 :: "('a, 'm, 's, 'f, 'w) go_auth0 \<Rightarrow> 'w sdk_env \<Rightarrow> string \<Rightarrow> tls_config \<Rightarrow> ('w sdk_state, string) action" where
  "phase8DriveWithGoAuth0 L V mockURL hc =
     (let domain = trim_prefix ''https://'' mockURL; R = ev_reader V; wantIat = unix_secs clockEnd
      in and_then ''new go-auth0 authentication client: '' (on_world (ga_auth L domain ''demo'' ''x'' hc)) (\<lambda>auth.
         and_then ''client_credentials grant: '' (on_world (ga_login L auth ''https://api.example.com/'')) (\<lambda>tok.
         and_then ''decode minted token: '' (pure_step (decodeJWTPayload R tok)) (\<lambda>claims.
         and_then ''iat: '' (pure_step (claimUnix R claims ''iat'')) (\<lambda>iat.
         and_then ''exp: '' (pure_step (claimUnix R claims ''exp'')) (\<lambda>_.
         if iat \<noteq> wantIat then pure_step (Inl (''iat = '' @ itoa iat @ '', want '' @ itoa wantIat @ '' (clock should be at ''
              @ jr_rfc3339 R clockEnd @ '' after phase 6)''))
         else
         and_then ''new go-auth0 management client: '' (on_world (ga_management L domain tok hc)) (\<lambda>api.
         and_then ''api.User.Read: '' (on_world (ga_user_read L api ''auth0|alice'')) (\<lambda>_. pure_step (Inr tok)))))))))"

definition phase9TokenExpired :: "('a, 'm, 's, 'f, 'w) go_auth0 \<Rightarrow> 'w sdk_env \<Rightarrow> string \<Rightarrow> string \<Rightarrow> tls_config \<Rightarrow> ('w sdk_state, unit) action" where
  "phase9TokenExpired L V mockURL tok hc =
     and_then ''advance 7d: '' (by_client V (ClockClient_Advance (ev_T V) (ev_W V) (7 * hours 24))) (\<lambda>_.
       let url = mockURL @ ''/api/v2/users/auth0|alice''
       in case tr_build (ga_http L hc) ''GET'' url of
            Some err \<Rightarrow> pure_step (Inl (''build request: '' @ err))
          | None \<Rightarrow>
              and_then ''do request: '' (on_world (tr_send (ga_http L hc) \<lparr>hc_method = ''GET'', hc_url = url,
                  hc_header = [(''Authorization'', [''Bearer '' @ tok])], hc_body = None\<rparr>)) (\<lambda>resp.
              pure_step (if hr_status resp \<noteq> 401 then Inl (''expected 401, got '' @ itoa (hr_status resp) @ '': '' @ hr_body resp) else Inr ())))"

definition phase10Verify :: "'w sdk_env \<Rightarrow> nat \<Rightarrow> ('w sdk_state, unit) action" where
  "phase10Verify V alice s =
     and_then ''read alice hits: '' (by_client V (\<lambda>c. Hits (ev_T V) (ev_K V) c (se_handles s) alice)) (\<lambda>_ s.
       case Verify_run (ev_T V) (ev_K V) (se_handles s) (se_client s) (se_world s) of (err, c, w) \<Rightarrow>
         ((case err of None \<Rightarrow> Inr () | Some e \<Rightarrow> Inl (''verify: '' @ e)), s\<lparr>se_client := c, se_world := w\<rparr>)) s"

definition phase11Cleanup :: "'w sdk_env \<Rightarrow> ('w sdk_state, unit) action" where
  "phase11Cleanup V =
     and_then ''final reset: '' (reset_state V) (\<lambda>_.
     and_then ''post-reset clock get: '' (by_client V (ClockClient_Get (ev_T V) (ev_W V))) (\<lambda>st.
     pure_step (if ks_Mode st \<noteq> ''real'' then Inl (''expected mode=real after reset, got '' @ jr_quote (ev_reader V) (ks_Mode st)) else Inr ())))"

definition sdk_example_run :: "('a, 'm, 's, 'f, 'w) go_auth0 \<Rightarrow> 'w sdk_env \<Rightarrow> nat \<Rightarrow> nat \<Rightarrow> string \<Rightarrow> tls_config \<Rightarrow> ('w sdk_state, unit) action" where
  "sdk_example_run L V a b mockURL hc =
     and_then [] (phase1Reset V) (\<lambda>_.
     and_then [] (phase2Stubs V a b) (\<lambda>aliceStub.
     and_then [] (phase3Claims V) (\<lambda>_.
     and_then [] (phase4Permissions V) (\<lambda>_.
     and_then [] (phase5MFA V) (\<lambda>_.
     and_then [] (phase6Clock V) (\<lambda>_.
     and_then [] (phase7Readback V) (\<lambda>_.
     and_then [] (phase8DriveWithGoAuth0 L V mockURL hc) (\<lambda>tok.
     and_then [] (phase9TokenExpired L V mockURL tok hc) (\<lambda>_.
     and_then [] (phase10Verify V aliceStub) (\<lambda>_.
     phase11Cleanup V))))))))))"

text \<open>\<^verbatim>\<open>main\<close>, after the flags are parsed: the text it dies with, or nothing.\<close>

definition sdk_example_main :: "('a, 'm, 's, 'f, 'w) go_auth0 \<Rightarrow> 'w sdk_env \<Rightarrow> (string \<Rightarrow> string + string) \<Rightarrow> (string \<Rightarrow> string list)
    \<Rightarrow> (string \<Rightarrow> string + string \<times> string) \<Rightarrow> handles \<Rightarrow> string \<Rightarrow> string \<Rightarrow> 'w \<Rightarrow> string option \<times> 'w" where
  "sdk_example_main L V read certs parse H mockURL certFile w =
     (case sdk_newHTTPClient read certs certFile of
        Inl err \<Rightarrow> (Some (''build HTTP client: '' @ err), w)
      | Inr hc \<Rightarrow>
          (case NewClient parse (jr_quote (ev_reader V)) mockURL of
             Inl err \<Rightarrow> (Some err, w)
           | Inr c \<Rightarrow>
               (case sdk_example_run L (V\<lparr>ev_T := ga_http L hc\<rparr>) 0 1 mockURL hc \<lparr>se_client = c, se_handles = H, se_world = w\<rparr> of
                  (Inl err, s) \<Rightarrow> (Some err, se_world s)
                | (Inr _, s) \<Rightarrow> (None, se_world s))))"

section \<open>The clock script over the server\<close>

lemma hours_ns: "dur_ns (hours (Suc 0)) = 3600000000000" "dur_ns (hours 25) = 90000000000000"
  by (simp_all add: hours_def dur_ns_def)

lemma clockEnd_value: "clockEnd = clockFreezeStart + 26 * 3600000000000" "unix_secs clockEnd = 1893549600"
  by (simp_all add: clockEnd_def clockAdvances_def time_add_def hours_ns clockFreezeStart_def unix_secs_def)

text \<open>The codecs of both sides agree on the bodies of the clock endpoints.\<close>

definition clock_wire :: "wire \<Rightarrow> admin_call \<Rightarrow> bool" where
  "clock_wire W E \<longleftrightarrow>
     (\<forall>t. says_now (call_of W E [] (wi_enc W (JObj [(''now'', JStr (wi_format_time W t))]))) t) \<and>
     (\<forall>d. says_by (call_of W E [] (wi_enc W (JObj [(''by'', JStr (wi_format_dur W d))]))) d)"

definition frozen_clock :: "time \<Rightarrow> Controlled" where
  "frozen_clock t = \<lparr>ck_mode = ModeFrozen, ck_pinned = t, ck_offset = 0\<rparr>"

lemma clock_routes:
  "find_route ''GET'' ''/admin0/clock'' = Some (HGetClock, [])" "find_route ''PUT'' ''/admin0/clock'' = Some (HPutClock, [])"
  "find_route ''POST'' ''/admin0/clock/advance'' = Some (HAdvanceClock, [])"
  by code_simp+

lemma freeze_served:
  assumes laws: "clock_wire W E" and T: "T = server_transport W v E (cl_baseURL c) apierr statustext" and d: "ad_Clock d \<noteq> None"
  shows "ClockClient_Freeze T W t c d = (Inr (), d\<lparr>ad_Clock := Some (frozen_clock t)\<rparr>)"
proof -
  obtain k where k: "ad_Clock d = Some k" using d by blast
  from laws have "says_now (call_of W E [] (wi_enc W (JObj [(''now'', JStr (wi_format_time W t))]))) t" by (simp add: clock_wire_def)
  then show ?thesis unfolding ClockClient_Freeze_def
    by (intro sdk_send_served[OF T clock_routes(2), where resp = "no_content 204"])
      (auto simp: k says_now_def writes_def PutClockHandler_def decodeClockBody_def Freeze_def frozen_clock_def)
qed

lemma advance_served:
  assumes laws: "clock_wire W E" and T: "T = server_transport W v E (cl_baseURL c) apierr statustext" and d: "ad_Clock d = Some (frozen_clock t)"
  shows "ClockClient_Advance T W u c d = (Inr (), d\<lparr>ad_Clock := Some (frozen_clock (time_add t u))\<rparr>)"
proof -
  from laws have "says_by (call_of W E [] (wi_enc W (JObj [(''by'', JStr (wi_format_dur W u))]))) u" by (simp add: clock_wire_def)
  then show ?thesis unfolding ClockClient_Advance_def
    by (intro sdk_send_served[OF T clock_routes(3), where resp = "no_content 204"])
      (auto simp: d says_by_def writes_def AdvanceClockHandler_def decodeClockBody_def Advance_def frozen_clock_def)
qed

lemma get_served:
  assumes T: "T = server_transport W v E (cl_baseURL c) apierr statustext" and d: "ad_Clock d \<noteq> None"
  shows "snd (ClockClient_Get T W c d) = d"
proof -
  obtain k where k: "ad_Clock d = Some k" using d by blast
  have "admin_serve v HGetClock (call_of W E [] (case None of None \<Rightarrow> [] | Some b \<Rightarrow> b)) d
      = (Inr (GetClockHandler (ca_clock E) (ca_wall E) k), d)"
    by (simp add: reads_def k call_of_def)
  then have "snd (sdk_do T (cl_baseURL c) ''GET'' ''/admin0/clock'' (map_option Inr None) (wi_clock W) z d) = d" for z
    by (subst sdk_do_served[OF T clock_routes(1)]) (auto simp: GetClockHandler_def split: prod.splits)
  then have get: "snd (sdk_get T ''/admin0/clock'' (wi_clock W) z c d) = d" for z by (simp add: sdk_get_def)
  show ?thesis using get[of "\<lparr>cr_Mode = [], cr_Now = [], cr_Offset = []\<rparr>"]
    by (auto simp: ClockClient_Get_def split: prod.splits sum.splits)
qed

lemma advance_all_served:
  assumes "clock_wire (ev_W V) E" "ev_T V = server_transport (ev_W V) v E (cl_baseURL (se_client s)) apierr statustext"
    "ad_Clock (se_world s) = Some (frozen_clock t)"
  shows "advance_all V ds s = (Inr (), s\<lparr>se_world := (se_world s)\<lparr>ad_Clock := Some (frozen_clock (foldl time_add t ds))\<rparr>\<rparr>)"
  using assms
proof (induction ds arbitrary: s t)
  case Nil
  then show ?case by (cases s; cases "se_world s") auto
next
  case (Cons u ds)
  let ?s = "s\<lparr>se_world := (se_world s)\<lparr>ad_Clock := Some (frozen_clock (time_add t u))\<rparr>\<rparr>"
  from Cons.IH[of ?s "time_add t u"] Cons.prems advance_served[OF Cons.prems(1,2,3)] show ?case
    by (simp add: and_then_def by_client_def)
qed

text \<open>Whatever the clock read before, phase 6 leaves the server frozen at \<^const>\<open>clockEnd\<close>, 2030-01-02T02:00:00Z.\<close>

lemma phase6_sets_clock:
  assumes laws: "clock_wire (ev_W V) E" and T: "ev_T V = server_transport (ev_W V) v E (cl_baseURL (se_client s)) apierr statustext"
    and d: "ad_Clock (se_world s) \<noteq> None"
  shows "snd (phase6Clock V s) = s\<lparr>se_world := (se_world s)\<lparr>ad_Clock := Some (frozen_clock clockEnd)\<rparr>\<rparr>"
proof -
  let ?at = "\<lambda>t. s\<lparr>se_world := (se_world s)\<lparr>ad_Clock := Some (frozen_clock t)\<rparr>\<rparr>"
  have "advance_all V clockAdvances (?at clockFreezeStart) = (Inr (), ?at clockEnd)"
    using advance_all_served[OF laws, where s = "?at clockFreezeStart"] T by (simp add: clockEnd_def)
  moreover have "snd (ClockClient_Get (ev_T V) (ev_W V) (se_client s) (se_world (?at clockEnd))) = se_world (?at clockEnd)"
    by (rule get_served[OF T]) simp
  ultimately show ?thesis using freeze_served[OF laws T d]
    by (auto simp: phase6Clock_def and_then_def by_client_def pure_step_def split: prod.splits sum.splits)
qed

end
