(* ===== verification/Scenario_Context.thy ===== *)
theory Scenario_Context
  imports Api_Main Sdk "HOL-Library.Sublist"
begin

text \<open>
  The harness of the end-to-end tests, \<^verbatim>\<open>features/scenario\<close>: the context of a scenario with its HTTP helpers
  (\<^verbatim>\<open>context.go\<close>) and the helpers of the step definitions (\<^verbatim>\<open>steps.go\<close>). A step maps the context and the world to
  its result; it ends with an error, by \<^verbatim>\<open>t.Fatalf\<close>, or by a panic. HTTP, JSON paths and assertions, and the
  codecs are the fields of \<open>harness\<close>.
\<close>

section \<open>Context and world\<close>

record http_answer = http_resp +
  an_Header :: http_header

record wire_req = http_call +
  wq_Host :: string

record scenario_Context =
  fc_BaseURL :: string
  fc_Host :: string
  fc_BearerTok :: string
  fc_MFAToken :: string
  fc_RefreshTok :: string
  fc_LastResp :: "http_answer option"
  fc_LastBody :: string
  fc_SSEResp :: "http_answer option"
  fc_running :: bool
  fc_jar :: "nat option"

text \<open>What a query of a JSON text by path gives; \<open>gj_Each\<close> has the texts of the values that \<^verbatim>\<open>ForEach\<close> visits.\<close>

record gjson_result =
  gj_Exists :: bool
  gj_String :: string
  gj_Int :: int
  gj_IsArray :: bool
  gj_Array :: "string list"
  gj_Each :: "string list"
  gj_Raw :: string

text \<open>What happens to the reader of a stream: a line, the end of the stream, or the deadline.\<close>

datatype stream_event = Line string | StreamClosed | Deadline

text \<open>
  \<open>hn_build\<close> is the error of \<^verbatim>\<open>http.NewRequest\<close>, \<open>hn_url_host\<close> the host it takes from the URL, \<open>hn_do\<close> an
  exchange with the cookies of a jar, \<open>hn_default\<close> one by \<^verbatim>\<open>http.DefaultClient\<close>, \<open>hn_attempts\<close> whether each
  probe before the deadline got through, \<open>hn_stream\<close> what a reader of an open stream sees.
\<close>

record ('r, 'cert, 'key, 'w) harness =
  hn_boot :: "('r, 'cert, 'key) boot"
  hn_free_port :: "'w \<Rightarrow> (string + string) \<times> 'w"
  hn_serve :: "('r app, 'cert) stdServer Orchestrator \<Rightarrow> 'w \<Rightarrow> 'w"
  hn_stop :: "'w \<Rightarrow> 'w"
  hn_attempts :: "string \<Rightarrow> 'w \<Rightarrow> bool list"
  hn_jar :: "'w \<Rightarrow> nat \<times> 'w"
  hn_build :: "string \<Rightarrow> string \<Rightarrow> string option"
  hn_url_host :: "string \<Rightarrow> string"
  hn_do :: "nat option \<Rightarrow> wire_req \<Rightarrow> 'w \<Rightarrow> (string + http_answer) \<times> 'w"
  hn_default :: "wire_req \<Rightarrow> 'w \<Rightarrow> (string + http_answer) \<times> 'w"
  hn_stream :: "http_answer \<Rightarrow> nat \<Rightarrow> 'w \<Rightarrow> stream_event list \<times> 'w"
  hn_jwks :: "string \<Rightarrow> 'w \<Rightarrow> (string + (string \<Rightarrow> string option)) \<times> 'w"
  hn_access_token :: "string \<Rightarrow> string"
  hn_gjson :: "string \<Rightarrow> string \<Rightarrow> gjson_result"
  hn_jsonassert :: "string \<Rightarrow> string \<Rightarrow> string list"
  hn_replace :: "string \<Rightarrow> string \<Rightarrow> string \<Rightarrow> string"
  hn_encode :: "url_values \<Rightarrow> string"
  hn_escape :: "string \<Rightarrow> string"
  hn_location :: "string \<Rightarrow> string + (url_values \<times> string)"
  hn_parse_query :: "string \<Rightarrow> string + url_values"
  hn_base64 :: "string \<Rightarrow> string"
  hn_base64_dec :: "string \<Rightarrow> string + string"
  hn_sha256 :: "string \<Rightarrow> string"
  hn_json :: "string \<Rightarrow> string + json"
  hn_json_map :: "string \<Rightarrow> string + (string, json) gomap option"
  hn_marshal :: "json \<Rightarrow> string + string"
  hn_quote :: "string \<Rightarrow> string"

datatype step_stop = StepError string | StepFatal string | StepPanic

type_synonym ('w, 'a) step_action = "scenario_Context \<times> 'w \<Rightarrow> (step_stop + 'a) \<times> scenario_Context \<times> 'w"

definition step_then :: "('w, 'a) step_action \<Rightarrow> ('a \<Rightarrow> ('w, 'b) step_action) \<Rightarrow> ('w, 'b) step_action" where
  "step_then f g s = (case f s of (Inl e, s') \<Rightarrow> (Inl e, s') | (Inr x, s') \<Rightarrow> g x s')"

definition step_return :: "step_stop + 'a \<Rightarrow> ('w, 'a) step_action" where
  "step_return r s = (r, s)"

definition on_context :: "(scenario_Context \<Rightarrow> scenario_Context) \<Rightarrow> ('w, unit) step_action" where
  "on_context f s = (Inr (), f (fst s), snd s)"

text \<open>An error of a helper is the error of the step.\<close>

definition or_error :: "string + 'a \<Rightarrow> ('w, 'a) step_action" where
  "or_error r = step_return (map_sum StepError id r)"

definition check_that :: "bool \<Rightarrow> string \<Rightarrow> ('w, unit) step_action" where
  "check_that ok msg = step_return (if ok then Inr () else Inl (StepError msg))"

section \<open>Booting the server\<close>

definition scenario_config :: "string \<Rightarrow> Config" where
  "scenario_config issuer0 = \<lparr>cf_Issuer = issuer0, cf_KeyFile = [], cf_AccessTokenTTL = minutes 60, cf_IDTokenTTL = minutes 60, cf_Leeway = 0\<rparr>"

definition scenario_deps :: "string \<Rightarrow> string \<Rightarrow> KeySet \<Rightarrow> Spec \<Rightarrow> Validator \<Rightarrow> Router_Deps" where
  "scenario_deps addr issuer0 keys sp v = \<lparr>rt_Store = Some Match_NewStore, rt_Claims = Some Claims_NewStore, rt_ClaimMappings = Some NewMappingStore,
     rt_Sessions = None, rt_AuthorizeErrors = None, rt_Permissions = Some Perm_NewStore, rt_PKCE = Some Pkce_NewStore,
     rt_MFA = Some Mfa_NewStore, rt_Keys = keys, rt_Spec = sp, rt_Validator = v, rt_Issuer = issuer0,
     rt_DefaultAudience = ''http://'' @ addr @ ''/api/v2/'', rt_SpecValidationStrict = True,
     rt_BearerRequireAudience = [], rt_MaxRequestBodyBytes = 2 ^ 20,
     rt_LogoutAllowedURLs = [''https://app/bye''], rt_AuthorizeAllowedRedirectURIs = [],
     rt_CORSAllowedOrigins = [''http://app.test'', ''https://*.example.test''], rt_Debug = False, rt_Clock = Some NewControlled,
     rt_EventsReplayBuffer = 50, rt_EventsReconnectHint = 0, rt_Journal = Some (Journal_New 100)\<rparr>"

definition scenario_app :: "('r, 'cert, 'key) boot \<Rightarrow> string \<Rightarrow> string \<Rightarrow> string + 'r app" where
  "scenario_app B addr issuer0 = (case fst (NewKeySet (bo_keylib B) (scenario_config issuer0) Map.empty) of
      Inl err \<Rightarrow> Inl (''jwks: '' @ err)
    | Inr keys \<Rightarrow> (case Load (bo_decode B) (bo_doc B) of
        Inl err \<Rightarrow> Inl (''spec: '' @ err)
      | Inr sp \<Rightarrow> (case NewValidator (bo_build B) sp of
          Inl err \<Rightarrow> Inl (''spec validator: '' @ err)
        | Inr v \<Rightarrow> (case Router_New (bo_url B) (bo_quote B) (bo_replay B) (bo_routing B) (bo_conns B) (scenario_deps addr issuer0 (fst keys) sp v) (bo_routes B) of
            Inl err \<Rightarrow> Inl (''router: '' @ err)
          | Inr app \<Rightarrow> Inr app))))"

definition waitReachable :: "bool list \<Rightarrow> string \<Rightarrow> step_stop + unit" where
  "waitReachable attempts url = (if True \<in> set attempts then Inr () else Inl (StepFatal (''service did not become reachable at '' @ url)))"

definition scenario_timeouts :: Timeouts where
  "scenario_timeouts = \<lparr>to_ReadHeader = 1000000000, to_Write = 5 * 1000000000, to_Idle = 30 * 1000000000\<rparr>"

definition scenario_boot :: "('r, 'cert, 'key, 'w) harness \<Rightarrow> (string \<Rightarrow> string) \<Rightarrow> ('w, unit) step_action" where
  "scenario_boot N issuerFor s = (case s of (c, w) \<Rightarrow> (case hn_free_port N w of
      (Inl err, w1) \<Rightarrow> (Inl (StepFatal (''listen: '' @ err)), c, w1)
    | (Inr addr, w1) \<Rightarrow> (case scenario_app (hn_boot N) addr (issuerFor addr) of
        Inl err \<Rightarrow> (Inl (StepFatal err), c, w1)
      | Inr app \<Rightarrow>
          (let w2 = hn_serve N (NewOrchestrator [Some (NewHTTP addr app scenario_timeouts)]) w1;
               url = ''http://'' @ addr @ ''/admin0/expectations''
           in case waitReachable (hn_attempts N url w2) url of
                Inl stop \<Rightarrow> (Inl stop, c, w2)
              | Inr _ \<Rightarrow> (Inr (), c\<lparr>fc_BaseURL := ''http://'' @ addr, fc_running := True\<rparr>, w2)))))"

definition scenario_shutdown :: "('r, 'cert, 'key, 'w) harness \<Rightarrow> ('w, unit) step_action" where
  "scenario_shutdown N s = (case s of (c, w) \<Rightarrow>
     if \<not> fc_running c then (Inr (), c, w) else (Inr (), c\<lparr>fc_running := False\<rparr>, hn_stop N w))"

definition RestartWithIssuer :: "('r, 'cert, 'key, 'w) harness \<Rightarrow> string \<Rightarrow> ('w, unit) step_action" where
  "RestartWithIssuer N issuer0 = step_then (scenario_shutdown N) (\<lambda>_. scenario_boot N (\<lambda>_. issuer0))"

definition empty_context :: scenario_Context where
  "empty_context = \<lparr>fc_BaseURL = [], fc_Host = [], fc_BearerTok = [], fc_MFAToken = [], fc_RefreshTok = [], fc_LastResp = None,
     fc_LastBody = [], fc_SSEResp = None, fc_running = False, fc_jar = None\<rparr>"

definition scenario_New :: "('r, 'cert, 'key, 'w) harness \<Rightarrow> 'w \<Rightarrow> (step_stop + unit) \<times> scenario_Context \<times> 'w" where
  "scenario_New N w = scenario_boot N (\<lambda>addr. ''http://'' @ addr @ ''/'') (empty_context, w)"

section \<open>Requests\<close>

definition KeepCookies :: "('r, 'cert, 'key, 'w) harness \<Rightarrow> ('w, unit) step_action" where
  "KeepCookies N s = (case s of (c, w) \<Rightarrow> (case hn_jar N w of (jar, w') \<Rightarrow> (Inr (), c\<lparr>fc_jar := Some jar\<rparr>, w')))"

definition host_RoundTrip :: "(string \<Rightarrow> string) \<Rightarrow> string \<Rightarrow> wire_req \<Rightarrow> wire_req" where
  "host_RoundTrip url_host host req = (if wq_Host req = [] \<or> wq_Host req = url_host (hc_url req) then req\<lparr>wq_Host := host\<rparr> else req)"

text \<open>\<^verbatim>\<open>c.client().Do\<close>: a fixed Host goes into every request that has none of its own.\<close>

definition client_Do :: "('r, 'cert, 'key, 'w) harness \<Rightarrow> (string \<Rightarrow> step_stop) \<Rightarrow> wire_req \<Rightarrow> ('w, http_answer) step_action" where
  "client_Do N stop req s = (case s of (c, w) \<Rightarrow>
     (case hn_do N (fc_jar c) (if fc_Host c = [] then req else host_RoundTrip (hn_url_host N) (fc_Host c) req) w of
        (r, w') \<Rightarrow> (map_sum stop id r, c, w')))"

definition new_request :: "('r, 'cert, 'key, 'w) harness \<Rightarrow> string \<Rightarrow> string \<Rightarrow> http_header \<Rightarrow> string option \<Rightarrow> string + wire_req" where
  "new_request N meth url hdr body = (case hn_build N meth url of
      Some err \<Rightarrow> Inl err
    | None \<Rightarrow> Inr \<lparr>hc_method = meth, hc_url = url, hc_header = hdr, hc_body = body, wq_Host = hn_url_host N url\<rparr>)"

text \<open>A request that could not be built is nil, and the helpers that ignore this panic.\<close>

definition must_request :: "string + wire_req \<Rightarrow> ('w, wire_req) step_action" where
  "must_request r = step_return (map_sum (\<lambda>_. StepPanic) id r)"

definition keep_answer :: "http_answer \<Rightarrow> ('w, unit) step_action" where
  "keep_answer resp = on_context (\<lambda>c. c\<lparr>fc_LastResp := Some resp, fc_LastBody := hr_body resp\<rparr>)"

definition scenario_Do :: "('r, 'cert, 'key, 'w) harness \<Rightarrow> string \<Rightarrow> string \<Rightarrow> string \<Rightarrow> bool \<Rightarrow> ('w, unit) step_action" where
  "scenario_Do N meth path body withBearer s =
     (let c = fst s;
          hdr = (if body \<noteq> [] then [(''Content-Type'', [''application/json''])] else [])
              @ (if withBearer then [(''Authorization'', [''Bearer '' @ fc_BearerTok c])] else [])
      in step_then (must_request (new_request N meth (fc_BaseURL c @ path) hdr (if body \<noteq> [] then Some body else None))) (\<lambda>req.
         step_then (client_Do N (\<lambda>err. StepFatal (''do: '' @ err)) req) keep_answer) s)"

definition form_type :: "string \<times> string list" where
  "form_type = (''Content-Type'', [''application/x-www-form-urlencoded''])"

definition DoFormWithAuthorization :: "('r, 'cert, 'key, 'w) harness \<Rightarrow> string \<Rightarrow> string \<Rightarrow> url_values \<Rightarrow> string \<Rightarrow> ('w, unit) step_action" where
  "DoFormWithAuthorization N meth path form authorization s =
     step_then (must_request (new_request N meth (fc_BaseURL (fst s) @ path)
         (form_type # (if authorization \<noteq> [] then [(''Authorization'', [authorization])] else [])) (Some (hn_encode N form)))) (\<lambda>req.
     step_then (client_Do N (\<lambda>err. StepFatal (''do form: '' @ err)) req) keep_answer) s"

definition DoForm :: "('r, 'cert, 'key, 'w) harness \<Rightarrow> string \<Rightarrow> string \<Rightarrow> url_values \<Rightarrow> bool \<Rightarrow> ('w, unit) step_action" where
  "DoForm N meth path form withBearer s =
     DoFormWithAuthorization N meth path form (if withBearer then ''Bearer '' @ fc_BearerTok (fst s) else []) s"

definition MintBearer :: "('r, 'cert, 'key, 'w) harness \<Rightarrow> ('w, unit) step_action" where
  "MintBearer N s =
     (let base = fc_BaseURL (fst s)
      in step_then (must_request (new_request N ''POST'' (base @ ''/oauth/token'') [form_type]
             (Some (''grant_type=client_credentials&client_id=test&client_secret=x&audience='' @ base @ ''/api/v2/'')))) (\<lambda>req.
         step_then (client_Do N (\<lambda>err. StepFatal (''mint bearer: '' @ err)) req) (\<lambda>resp.
         on_context (\<lambda>c. c\<lparr>fc_BearerTok := hn_access_token N (hr_body resp)\<rparr>))) s)"

definition MintVia :: "('r, 'cert, 'key, 'w) harness \<Rightarrow> string \<Rightarrow> ('w, unit) step_action" where
  "MintVia N host s =
     (let base = fc_BaseURL (fst s);
          form = [(''grant_type'', [''password'']), (''client_id'', [''demo'']), (''username'', [''alice@example.com'']),
                  (''password'', [''ignored'']), (''scope'', [''openid'']), (''audience'', [base @ ''/api/v2/''])]
      in step_then (must_request (map_sum id (\<lambda>req. req\<lparr>wq_Host := host\<rparr>)
             (new_request N ''POST'' (base @ ''/oauth/token'') [form_type] (Some (hn_encode N form))))) (\<lambda>req.
         step_then (client_Do N (\<lambda>err. StepFatal (''mint via host '' @ host @ '': '' @ err)) req) (\<lambda>resp.
         step_then (keep_answer resp) (\<lambda>_ s.
           let tok = gj_String (hn_gjson N (hr_body resp) ''access_token'')
           in step_then (on_context (\<lambda>c. c\<lparr>fc_BearerTok := tok\<rparr>))
                (\<lambda>_. step_return (if tok = [] then Inl (StepFatal (''mint via host '' @ host @ '': no access_token (body='' @ hr_body resp @ '')'')) else Inr ())) s))) s)"

definition VerifyAccessTokenAgainstJWKS :: "('r, 'cert, 'key, 'w) harness \<Rightarrow> string \<Rightarrow> ('w, unit) step_action" where
  "VerifyAccessTokenAgainstJWKS N tok s = (case s of (c, w) \<Rightarrow>
     (case hn_jwks N (fc_BaseURL c @ ''/.well-known/jwks.json'') w of
        (Inl err, w') \<Rightarrow> (Inl (StepError (''fetch jwks: '' @ err)), c, w')
      | (Inr verify, w') \<Rightarrow> (case verify tok of
          Some err \<Rightarrow> (Inl (StepError (''verify: '' @ err)), c, w')
        | None \<Rightarrow> (Inr (), c, w'))))"

end
