(* ===== verification/Scenario_Steps.thy ===== *)
theory Scenario_Steps
  imports Scenario_Context
begin

text \<open>
  The step definitions of \<^verbatim>\<open>features/scenario/steps.go\<close>: their helpers, and one constructor per phrase that
  \<^verbatim>\<open>RegisterSteps\<close> registers, in its order and in groups. What the theorems show is that the
  assertions on streams mean what their phrases say, that a scenario starts on a fresh server, and that the
  challenges the steps send are met by their verifiers.
\<close>

section \<open>Helpers\<close>

definition splitTarget :: "(string \<Rightarrow> string) \<Rightarrow> string \<Rightarrow> string + string \<times> string" where
  "splitTarget quote target = (case str_cut CHR 0x20 target of (meth, path, ok) \<Rightarrow>
     if ok then Inr (meth, path) else Inl (''expected '' @ [CHR 0x27] @ ''METHOD /path'' @ [CHR 0x27] @ '', got '' @ quote target))"

definition scenario_expectationBody :: "('r, 'cert, 'key, 'w) harness \<Rightarrow> string \<Rightarrow> string \<Rightarrow> string + string" where
  "scenario_expectationBody N target responseJSON = (case splitTarget (hn_quote N) target of
      Inl err \<Rightarrow> Inl err
    | Inr (meth, path) \<Rightarrow>
        (case (if trim_space responseJSON \<noteq> [] then hn_json N responseJSON else Inr (JObj [])) of
           Inl err \<Rightarrow> Inl (''response json: '' @ err)
         | Inr resp \<Rightarrow> hn_marshal N (JObj [(''method'', JStr meth), (''path'', JStr path), (''response'', resp)])))"

text \<open>A docstring \<^verbatim>\<open>null\<close> leaves the map nil, and writing to it panics.\<close>

definition nestedExpectationBody :: "('r, 'cert, 'key, 'w) harness \<Rightarrow> string \<Rightarrow> string \<Rightarrow> step_stop + string" where
  "nestedExpectationBody N target nestedJSON = (case splitTarget (hn_quote N) target of
      Inl err \<Rightarrow> Inl (StepError err)
    | Inr (meth, path) \<Rightarrow>
        if trim_space nestedJSON = [] then Inl (StepError ''expectation docstring must not be empty'')
        else (case hn_json_map N nestedJSON of
            Inl err \<Rightarrow> Inl (StepError (''expectation json: '' @ err))
          | Inr None \<Rightarrow> Inl StepPanic
          | Inr (Some nested) \<Rightarrow>
              map_sum StepError id (hn_marshal N (JObj (AList.update ''path'' (JStr path) (AList.update ''method'' (JStr meth) nested))))))"

definition form_set :: "string \<Rightarrow> string \<Rightarrow> url_values \<Rightarrow> url_values" where
  "form_set k v form = AList.update k [v] form"

text \<open>The lines \<^verbatim>\<open>key=value\<close> of a docstring, set in a form one after the other.\<close>

definition form_line :: "string \<Rightarrow> url_values \<Rightarrow> url_values" where
  "form_line line form = (case str_cut CHR ''='' (trim_space line) of (k, v, ok) \<Rightarrow>
     if ok then form_set (trim_space k) (trim_space v) form else form)"

definition form_lines :: "string \<Rightarrow> url_values \<Rightarrow> url_values" where
  "form_lines content form = fold form_line (split_on CHR 0x0A (trim_space content)) form"

definition parseFormDocString :: "string \<Rightarrow> url_values" where
  "parseFormDocString content = form_lines content []"

definition pkceS256Challenge :: "(string \<Rightarrow> string) \<Rightarrow> string \<Rightarrow> string" where
  "pkceS256Challenge sha256 verifier = RawURLEncode (sha256 verifier)"

definition jwt_claim :: "('r, 'cert, 'key, 'w) harness \<Rightarrow> string \<Rightarrow> string \<Rightarrow> string \<Rightarrow> string + gjson_result" where
  "jwt_claim N field tok claim =
     (let parts = split_on CHR ''.'' tok
      in if length parts \<noteq> 3 then Inl (field @ '' is not a JWT'')
         else (case hn_base64_dec N (parts ! 1) of
             Inl err \<Rightarrow> Inl (''decode payload: '' @ err)
           | Inr payload \<Rightarrow> Inr (hn_gjson N payload claim)))"

definition claimValueFromToken :: "('r, 'cert, 'key, 'w) harness \<Rightarrow> string \<Rightarrow> string \<Rightarrow> string \<Rightarrow> string + gjson_result" where
  "claimValueFromToken N body field claim =
     (let tok = gj_String (hn_gjson N body field)
      in if tok = [] then Inl (''no '' @ field @ '' in response'') else jwt_claim N field tok claim)"

definition claimValueFromAccessToken :: "('r, 'cert, 'key, 'w) harness \<Rightarrow> string \<Rightarrow> string \<Rightarrow> string + gjson_result" where
  "claimValueFromAccessToken N body claim = claimValueFromToken N body ''access_token'' claim"

text \<open>The last response, which is nil before the first request.\<close>

definition last_answer :: "('w, http_answer) step_action" where
  "last_answer s = (case fc_LastResp (fst s) of None \<Rightarrow> (Inl StepPanic, s) | Some resp \<Rightarrow> (Inr resp, s))"

definition last_body :: "('w, string) step_action" where
  "last_body s = (Inr (fc_LastBody (fst s)), s)"

definition codeFromLastLocation :: "('r, 'cert, 'key, 'w) harness \<Rightarrow> ('w, string) step_action" where
  "codeFromLastLocation N = step_then last_answer (\<lambda>resp.
     or_error (let loc = header_get (an_Header resp) ''Location''
       in if loc = [] then Inl ''no Location header on last response''
          else (case hn_location N loc of
              Inl err \<Rightarrow> Inl (''parse Location: '' @ err)
            | Inr (q, _) \<Rightarrow> (let code = values_get q ''code''
                in if code = [] then Inl (''location '' @ hn_quote N loc @ '' has no code param'') else Inr code))))"

definition fragmentIDTokenClaim :: "('r, 'cert, 'key, 'w) harness \<Rightarrow> string \<Rightarrow> ('w, string) step_action" where
  "fragmentIDTokenClaim N claim = step_then last_answer (\<lambda>resp.
     or_error (let loc = header_get (an_Header resp) ''Location''
       in case hn_location N loc of
            Inl err \<Rightarrow> Inl (''parse Location: '' @ err)
          | Inr (_, fragment) \<Rightarrow> (case hn_parse_query N fragment of
              Inl err \<Rightarrow> Inl (''parse fragment: '' @ err)
            | Inr frag \<Rightarrow> (let tok = values_get frag ''id_token''
                in if tok = [] then Inl (''location '' @ hn_quote N loc @ '' has no id_token in its fragment'')
                   else map_sum id gj_String (jwt_claim N ''id_token'' tok claim)))))"

section \<open>Streams\<close>

text \<open>A text \<^verbatim>\<open>Key: Value\<close> with a key, split at its first colon and blank.\<close>

fun cut_at :: "string \<Rightarrow> string \<Rightarrow> (string \<times> string) option" where
  "cut_at sep [] = (if sep = [] then Some ([], []) else None)"
| "cut_at sep (c # cs) = (if has_prefix (c # cs) sep then Some ([], drop (length sep) (c # cs)) else map_option (apfst ((#) c)) (cut_at sep cs))"

definition header_parts :: "string \<Rightarrow> (string \<times> string) option" where
  "header_parts h = (case cut_at '': '' h of Some (k, v) \<Rightarrow> if k \<noteq> [] then Some (k, v) else None | None \<Rightarrow> None)"

definition subscribeEvents :: "('r, 'cert, 'key, 'w) harness \<Rightarrow> string \<Rightarrow> string \<Rightarrow> bool \<Rightarrow> bool \<Rightarrow> ('w, unit) step_action" where
  "subscribeEvents N query header bearer expect2xx s =
     (let c = fst s;
          auth = (if bearer then [(''Authorization'', [''Bearer '' @ fc_BearerTok c])] else [])
      in step_then (or_error (new_request N ''GET'' (fc_BaseURL c @ ''/api/v2/events'' @ query)
             (case header_parts header of Some (k, v) \<Rightarrow> AList.update (CanonicalHeaderKey k) [v] auth | None \<Rightarrow> auth) None)) (\<lambda>req.
         step_then (client_Do N StepError req) (\<lambda>resp.
         if hr_status resp div 100 = 2 then on_context (\<lambda>c. c\<lparr>fc_SSEResp := Some resp\<rparr>)
         else step_then (keep_answer resp)
           (\<lambda>_. check_that (\<not> expect2xx) (''subscribe: status '' @ itoa (hr_status resp) @ '' body '' @ hr_body resp)))) s)"

definition attemptExpireEventsRaw :: "('r, 'cert, 'key, 'w) harness \<Rightarrow> string \<Rightarrow> ('w, unit) step_action" where
  "attemptExpireEventsRaw N query = scenario_Do N ''POST'' (''/admin0/events/expire'' @ query) [] False"

text \<open>A check of the status of the last response, with the status and the body in the error.\<close>

definition check_status :: "(int \<Rightarrow> bool) \<Rightarrow> (string \<Rightarrow> string \<Rightarrow> string) \<Rightarrow> ('w, unit) step_action" where
  "check_status ok msg = step_then last_answer (\<lambda>resp. step_then last_body (\<lambda>body. check_that (ok (hr_status resp)) (msg (itoa (hr_status resp)) body)))"

definition expireEvents :: "('r, 'cert, 'key, 'w) harness \<Rightarrow> string \<Rightarrow> ('w, unit) step_action" where
  "expireEvents N before = step_then (attemptExpireEventsRaw N (if before \<noteq> [] then ''?before='' @ hn_escape N before else []))
     (\<lambda>_. check_status (\<lambda>st. st = 200) (\<lambda>st body. ''expire: status '' @ st @ '' body '' @ body))"

text \<open>\<^verbatim>\<open>pushEvent\<close> goes through the default client: no fixed Host, no cookies.\<close>

definition pushEvent :: "('r, 'cert, 'key, 'w) harness \<Rightarrow> string \<Rightarrow> bool \<Rightarrow> ('w, unit) step_action" where
  "pushEvent N body expect202 s =
     step_then (or_error (new_request N ''POST'' (fc_BaseURL (fst s) @ ''/admin0/events'') [(''Content-Type'', [''application/json''])] (Some body))) (\<lambda>req.
     step_then (\<lambda>(c, w). case hn_default N req w of (r, w') \<Rightarrow> (map_sum StepError id r, c, w')) (\<lambda>resp.
     step_then (keep_answer resp) (\<lambda>_.
     check_that (\<not> expect202 \<or> hr_status resp = 202) (''push: status '' @ itoa (hr_status resp) @ '' body '' @ hr_body resp)))) s"

text \<open>
  The loop of \<^verbatim>\<open>streamDeliversIDs\<close>, waiting for one id with others to come, after \<open>got\<close> of \<open>n\<close>: nothing while
  it waits, then its error, if any.
\<close>

fun await_ids :: "nat \<Rightarrow> nat \<Rightarrow> string \<Rightarrow> string list \<Rightarrow> stream_event list \<Rightarrow> string option option" where
  "await_ids n got i js [] = None"
| "await_ids n got i js (Deadline # evs) =
     Some (Some (''timeout waiting for id='' @ trim_space i @ '' ('' @ nat_str got @ '' of '' @ nat_str n @ '' delivered)''))"
| "await_ids n got i js (StreamClosed # evs) = Some (Some (''stream closed before id='' @ trim_space i @ '' arrived''))"
| "await_ids n got i js (Line l # evs) =
     (if trim_space l = ''id: '' @ trim_space i then
        (case js of [] \<Rightarrow> Some None | i' # js' \<Rightarrow> await_ids n (got + 1) i' js' evs)
      else await_ids n got i js evs)"

text \<open>The loop of \<^verbatim>\<open>streamDeliversNothing\<close>.\<close>

fun await_nothing :: "stream_event list \<Rightarrow> string option option" where
  "await_nothing [] = None"
| "await_nothing (Deadline # evs) = Some None"
| "await_nothing (StreamClosed # evs) = Some None"
| "await_nothing (Line l # evs) =
     (if has_prefix l ''id: '' then Some (Some (''unexpected event delivered: '' @ trim_space l)) else await_nothing evs)"

text \<open>Reading the open stream; the deadline comes at the latest when the world has nothing more to show.\<close>

definition read_stream :: "('r, 'cert, 'key, 'w) harness \<Rightarrow> nat \<Rightarrow> (stream_event list \<Rightarrow> string option option) \<Rightarrow> ('w, unit) step_action" where
  "read_stream N secs loop s = (case s of (c, w) \<Rightarrow> (case fc_SSEResp c of
      None \<Rightarrow> (Inl StepPanic, c, w)
    | Some resp \<Rightarrow> (case hn_stream N resp secs w of (evs, w') \<Rightarrow>
        (case loop (evs @ [Deadline]) of
           Some (Some err) \<Rightarrow> (Inl (StepError err), c, w')
         | _ \<Rightarrow> (Inr (), c, w')))))"

definition streamDeliversIDs :: "('r, 'cert, 'key, 'w) harness \<Rightarrow> string list \<Rightarrow> nat \<Rightarrow> ('w, unit) step_action" where
  "streamDeliversIDs N wantIDs secs = read_stream N secs (await_ids (length wantIDs) 0 (hd wantIDs) (tl wantIDs))"

definition streamDeliversID :: "('r, 'cert, 'key, 'w) harness \<Rightarrow> string \<Rightarrow> nat \<Rightarrow> ('w, unit) step_action" where
  "streamDeliversID N wantID secs = streamDeliversIDs N [wantID] secs"

definition streamDeliversNothing :: "('r, 'cert, 'key, 'w) harness \<Rightarrow> nat \<Rightarrow> ('w, unit) step_action" where
  "streamDeliversNothing N secs = read_stream N secs await_nothing"

subsection \<open>The assertions mean what they say\<close>

text \<open>The lines a reader sees before the stream ends or the deadline passes.\<close>

fun lines_seen :: "stream_event list \<Rightarrow> string list" where
  "lines_seen (Line l # evs) = l # lines_seen evs"
| "lines_seen _ = []"

lemma await_ends: "await_ids n got i js (evs @ [Deadline]) \<noteq> None" "await_nothing (evs @ [Deadline]) \<noteq> None"
proof -
  show "await_ids n got i js (evs @ [Deadline]) \<noteq> None"
    by (induction n got i js evs rule: await_ids.induct) (auto split: list.splits)
  show "await_nothing (evs @ [Deadline]) \<noteq> None" by (induction evs rule: await_nothing.induct) auto
qed

lemma lines_seen_deadline [simp]: "lines_seen (evs @ [Deadline]) = lines_seen evs"
  by (induction evs rule: lines_seen.induct) auto

lemma await_ids_iff:
  "await_ids n got i js evs = Some None \<longleftrightarrow> subseq (map (\<lambda>i. ''id: '' @ trim_space i) (i # js)) (map trim_space (lines_seen evs))"
  by (induction n got i js evs rule: await_ids.induct) (auto split: list.splits)

lemma await_nothing_iff: "await_nothing (evs @ [Deadline]) = Some None \<longleftrightarrow> \<not> (\<exists>l \<in> set (lines_seen evs). has_prefix l ''id: '')"
  by (induction evs rule: await_nothing.induct) auto

section \<open>Steps\<close>

definition step_send :: "('r, 'cert, 'key, 'w) harness \<Rightarrow> string \<Rightarrow> string \<Rightarrow> bool \<Rightarrow> ('w, unit) step_action" where
  "step_send N target body withBearer = step_then (or_error (splitTarget (hn_quote N) target)) (\<lambda>(meth, path). scenario_Do N meth path body withBearer)"

text \<open>\<^verbatim>\<open>%q\<close> of a list.\<close>

definition quote_list :: "('r, 'cert, 'key, 'w) harness \<Rightarrow> string list \<Rightarrow> string" where
  "quote_list N xs = ''['' @ str_join '' '' (map (hn_quote N) xs) @ '']''"

fun header_rows :: "string list list \<Rightarrow> http_header \<Rightarrow> string + http_header" where
  "header_rows [] hdr = Inr hdr"
| "header_rows (row # rows) hdr =
     (if length row \<noteq> 2 then Inl (''header rows need a name and a value, got '' @ nat_str (length row) @ '' cells'')
      else header_rows rows (AList.update (CanonicalHeaderKey (row ! 0)) [row ! 1] hdr))"

text \<open>A token of the last response, kept for later steps.\<close>

definition save_member :: "('r, 'cert, 'key, 'w) harness \<Rightarrow> string \<Rightarrow> (string \<Rightarrow> string) \<Rightarrow> (string \<Rightarrow> scenario_Context \<Rightarrow> scenario_Context) \<Rightarrow> ('w, unit) step_action" where
  "save_member N member msg keep = step_then last_body (\<lambda>body.
     let tok = gj_String (hn_gjson N body member)
     in if tok = [] then step_return (Inl (StepError (msg body))) else on_context (keep tok))"

definition start_authorize :: "('r, 'cert, 'key, 'w) harness \<Rightarrow> url_values \<Rightarrow> ('w, unit) step_action" where
  "start_authorize N q = scenario_Do N ''GET'' (''/authorize?'' @ hn_encode N q) [] False"

definition code_form :: "string \<Rightarrow> url_values" where
  "code_form code = [(''grant_type'', [''authorization_code'']), (''client_id'', [''demo'']), (''code'', [code]), (''redirect_uri'', [''https://app/cb''])]"

definition step_attempt_response :: "('r, 'cert, 'key, 'w) harness \<Rightarrow> string \<Rightarrow> string \<Rightarrow> ('w, unit) step_action" where
  "step_attempt_response N target body = step_then (or_error (scenario_expectationBody N target body)) (\<lambda>payload. scenario_Do N ''POST'' ''/admin0/expectations'' payload False)"

definition step_attempt_register :: "('r, 'cert, 'key, 'w) harness \<Rightarrow> string \<Rightarrow> string \<Rightarrow> ('w, unit) step_action" where
  "step_attempt_register N target body = step_then (step_return (nestedExpectationBody N target body)) (\<lambda>payload. scenario_Do N ''POST'' ''/admin0/expectations'' payload False)"

definition step_bearer :: "('r, 'cert, 'key, 'w) harness \<Rightarrow> ('w, unit) step_action" where
  "step_bearer N = step_then (MintBearer N) (\<lambda>_ s. check_that (fc_BearerTok (fst s) \<noteq> []) ''failed to mint bearer'' s)"

definition step_register_response :: "('r, 'cert, 'key, 'w) harness \<Rightarrow> string \<Rightarrow> string \<Rightarrow> ('w, unit) step_action" where
  "step_register_response N target body = step_then (step_attempt_response N target body) (\<lambda>_. check_status (\<lambda>st. st < 400) (\<lambda>st body. ''registration failed: '' @ st @ '' '' @ body))"

definition step_register :: "('r, 'cert, 'key, 'w) harness \<Rightarrow> string \<Rightarrow> string \<Rightarrow> ('w, unit) step_action" where
  "step_register N target body = step_then (step_attempt_register N target body) (\<lambda>_. check_status (\<lambda>st. st < 400) (\<lambda>st body. ''registration failed: '' @ st @ '' '' @ body))"

definition step_clear :: "('r, 'cert, 'key, 'w) harness \<Rightarrow> string \<Rightarrow> ('w, unit) step_action" where
  "step_clear N target = step_then (or_error (splitTarget (hn_quote N) target)) (\<lambda>(meth, path).
     step_then (scenario_Do N ''DELETE'' ''/admin0/expectations'' (''{\"method\":'' @ hn_quote N meth @ '',\"path\":'' @ hn_quote N path @ ''}'') False) (\<lambda>_.
     check_status (\<lambda>st. st = 204) (\<lambda>st body. ''clear failed: '' @ st @ '' '' @ body)))"

definition step_clear_all :: "('r, 'cert, 'key, 'w) harness \<Rightarrow> ('w, unit) step_action" where
  "step_clear_all N = step_then (scenario_Do N ''DELETE'' ''/admin0/expectations'' [] False) (\<lambda>_.
     check_status (\<lambda>st. st = 204) (\<lambda>st body. ''clear all failed: '' @ st @ '' '' @ body))"

definition step_reset :: "('r, 'cert, 'key, 'w) harness \<Rightarrow> ('w, unit) step_action" where
  "step_reset N = step_then (scenario_Do N ''POST'' ''/admin0/reset'' [] False) (\<lambda>_.
     check_status (\<lambda>st. st = 204) (\<lambda>st body. ''/admin0/reset failed: '' @ st @ '' '' @ body))"

definition step_list_has :: "('r, 'cert, 'key, 'w) harness \<Rightarrow> int \<Rightarrow> ('w, unit) step_action" where
  "step_list_has N want = step_then last_body (\<lambda>body.
     let got = gj_Int (hn_gjson N body ''expectations.#'')
     in check_that (got = want) (''got '' @ itoa got @ '' entries, want '' @ itoa want @ '' (body='' @ body @ '')''))"

definition step_list_contains :: "('r, 'cert, 'key, 'w) harness \<Rightarrow> string \<Rightarrow> ('w, unit) step_action" where
  "step_list_contains N target = step_then (or_error (splitTarget (hn_quote N) target)) (\<lambda>(meth, path). step_then last_body (\<lambda>body.
     check_that (list_ex (\<lambda>v. gj_String (hn_gjson N v ''method'') = meth \<and> gj_String (hn_gjson N v ''path'') = path) (gj_Each (hn_gjson N body ''expectations'')))
       (''expectations list does not contain '' @ meth @ '' '' @ path @ '' (body='' @ body @ '')'')))"

definition step_send_hint :: "('r, 'cert, 'key, 'w) harness \<Rightarrow> string \<Rightarrow> ('w, unit) step_action" where
  "step_send_hint N target = step_then last_body (\<lambda>body.
     let tok = gj_String (hn_gjson N body ''id_token''); sep = (if contains_char target CHR ''?'' then ''&'' else ''?'')
     in if tok = [] then step_return (Inl (StepError ''no id_token in response''))
        else step_send N (target @ sep @ ''id_token_hint='' @ hn_escape N tok) [] False)"

definition step_status :: "('r, 'cert, 'key, 'w) harness \<Rightarrow> int \<Rightarrow> ('w, unit) step_action" where
  "step_status N want = check_status (\<lambda>st. st = want) (\<lambda>st body. ''got '' @ st @ '', want '' @ itoa want @ '' (body='' @ body @ '')'')"

definition step_body_contains :: "('r, 'cert, 'key, 'w) harness \<Rightarrow> string \<Rightarrow> ('w, unit) step_action" where
  "step_body_contains N needle = step_then last_body (\<lambda>body. check_that (str_contains body needle) (''body '' @ body @ '' does not contain '' @ hn_quote N needle))"

definition step_path_equals :: "('r, 'cert, 'key, 'w) harness \<Rightarrow> string \<Rightarrow> string \<Rightarrow> ('w, unit) step_action" where
  "step_path_equals N path want = step_then last_body (\<lambda>body.
     let got = gj_String (hn_gjson N body path)
     in check_that (got = want) (''JSON path '' @ path @ '': got '' @ hn_quote N got @ '', want '' @ hn_quote N want @ '' (body='' @ body @ '')''))"

definition step_path_exists :: "('r, 'cert, 'key, 'w) harness \<Rightarrow> string \<Rightarrow> ('w, unit) step_action" where
  "step_path_exists N path = step_then last_body (\<lambda>body. check_that (gj_Exists (hn_gjson N body path)) (''JSON path '' @ path @ '' does not exist (body='' @ body @ '')''))"

definition step_path_missing :: "('r, 'cert, 'key, 'w) harness \<Rightarrow> string \<Rightarrow> ('w, unit) step_action" where
  "step_path_missing N path = step_then last_body (\<lambda>body. check_that (\<not> gj_Exists (hn_gjson N body path)) (''JSON path '' @ path @ '' exists (body='' @ body @ '')''))"

definition step_body_matches :: "('r, 'cert, 'key, 'w) harness \<Rightarrow> string \<Rightarrow> ('w, unit) step_action" where
  "step_body_matches N pattern = (\<lambda>s.
     (let body = fc_LastBody (fst s); msgs = hn_jsonassert N body (hn_replace N pattern ''${BASE_URL}'' (fc_BaseURL (fst s)))
      in check_that (msgs = []) (''JSON pattern mismatch:'' @ [CHR 0x0A] @ str_join [CHR 0x0A] msgs @ [CHR 0x0A, CHR 0x0A]
           @ ''actual body:'' @ [CHR 0x0A] @ body) s))"

definition step_header_contains :: "('r, 'cert, 'key, 'w) harness \<Rightarrow> string \<Rightarrow> string \<Rightarrow> ('w, unit) step_action" where
  "step_header_contains N name needle = step_then last_answer (\<lambda>resp.
     check_that (list_ex (\<lambda>got. str_contains got needle) (header_values (an_Header resp) name))
       (''header '' @ name @ '': '' @ quote_list N (header_values (an_Header resp) name) @ '' does not contain '' @ hn_quote N needle))"

definition step_header_equals :: "('r, 'cert, 'key, 'w) harness \<Rightarrow> string \<Rightarrow> string \<Rightarrow> ('w, unit) step_action" where
  "step_header_equals N name want = step_then last_answer (\<lambda>resp.
     let got = header_get (an_Header resp) name
     in check_that (got = want) (''header '' @ name @ '': got '' @ hn_quote N got @ '', want '' @ hn_quote N want))"

definition step_header_missing :: "('r, 'cert, 'key, 'w) harness \<Rightarrow> string \<Rightarrow> ('w, unit) step_action" where
  "step_header_missing N name = step_then last_answer (\<lambda>resp.
     let vals = header_values (an_Header resp) name
     in check_that (length vals = 0) (''header '' @ name @ '': got '' @ quote_list N vals @ '', want it absent''))"

definition step_send_headers :: "('r, 'cert, 'key, 'w) harness \<Rightarrow> string \<Rightarrow> string list list \<Rightarrow> ('w, unit) step_action" where
  "step_send_headers N target rows = (\<lambda>s.
     step_then (or_error (splitTarget (hn_quote N) target)) (\<lambda>(meth, path).
     step_then (or_error (new_request N meth (fc_BaseURL (fst s) @ path) [] None)) (\<lambda>req.
     step_then (or_error (header_rows rows [])) (\<lambda>hdr.
     step_then (client_Do N StepError (req\<lparr>hc_header := hdr\<rparr>)) keep_answer))) s)"

definition step_location_contains :: "('r, 'cert, 'key, 'w) harness \<Rightarrow> string \<Rightarrow> ('w, unit) step_action" where
  "step_location_contains N needle = step_then last_answer (\<lambda>resp.
     let loc = header_get (an_Header resp) ''Location''
     in check_that (str_contains loc needle) (''location '' @ hn_quote N loc @ '' does not contain '' @ hn_quote N needle))"

definition step_fragment_claim :: "('r, 'cert, 'key, 'w) harness \<Rightarrow> string \<Rightarrow> string \<Rightarrow> ('w, unit) step_action" where
  "step_fragment_claim N claim want = step_then (fragmentIDTokenClaim N claim) (\<lambda>got.
     check_that (got = want) (''id_token claim '' @ hn_quote N claim @ '' = '' @ hn_quote N got @ '', want '' @ hn_quote N want))"

definition step_token_verifies :: "('r, 'cert, 'key, 'w) harness \<Rightarrow> ('w, unit) step_action" where
  "step_token_verifies N = step_then last_body (\<lambda>body.
     let tok = gj_String (hn_gjson N body ''access_token'')
     in if tok = [] then step_return (Inl (StepError (''no access_token in last response (body='' @ body @ '')''))) else VerifyAccessTokenAgainstJWKS N tok)"

definition step_save_bearer :: "('r, 'cert, 'key, 'w) harness \<Rightarrow> ('w, unit) step_action" where
  "step_save_bearer N = save_member N ''access_token'' (\<lambda>_. ''no access_token in last response'') (\<lambda>tok c. c\<lparr>fc_BearerTok := tok\<rparr>)"

definition step_access_claim :: "('r, 'cert, 'key, 'w) harness \<Rightarrow> string \<Rightarrow> string \<Rightarrow> ('w, unit) step_action" where
  "step_access_claim N claim want = step_then last_body (\<lambda>body. step_then (or_error (claimValueFromAccessToken N body claim)) (\<lambda>got.
     check_that (gj_String got = want) (''claim '' @ hn_quote N claim @ '': got '' @ hn_quote N (gj_String got) @ '', want '' @ hn_quote N want)))"

definition step_claim_absent :: "('r, 'cert, 'key, 'w) harness \<Rightarrow> string \<Rightarrow> ('w, unit) step_action" where
  "step_claim_absent N claim = step_then last_body (\<lambda>body. step_then (or_error (claimValueFromAccessToken N body claim)) (\<lambda>got.
     check_that (\<not> gj_Exists got) (''claim '' @ hn_quote N claim @ '': expected absent, found '' @ hn_quote N (gj_String got))))"

definition step_authorize_verifier :: "('r, 'cert, 'key, 'w) harness \<Rightarrow> string \<Rightarrow> ('w, unit) step_action" where
  "step_authorize_verifier N verifier = start_authorize N [(''client_id'', [''demo'']), (''redirect_uri'', [''https://app/cb'']), (''state'', [''s1'']), (''response_type'', [''code'']),
     (''code_challenge'', [pkceS256Challenge (hn_sha256 N) verifier]), (''code_challenge_method'', [''S256''])]"

definition step_authorize_nonce :: "('r, 'cert, 'key, 'w) harness \<Rightarrow> string \<Rightarrow> ('w, unit) step_action" where
  "step_authorize_nonce N nonce = start_authorize N [(''client_id'', [''demo'']), (''redirect_uri'', [''https://app/cb'']), (''response_type'', [''code'']), (''nonce'', [nonce])]"

definition step_authorize_hint :: "('r, 'cert, 'key, 'w) harness \<Rightarrow> string \<Rightarrow> ('w, unit) step_action" where
  "step_authorize_hint N hint = start_authorize N [(''client_id'', [''demo'']), (''redirect_uri'', [''https://app/cb'']), (''response_type'', [''code'']), (''login_hint'', [hint])]"

definition step_id_claim :: "('r, 'cert, 'key, 'w) harness \<Rightarrow> string \<Rightarrow> string \<Rightarrow> ('w, unit) step_action" where
  "step_id_claim N claim want = step_then last_body (\<lambda>body. step_then (or_error (claimValueFromToken N body ''id_token'' claim)) (\<lambda>got.
     check_that (gj_String got = want) (''id_token claim '' @ hn_quote N claim @ '': got '' @ hn_quote N (gj_String got) @ '', want '' @ hn_quote N want)))"

definition step_exchange :: "('r, 'cert, 'key, 'w) harness \<Rightarrow> string \<Rightarrow> ('w, unit) step_action" where
  "step_exchange N verifier = step_then (codeFromLastLocation N) (\<lambda>code.
     DoForm N ''POST'' ''/oauth/token'' (code_form code @ [(''code_verifier'', [verifier])]) False)"

definition step_save_mfa :: "('r, 'cert, 'key, 'w) harness \<Rightarrow> ('w, unit) step_action" where
  "step_save_mfa N = save_member N ''mfa_token'' (\<lambda>body. ''no mfa_token in response (body='' @ body @ '')'') (\<lambda>tok c. c\<lparr>fc_MFAToken := tok\<rparr>)"

definition step_save_refresh :: "('r, 'cert, 'key, 'w) harness \<Rightarrow> ('w, unit) step_action" where
  "step_save_refresh N = save_member N ''refresh_token'' (\<lambda>body. ''no refresh_token in response (body='' @ body @ '')'') (\<lambda>tok c. c\<lparr>fc_RefreshTok := tok\<rparr>)"

definition step_refresh :: "('r, 'cert, 'key, 'w) harness \<Rightarrow> string \<Rightarrow> ('w, unit) step_action" where
  "step_refresh N body = (\<lambda>s. DoForm N ''POST'' ''/oauth/token''
     (form_lines body [(''grant_type'', [''refresh_token'']), (''refresh_token'', [fc_RefreshTok (fst s)])]) False s)"

definition step_exchange_mfa :: "('r, 'cert, 'key, 'w) harness \<Rightarrow> string \<Rightarrow> string \<Rightarrow> ('w, unit) step_action" where
  "step_exchange_mfa N grant body = (\<lambda>s. DoForm N ''POST'' ''/oauth/token''
     (form_lines body [(''grant_type'', [grant]), (''mfa_token'', [fc_MFAToken (fst s)])]) False s)"

definition step_exchange_plain :: "('r, 'cert, 'key, 'w) harness \<Rightarrow> ('w, unit) step_action" where
  "step_exchange_plain N = step_then (codeFromLastLocation N) (\<lambda>code. DoForm N ''POST'' ''/oauth/token'' (code_form code) False)"

definition step_array_contains :: "('r, 'cert, 'key, 'w) harness \<Rightarrow> string \<Rightarrow> string \<Rightarrow> ('w, unit) step_action" where
  "step_array_contains N claim item = step_then last_body (\<lambda>body. step_then (or_error (claimValueFromAccessToken N body claim)) (\<lambda>got.
     if \<not> gj_IsArray got then step_return (Inl (StepError (''claim '' @ hn_quote N claim @ '' is not an array (got '' @ gj_Raw got @ '')'')))
     else check_that (item \<in> set (gj_Array got)) (''claim '' @ hn_quote N claim @ '' array does not contain '' @ hn_quote N item @ '' (got '' @ gj_Raw got @ '')'')))"

datatype setup_step =
    MockRunning
  | MockRunningWithIssuer string
  | RequestsWithHost string
  | BearerViaHost string
  | ValidBearer

primrec run_setup :: "('r, 'cert, 'key, 'w) harness \<Rightarrow> setup_step \<Rightarrow> ('w, unit) step_action" where
  "run_setup N MockRunning = step_return (Inr ())"
| "run_setup N (MockRunningWithIssuer i) = RestartWithIssuer N i"
| "run_setup N (RequestsWithHost host) = on_context (\<lambda>c. c\<lparr>fc_Host := host\<rparr>)"
| "run_setup N (BearerViaHost host) = MintVia N host"
| "run_setup N ValidBearer = step_bearer N"

datatype stub_step =
    RegisterResponse string string
  | AttemptRegisterResponse string string
  | RegisterExpectation string string
  | AttemptRegisterExpectation string string
  | ClearExpectation string
  | ClearAllExpectations
  | ResetAll
  | ListExpectations
  | ListHas int
  | ListContains string

primrec run_stub :: "('r, 'cert, 'key, 'w) harness \<Rightarrow> stub_step \<Rightarrow> ('w, unit) step_action" where
  "run_stub N (RegisterResponse target body) = step_register_response N target body"
| "run_stub N (AttemptRegisterResponse target body) = step_attempt_response N target body"
| "run_stub N (RegisterExpectation target body) = step_register N target body"
| "run_stub N (AttemptRegisterExpectation target body) = step_attempt_register N target body"
| "run_stub N (ClearExpectation target) = step_clear N target"
| "run_stub N ClearAllExpectations = step_clear_all N"
| "run_stub N ResetAll = step_reset N"
| "run_stub N ListExpectations = scenario_Do N ''GET'' ''/admin0/expectations'' [] False"
| "run_stub N (ListHas want) = step_list_has N want"
| "run_stub N (ListContains target) = step_list_contains N target"

datatype send_step =
    SendWithBearer string
  | SendWithoutBearer string
  | SendWithIDTokenHint string
  | SendBodyWithBearer string string
  | PostBody string string
  | PostForm string string
  | PostFormBasic string string string

primrec run_send :: "('r, 'cert, 'key, 'w) harness \<Rightarrow> send_step \<Rightarrow> ('w, unit) step_action" where
  "run_send N (SendWithBearer target) = step_send N target [] True"
| "run_send N (SendWithoutBearer target) = step_send N target [] False"
| "run_send N (SendWithIDTokenHint target) = step_send_hint N target"
| "run_send N (SendBodyWithBearer target body) = step_send N target body True"
| "run_send N (PostBody path body) = scenario_Do N ''POST'' path body False"
| "run_send N (PostForm path body) = DoForm N ''POST'' path (parseFormDocString body) False"
| "run_send N (PostFormBasic path creds body) = DoFormWithAuthorization N ''POST'' path (parseFormDocString body) (''Basic '' @ hn_base64 N creds)"

datatype check_step =
    ReceiveStatus int
  | BodyContains string
  | PathEquals string string
  | PathExists string
  | PathMissing string
  | BodyMatches string
  | KeepCookiesStep
  | HeaderContains string string
  | HeaderEquals string string
  | HeaderMissing string

primrec run_check :: "('r, 'cert, 'key, 'w) harness \<Rightarrow> check_step \<Rightarrow> ('w, unit) step_action" where
  "run_check N (ReceiveStatus want) = step_status N want"
| "run_check N (BodyContains needle) = step_body_contains N needle"
| "run_check N (PathEquals path want) = step_path_equals N path want"
| "run_check N (PathExists path) = step_path_exists N path"
| "run_check N (PathMissing path) = step_path_missing N path"
| "run_check N (BodyMatches pattern) = step_body_matches N pattern"
| "run_check N KeepCookiesStep = KeepCookies N"
| "run_check N (HeaderContains name needle) = step_header_contains N name needle"
| "run_check N (HeaderEquals name want) = step_header_equals N name want"
| "run_check N (HeaderMissing name) = step_header_missing N name"

datatype token_step =
    SendWithHeaders string "string list list"
  | LocationContains string
  | FragmentClaim string string
  | TokenVerifies
  | SaveBearer
  | VerbBody string string string
  | Verb string string
  | AccessClaim string string
  | AccessClaimAbsent string

primrec run_token :: "('r, 'cert, 'key, 'w) harness \<Rightarrow> token_step \<Rightarrow> ('w, unit) step_action" where
  "run_token N (SendWithHeaders target rows) = step_send_headers N target rows"
| "run_token N (LocationContains needle) = step_location_contains N needle"
| "run_token N (FragmentClaim claim want) = step_fragment_claim N claim want"
| "run_token N TokenVerifies = step_token_verifies N"
| "run_token N SaveBearer = step_save_bearer N"
| "run_token N (VerbBody meth path body) = scenario_Do N meth path body False"
| "run_token N (Verb meth path) = scenario_Do N meth path [] False"
| "run_token N (AccessClaim claim want) = step_access_claim N claim want"
| "run_token N (AccessClaimAbsent claim) = step_claim_absent N claim"

datatype flow_step =
    AuthorizeVerifier string
  | AuthorizeNonce string
  | AuthorizeHint string
  | IDClaim string string
  | ExchangeVerifier string
  | SaveMFAToken
  | SaveRefreshToken
  | Refresh string
  | ExchangeMFA string string
  | ExchangeWithoutVerifier
  | AccessArrayContains string string

primrec run_flow :: "('r, 'cert, 'key, 'w) harness \<Rightarrow> flow_step \<Rightarrow> ('w, unit) step_action" where
  "run_flow N (AuthorizeVerifier verifier) = step_authorize_verifier N verifier"
| "run_flow N (AuthorizeNonce nonce) = step_authorize_nonce N nonce"
| "run_flow N (AuthorizeHint hint) = step_authorize_hint N hint"
| "run_flow N (IDClaim claim want) = step_id_claim N claim want"
| "run_flow N (ExchangeVerifier verifier) = step_exchange N verifier"
| "run_flow N SaveMFAToken = step_save_mfa N"
| "run_flow N SaveRefreshToken = step_save_refresh N"
| "run_flow N (Refresh body) = step_refresh N body"
| "run_flow N (ExchangeMFA grant body) = step_exchange_mfa N grant body"
| "run_flow N ExchangeWithoutVerifier = step_exchange_plain N"
| "run_flow N (AccessArrayContains claim item) = step_array_contains N claim item"

datatype event_step =
    Subscribe
  | SubscribeQuery string
  | SubscribeHeader string string
  | SubscribeWithoutBearer
  | AttemptSubscribe
  | AttemptSubscribeQuery string
  | AttemptSubscribeHeader string string
  | PushEvent string
  | AttemptPushEvent string
  | ExpireBuffer
  | ExpireBufferBefore string
  | AttemptExpireEmpty
  | AttemptExpireBefore string
  | DeliversID string nat
  | DeliversIDs string nat
  | DeliversNothing nat

primrec run_event_step :: "('r, 'cert, 'key, 'w) harness \<Rightarrow> event_step \<Rightarrow> ('w, unit) step_action" where
  "run_event_step N Subscribe = subscribeEvents N [] [] True True"
| "run_event_step N (SubscribeQuery query) = subscribeEvents N query [] True True"
| "run_event_step N (SubscribeHeader k v) = subscribeEvents N [] (k @ '': '' @ v) True True"
| "run_event_step N SubscribeWithoutBearer = subscribeEvents N [] [] False False"
| "run_event_step N AttemptSubscribe = subscribeEvents N [] [] True False"
| "run_event_step N (AttemptSubscribeQuery query) = subscribeEvents N query [] True False"
| "run_event_step N (AttemptSubscribeHeader k v) = subscribeEvents N [] (k @ '': '' @ v) True False"
| "run_event_step N (PushEvent body) = pushEvent N body True"
| "run_event_step N (AttemptPushEvent body) = pushEvent N body False"
| "run_event_step N ExpireBuffer = expireEvents N []"
| "run_event_step N (ExpireBufferBefore cursor) = expireEvents N cursor"
| "run_event_step N AttemptExpireEmpty = attemptExpireEventsRaw N ''?before=''"
| "run_event_step N (AttemptExpireBefore cursor) = attemptExpireEventsRaw N (''?before='' @ hn_escape N cursor)"
| "run_event_step N (DeliversID i secs) = streamDeliversID N i secs"
| "run_event_step N (DeliversIDs wanted secs) = streamDeliversIDs N (split_on CHR '','' wanted) secs"
| "run_event_step N (DeliversNothing secs) = streamDeliversNothing N secs"

text \<open>A step of any group.\<close>

datatype scenario_step =
    OfSetup setup_step
  | OfStub stub_step
  | OfSend send_step
  | OfCheck check_step
  | OfToken token_step
  | OfFlow flow_step
  | OfEvent event_step

primrec run_step :: "('r, 'cert, 'key, 'w) harness \<Rightarrow> scenario_step \<Rightarrow> ('w, unit) step_action" where
  "run_step N (OfSetup x) = run_setup N x"
| "run_step N (OfStub x) = run_stub N x"
| "run_step N (OfSend x) = run_send N x"
| "run_step N (OfCheck x) = run_check N x"
| "run_step N (OfToken x) = run_token N x"
| "run_step N (OfFlow x) = run_flow N x"
| "run_step N (OfEvent x) = run_event_step N x"

text \<open>A scenario: its steps in order, until one of them fails; the hook shuts the server down.\<close>

fun run_steps :: "('r, 'cert, 'key, 'w) harness \<Rightarrow> scenario_step list \<Rightarrow> ('w, unit) step_action" where
  "run_steps N [] s = (Inr (), s)"
| "run_steps N (x # xs) s = step_then (run_step N x) (\<lambda>_. run_steps N xs) s"

section \<open>What the steps rest on\<close>

text \<open>A step on the stream passes exactly when the lines it sees before the end bear it out.\<close>

lemma stream_steps_exact:
  assumes "fc_SSEResp c = Some resp" "hn_stream N resp secs w = (evs, w')"
  shows "run_step N (OfEvent (DeliversIDs wanted secs)) (c, w) = (Inr (), c, w') \<longleftrightarrow>
      subseq (map (\<lambda>i. ''id: '' @ trim_space i) (split_on CHR '','' wanted)) (map trim_space (lines_seen evs))"
    and "run_step N (OfEvent (DeliversNothing secs)) (c, w) = (Inr (), c, w') \<longleftrightarrow> \<not> (\<exists>l \<in> set (lines_seen evs). has_prefix l ''id: '')"
proof -
  have "split_on CHR '','' wanted \<noteq> []" by (cases wanted) (auto split: list.splits)
  then obtain i js where split: "split_on CHR '','' wanted = i # js" by (meson neq_Nil_conv)
  show "run_step N (OfEvent (DeliversIDs wanted secs)) (c, w) = (Inr (), c, w') \<longleftrightarrow>
      subseq (map (\<lambda>i. ''id: '' @ trim_space i) (split_on CHR '','' wanted)) (map trim_space (lines_seen evs))"
    using assms await_ends(1)[of "length (i # js)" 0 i js evs] await_ids_iff[of "length (i # js)" 0 i js "evs @ [Deadline]"]
    by (auto simp: streamDeliversIDs_def read_stream_def split split: option.splits)
  show "run_step N (OfEvent (DeliversNothing secs)) (c, w) = (Inr (), c, w') \<longleftrightarrow> \<not> (\<exists>l \<in> set (lines_seen evs). has_prefix l ''id: '')"
    using assms await_ends(2)[of evs] await_nothing_iff[of evs] by (auto simp: streamDeliversNothing_def read_stream_def split: option.splits)
qed

text \<open>The challenge of a verifier is met by it, and the stored method is the one the step names.\<close>

lemma challenge_met:
  "en_Challenge e = pkceS256Challenge sha256 verifier \<Longrightarrow> en_Method e = ''S256'' \<Longrightarrow> verifier \<noteq> [] \<Longrightarrow> Verify sha256 e verifier = None"
  by (simp add: Verify_def pkceS256Challenge_def MethodS256_def MethodPlain_def)

text \<open>A scenario starts with empty stores, all of them wired.\<close>

lemma scenario_starts_fresh:
  assumes "scenario_app B addr issuer0 = Inr app"
  shows "\<exists>hub. ap_server app = \<lparr>sv_deps = new_deps 100 hub, sv_PKCE = Some Pkce_NewStore\<rparr>"
  using assms
  by (auto simp: scenario_app_def Router_New_def router_stores_def scenario_deps_def new_deps_def Admin0_defaults_def or_new_def split: sum.splits)

lemma map_sum_Inr: "map_sum f id r = Inr x \<longleftrightarrow> r = Inr x"
  by (cases r) auto

text \<open>The target of a registration wins over what the docstring says.\<close>

lemma nested_target:
  assumes "nestedExpectationBody N target doc = Inr payload" "splitTarget (hn_quote N) target = Inr (meth, path)"
  shows "\<exists>m. hn_marshal N (JObj m) = Inr payload \<and> map_of m ''method'' = Some (JStr meth) \<and> map_of m ''path'' = Some (JStr path)"
proof -
  obtain m where "hn_marshal N (JObj (AList.update ''path'' (JStr path) (AList.update ''method'' (JStr meth) m))) = Inr payload"
    using assms by (cases "hn_json_map N doc") (auto simp: nestedExpectationBody_def map_sum_Inr split: if_splits option.splits)
  then show ?thesis by (intro exI conjI) (auto simp: update_conv')
qed

end
