(* ===== verification/Spec2Isabelle.thy ===== *)
theory Spec2Isabelle
  imports Session Mfa Journal Events_Hub Auth_Witness Auth_Mount Mgmt_Access Api_Main Sdk_Props Sdk_Stream Genopenapi_Props Logger
    Server_Runs Token_Shapes Form_Post Example_Sdk Scenario_Steps
begin

text \<open>
  A verification development for auth0-mock, a server that stands in for Auth0 in tests.

  \<^bold>\<open>The program.\<close> One process (\<^verbatim>\<open>cmd/api/main.go\<close>) serves three surfaces behind one chain of middleware.
  The Authentication API (\<^verbatim>\<open>internal/authapi\<close>) runs the OAuth and OpenID Connect endpoints and mints JWTs
  with the key of \<^verbatim>\<open>internal/jwks\<close>. The Management API (\<^verbatim>\<open>internal/mgmtapi\<close>) answers every operation of the
  embedded API description (\<^verbatim>\<open>internal/spec\<close>) from stubs (\<^verbatim>\<open>internal/matches\<close>), records each call in a
  journal (\<^verbatim>\<open>internal/journal\<close>) and streams events (\<^verbatim>\<open>internal/events\<close>). The control plane
  (\<^verbatim>\<open>internal/admin0\<close>), which tests drive through the Go SDK (\<^verbatim>\<open>pkg/auth0mock\<close>), registers stubs, sets claims,
  permissions, the clock and MFA, pushes events, and resets it all. A second program
  (\<^verbatim>\<open>cmd/genopenapi\<close>) generates the merged API description; \<^verbatim>\<open>examples/\<close> has programs that use the mock.

  \<^bold>\<open>How code becomes definitions.\<close> A struct is a record, a Go interface value or pointer that may be nil an
  option, an operation under a lock one function from the state to its result and the new state, a
  handler a function that returns its response beside the stores. Errors are the left of a sum, a
  panic is an outcome of its own. Durations and the settings that are 64-bit integers are words;
  instants are integers. What an operation draws at random or reads off a clock is an argument, so a
  theorem holds for every draw. Loops over slices are recursion on lists, so every definition
  terminates; no fuel is used. What blocks or runs concurrently is a function of the list of events it waits
  for (the orchestrator, polling) or a step relation with all interleavings (the hub, a resume
  against expiries, the reader of the SDK).

  \<^bold>\<open>Parameters.\<close> Code outside the repository is an argument: \<open>jwt_lib\<close> (golang-jwt), \<open>key_lib\<close> and \<open>tls_lib\<close>
  (RSA keys, PEM, X.509), \<open>Validator\<close> and the loader (kin-openapi), \<open>url_lib\<close> (escaping and printing of
  URLs), \<open>clock_lib\<close>, \<open>auth_lib\<close>, \<open>json_codec\<close>, \<open>wire\<close> and \<open>transport\<close> (decoders, encoders, HTTP), the
  chi router as \<open>routing\<close>, the libraries of the examples and the tests as \<open>go_auth0\<close>, \<open>jwt_check\<close> and
  \<open>harness\<close>. What theorems need of them is stated once, as documented behaviour:
  \<open>jwt_correct\<close>, \<open>key_laws\<close>, \<open>validator_laws\<close> and \<open>wire_laws\<close>; witnesses instantiate each of them.

  \<^bold>\<open>Theories.\<close>
  \<^item> \<open>Prelude\<close> has the vocabulary of Go that all share, the fact collections, and \<open>simulation\<close>, the interface of
    a state machine that implements another one. \<open>Httperr\<close> has responses and error envelopes.
  \<^item> Stores: \<open>Clock\<close> (refines a three-state clock), \<open>Session\<close> (four bounded registries, interpretations of
    \<open>fifo_fresh\<close> and \<open>fifo_registry\<close>), \<open>Pkce\<close> and \<open>Mfa\<close> (one-time credentials, interpretations of \<open>single_use\<close>
    of \<open>Expiring\<close>), \<open>Claims\<close>, \<open>Matches\<close> and \<open>Matches_Store\<close> (stubs, precedence, near misses), \<open>Journal\<close> and
    \<open>Replay\<close> (rings that refine the list of their newest entries).
  \<^item> Events: \<open>Replay\<close> and \<open>Events_Hub\<close> (fan-out, subscribers, reset, the stream handler).
  \<^item> Authentication API: \<open>Jwks\<close> and \<open>Keyset\<close> (tokens and the signing key), \<open>Profile\<close>, \<open>Token\<close>, \<open>Authorize\<close>,
    \<open>Endpoints\<close>; \<open>Token_Props\<close>, \<open>Auth_Props\<close>, \<open>Auth_Runs\<close> and \<open>Auth_Mount\<close> prove its properties, over runs of
    any calls where they depend on the history; \<open>Auth_Witness\<close> has concrete runs. \<open>Token_Shapes\<close> has the published
    schemas of the token endpoint, \<open>Form_Post\<close> the page of a form_post answer with the escaping that
    \<^verbatim>\<open>html/template\<close> does, and a reader of it.
  \<^item> Management API and control plane: \<open>Api_Spec\<close> (description and validator), \<open>Mgmt\<close>, \<open>Mgmt_Props\<close>,
    \<open>Mgmt_Access\<close> (behind the bearer check), \<open>Admin0\<close>, \<open>Admin_Props\<close>, \<open>Admin_Serve\<close>.
  \<^item> Composition: \<open>Middleware\<close> and \<open>Middleware_Props\<close> (logging and the debug dump are interpretations of
    \<open>observer\<close>), \<open>Cors\<close>, \<open>Router\<close> (the whole chain), \<open>Startup\<close> (settings, certificate, listeners, orchestrator),
    \<open>Logger\<close>, \<open>Api_Main\<close> (the program) and \<open>Server_Runs\<close> (the three APIs over one set of stores and one clock).
  \<^item> Clients: \<open>Sdk\<close>, \<open>Sdk_Props\<close>, \<open>Sdk_Clients\<close> (composed with the control plane through \<open>server_transport\<close>)
    and \<open>Sdk_Stream\<close>. \<open>Genopenapi\<close> and \<open>Genopenapi_Props\<close> cover the generator,
    \<open>Example_Consumer\<close> and \<open>Example_Sdk\<close> the example programs, run against the model of the server, and \<open>Scenario_Context\<close> and \<open>Scenario_Steps\<close> the harness
    of the end-to-end tests (\<^verbatim>\<open>features/scenario\<close>), whose steps are a type with a function that runs them.

  \<^bold>\<open>What is shown.\<close> Logins: redirects cannot leave the allow-list, codes are exchanged once and for
  their verifier, MFA cannot be skipped, refreshes, sessions and \<^verbatim>\<open>/userinfo\<close> keep the user, claims have one precedence, tokens round trip and survive a restart,
  discovery is honest, answers of the token endpoint have their published types, and a form_post page
  submits what it was given. Time: freezing and advancing the clock reaches tokens and the bearer check exactly. Stubs: what is registered is checked, stored or refused whole, and served
  with the documented precedence and sequence. Isolation: a reset makes the server
  fresh but for pending codes, and no call of the control plane panics or half-applies.
  Events: fan-out and resumes are exact and gaps are noticed. Observation: the
  journal holds the newest calls and the chain records each once; dumps are bounded and redacted. Boundary: tokens guard the Management API, origins are let in only by an entry that
  means them, and the program listens locally unless told otherwise and ends when it must. Clients: verification is sound, settings round trip over the wire, streams are read
  exactly. The generator merges exactly. The clock and the bounded
  registries do what their abstract specifications say.

  \<^bold>\<open>Bounds.\<close> The constants are the code's: 10000 entries per session registry, 3 near misses, 1 MiB of a dumped
  response of which 8 KiB are shown, 16 unread events of a stream, the sizes of the journal and the
  replay buffer as configured. Hit and registration counters are unbounded here and 64-bit in the code.

  \<^bold>\<open>Not modelled.\<close> The console writer of the logging library, embedded files, the net/http servers behind
  \<^verbatim>\<open>ListenAndServe\<close>, parsing of flags and of the environment, the texts of the documentation page and of
  the web_message page, latencies and stack traces, what the example programs print; the regular
  expressions by which godog finds the step of a phrase. Locks are taken to make an operation atomic; data races inside the Go runtime are out of scope.
\<close>

end
